(* ===== verification/Xdna_Prelude.thy ===== *)
theory Xdna_Prelude
  imports Main "HOL-Library.Word"
begin

text \<open>
  Shared ground of the development: the machine integer types, little-endian byte strings
  (what a memcpy of an integer moves on the hosts the emulator targets), a byte-addressed
  memory with block reads and writes (memcpy and memset on one object), and two interfaces:
  \<open>byte_memory\<close>, the laws of such a memory, and \<open>wire_codec\<close>, the laws of a packed C
  struct of fixed size.  The collections \<open>xdna_consts\<close> (values of the header's constants),
  \<open>mem_simps\<close> (block reads over block writes) and \<open>wire_simps\<close> (struct encodings) are
  filled by the theories that follow.
\<close>

unbundle bit_operations_syntax

named_theorems xdna_consts "values of the constants of xdna_regs.h"
named_theorems mem_simps "reads over writes of a byte memory"
named_theorems byte_eval "evaluation of byte strings of numeral length"
named_theorems wire_simps "encodings of the packed structs"

type_synonym u8 = "8 word"
type_synonym u16 = "16 word"
type_synonym u32 = "32 word"
type_synonym u64 = "64 word"

subsection \<open>Little-endian byte strings\<close>

fun le_bytes :: "nat \<Rightarrow> 'a::len word \<Rightarrow> u8 list" where
  "le_bytes 0 w = []"
| "le_bytes (Suc n) w = ucast w # le_bytes n (drop_bit 8 w)"

fun le_word :: "u8 list \<Rightarrow> 'a::len word" where
  "le_word [] = 0"
| "le_word (b # bs) = ucast b OR push_bit 8 (le_word bs)"

lemma le_bytes_numeral [byte_eval]:
  "le_bytes (numeral k) w = ucast w # le_bytes (pred_numeral k) (drop_bit 8 w)"
  by (simp add: numeral_eq_Suc)

lemma length_le_bytes [simp]: "length (le_bytes n w) = n"
  by (induction n arbitrary: w) simp_all

text \<open>
  Writing the low \<open>n\<close> bytes of a word and reading them back at any width gives the word
  cut to those bytes; in particular a full-width write is read back unchanged.
\<close>

lemma le_word_le_bytes:
  "(le_word (le_bytes n (w :: 'a::len word)) :: 'b::len word) = ucast (take_bit (8 * n) w)"
proof (induction n arbitrary: w)
  case 0
  then show ?case by simp
next
  case (Suc n)
  show ?case
    by (rule bit_word_eqI) (auto simp: Suc.IH bit_simps)
qed

lemma le_word_le_bytes_full:
  "LENGTH('a) \<le> 8 * n \<Longrightarrow> le_word (le_bytes n (w :: 'a::len word)) = w"
  by (simp add: le_word_le_bytes take_bit_word_eq_self)

lemma le_word_le_bytes_u8 [simp]: "le_word (le_bytes (Suc 0) (w :: u8)) = w"
  by (rule le_word_le_bytes_full) simp

lemma le_word_le_bytes_u16 [simp]: "le_word (le_bytes 2 (w :: u16)) = w"
  by (rule le_word_le_bytes_full) simp

lemma le_word_le_bytes_u32 [simp]: "le_word (le_bytes 4 (w :: u32)) = w"
  by (rule le_word_le_bytes_full) simp

lemma le_word_le_bytes_u64 [simp]: "le_word (le_bytes 8 (w :: u64)) = w"
  by (rule le_word_le_bytes_full) simp

text \<open>A byte string of known length is taken apart only on request (\<open>byte_eval\<close>).\<close>

declare le_bytes.simps(2) [simp del, byte_eval]

lemma le_word_zeros [simp]: "le_word (replicate n 0) = 0"
  by (induction n) simp_all

subsection \<open>The field of a packed struct\<close>

text \<open>The word of \<open>n\<close> bytes at offset \<open>a\<close> of a struct's bytes.\<close>

definition field_at :: "nat \<Rightarrow> nat \<Rightarrow> u8 list \<Rightarrow> 'a::len word" where
  "field_at a n bs = le_word (take n (drop a bs))"

lemma field_at_skip [wire_simps]:
  "length xs \<le> a \<Longrightarrow> field_at a n (xs @ ys) = field_at (a - length xs) n ys"
  by (simp add: field_at_def)

lemma field_at_here [wire_simps]:
  "length xs = n \<Longrightarrow> field_at 0 n (xs @ ys) = le_word xs"
  by (simp add: field_at_def)

lemma field_at_last [wire_simps]: "length xs = n \<Longrightarrow> field_at 0 n xs = le_word xs"
  by (simp add: field_at_def)

lemma field_at_take [simp]: "a + n \<le> m \<Longrightarrow> field_at a n (take m bs) = field_at a n bs"
  by (simp add: field_at_def drop_take min_def)

subsection \<open>A byte-addressed memory\<close>

definition mem_store :: "(nat \<Rightarrow> u8) \<Rightarrow> nat \<Rightarrow> u8 list \<Rightarrow> nat \<Rightarrow> u8" where
  "mem_store m a bs = (\<lambda>i. if a \<le> i \<and> i < a + length bs then bs ! (i - a) else m i)"

definition mem_load :: "(nat \<Rightarrow> u8) \<Rightarrow> nat \<Rightarrow> nat \<Rightarrow> u8 list" where
  "mem_load m a n = map m [a..<a + n]"

lemma mem_store_outside: "i < a \<or> a + length bs \<le> i \<Longrightarrow> mem_store m a bs i = m i"
  by (auto simp: mem_store_def)

lemma mem_store_Nil [simp]: "mem_store m a [] = m"
  by (rule ext) (auto simp: mem_store_def)

lemma mem_load_cong: "(\<And>i. a \<le> i \<Longrightarrow> i < a + n \<Longrightarrow> m i = m' i) \<Longrightarrow> mem_load m a n = mem_load m' a n"
  by (simp add: mem_load_def)

subsection \<open>The interfaces\<close>

text \<open>
  A memory of bytes: what was stored is loaded, a store elsewhere does not disturb it, and a
  load splits.  The lemmas of the block are what the ring buffers need of it.
\<close>

locale byte_memory =
  fixes load :: "'m \<Rightarrow> nat \<Rightarrow> nat \<Rightarrow> u8 list"
    and store :: "'m \<Rightarrow> nat \<Rightarrow> u8 list \<Rightarrow> 'm"
  assumes load_length: "length (load m a n) = n"
    and load_store_same: "load (store m a bs) a (length bs) = bs"
    and load_store_apart: "a + n \<le> b \<or> b + length bs \<le> a \<Longrightarrow> load (store m b bs) a n = load m a n"
    and load_split: "load m a (i + j) = load m a i @ load m (a + i) j"
begin

lemma take_load: "i \<le> n \<Longrightarrow> take i (load m a n) = load m a i"
  using load_split [of m a i "n - i"] by (simp add: load_length)

lemma drop_load: "i \<le> n \<Longrightarrow> drop i (load m a n) = load m (a + i) (n - i)"
  using load_split [of m a i "n - i"] by (simp add: load_length)

lemma load_store_inside:
  assumes "i + n \<le> length bs"
  shows "load (store m a bs) (a + i) n = take n (drop i bs)"
proof -
  have "load (store m a bs) (a + i) n = take n (drop i (load (store m a bs) a (length bs)))"
    using assms by (simp add: drop_load take_load)
  then show ?thesis by (simp add: load_store_same)
qed

lemma load_store_under:
  "i + n \<le> length bs \<Longrightarrow> c = a + i \<Longrightarrow> load (store m a bs) c n = take n (drop i bs)"
  by (simp add: load_store_inside)

end

text \<open>
  A packed struct of fixed size: its bytes and the reading of it from the front of a byte
  string.
\<close>

locale wire_codec =
  fixes enc :: "'r \<Rightarrow> u8 list"
    and dec :: "u8 list \<Rightarrow> 'r"
    and sz :: nat
  assumes enc_length: "length (enc r) = sz"
    and dec_enc: "dec (enc r @ rest) = r"
begin

lemma enc_inject: "enc r = enc r' \<longleftrightarrow> r = r'"
  by (metis dec_enc)

lemma dec_enc_alone: "dec (enc r) = r"
  using dec_enc [of r "[]"] by simp

end

text \<open>
  A struct stored in a memory, alone or as the header of a frame whose payload follows it.
\<close>

locale stored_codec = byte_memory load store + wire_codec enc dec sz
  for load :: "'m \<Rightarrow> nat \<Rightarrow> nat \<Rightarrow> u8 list"
    and store :: "'m \<Rightarrow> nat \<Rightarrow> u8 list \<Rightarrow> 'm"
    and enc :: "'r \<Rightarrow> u8 list"
    and dec :: "u8 list \<Rightarrow> 'r"
    and sz :: nat
begin

lemma read_back: "dec (load (store m a (enc r)) a sz) = r"
  using load_store_same [of m a "enc r"] by (simp add: enc_length dec_enc_alone)

lemma frame_header: "dec (load (store (store m a (enc r)) (a + sz) p) a sz) = r"
  by (simp add: load_store_apart read_back)

lemma frame_payload: "load (store (store m a (enc r)) (a + sz) p) (a + sz) (length p) = p"
  by (rule load_store_same)

lemma frame_apart:
  "b + n \<le> a \<or> a + sz + length p \<le> b \<Longrightarrow>
    load (store (store m a (enc r)) (a + sz) p) b n = load m b n"
  by (subst load_store_apart; (subst load_store_apart)?) (auto simp: enc_length)

end

lemma mem_load_store_same: "mem_load (mem_store m a bs) a (length bs) = bs"
  by (rule nth_equalityI) (simp_all add: mem_load_def mem_store_def)

interpretation mem: byte_memory mem_load mem_store
proof unfold_locales
  fix m :: "nat \<Rightarrow> u8" and a n b bs i j
  show "length (mem_load m a n) = n"
    by (simp add: mem_load_def)
  show "mem_load (mem_store m a bs) a (length bs) = bs"
    by (rule mem_load_store_same)
  show "a + n \<le> b \<or> b + length bs \<le> a \<Longrightarrow> mem_load (mem_store m b bs) a n = mem_load m a n"
    by (auto simp: mem_load_def mem_store_def)
  show "mem_load m a (i + j) = mem_load m a i @ mem_load m (a + i) j"
    using upt_add_eq_append [of a "a + i" j] by (simp add: mem_load_def add.assoc)
qed

lemmas mem_facts [mem_simps] =
  mem.load_length mem.load_store_same mem.load_store_apart mem.load_store_under

end
