(* ===== verification/Xdna_Regs.thy ===== *)
theory Xdna_Regs
  imports Xdna_Prelude
begin

text \<open>
  The constants of \<open>include/xdna/xdna_regs.h\<close>, under the header's names and derived as the
  header derives them: apertures and BARs, the REG BAR register offsets with the PSP and SMU
  roles that share scratch registers, the SRAM layout, the mailbox channel layout, the message
  frame, versions, array topology, and the two enums of the message protocol.  A C enum is a
  datatype with the numeric value of each constructor as a function; the collection
  \<open>xdna_consts\<close> unfolds all of them to numerals.
\<close>

subsection \<open>Apertures and BARs\<close>

definition MPNPU_APERTURE0_BASE :: u32 where
  [xdna_consts]: "MPNPU_APERTURE0_BASE = 0x3000000"

definition MPNPU_APERTURE1_BASE :: u32 where
  [xdna_consts]: "MPNPU_APERTURE1_BASE = 0x3080000"

definition MPNPU_APERTURE2_BASE :: u32 where
  [xdna_consts]: "MPNPU_APERTURE2_BASE = 0x30C0000"

definition XDNA_BAR_REG :: int where
  [xdna_consts]: "XDNA_BAR_REG = 0"

definition XDNA_BAR_SRAM :: int where
  [xdna_consts]: "XDNA_BAR_SRAM = 2"

definition XDNA_BAR_MBOX :: int where
  [xdna_consts]: "XDNA_BAR_MBOX = 4"

definition XDNA_BAR_PSP :: int where
  [xdna_consts]: "XDNA_BAR_PSP = XDNA_BAR_REG"

definition XDNA_BAR_SMU :: int where
  [xdna_consts]: "XDNA_BAR_SMU = XDNA_BAR_REG"

definition XDNA_BAR_REG_SIZE :: u32 where
  [xdna_consts]: "XDNA_BAR_REG_SIZE = 0x80000"

definition XDNA_BAR_SRAM_SIZE :: u32 where
  [xdna_consts]: "XDNA_BAR_SRAM_SIZE = 0x40000"

definition XDNA_BAR_MBOX_SIZE :: u32 where
  [xdna_consts]: "XDNA_BAR_MBOX_SIZE = 0x10000"

subsection \<open>REG BAR registers\<close>

definition REG_OFF :: "u32 \<Rightarrow> u32" where
  [xdna_consts]: "REG_OFF addr = addr - MPNPU_APERTURE0_BASE"

definition XDNA_REG_PWAITMODE :: u32 where
  [xdna_consts]: "XDNA_REG_PWAITMODE = REG_OFF 0x3010034"

definition XDNA_REG_PUB_SEC_INTR :: u32 where
  [xdna_consts]: "XDNA_REG_PUB_SEC_INTR = REG_OFF 0x3010090"

definition XDNA_REG_PUB_PWRMGMT_IR :: u32 where
  [xdna_consts]: "XDNA_REG_PUB_PWRMGMT_IR = REG_OFF 0x3010094"

definition XDNA_REG_SCRATCH2 :: u32 where
  [xdna_consts]: "XDNA_REG_SCRATCH2 = REG_OFF 0x30100A0"

definition XDNA_REG_SCRATCH3 :: u32 where
  [xdna_consts]: "XDNA_REG_SCRATCH3 = REG_OFF 0x30100A4"

definition XDNA_REG_SCRATCH4 :: u32 where
  [xdna_consts]: "XDNA_REG_SCRATCH4 = REG_OFF 0x30100A8"

definition XDNA_REG_SCRATCH5 :: u32 where
  [xdna_consts]: "XDNA_REG_SCRATCH5 = REG_OFF 0x30100AC"

definition XDNA_REG_SCRATCH6 :: u32 where
  [xdna_consts]: "XDNA_REG_SCRATCH6 = REG_OFF 0x30100B0"

definition XDNA_REG_SCRATCH7 :: u32 where
  [xdna_consts]: "XDNA_REG_SCRATCH7 = REG_OFF 0x30100B4"

definition XDNA_REG_SCRATCH9 :: u32 where
  [xdna_consts]: "XDNA_REG_SCRATCH9 = REG_OFF 0x30100BC"

definition XDNA_PSP_CMD_REG :: u32 where
  [xdna_consts]: "XDNA_PSP_CMD_REG = XDNA_REG_SCRATCH2"

definition XDNA_PSP_ARG0_REG :: u32 where
  [xdna_consts]: "XDNA_PSP_ARG0_REG = XDNA_REG_SCRATCH3"

definition XDNA_PSP_ARG1_REG :: u32 where
  [xdna_consts]: "XDNA_PSP_ARG1_REG = XDNA_REG_SCRATCH4"

definition XDNA_PSP_ARG2_REG :: u32 where
  [xdna_consts]: "XDNA_PSP_ARG2_REG = XDNA_REG_SCRATCH9"

definition XDNA_PSP_INTR_REG :: u32 where
  [xdna_consts]: "XDNA_PSP_INTR_REG = XDNA_REG_PUB_SEC_INTR"

definition XDNA_PSP_STATUS_REG :: u32 where
  [xdna_consts]: "XDNA_PSP_STATUS_REG = XDNA_REG_SCRATCH2"

definition XDNA_PSP_RESP_REG :: u32 where
  [xdna_consts]: "XDNA_PSP_RESP_REG = XDNA_REG_SCRATCH3"

definition XDNA_PSP_PWAITMODE_REG :: u32 where
  [xdna_consts]: "XDNA_PSP_PWAITMODE_REG = XDNA_REG_PWAITMODE"

definition XDNA_SMU_CMD_REG :: u32 where
  [xdna_consts]: "XDNA_SMU_CMD_REG = XDNA_REG_SCRATCH5"

definition XDNA_SMU_ARG_REG :: u32 where
  [xdna_consts]: "XDNA_SMU_ARG_REG = XDNA_REG_SCRATCH7"

definition XDNA_SMU_INTR_REG :: u32 where
  [xdna_consts]: "XDNA_SMU_INTR_REG = XDNA_REG_PUB_PWRMGMT_IR"

definition XDNA_SMU_RESP_REG :: u32 where
  [xdna_consts]: "XDNA_SMU_RESP_REG = XDNA_REG_SCRATCH6"

definition XDNA_SMU_OUT_REG :: u32 where
  [xdna_consts]: "XDNA_SMU_OUT_REG = XDNA_REG_SCRATCH7"

subsection \<open>PSP and SMU protocols\<close>

definition PSP_STATUS_READY :: u32 where
  [xdna_consts]: "PSP_STATUS_READY = push_bit 31 1"

definition PSP_CMD_VALIDATE :: u32 where
  [xdna_consts]: "PSP_CMD_VALIDATE = 1"

definition PSP_CMD_START :: u32 where
  [xdna_consts]: "PSP_CMD_START = 2"

definition PSP_CMD_RELEASE_TMR :: u32 where
  [xdna_consts]: "PSP_CMD_RELEASE_TMR = 3"

definition PSP_CMD_VALIDATE_CERT :: u32 where
  [xdna_consts]: "PSP_CMD_VALIDATE_CERT = 4"

definition PSP_START_COPY_FW :: u32 where
  [xdna_consts]: "PSP_START_COPY_FW = 1"

definition PSP_ERROR_CANCEL :: u32 where
  [xdna_consts]: "PSP_ERROR_CANCEL = 0xFFFF0002"

definition PSP_ERROR_BAD_STATE :: u32 where
  [xdna_consts]: "PSP_ERROR_BAD_STATE = 0xFFFF0007"

definition PSP_ARG2_MASK :: u32 where
  [xdna_consts]: "PSP_ARG2_MASK = 0x00FFFFFF"

definition PSP_NOTIFY_VAL :: u32 where
  [xdna_consts]: "PSP_NOTIFY_VAL = 1"

definition PSP_ARG2_CMD_SHIFT :: nat where
  [xdna_consts]: "PSP_ARG2_CMD_SHIFT = 24"

definition SMU_RESULT_OK :: u32 where
  [xdna_consts]: "SMU_RESULT_OK = 1"

definition AIE_SMU_POWER_ON :: u32 where
  [xdna_consts]: "AIE_SMU_POWER_ON = 0x3"

definition AIE_SMU_POWER_OFF :: u32 where
  [xdna_consts]: "AIE_SMU_POWER_OFF = 0x4"

definition AIE_SMU_SET_MPNPUCLK_FREQ :: u32 where
  [xdna_consts]: "AIE_SMU_SET_MPNPUCLK_FREQ = 0x5"

definition AIE_SMU_SET_HCLK_FREQ :: u32 where
  [xdna_consts]: "AIE_SMU_SET_HCLK_FREQ = 0x6"

definition AIE_SMU_SET_SOFT_DPMLEVEL :: u32 where
  [xdna_consts]: "AIE_SMU_SET_SOFT_DPMLEVEL = 0x7"

definition AIE_SMU_SET_HARD_DPMLEVEL :: u32 where
  [xdna_consts]: "AIE_SMU_SET_HARD_DPMLEVEL = 0x8"

definition XDNA_NPU1_MAX_DPM_LEVEL :: u32 where
  [xdna_consts]: "XDNA_NPU1_MAX_DPM_LEVEL = 7"

subsection \<open>SRAM layout\<close>

definition SRAM_OFF :: "u32 \<Rightarrow> u32" where
  [xdna_consts]: "SRAM_OFF addr = addr - MPNPU_APERTURE1_BASE"

definition XDNA_SRAM_MBOX_CHANN_OFF :: u32 where
  [xdna_consts]: "XDNA_SRAM_MBOX_CHANN_OFF = SRAM_OFF 0x30A0000"

definition XDNA_SRAM_FW_ALIVE_OFF :: u32 where
  [xdna_consts]: "XDNA_SRAM_FW_ALIVE_OFF = SRAM_OFF 0x30BF000"

definition XDNA_SRAM_MGMT_INFO_OFF :: u32 where
  [xdna_consts]: "XDNA_SRAM_MGMT_INFO_OFF = XDNA_SRAM_MBOX_CHANN_OFF"

definition XDNA_SRAM_MGMT_X2I_OFF :: u32 where
  [xdna_consts]: "XDNA_SRAM_MGMT_X2I_OFF = 0x21000"

definition XDNA_SRAM_MGMT_I2X_OFF :: u32 where
  [xdna_consts]: "XDNA_SRAM_MGMT_I2X_OFF = 0x22000"

definition XDNA_SRAM_MGMT_RB_SIZE :: u32 where
  [xdna_consts]: "XDNA_SRAM_MGMT_RB_SIZE = 0x1000"

definition XDNA_SRAM_CTX_RB_BASE :: u32 where
  [xdna_consts]: "XDNA_SRAM_CTX_RB_BASE = 0x24000"

definition XDNA_SRAM_CTX_RB_SIZE :: u32 where
  [xdna_consts]: "XDNA_SRAM_CTX_RB_SIZE = 0x2000"

definition XDNA_SRAM_CTX_RB_STRIDE :: u32 where
  [xdna_consts]: "XDNA_SRAM_CTX_RB_STRIDE = 2 * XDNA_SRAM_CTX_RB_SIZE"

subsection \<open>Mailbox channels and frames\<close>

definition XDNA_MBOX_CHAN_STRIDE :: u32 where
  [xdna_consts]: "XDNA_MBOX_CHAN_STRIDE = 0x20"

definition XDNA_MBOX_X2I_HEAD_OFF :: u32 where
  [xdna_consts]: "XDNA_MBOX_X2I_HEAD_OFF = 0x00"

definition XDNA_MBOX_X2I_TAIL_OFF :: u32 where
  [xdna_consts]: "XDNA_MBOX_X2I_TAIL_OFF = 0x04"

definition XDNA_MBOX_I2X_HEAD_OFF :: u32 where
  [xdna_consts]: "XDNA_MBOX_I2X_HEAD_OFF = 0x08"

definition XDNA_MBOX_INTR_OFF :: u32 where
  [xdna_consts]: "XDNA_MBOX_INTR_OFF = 0x0C"

definition XDNA_MBOX_I2X_TAIL_OFF :: u32 where
  [xdna_consts]: "XDNA_MBOX_I2X_TAIL_OFF = 0x10"

definition XDNA_MBOX_CHAN_BASE :: "u32 \<Rightarrow> u32" where
  [xdna_consts]: "XDNA_MBOX_CHAN_BASE idx = idx * XDNA_MBOX_CHAN_STRIDE"

definition XDNA_MBOX_MAGIC_VAL :: u32 where
  [xdna_consts]: "XDNA_MBOX_MAGIC_VAL = 0x1D000000"

definition XDNA_MBOX_TOMBSTONE :: u32 where
  [xdna_consts]: "XDNA_MBOX_TOMBSTONE = 0xDEADFACE"

definition XDNA_MSG_PROTOCOL_VER :: u32 where
  [xdna_consts]: "XDNA_MSG_PROTOCOL_VER = 0x1"

definition XDNA_MSG_BODY_SZ_MASK :: u32 where
  [xdna_consts]: "XDNA_MSG_BODY_SZ_MASK = 0x7FF"

definition XDNA_MSG_PROTO_VER_SHIFT :: nat where
  [xdna_consts]: "XDNA_MSG_PROTO_VER_SHIFT = 16"

definition XDNA_MGMT_MBOX_MAGIC :: u32 where
  [xdna_consts]: "XDNA_MGMT_MBOX_MAGIC = 0x55504E5F"

subsection \<open>Versions and limits\<close>

definition XDNA_MGMT_PROT_MAJOR :: u32 where
  [xdna_consts]: "XDNA_MGMT_PROT_MAJOR = 5"

definition XDNA_MGMT_PROT_MINOR :: u32 where
  [xdna_consts]: "XDNA_MGMT_PROT_MINOR = 7"

definition XDNA_FW_VER_MAJOR :: u32 where
  [xdna_consts]: "XDNA_FW_VER_MAJOR = 5"

definition XDNA_FW_VER_MINOR :: u32 where
  [xdna_consts]: "XDNA_FW_VER_MINOR = 7"

definition XDNA_FW_VER_SUB :: u32 where
  [xdna_consts]: "XDNA_FW_VER_SUB = 0"

definition XDNA_FW_VER_BUILD :: u32 where
  [xdna_consts]: "XDNA_FW_VER_BUILD = 0"

definition XDNA_NPU1_HWCTX_LIMIT :: nat where
  [xdna_consts]: "XDNA_NPU1_HWCTX_LIMIT = 6"

subsection \<open>Array topology\<close>

definition XDNA_AIE_COLS :: u32 where
  [xdna_consts]: "XDNA_AIE_COLS = 5"

definition XDNA_AIE_CORE_ROWS :: u32 where
  [xdna_consts]: "XDNA_AIE_CORE_ROWS = 4"

definition XDNA_AIE_MEM_ROWS :: u32 where
  [xdna_consts]: "XDNA_AIE_MEM_ROWS = 1"

definition XDNA_AIE_SHIM_ROWS :: u32 where
  [xdna_consts]: "XDNA_AIE_SHIM_ROWS = 1"

definition XDNA_AIE_ROWS :: u32 where
  [xdna_consts]: "XDNA_AIE_ROWS = XDNA_AIE_SHIM_ROWS + XDNA_AIE_MEM_ROWS + XDNA_AIE_CORE_ROWS"

definition XDNA_AIE_SHIM_ROW_START :: u32 where
  [xdna_consts]: "XDNA_AIE_SHIM_ROW_START = 0"

definition XDNA_AIE_MEM_ROW_START :: u32 where
  [xdna_consts]: "XDNA_AIE_MEM_ROW_START = 1"

definition XDNA_AIE_CORE_ROW_START :: u32 where
  [xdna_consts]: "XDNA_AIE_CORE_ROW_START = 2"

definition XDNA_AIE_VERSION_MAJOR :: u32 where
  [xdna_consts]: "XDNA_AIE_VERSION_MAJOR = 2"

definition XDNA_AIE_VERSION_MINOR :: u32 where
  [xdna_consts]: "XDNA_AIE_VERSION_MINOR = 0"

subsection \<open>Message opcodes and status codes\<close>

datatype xdna_msg_opcode =
    MSG_OP_CREATE_CONTEXT
  | MSG_OP_DESTROY_CONTEXT
  | MSG_OP_GET_TELEMETRY
  | MSG_OP_SYNC_BO
  | MSG_OP_EXECUTE_BUFFER_CF
  | MSG_OP_QUERY_COL_STATUS
  | MSG_OP_QUERY_AIE_TILE_INFO
  | MSG_OP_QUERY_AIE_VERSION
  | MSG_OP_EXEC_DPU
  | MSG_OP_CONFIG_CU
  | MSG_OP_CHAIN_EXEC_BUFFER_CF
  | MSG_OP_CHAIN_EXEC_DPU
  | MSG_OP_CONFIG_DEBUG_BO
  | MSG_OP_CHAIN_EXEC_NPU
  | MSG_OP_SUSPEND
  | MSG_OP_RESUME
  | MSG_OP_ASSIGN_MGMT_PASID
  | MSG_OP_INVOKE_SELF_TEST
  | MSG_OP_MAP_HOST_BUFFER
  | MSG_OP_GET_FIRMWARE_VERSION
  | MSG_OP_SET_RUNTIME_CONFIG
  | MSG_OP_GET_RUNTIME_CONFIG
  | MSG_OP_REGISTER_ASYNC_EVENT_MSG
  | MSG_OP_UPDATE_PROPERTY
  | MSG_OP_GET_APP_HEALTH
  | MSG_OP_ADD_HOST_BUFFER
  | MSG_OP_GET_DEV_REVISION
  | MSG_OP_GET_PROTOCOL_VERSION

fun opcode_val :: "xdna_msg_opcode \<Rightarrow> u32" where
  "opcode_val MSG_OP_CREATE_CONTEXT = 0x2"
| "opcode_val MSG_OP_DESTROY_CONTEXT = 0x3"
| "opcode_val MSG_OP_GET_TELEMETRY = 0x4"
| "opcode_val MSG_OP_SYNC_BO = 0x7"
| "opcode_val MSG_OP_EXECUTE_BUFFER_CF = 0xC"
| "opcode_val MSG_OP_QUERY_COL_STATUS = 0xD"
| "opcode_val MSG_OP_QUERY_AIE_TILE_INFO = 0xE"
| "opcode_val MSG_OP_QUERY_AIE_VERSION = 0xF"
| "opcode_val MSG_OP_EXEC_DPU = 0x10"
| "opcode_val MSG_OP_CONFIG_CU = 0x11"
| "opcode_val MSG_OP_CHAIN_EXEC_BUFFER_CF = 0x12"
| "opcode_val MSG_OP_CHAIN_EXEC_DPU = 0x13"
| "opcode_val MSG_OP_CONFIG_DEBUG_BO = 0x14"
| "opcode_val MSG_OP_CHAIN_EXEC_NPU = 0x18"
| "opcode_val MSG_OP_SUSPEND = 0x101"
| "opcode_val MSG_OP_RESUME = 0x102"
| "opcode_val MSG_OP_ASSIGN_MGMT_PASID = 0x103"
| "opcode_val MSG_OP_INVOKE_SELF_TEST = 0x104"
| "opcode_val MSG_OP_MAP_HOST_BUFFER = 0x106"
| "opcode_val MSG_OP_GET_FIRMWARE_VERSION = 0x108"
| "opcode_val MSG_OP_SET_RUNTIME_CONFIG = 0x10A"
| "opcode_val MSG_OP_GET_RUNTIME_CONFIG = 0x10B"
| "opcode_val MSG_OP_REGISTER_ASYNC_EVENT_MSG = 0x10C"
| "opcode_val MSG_OP_UPDATE_PROPERTY = 0x113"
| "opcode_val MSG_OP_GET_APP_HEALTH = 0x114"
| "opcode_val MSG_OP_ADD_HOST_BUFFER = 0x115"
| "opcode_val MSG_OP_GET_DEV_REVISION = 0x117"
| "opcode_val MSG_OP_GET_PROTOCOL_VERSION = 0x301"

text \<open>
  A C switch over the opcode of a message compares the 32-bit value with the enum's values;
  \<open>None\<close> is a value that no constructor has.
\<close>

definition all_opcodes :: "xdna_msg_opcode list" where
  "all_opcodes =
    [MSG_OP_CREATE_CONTEXT,
     MSG_OP_DESTROY_CONTEXT,
     MSG_OP_GET_TELEMETRY,
     MSG_OP_SYNC_BO,
     MSG_OP_EXECUTE_BUFFER_CF,
     MSG_OP_QUERY_COL_STATUS,
     MSG_OP_QUERY_AIE_TILE_INFO,
     MSG_OP_QUERY_AIE_VERSION,
     MSG_OP_EXEC_DPU,
     MSG_OP_CONFIG_CU,
     MSG_OP_CHAIN_EXEC_BUFFER_CF,
     MSG_OP_CHAIN_EXEC_DPU,
     MSG_OP_CONFIG_DEBUG_BO,
     MSG_OP_CHAIN_EXEC_NPU,
     MSG_OP_SUSPEND,
     MSG_OP_RESUME,
     MSG_OP_ASSIGN_MGMT_PASID,
     MSG_OP_INVOKE_SELF_TEST,
     MSG_OP_MAP_HOST_BUFFER,
     MSG_OP_GET_FIRMWARE_VERSION,
     MSG_OP_SET_RUNTIME_CONFIG,
     MSG_OP_GET_RUNTIME_CONFIG,
     MSG_OP_REGISTER_ASYNC_EVENT_MSG,
     MSG_OP_UPDATE_PROPERTY,
     MSG_OP_GET_APP_HEALTH,
     MSG_OP_ADD_HOST_BUFFER,
     MSG_OP_GET_DEV_REVISION,
     MSG_OP_GET_PROTOCOL_VERSION]"

definition opcode_of :: "u32 \<Rightarrow> xdna_msg_opcode option" where
  "opcode_of w = find (\<lambda>c. opcode_val c = w) all_opcodes"

datatype xdna_msg_status =
    AIE2_STATUS_SUCCESS
  | AIE2_STATUS_AIE_INSTRUCTION_ERROR
  | AIE2_STATUS_AIE_LOCK_ERROR
  | AIE2_STATUS_AIE_DMA_ERROR
  | AIE2_STATUS_MGMT_ERT_NOAVAIL
  | AIE2_STATUS_MGMT_ERT_INVALID_PARAM
  | AIE2_STATUS_MGMT_ERT_BUSY
  | AIE2_STATUS_APP_INVALID_INSTR
  | AIE2_STATUS_INVALID_INPUT_BUFFER
  | AIE2_STATUS_INVALID_COMMAND
  | AIE2_STATUS_INVALID_PARAM
  | AIE2_STATUS_INVALID_OPERATION

fun status_val :: "xdna_msg_status \<Rightarrow> u32" where
  "status_val AIE2_STATUS_SUCCESS = 0x0"
| "status_val AIE2_STATUS_AIE_INSTRUCTION_ERROR = 0x1000006"
| "status_val AIE2_STATUS_AIE_LOCK_ERROR = 0x1000008"
| "status_val AIE2_STATUS_AIE_DMA_ERROR = 0x1000009"
| "status_val AIE2_STATUS_MGMT_ERT_NOAVAIL = 0x2000003"
| "status_val AIE2_STATUS_MGMT_ERT_INVALID_PARAM = 0x2000004"
| "status_val AIE2_STATUS_MGMT_ERT_BUSY = 0x2000006"
| "status_val AIE2_STATUS_APP_INVALID_INSTR = 0x3000002"
| "status_val AIE2_STATUS_INVALID_INPUT_BUFFER = 0x4000001"
| "status_val AIE2_STATUS_INVALID_COMMAND = 0x4000002"
| "status_val AIE2_STATUS_INVALID_PARAM = 0x4000003"
| "status_val AIE2_STATUS_INVALID_OPERATION = 0x4000006"

lemma set_all_opcodes: "set all_opcodes = UNIV"
proof -
  have "c \<in> set all_opcodes" for c
    by (cases c) (simp_all add: all_opcodes_def)
  then show ?thesis by blast
qed

lemma opcode_val_inject: "opcode_val c = opcode_val d \<longleftrightarrow> c = d"
  by (cases c; cases d) simp_all

lemma opcode_of_val [simp]: "opcode_of (opcode_val c) = Some c"
proof -
  have "find (\<lambda>d. opcode_val d = opcode_val c) xs = Some c" if "c \<in> set xs" for xs
    using that by (induction xs) (auto simp: opcode_val_inject)
  then show ?thesis by (simp add: opcode_of_def set_all_opcodes)
qed

lemma opcode_of_Some: "opcode_of w = Some c \<longleftrightarrow> w = opcode_val c"
proof
  assume "opcode_of w = Some c"
  then show "w = opcode_val c"
    by (auto simp: opcode_of_def find_Some_iff)
qed simp

end
