(* ===== verification/Xdna_State.thy ===== *)
theory Xdna_State
  imports Xdna_Regs
begin

text \<open>
  The state of the emulator (\<open>src/xdna_internal.h\<close>, \<open>include/xdna/xdna_emu.h\<close>) and the
  primitives every component uses: the host callbacks, logging, and the accesses to the SRAM
  BAR.  A C array indexed by a checked or constant index is a function on \<open>nat\<close>; the SRAM
  allocation is a byte-addressed memory whose object ends at \<open>XDNA_BAR_SRAM_SIZE\<close>.

  Two ghost fields record undefined behaviour: \<open>oob_read\<close> and \<open>oob_write\<close> become true when a
  memcpy or memset touches bytes outside the SRAM allocation.  No operation reads them.

  The host is a value of type \<open>'h\<close> (the object behind \<open>opaque\<close>), each callback a function on
  it that may be missing (a NULL pointer); callbacks do not re-enter the device.  A log message
  is a constructor with the arguments of its format string; the text vsnprintf makes of it is
  not modelled.
\<close>

subsection \<open>Host interface\<close>

datatype xdna_log_level = XDNA_LOG_ERROR | XDNA_LOG_WARN | XDNA_LOG_INFO | XDNA_LOG_DEBUG

fun log_level_val :: "xdna_log_level \<Rightarrow> nat" where
  "log_level_val XDNA_LOG_ERROR = 0"
| "log_level_val XDNA_LOG_WARN = 1"
| "log_level_val XDNA_LOG_INFO = 2"
| "log_level_val XDNA_LOG_DEBUG = 3"

instantiation xdna_log_level :: linorder
begin
definition less_eq_xdna_log_level :: "xdna_log_level \<Rightarrow> xdna_log_level \<Rightarrow> bool" where
  "a \<le> b \<longleftrightarrow> log_level_val a \<le> log_level_val b"
definition less_xdna_log_level :: "xdna_log_level \<Rightarrow> xdna_log_level \<Rightarrow> bool" where
  "a < b \<longleftrightarrow> log_level_val a < log_level_val b"
instance
proof
  fix a b c :: xdna_log_level
  show "a < b \<longleftrightarrow> a \<le> b \<and> \<not> b \<le> a"
    by (auto simp: less_eq_xdna_log_level_def less_xdna_log_level_def)
  show "a \<le> a"
    by (simp add: less_eq_xdna_log_level_def)
  show "a \<le> b \<Longrightarrow> b \<le> c \<Longrightarrow> a \<le> c"
    by (simp add: less_eq_xdna_log_level_def)
  show "a \<le> b \<Longrightarrow> b \<le> a \<Longrightarrow> a = b"
    by (cases a; cases b) (simp_all add: less_eq_xdna_log_level_def)
  show "a \<le> b \<or> b \<le> a"
    by (auto simp: less_eq_xdna_log_level_def)
qed
end

datatype log_msg =
    Log_mbox_dev_reg_write u32
  | Log_mbox_passive_chan nat
  | Log_mbox_stuck nat
  | Log_mbox_bad_size nat u32
  | Log_mbox_past_ring nat
  | Log_mbox_payload_big nat u32
  | Log_mbox_reply_big u32
  | Log_mbox_i2x_full nat
  | Log_smu_power_on
  | Log_smu_power_off
  | Log_smu_bad_dpm u32
  | Log_smu_unknown u32
  | Log_fw_up u32 u32 nat
  | Log_fw_down
  | Log_psp_unreadable u64 u32
  | Log_psp_validated u64 u32
  | Log_psp_start_early
  | Log_psp_start_arg0 u32
  | Log_psp_unknown u32
  | Log_reg_unread u32
  | Log_reg_unwritten u32 u32
  | Log_mert_reply_buf u32
  | Log_mert_ctx_limit nat
  | Log_mert_ctx_created u32 u8 u8 u16 nat
  | Log_mert_ctx_unknown u32
  | Log_mert_ctx_destroyed u32
  | Log_mert_fw_not_alive u32
  | Log_mert_rt_type u32
  | Log_mert_rt_set u32 u64
  | Log_mert_pasid u16
  | Log_mert_heap u32 u64 u64
  | Log_mert_async u64
  | Log_mert_array_stage u32
  | Log_mert_unknown_op u32

text \<open>
  A callback that returns an int reports success as 0; \<open>dma_read\<close> also yields the bytes it
  put in the buffer.
\<close>

record 'h host_ops =
  dma_read :: "('h \<Rightarrow> u64 \<Rightarrow> nat \<Rightarrow> int \<times> u8 list \<times> 'h) option"
  dma_read_phys :: "('h \<Rightarrow> u64 \<Rightarrow> nat \<Rightarrow> int \<times> u8 list \<times> 'h) option"
  dma_write :: "('h \<Rightarrow> u64 \<Rightarrow> u8 list \<Rightarrow> int \<times> 'h) option"
  raise_irq :: "('h \<Rightarrow> nat \<Rightarrow> 'h) option"
  log_cb :: "('h \<Rightarrow> xdna_log_level \<Rightarrow> log_msg \<Rightarrow> 'h) option"

definition XDNA_MSIX_VECTORS :: nat where
  [xdna_consts]: "XDNA_MSIX_VECTORS = 8"

definition XDNA_MGMT_MSIX_VECTOR :: nat where
  [xdna_consts]: "XDNA_MGMT_MSIX_VECTOR = 0"

record xdna_stats =
  psp_cmds :: u64
  smu_cmds :: u64
  mbox_msgs_in :: u64
  mbox_msgs_out :: u64
  irqs_raised :: u64
  active_contexts :: u32
  stat_fw_alive :: int
  stat_power_on :: int

subsection \<open>Internal state\<close>

definition XDNA_MAX_CHANNELS :: nat where
  [xdna_consts]: "XDNA_MAX_CHANNELS = 1 + XDNA_NPU1_HWCTX_LIMIT"

record xdna_msg_header =
  total_size :: u32
  sz_ver :: u32
  msg_id :: u32
  opcode :: u32

record xdna_mgmt_mbox_info =
  mi_x2i_tail :: u32
  mi_x2i_head :: u32
  mi_x2i_buf :: u32
  mi_x2i_buf_sz :: u32
  mi_i2x_tail :: u32
  mi_i2x_head :: u32
  mi_i2x_buf :: u32
  mi_i2x_buf_sz :: u32
  mi_magic :: u32
  mi_msi_id :: u32
  mi_prot_major :: u32
  mi_prot_minor :: u32

record xdna_channel =
  ch_active :: bool
  ch_index :: nat
  x2i_head :: u32
  x2i_tail :: u32
  i2x_head :: u32
  i2x_tail :: u32
  intr :: u32
  x2i_buf :: u32
  x2i_size :: u32
  i2x_buf :: u32
  i2x_size :: u32

record xdna_context =
  ctx_valid :: bool
  ctx_id :: u32
  ctx_pasid :: u16
  ctx_start_col :: u8
  ctx_num_col :: u8
  ctx_priority :: u32
  ctx_chan :: nat
  heap_addr :: u64
  heap_size :: u64

datatype xdna_psp_state = XDNA_PSP_COLD | XDNA_PSP_VALIDATED | XDNA_PSP_RUNNING

record 'h xdna_npu =
  ops :: "'h host_ops"
  opaque :: 'h
  scratch :: "nat \<Rightarrow> u32"
  pwaitmode :: u32
  sec_intr :: u32
  pwrmgmt_intr :: u32
  sram :: "nat \<Rightarrow> u8"
  chan :: "nat \<Rightarrow> xdna_channel"
  psp_state :: xdna_psp_state
  power_on :: bool
  fw_alive :: bool
  fw_suspended :: bool
  fw_paddr :: u64
  fw_size :: u32
  npuclk :: u32
  hclk :: u32
  dpm_level :: u32
  mgmt_pasid :: u16
  rt_cfg :: "nat \<Rightarrow> u64"
  ctx :: "nat \<Rightarrow> xdna_context"
  next_ctx_id :: u32
  col_used :: u32
  async_buf_addr :: u64
  async_buf_size :: u32
  async_registered :: bool
  stats :: xdna_stats
  oob_read :: bool
  oob_write :: bool

subsection \<open>Wire format of the header structs\<close>

definition hdr_bytes :: "xdna_msg_header \<Rightarrow> u8 list" where
  "hdr_bytes h = le_bytes 4 (total_size h) @ le_bytes 4 (sz_ver h) @
     le_bytes 4 (msg_id h) @ le_bytes 4 (opcode h)"

definition hdr_of :: "u8 list \<Rightarrow> xdna_msg_header" where
  "hdr_of bs = \<lparr>total_size = field_at 0 4 bs, sz_ver = field_at 4 4 bs,
     msg_id = field_at 8 4 bs, opcode = field_at 12 4 bs\<rparr>"

definition sizeof_hdr :: nat where
  [xdna_consts]: "sizeof_hdr = 16"

definition mgmt_info_bytes :: "xdna_mgmt_mbox_info \<Rightarrow> u8 list" where
  "mgmt_info_bytes m =
     le_bytes 4 (mi_x2i_tail m) @ le_bytes 4 (mi_x2i_head m) @
     le_bytes 4 (mi_x2i_buf m) @ le_bytes 4 (mi_x2i_buf_sz m) @
     le_bytes 4 (mi_i2x_tail m) @ le_bytes 4 (mi_i2x_head m) @
     le_bytes 4 (mi_i2x_buf m) @ le_bytes 4 (mi_i2x_buf_sz m) @
     le_bytes 4 (mi_magic m) @ le_bytes 4 (mi_msi_id m) @
     le_bytes 4 (mi_prot_major m) @ le_bytes 4 (mi_prot_minor m) @ replicate 16 0"

definition mgmt_info_of :: "u8 list \<Rightarrow> xdna_mgmt_mbox_info" where
  "mgmt_info_of bs =
     \<lparr>mi_x2i_tail = field_at 0 4 bs, mi_x2i_head = field_at 4 4 bs,
      mi_x2i_buf = field_at 8 4 bs, mi_x2i_buf_sz = field_at 12 4 bs,
      mi_i2x_tail = field_at 16 4 bs, mi_i2x_head = field_at 20 4 bs,
      mi_i2x_buf = field_at 24 4 bs, mi_i2x_buf_sz = field_at 28 4 bs,
      mi_magic = field_at 32 4 bs, mi_msi_id = field_at 36 4 bs,
      mi_prot_major = field_at 40 4 bs, mi_prot_minor = field_at 44 4 bs\<rparr>"

definition sizeof_mgmt_info :: nat where
  [xdna_consts]: "sizeof_mgmt_info = 64"

interpretation hdr: wire_codec hdr_bytes hdr_of sizeof_hdr
  by unfold_locales (simp_all add: hdr_bytes_def hdr_of_def xdna_consts wire_simps)

interpretation hdr_mem: stored_codec mem_load mem_store hdr_bytes hdr_of sizeof_hdr
  by unfold_locales

interpretation info_mem: stored_codec mem_load mem_store mgmt_info_bytes mgmt_info_of
  sizeof_mgmt_info
  by unfold_locales (simp_all add: mgmt_info_bytes_def mgmt_info_of_def xdna_consts wire_simps)

lemma length_hdr_bytes [simp]: "length (hdr_bytes h) = 16"
  using hdr.enc_length by (simp add: xdna_consts)

subsection \<open>Logging and SRAM accesses\<close>

definition xdna_log :: "'h xdna_npu \<Rightarrow> xdna_log_level \<Rightarrow> log_msg \<Rightarrow> 'h xdna_npu" where
  "xdna_log npu level m =
     (case log_cb (ops npu) of
        None \<Rightarrow> npu
      | Some f \<Rightarrow> npu\<lparr>opaque := f (opaque npu) level m\<rparr>)"

text \<open>A memcpy from, and a memcpy or memset to, the SRAM allocation.\<close>

definition sram_load_mark :: "'h xdna_npu \<Rightarrow> nat \<Rightarrow> nat \<Rightarrow> 'h xdna_npu" where
  "sram_load_mark npu a n =
     npu\<lparr>oob_read := oob_read npu \<or> unat XDNA_BAR_SRAM_SIZE < a + n\<rparr>"

definition sram_store :: "'h xdna_npu \<Rightarrow> nat \<Rightarrow> u8 list \<Rightarrow> 'h xdna_npu" where
  "sram_store npu a bs =
     npu\<lparr>sram := mem_store (sram npu) a bs,
         oob_write := oob_write npu \<or> unat XDNA_BAR_SRAM_SIZE < a + length bs\<rparr>"

definition xdna_sram_read32 :: "'h xdna_npu \<Rightarrow> u32 \<Rightarrow> u32 \<times> 'h xdna_npu" where
  "xdna_sram_read32 npu off =
     (if off + 4 > XDNA_BAR_SRAM_SIZE then (0, npu)
      else (le_word (mem_load (sram npu) (unat off) 4), sram_load_mark npu (unat off) 4))"

definition xdna_sram_write32 :: "'h xdna_npu \<Rightarrow> u32 \<Rightarrow> u32 \<Rightarrow> 'h xdna_npu" where
  "xdna_sram_write32 npu off v =
     (if off + 4 > XDNA_BAR_SRAM_SIZE then npu
      else sram_store npu (unat off) (le_bytes 4 v))"

definition xdna_sram_dev_addr :: "u32 \<Rightarrow> u32" where
  "xdna_sram_dev_addr off = MPNPU_APERTURE1_BASE + off"

definition xdna_mbox_dev_addr :: "u32 \<Rightarrow> u32" where
  "xdna_mbox_dev_addr off = MPNPU_APERTURE2_BASE + off"

subsection \<open>What the primitives leave alone\<close>

lemma xdna_log_frame [simp]:
  "ops (xdna_log npu l m) = ops npu"
  "scratch (xdna_log npu l m) = scratch npu"
  "pwaitmode (xdna_log npu l m) = pwaitmode npu"
  "sec_intr (xdna_log npu l m) = sec_intr npu"
  "pwrmgmt_intr (xdna_log npu l m) = pwrmgmt_intr npu"
  "sram (xdna_log npu l m) = sram npu"
  "chan (xdna_log npu l m) = chan npu"
  "psp_state (xdna_log npu l m) = psp_state npu"
  "power_on (xdna_log npu l m) = power_on npu"
  "fw_alive (xdna_log npu l m) = fw_alive npu"
  "fw_suspended (xdna_log npu l m) = fw_suspended npu"
  "fw_paddr (xdna_log npu l m) = fw_paddr npu"
  "fw_size (xdna_log npu l m) = fw_size npu"
  "npuclk (xdna_log npu l m) = npuclk npu"
  "hclk (xdna_log npu l m) = hclk npu"
  "dpm_level (xdna_log npu l m) = dpm_level npu"
  "mgmt_pasid (xdna_log npu l m) = mgmt_pasid npu"
  "rt_cfg (xdna_log npu l m) = rt_cfg npu"
  "ctx (xdna_log npu l m) = ctx npu"
  "next_ctx_id (xdna_log npu l m) = next_ctx_id npu"
  "col_used (xdna_log npu l m) = col_used npu"
  "async_buf_addr (xdna_log npu l m) = async_buf_addr npu"
  "async_buf_size (xdna_log npu l m) = async_buf_size npu"
  "async_registered (xdna_log npu l m) = async_registered npu"
  "stats (xdna_log npu l m) = stats npu"
  "oob_read (xdna_log npu l m) = oob_read npu"
  "oob_write (xdna_log npu l m) = oob_write npu"
  by (simp_all add: xdna_log_def split: option.split)

lemma sram_load_mark_frame [simp]:
  "ops (sram_load_mark npu a n) = ops npu"
  "opaque (sram_load_mark npu a n) = opaque npu"
  "scratch (sram_load_mark npu a n) = scratch npu"
  "pwaitmode (sram_load_mark npu a n) = pwaitmode npu"
  "sec_intr (sram_load_mark npu a n) = sec_intr npu"
  "pwrmgmt_intr (sram_load_mark npu a n) = pwrmgmt_intr npu"
  "sram (sram_load_mark npu a n) = sram npu"
  "chan (sram_load_mark npu a n) = chan npu"
  "psp_state (sram_load_mark npu a n) = psp_state npu"
  "power_on (sram_load_mark npu a n) = power_on npu"
  "fw_alive (sram_load_mark npu a n) = fw_alive npu"
  "fw_suspended (sram_load_mark npu a n) = fw_suspended npu"
  "fw_paddr (sram_load_mark npu a n) = fw_paddr npu"
  "fw_size (sram_load_mark npu a n) = fw_size npu"
  "npuclk (sram_load_mark npu a n) = npuclk npu"
  "hclk (sram_load_mark npu a n) = hclk npu"
  "dpm_level (sram_load_mark npu a n) = dpm_level npu"
  "mgmt_pasid (sram_load_mark npu a n) = mgmt_pasid npu"
  "rt_cfg (sram_load_mark npu a n) = rt_cfg npu"
  "ctx (sram_load_mark npu a n) = ctx npu"
  "next_ctx_id (sram_load_mark npu a n) = next_ctx_id npu"
  "col_used (sram_load_mark npu a n) = col_used npu"
  "async_buf_addr (sram_load_mark npu a n) = async_buf_addr npu"
  "async_buf_size (sram_load_mark npu a n) = async_buf_size npu"
  "async_registered (sram_load_mark npu a n) = async_registered npu"
  "stats (sram_load_mark npu a n) = stats npu"
  "oob_write (sram_load_mark npu a n) = oob_write npu"
  by (simp_all add: sram_load_mark_def)

lemma sram_store_frame [simp]:
  "ops (sram_store npu a bs) = ops npu"
  "opaque (sram_store npu a bs) = opaque npu"
  "scratch (sram_store npu a bs) = scratch npu"
  "pwaitmode (sram_store npu a bs) = pwaitmode npu"
  "sec_intr (sram_store npu a bs) = sec_intr npu"
  "pwrmgmt_intr (sram_store npu a bs) = pwrmgmt_intr npu"
  "chan (sram_store npu a bs) = chan npu"
  "psp_state (sram_store npu a bs) = psp_state npu"
  "power_on (sram_store npu a bs) = power_on npu"
  "fw_alive (sram_store npu a bs) = fw_alive npu"
  "fw_suspended (sram_store npu a bs) = fw_suspended npu"
  "fw_paddr (sram_store npu a bs) = fw_paddr npu"
  "fw_size (sram_store npu a bs) = fw_size npu"
  "npuclk (sram_store npu a bs) = npuclk npu"
  "hclk (sram_store npu a bs) = hclk npu"
  "dpm_level (sram_store npu a bs) = dpm_level npu"
  "mgmt_pasid (sram_store npu a bs) = mgmt_pasid npu"
  "rt_cfg (sram_store npu a bs) = rt_cfg npu"
  "ctx (sram_store npu a bs) = ctx npu"
  "next_ctx_id (sram_store npu a bs) = next_ctx_id npu"
  "col_used (sram_store npu a bs) = col_used npu"
  "async_buf_addr (sram_store npu a bs) = async_buf_addr npu"
  "async_buf_size (sram_store npu a bs) = async_buf_size npu"
  "async_registered (sram_store npu a bs) = async_registered npu"
  "stats (sram_store npu a bs) = stats npu"
  "oob_read (sram_store npu a bs) = oob_read npu"
  by (simp_all add: sram_store_def)

lemma read32_frame [simp]:
  "ops (snd (xdna_sram_read32 npu off)) = ops npu"
  "opaque (snd (xdna_sram_read32 npu off)) = opaque npu"
  "scratch (snd (xdna_sram_read32 npu off)) = scratch npu"
  "pwaitmode (snd (xdna_sram_read32 npu off)) = pwaitmode npu"
  "sec_intr (snd (xdna_sram_read32 npu off)) = sec_intr npu"
  "pwrmgmt_intr (snd (xdna_sram_read32 npu off)) = pwrmgmt_intr npu"
  "sram (snd (xdna_sram_read32 npu off)) = sram npu"
  "chan (snd (xdna_sram_read32 npu off)) = chan npu"
  "psp_state (snd (xdna_sram_read32 npu off)) = psp_state npu"
  "power_on (snd (xdna_sram_read32 npu off)) = power_on npu"
  "fw_alive (snd (xdna_sram_read32 npu off)) = fw_alive npu"
  "fw_suspended (snd (xdna_sram_read32 npu off)) = fw_suspended npu"
  "fw_paddr (snd (xdna_sram_read32 npu off)) = fw_paddr npu"
  "fw_size (snd (xdna_sram_read32 npu off)) = fw_size npu"
  "npuclk (snd (xdna_sram_read32 npu off)) = npuclk npu"
  "hclk (snd (xdna_sram_read32 npu off)) = hclk npu"
  "dpm_level (snd (xdna_sram_read32 npu off)) = dpm_level npu"
  "mgmt_pasid (snd (xdna_sram_read32 npu off)) = mgmt_pasid npu"
  "rt_cfg (snd (xdna_sram_read32 npu off)) = rt_cfg npu"
  "ctx (snd (xdna_sram_read32 npu off)) = ctx npu"
  "next_ctx_id (snd (xdna_sram_read32 npu off)) = next_ctx_id npu"
  "col_used (snd (xdna_sram_read32 npu off)) = col_used npu"
  "async_buf_addr (snd (xdna_sram_read32 npu off)) = async_buf_addr npu"
  "async_buf_size (snd (xdna_sram_read32 npu off)) = async_buf_size npu"
  "async_registered (snd (xdna_sram_read32 npu off)) = async_registered npu"
  "stats (snd (xdna_sram_read32 npu off)) = stats npu"
  "oob_write (snd (xdna_sram_read32 npu off)) = oob_write npu"
  by (simp_all add: xdna_sram_read32_def)

lemma write32_frame [simp]:
  "ops (xdna_sram_write32 npu off v) = ops npu"
  "opaque (xdna_sram_write32 npu off v) = opaque npu"
  "scratch (xdna_sram_write32 npu off v) = scratch npu"
  "pwaitmode (xdna_sram_write32 npu off v) = pwaitmode npu"
  "sec_intr (xdna_sram_write32 npu off v) = sec_intr npu"
  "pwrmgmt_intr (xdna_sram_write32 npu off v) = pwrmgmt_intr npu"
  "chan (xdna_sram_write32 npu off v) = chan npu"
  "psp_state (xdna_sram_write32 npu off v) = psp_state npu"
  "power_on (xdna_sram_write32 npu off v) = power_on npu"
  "fw_alive (xdna_sram_write32 npu off v) = fw_alive npu"
  "fw_suspended (xdna_sram_write32 npu off v) = fw_suspended npu"
  "fw_paddr (xdna_sram_write32 npu off v) = fw_paddr npu"
  "fw_size (xdna_sram_write32 npu off v) = fw_size npu"
  "npuclk (xdna_sram_write32 npu off v) = npuclk npu"
  "hclk (xdna_sram_write32 npu off v) = hclk npu"
  "dpm_level (xdna_sram_write32 npu off v) = dpm_level npu"
  "mgmt_pasid (xdna_sram_write32 npu off v) = mgmt_pasid npu"
  "rt_cfg (xdna_sram_write32 npu off v) = rt_cfg npu"
  "ctx (xdna_sram_write32 npu off v) = ctx npu"
  "next_ctx_id (xdna_sram_write32 npu off v) = next_ctx_id npu"
  "col_used (xdna_sram_write32 npu off v) = col_used npu"
  "async_buf_addr (xdna_sram_write32 npu off v) = async_buf_addr npu"
  "async_buf_size (xdna_sram_write32 npu off v) = async_buf_size npu"
  "async_registered (xdna_sram_write32 npu off v) = async_registered npu"
  "stats (xdna_sram_write32 npu off v) = stats npu"
  "oob_read (xdna_sram_write32 npu off v) = oob_read npu"
  by (simp_all add: xdna_sram_write32_def)

lemma sram_store_sram [simp]: "sram (sram_store npu a bs) = mem_store (sram npu) a bs"
  by (simp add: sram_store_def)

text \<open>An access inside the allocation leaves the ghost fields as they were.\<close>

lemma sram_store_in_bounds [simp]:
  "a + length bs \<le> 0x40000 \<Longrightarrow> oob_write (sram_store npu a bs) = oob_write npu"
  by (simp add: sram_store_def xdna_consts)

lemma sram_load_mark_in_bounds [simp]:
  "a + n \<le> 0x40000 \<Longrightarrow> oob_read (sram_load_mark npu a n) = oob_read npu"
  by (simp add: sram_load_mark_def xdna_consts)

lemma unat_add_small:
  "unat a + unat b < 2 ^ LENGTH('a) \<Longrightarrow> unat (a + b :: 'a::len word) = unat a + unat b"
  by (simp add: unat_word_ariths)

lemma read32_in_bounds:
  assumes "unat off + 4 \<le> 0x40000"
  shows "xdna_sram_read32 npu off =
    (le_word (mem_load (sram npu) (unat off) 4), sram_load_mark npu (unat off) 4)"
proof -
  have "unat (off + 4) = unat off + 4"
    using assms by (subst unat_add_small) simp_all
  with assms show ?thesis
    by (simp add: xdna_sram_read32_def word_less_nat_alt xdna_consts)
qed

lemma write32_in_bounds:
  assumes "unat off + 4 \<le> 0x40000"
  shows "xdna_sram_write32 npu off v = sram_store npu (unat off) (le_bytes 4 v)"
proof -
  have "unat (off + 4) = unat off + 4"
    using assms by (subst unat_add_small) simp_all
  with assms show ?thesis
    by (simp add: xdna_sram_write32_def word_less_nat_alt xdna_consts)
qed

end
