(* ===== verification/Xdna_Mailbox.thy ===== *)
theory Xdna_Mailbox
  imports Xdna_State
begin

text \<open>
  The mailbox registers and its sending half (\<open>src/xdna_mailbox.c\<close>): channel reset, the
  decoding of a MBOX BAR offset into a channel and a register, register reads, and
  \<open>xdna_mbox_send\<close>, which appends a frame to a channel's i2x ring in SRAM.  The send is
  split as the C function is: the two ring tests (\<open>mbox_wraps\<close>, \<open>mbox_no_room\<close>) and the
  writing of the frame (\<open>mbox_commit\<close>).  The receiving half calls the message handlers and
  is in the theory after them.
\<close>

subsection \<open>Channels and registers\<close>

definition zero_channel :: xdna_channel where
  "zero_channel = \<lparr>ch_active = False, ch_index = 0, x2i_head = 0, x2i_tail = 0,
     i2x_head = 0, i2x_tail = 0, intr = 0, x2i_buf = 0, x2i_size = 0,
     i2x_buf = 0, i2x_size = 0\<rparr>"

definition xdna_mbox_channel_reset :: "'h xdna_npu \<Rightarrow> nat \<Rightarrow> 'h xdna_npu" where
  "xdna_mbox_channel_reset npu idx =
     (if idx \<ge> XDNA_MAX_CHANNELS then npu
      else npu\<lparr>chan := (chan npu)(idx := zero_channel\<lparr>ch_index := idx\<rparr>)\<rparr>)"

definition xdna_mbox_reset :: "'h xdna_npu \<Rightarrow> 'h xdna_npu" where
  "xdna_mbox_reset npu =
     fold (\<lambda>i s. xdna_mbox_channel_reset s i) [0..<XDNA_MAX_CHANNELS] npu"

definition chan_from_off :: "u32 \<Rightarrow> (nat \<times> u32) option" where
  "chan_from_off off =
     (let idx = unat (off div XDNA_MBOX_CHAN_STRIDE)
      in if idx \<ge> XDNA_MAX_CHANNELS then None
         else Some (idx, off mod XDNA_MBOX_CHAN_STRIDE))"

definition xdna_mbox_reg_read :: "'h xdna_npu \<Rightarrow> u32 \<Rightarrow> u32" where
  "xdna_mbox_reg_read npu off =
     (case chan_from_off off of
        None \<Rightarrow> 0
      | Some (idx, reg) \<Rightarrow>
          let ch = chan npu idx
          in if reg = XDNA_MBOX_X2I_HEAD_OFF then x2i_head ch
             else if reg = XDNA_MBOX_X2I_TAIL_OFF then x2i_tail ch
             else if reg = XDNA_MBOX_I2X_HEAD_OFF then i2x_head ch
             else if reg = XDNA_MBOX_INTR_OFF then intr ch
             else if reg = XDNA_MBOX_I2X_TAIL_OFF then i2x_tail ch
             else 0)"

subsection \<open>Sending to the driver\<close>

definition mbox_usable :: "xdna_channel \<Rightarrow> u32" where
  "mbox_usable ch = i2x_size ch - 4"

definition mbox_wraps :: "xdna_channel \<Rightarrow> u32 \<Rightarrow> bool" where
  "mbox_wraps ch pkg_size \<longleftrightarrow>
     i2x_tail ch \<ge> i2x_head ch \<and> i2x_tail ch + pkg_size > mbox_usable ch"

definition mbox_no_room :: "xdna_channel \<Rightarrow> u32 \<Rightarrow> u32 \<Rightarrow> bool" where
  "mbox_no_room ch tail pkg_size \<longleftrightarrow>
     tail < i2x_head ch \<and> tail + pkg_size \<ge> i2x_head ch"

definition mbox_commit ::
  "'h xdna_npu \<Rightarrow> nat \<Rightarrow> u32 \<Rightarrow> u32 \<Rightarrow> u32 \<Rightarrow> u8 list \<Rightarrow> 'h xdna_npu" where
  "mbox_commit npu chan_idx tail mid opc payload =
     (let ch = chan npu chan_idx;
          len = word_of_nat (length payload) :: u32;
          hdr = \<lparr>total_size = len,
                 sz_ver = (len AND XDNA_MSG_BODY_SZ_MASK) OR
                          push_bit XDNA_MSG_PROTO_VER_SHIFT XDNA_MSG_PROTOCOL_VER,
                 msg_id = mid, opcode = opc\<rparr>;
          a = unat (i2x_buf ch) + unat tail;
          npu1 = sram_store npu a (hdr_bytes hdr);
          npu2 = (if len \<noteq> 0 then sram_store npu1 (a + sizeof_hdr) payload else npu1);
          npu3 = npu2\<lparr>chan := (chan npu2)(chan_idx :=
                     ch\<lparr>i2x_tail := tail + (word_of_nat sizeof_hdr + len), intr := 1\<rparr>),
                   stats := (stats npu2)\<lparr>mbox_msgs_out := mbox_msgs_out (stats npu2) + 1\<rparr>\<rparr>
      in case raise_irq (ops npu3) of
           None \<Rightarrow> npu3
         | Some f \<Rightarrow>
             npu3\<lparr>opaque := f (opaque npu3) (ch_index ch),
                  stats := (stats npu3)\<lparr>irqs_raised := irqs_raised (stats npu3) + 1\<rparr>\<rparr>)"

definition xdna_mbox_send ::
  "'h xdna_npu \<Rightarrow> nat \<Rightarrow> u32 \<Rightarrow> u32 \<Rightarrow> u8 list \<Rightarrow> int \<times> 'h xdna_npu" where
  "xdna_mbox_send npu chan_idx mid opc payload =
     (if chan_idx \<ge> XDNA_MAX_CHANNELS then (-1, npu)
      else let ch = chan npu chan_idx in
      if \<not> ch_active ch then (-1, npu)
      else let pkg_size = word_of_nat sizeof_hdr + word_of_nat (length payload) in
      if pkg_size > mbox_usable ch
      then (-1, xdna_log npu XDNA_LOG_ERROR (Log_mbox_reply_big pkg_size))
      else let npu1 = (if mbox_wraps ch pkg_size
                       then xdna_sram_write32 npu (i2x_buf ch + i2x_tail ch) XDNA_MBOX_TOMBSTONE
                       else npu);
               tail = (if mbox_wraps ch pkg_size then 0 else i2x_tail ch) in
      if mbox_no_room ch tail pkg_size
      then (-1, xdna_log npu1 XDNA_LOG_ERROR (Log_mbox_i2x_full chan_idx))
      else (0, mbox_commit npu1 chan_idx tail mid opc payload))"

subsection \<open>What the operations leave alone\<close>

lemma channel_reset_frame [simp]:
  "ops (xdna_mbox_channel_reset npu k) = ops npu"
  "opaque (xdna_mbox_channel_reset npu k) = opaque npu"
  "scratch (xdna_mbox_channel_reset npu k) = scratch npu"
  "pwaitmode (xdna_mbox_channel_reset npu k) = pwaitmode npu"
  "sec_intr (xdna_mbox_channel_reset npu k) = sec_intr npu"
  "pwrmgmt_intr (xdna_mbox_channel_reset npu k) = pwrmgmt_intr npu"
  "sram (xdna_mbox_channel_reset npu k) = sram npu"
  "psp_state (xdna_mbox_channel_reset npu k) = psp_state npu"
  "power_on (xdna_mbox_channel_reset npu k) = power_on npu"
  "fw_alive (xdna_mbox_channel_reset npu k) = fw_alive npu"
  "fw_suspended (xdna_mbox_channel_reset npu k) = fw_suspended npu"
  "fw_paddr (xdna_mbox_channel_reset npu k) = fw_paddr npu"
  "fw_size (xdna_mbox_channel_reset npu k) = fw_size npu"
  "npuclk (xdna_mbox_channel_reset npu k) = npuclk npu"
  "hclk (xdna_mbox_channel_reset npu k) = hclk npu"
  "dpm_level (xdna_mbox_channel_reset npu k) = dpm_level npu"
  "mgmt_pasid (xdna_mbox_channel_reset npu k) = mgmt_pasid npu"
  "rt_cfg (xdna_mbox_channel_reset npu k) = rt_cfg npu"
  "ctx (xdna_mbox_channel_reset npu k) = ctx npu"
  "next_ctx_id (xdna_mbox_channel_reset npu k) = next_ctx_id npu"
  "col_used (xdna_mbox_channel_reset npu k) = col_used npu"
  "async_buf_addr (xdna_mbox_channel_reset npu k) = async_buf_addr npu"
  "async_buf_size (xdna_mbox_channel_reset npu k) = async_buf_size npu"
  "async_registered (xdna_mbox_channel_reset npu k) = async_registered npu"
  "stats (xdna_mbox_channel_reset npu k) = stats npu"
  "oob_read (xdna_mbox_channel_reset npu k) = oob_read npu"
  "oob_write (xdna_mbox_channel_reset npu k) = oob_write npu"
  by (simp_all add: xdna_mbox_channel_reset_def)

lemma commit_frame [simp]:
  "ops (mbox_commit npu k t i p bs) = ops npu"
  "scratch (mbox_commit npu k t i p bs) = scratch npu"
  "pwaitmode (mbox_commit npu k t i p bs) = pwaitmode npu"
  "sec_intr (mbox_commit npu k t i p bs) = sec_intr npu"
  "pwrmgmt_intr (mbox_commit npu k t i p bs) = pwrmgmt_intr npu"
  "psp_state (mbox_commit npu k t i p bs) = psp_state npu"
  "power_on (mbox_commit npu k t i p bs) = power_on npu"
  "fw_alive (mbox_commit npu k t i p bs) = fw_alive npu"
  "fw_suspended (mbox_commit npu k t i p bs) = fw_suspended npu"
  "fw_paddr (mbox_commit npu k t i p bs) = fw_paddr npu"
  "fw_size (mbox_commit npu k t i p bs) = fw_size npu"
  "npuclk (mbox_commit npu k t i p bs) = npuclk npu"
  "hclk (mbox_commit npu k t i p bs) = hclk npu"
  "dpm_level (mbox_commit npu k t i p bs) = dpm_level npu"
  "mgmt_pasid (mbox_commit npu k t i p bs) = mgmt_pasid npu"
  "rt_cfg (mbox_commit npu k t i p bs) = rt_cfg npu"
  "ctx (mbox_commit npu k t i p bs) = ctx npu"
  "next_ctx_id (mbox_commit npu k t i p bs) = next_ctx_id npu"
  "col_used (mbox_commit npu k t i p bs) = col_used npu"
  "async_buf_addr (mbox_commit npu k t i p bs) = async_buf_addr npu"
  "async_buf_size (mbox_commit npu k t i p bs) = async_buf_size npu"
  "async_registered (mbox_commit npu k t i p bs) = async_registered npu"
  "oob_read (mbox_commit npu k t i p bs) = oob_read npu"
  by (simp_all add: mbox_commit_def Let_def split: option.split)

lemma send_frame [simp]:
  "ops (snd (xdna_mbox_send npu k i p bs)) = ops npu"
  "scratch (snd (xdna_mbox_send npu k i p bs)) = scratch npu"
  "pwaitmode (snd (xdna_mbox_send npu k i p bs)) = pwaitmode npu"
  "sec_intr (snd (xdna_mbox_send npu k i p bs)) = sec_intr npu"
  "pwrmgmt_intr (snd (xdna_mbox_send npu k i p bs)) = pwrmgmt_intr npu"
  "psp_state (snd (xdna_mbox_send npu k i p bs)) = psp_state npu"
  "power_on (snd (xdna_mbox_send npu k i p bs)) = power_on npu"
  "fw_alive (snd (xdna_mbox_send npu k i p bs)) = fw_alive npu"
  "fw_suspended (snd (xdna_mbox_send npu k i p bs)) = fw_suspended npu"
  "fw_paddr (snd (xdna_mbox_send npu k i p bs)) = fw_paddr npu"
  "fw_size (snd (xdna_mbox_send npu k i p bs)) = fw_size npu"
  "npuclk (snd (xdna_mbox_send npu k i p bs)) = npuclk npu"
  "hclk (snd (xdna_mbox_send npu k i p bs)) = hclk npu"
  "dpm_level (snd (xdna_mbox_send npu k i p bs)) = dpm_level npu"
  "mgmt_pasid (snd (xdna_mbox_send npu k i p bs)) = mgmt_pasid npu"
  "rt_cfg (snd (xdna_mbox_send npu k i p bs)) = rt_cfg npu"
  "ctx (snd (xdna_mbox_send npu k i p bs)) = ctx npu"
  "next_ctx_id (snd (xdna_mbox_send npu k i p bs)) = next_ctx_id npu"
  "col_used (snd (xdna_mbox_send npu k i p bs)) = col_used npu"
  "async_buf_addr (snd (xdna_mbox_send npu k i p bs)) = async_buf_addr npu"
  "async_buf_size (snd (xdna_mbox_send npu k i p bs)) = async_buf_size npu"
  "async_registered (snd (xdna_mbox_send npu k i p bs)) = async_registered npu"
  "oob_read (snd (xdna_mbox_send npu k i p bs)) = oob_read npu"
  by (simp_all add: xdna_mbox_send_def Let_def)

lemma channel_reset_chan:
  "chan (xdna_mbox_channel_reset npu k) =
    (if k < XDNA_MAX_CHANNELS then (chan npu)(k := zero_channel\<lparr>ch_index := k\<rparr>) else chan npu)"
  by (simp add: xdna_mbox_channel_reset_def)

lemma fold_channel_reset:
  "fold (\<lambda>i s. xdna_mbox_channel_reset s i) [0..<n] npu =
    npu\<lparr>chan := \<lambda>i. if i < n \<and> i < XDNA_MAX_CHANNELS then zero_channel\<lparr>ch_index := i\<rparr>
                     else chan npu i\<rparr>"
proof (induction n)
  case 0
  then show ?case by simp
next
  case (Suc n)
  have "fold (\<lambda>i s. xdna_mbox_channel_reset s i) [0..<Suc n] npu =
    xdna_mbox_channel_reset (fold (\<lambda>i s. xdna_mbox_channel_reset s i) [0..<n] npu) n"
    by simp
  then show ?case
    unfolding Suc.IH
    by (intro xdna_npu.equality)
      (auto simp: xdna_mbox_channel_reset_def fun_eq_iff less_Suc_eq)
qed

lemma mbox_reset_eq:
  "xdna_mbox_reset npu =
    npu\<lparr>chan := \<lambda>i. if i < XDNA_MAX_CHANNELS then zero_channel\<lparr>ch_index := i\<rparr>
                     else chan npu i\<rparr>"
  unfolding xdna_mbox_reset_def fold_channel_reset by simp

text \<open>
  A send touches one channel, and there only the tail and the interrupt register: every
  other register and every ring address of every channel is as before.
\<close>

lemma commit_chan:
  "chan (mbox_commit npu k t i p bs) = (chan npu)(k := (chan npu k)
     \<lparr>i2x_tail := t + (16 + word_of_nat (length bs)), intr := 1\<rparr>)"
  by (simp add: mbox_commit_def Let_def xdna_consts split: option.split)

lemma commit_sram:
  "sram (mbox_commit npu k t i p bs) =
    mem_store (mem_store (sram npu) (unat (i2x_buf (chan npu k)) + unat t)
      (hdr_bytes \<lparr>total_size = word_of_nat (length bs),
         sz_ver = (word_of_nat (length bs) AND XDNA_MSG_BODY_SZ_MASK) OR
                  push_bit XDNA_MSG_PROTO_VER_SHIFT XDNA_MSG_PROTOCOL_VER,
         msg_id = i, opcode = p\<rparr>))
      (unat (i2x_buf (chan npu k)) + unat t + sizeof_hdr)
      (if (word_of_nat (length bs) :: u32) = 0 then [] else bs)"
  by (simp add: mbox_commit_def Let_def split: option.split)

lemma send_chan_other [simp]:
  "j \<noteq> k \<Longrightarrow> chan (snd (xdna_mbox_send npu k i p bs)) j = chan npu j"
  by (simp add: xdna_mbox_send_def Let_def commit_chan)

lemma send_chan_fields [simp]:
  "ch_active (chan (snd (xdna_mbox_send npu k i p bs)) j) = ch_active (chan npu j)"
  "ch_index (chan (snd (xdna_mbox_send npu k i p bs)) j) = ch_index (chan npu j)"
  "x2i_head (chan (snd (xdna_mbox_send npu k i p bs)) j) = x2i_head (chan npu j)"
  "x2i_tail (chan (snd (xdna_mbox_send npu k i p bs)) j) = x2i_tail (chan npu j)"
  "x2i_buf (chan (snd (xdna_mbox_send npu k i p bs)) j) = x2i_buf (chan npu j)"
  "x2i_size (chan (snd (xdna_mbox_send npu k i p bs)) j) = x2i_size (chan npu j)"
  "i2x_head (chan (snd (xdna_mbox_send npu k i p bs)) j) = i2x_head (chan npu j)"
  "i2x_buf (chan (snd (xdna_mbox_send npu k i p bs)) j) = i2x_buf (chan npu j)"
  "i2x_size (chan (snd (xdna_mbox_send npu k i p bs)) j) = i2x_size (chan npu j)"
  by (simp_all add: xdna_mbox_send_def Let_def commit_chan)

lemma commit_stats [simp]:
  "psp_cmds (stats (mbox_commit npu k t i p bs)) = psp_cmds (stats npu)"
  "smu_cmds (stats (mbox_commit npu k t i p bs)) = smu_cmds (stats npu)"
  "mbox_msgs_in (stats (mbox_commit npu k t i p bs)) = mbox_msgs_in (stats npu)"
  "mbox_msgs_out (stats (mbox_commit npu k t i p bs)) = mbox_msgs_out (stats npu) + 1"
  "active_contexts (stats (mbox_commit npu k t i p bs)) = active_contexts (stats npu)"
  by (simp_all add: mbox_commit_def Let_def split: option.split)

lemma send_stats [simp]:
  "psp_cmds (stats (snd (xdna_mbox_send npu k i p bs))) = psp_cmds (stats npu)"
  "smu_cmds (stats (snd (xdna_mbox_send npu k i p bs))) = smu_cmds (stats npu)"
  "mbox_msgs_in (stats (snd (xdna_mbox_send npu k i p bs))) = mbox_msgs_in (stats npu)"
  "active_contexts (stats (snd (xdna_mbox_send npu k i p bs))) = active_contexts (stats npu)"
  by (simp_all add: xdna_mbox_send_def Let_def)

text \<open>The return code tells whether a frame was written.\<close>

lemma send_result:
  "fst (xdna_mbox_send npu k i p bs) = 0 \<or> fst (xdna_mbox_send npu k i p bs) = -1"
  by (simp add: xdna_mbox_send_def Let_def)

lemma send_msgs_out:
  "mbox_msgs_out (stats (snd (xdna_mbox_send npu k i p bs))) =
    mbox_msgs_out (stats npu) + (if fst (xdna_mbox_send npu k i p bs) = 0 then 1 else 0)"
  by (simp add: xdna_mbox_send_def Let_def)

end
