(* ===== verification/Xdna_Wire.thy ===== *)
theory Xdna_Wire
  imports Xdna_Mailbox
begin

text \<open>
  The packed message structs of \<open>src/xdna_mert.c\<close>: for each C struct a record with the C
  fields in order, the bytes the compiler lays out for it (\<open>_bytes\<close>), the record a memcpy
  out of a payload yields (\<open>_of\<close>), and its \<open>sizeof\<close>.  Each layout is an instance of
  \<open>wire_codec\<close>, whose laws say that the sizes are the ones the source's \<open>static_assert\<close>s
  lock and that a struct written by one side is read unchanged by the other.
\<close>


record ProtocolVersionResp =
  pvr_status :: u32
  pvr_major :: u32
  pvr_minor :: u32

definition ProtocolVersionResp_bytes :: "ProtocolVersionResp \<Rightarrow> u8 list" where
  "ProtocolVersionResp_bytes r =
    le_bytes 4 (pvr_status r) @ le_bytes 4 (pvr_major r) @ le_bytes 4 (pvr_minor r)"

definition ProtocolVersionResp_of :: "u8 list \<Rightarrow> ProtocolVersionResp" where
  "ProtocolVersionResp_of bs =
    \<lparr>pvr_status = field_at 0 4 bs, pvr_major = field_at 4 4 bs,
     pvr_minor = field_at 8 4 bs\<rparr>"

definition sizeof_ProtocolVersionResp :: nat where
  [xdna_consts]: "sizeof_ProtocolVersionResp = 12"

interpretation pvr: wire_codec ProtocolVersionResp_bytes ProtocolVersionResp_of sizeof_ProtocolVersionResp
  by unfold_locales
    (simp_all add: ProtocolVersionResp_bytes_def ProtocolVersionResp_of_def xdna_consts wire_simps)

lemma ProtocolVersionResp_length [simp]: "length (ProtocolVersionResp_bytes r) = 12"
  using pvr.enc_length by (simp add: xdna_consts)

record FirmwareVersionResp =
  fvr_status :: u32
  fvr_major :: u32
  fvr_minor :: u32
  fvr_sub :: u32
  fvr_build :: u32

definition FirmwareVersionResp_bytes :: "FirmwareVersionResp \<Rightarrow> u8 list" where
  "FirmwareVersionResp_bytes r =
    le_bytes 4 (fvr_status r) @ le_bytes 4 (fvr_major r) @ le_bytes 4 (fvr_minor r) @
    le_bytes 4 (fvr_sub r) @ le_bytes 4 (fvr_build r)"

definition FirmwareVersionResp_of :: "u8 list \<Rightarrow> FirmwareVersionResp" where
  "FirmwareVersionResp_of bs =
    \<lparr>fvr_status = field_at 0 4 bs, fvr_major = field_at 4 4 bs,
     fvr_minor = field_at 8 4 bs, fvr_sub = field_at 12 4 bs,
     fvr_build = field_at 16 4 bs\<rparr>"

definition sizeof_FirmwareVersionResp :: nat where
  [xdna_consts]: "sizeof_FirmwareVersionResp = 20"

interpretation fvr: wire_codec FirmwareVersionResp_bytes FirmwareVersionResp_of sizeof_FirmwareVersionResp
  by unfold_locales
    (simp_all add: FirmwareVersionResp_bytes_def FirmwareVersionResp_of_def xdna_consts wire_simps)

lemma FirmwareVersionResp_length [simp]: "length (FirmwareVersionResp_bytes r) = 20"
  using fvr.enc_length by (simp add: xdna_consts)

record AieVersionResp =
  avr_status :: u32
  avr_major :: u16
  avr_minor :: u16

definition AieVersionResp_bytes :: "AieVersionResp \<Rightarrow> u8 list" where
  "AieVersionResp_bytes r =
    le_bytes 4 (avr_status r) @ le_bytes 2 (avr_major r) @ le_bytes 2 (avr_minor r)"

definition AieVersionResp_of :: "u8 list \<Rightarrow> AieVersionResp" where
  "AieVersionResp_of bs =
    \<lparr>avr_status = field_at 0 4 bs, avr_major = field_at 4 2 bs,
     avr_minor = field_at 6 2 bs\<rparr>"

definition sizeof_AieVersionResp :: nat where
  [xdna_consts]: "sizeof_AieVersionResp = 8"

interpretation avr: wire_codec AieVersionResp_bytes AieVersionResp_of sizeof_AieVersionResp
  by unfold_locales
    (simp_all add: AieVersionResp_bytes_def AieVersionResp_of_def xdna_consts wire_simps)

lemma AieVersionResp_length [simp]: "length (AieVersionResp_bytes r) = 8"
  using avr.enc_length by (simp add: xdna_consts)

record AieTileInfo =
  ati_size :: u32
  ati_major :: u16
  ati_minor :: u16
  ati_cols :: u16
  ati_rows :: u16
  ati_core_rows :: u16
  ati_mem_rows :: u16
  ati_shim_rows :: u16
  ati_core_row_start :: u16
  ati_mem_row_start :: u16
  ati_shim_row_start :: u16
  ati_core_dma_channels :: u16
  ati_mem_dma_channels :: u16
  ati_shim_dma_channels :: u16
  ati_core_locks :: u16
  ati_mem_locks :: u16
  ati_shim_locks :: u16
  ati_core_events :: u16
  ati_mem_events :: u16
  ati_shim_events :: u16
  ati_reserved :: u16

definition AieTileInfo_bytes :: "AieTileInfo \<Rightarrow> u8 list" where
  "AieTileInfo_bytes r =
    le_bytes 4 (ati_size r) @ le_bytes 2 (ati_major r) @ le_bytes 2 (ati_minor r) @
    le_bytes 2 (ati_cols r) @ le_bytes 2 (ati_rows r) @ le_bytes 2 (ati_core_rows r) @
    le_bytes 2 (ati_mem_rows r) @ le_bytes 2 (ati_shim_rows r) @
    le_bytes 2 (ati_core_row_start r) @ le_bytes 2 (ati_mem_row_start r) @
    le_bytes 2 (ati_shim_row_start r) @ le_bytes 2 (ati_core_dma_channels r) @
    le_bytes 2 (ati_mem_dma_channels r) @ le_bytes 2 (ati_shim_dma_channels r) @
    le_bytes 2 (ati_core_locks r) @ le_bytes 2 (ati_mem_locks r) @
    le_bytes 2 (ati_shim_locks r) @ le_bytes 2 (ati_core_events r) @
    le_bytes 2 (ati_mem_events r) @ le_bytes 2 (ati_shim_events r) @
    le_bytes 2 (ati_reserved r)"

definition AieTileInfo_of :: "u8 list \<Rightarrow> AieTileInfo" where
  "AieTileInfo_of bs =
    \<lparr>ati_size = field_at 0 4 bs, ati_major = field_at 4 2 bs,
     ati_minor = field_at 6 2 bs, ati_cols = field_at 8 2 bs, ati_rows = field_at 10 2 bs,
     ati_core_rows = field_at 12 2 bs, ati_mem_rows = field_at 14 2 bs,
     ati_shim_rows = field_at 16 2 bs, ati_core_row_start = field_at 18 2 bs,
     ati_mem_row_start = field_at 20 2 bs, ati_shim_row_start = field_at 22 2 bs,
     ati_core_dma_channels = field_at 24 2 bs, ati_mem_dma_channels = field_at 26 2 bs,
     ati_shim_dma_channels = field_at 28 2 bs, ati_core_locks = field_at 30 2 bs,
     ati_mem_locks = field_at 32 2 bs, ati_shim_locks = field_at 34 2 bs,
     ati_core_events = field_at 36 2 bs, ati_mem_events = field_at 38 2 bs,
     ati_shim_events = field_at 40 2 bs, ati_reserved = field_at 42 2 bs\<rparr>"

definition sizeof_AieTileInfo :: nat where
  [xdna_consts]: "sizeof_AieTileInfo = 44"

interpretation ati: wire_codec AieTileInfo_bytes AieTileInfo_of sizeof_AieTileInfo
  by unfold_locales
    (simp_all add: AieTileInfo_bytes_def AieTileInfo_of_def xdna_consts wire_simps)

lemma AieTileInfo_length [simp]: "length (AieTileInfo_bytes r) = 44"
  using ati.enc_length by (simp add: xdna_consts)

record AieTileInfoResp =
  atr_status :: u32
  atr_info :: AieTileInfo

definition AieTileInfoResp_bytes :: "AieTileInfoResp \<Rightarrow> u8 list" where
  "AieTileInfoResp_bytes r =
    le_bytes 4 (atr_status r) @ AieTileInfo_bytes (atr_info r)"

definition AieTileInfoResp_of :: "u8 list \<Rightarrow> AieTileInfoResp" where
  "AieTileInfoResp_of bs =
    \<lparr>atr_status = field_at 0 4 bs, atr_info = AieTileInfo_of (drop 4 bs)\<rparr>"

definition sizeof_AieTileInfoResp :: nat where
  [xdna_consts]: "sizeof_AieTileInfoResp = 48"

interpretation atr: wire_codec AieTileInfoResp_bytes AieTileInfoResp_of sizeof_AieTileInfoResp
  by unfold_locales
    (simp_all add: AieTileInfoResp_bytes_def AieTileInfoResp_of_def xdna_consts wire_simps ati.dec_enc ati.dec_enc_alone)

lemma AieTileInfoResp_length [simp]: "length (AieTileInfoResp_bytes r) = 48"
  using atr.enc_length by (simp add: xdna_consts)

record StatusOnlyResp =
  sor_status :: u32

definition StatusOnlyResp_bytes :: "StatusOnlyResp \<Rightarrow> u8 list" where
  "StatusOnlyResp_bytes r =
    le_bytes 4 (sor_status r)"

definition StatusOnlyResp_of :: "u8 list \<Rightarrow> StatusOnlyResp" where
  "StatusOnlyResp_of bs =
    \<lparr>sor_status = field_at 0 4 bs\<rparr>"

definition sizeof_StatusOnlyResp :: nat where
  [xdna_consts]: "sizeof_StatusOnlyResp = 4"

interpretation sor: wire_codec StatusOnlyResp_bytes StatusOnlyResp_of sizeof_StatusOnlyResp
  by unfold_locales
    (simp_all add: StatusOnlyResp_bytes_def StatusOnlyResp_of_def xdna_consts wire_simps)

lemma StatusOnlyResp_length [simp]: "length (StatusOnlyResp_bytes r) = 4"
  using sor.enc_length by (simp add: xdna_consts)

record SetRuntimeCfgReq =
  src_type :: u32
  src_value :: u64

definition SetRuntimeCfgReq_bytes :: "SetRuntimeCfgReq \<Rightarrow> u8 list" where
  "SetRuntimeCfgReq_bytes r =
    le_bytes 4 (src_type r) @ le_bytes 8 (src_value r)"

definition SetRuntimeCfgReq_of :: "u8 list \<Rightarrow> SetRuntimeCfgReq" where
  "SetRuntimeCfgReq_of bs =
    \<lparr>src_type = field_at 0 4 bs, src_value = field_at 4 8 bs\<rparr>"

definition sizeof_SetRuntimeCfgReq :: nat where
  [xdna_consts]: "sizeof_SetRuntimeCfgReq = 12"

interpretation src: wire_codec SetRuntimeCfgReq_bytes SetRuntimeCfgReq_of sizeof_SetRuntimeCfgReq
  by unfold_locales
    (simp_all add: SetRuntimeCfgReq_bytes_def SetRuntimeCfgReq_of_def xdna_consts wire_simps)

lemma SetRuntimeCfgReq_length [simp]: "length (SetRuntimeCfgReq_bytes r) = 12"
  using src.enc_length by (simp add: xdna_consts)

record GetRuntimeCfgReq =
  grc_type :: u32

definition GetRuntimeCfgReq_bytes :: "GetRuntimeCfgReq \<Rightarrow> u8 list" where
  "GetRuntimeCfgReq_bytes r =
    le_bytes 4 (grc_type r)"

definition GetRuntimeCfgReq_of :: "u8 list \<Rightarrow> GetRuntimeCfgReq" where
  "GetRuntimeCfgReq_of bs =
    \<lparr>grc_type = field_at 0 4 bs\<rparr>"

definition sizeof_GetRuntimeCfgReq :: nat where
  [xdna_consts]: "sizeof_GetRuntimeCfgReq = 4"

interpretation grc: wire_codec GetRuntimeCfgReq_bytes GetRuntimeCfgReq_of sizeof_GetRuntimeCfgReq
  by unfold_locales
    (simp_all add: GetRuntimeCfgReq_bytes_def GetRuntimeCfgReq_of_def xdna_consts wire_simps)

lemma GetRuntimeCfgReq_length [simp]: "length (GetRuntimeCfgReq_bytes r) = 4"
  using grc.enc_length by (simp add: xdna_consts)

record GetRuntimeCfgResp =
  grr_status :: u32
  grr_value :: u64

definition GetRuntimeCfgResp_bytes :: "GetRuntimeCfgResp \<Rightarrow> u8 list" where
  "GetRuntimeCfgResp_bytes r =
    le_bytes 4 (grr_status r) @ le_bytes 8 (grr_value r)"

definition GetRuntimeCfgResp_of :: "u8 list \<Rightarrow> GetRuntimeCfgResp" where
  "GetRuntimeCfgResp_of bs =
    \<lparr>grr_status = field_at 0 4 bs, grr_value = field_at 4 8 bs\<rparr>"

definition sizeof_GetRuntimeCfgResp :: nat where
  [xdna_consts]: "sizeof_GetRuntimeCfgResp = 12"

interpretation grr: wire_codec GetRuntimeCfgResp_bytes GetRuntimeCfgResp_of sizeof_GetRuntimeCfgResp
  by unfold_locales
    (simp_all add: GetRuntimeCfgResp_bytes_def GetRuntimeCfgResp_of_def xdna_consts wire_simps)

lemma GetRuntimeCfgResp_length [simp]: "length (GetRuntimeCfgResp_bytes r) = 12"
  using grr.enc_length by (simp add: xdna_consts)

record AssignPasidReq =
  apr_pasid :: u16
  apr_reserved :: u16

definition AssignPasidReq_bytes :: "AssignPasidReq \<Rightarrow> u8 list" where
  "AssignPasidReq_bytes r =
    le_bytes 2 (apr_pasid r) @ le_bytes 2 (apr_reserved r)"

definition AssignPasidReq_of :: "u8 list \<Rightarrow> AssignPasidReq" where
  "AssignPasidReq_of bs =
    \<lparr>apr_pasid = field_at 0 2 bs, apr_reserved = field_at 2 2 bs\<rparr>"

definition sizeof_AssignPasidReq :: nat where
  [xdna_consts]: "sizeof_AssignPasidReq = 4"

interpretation apr: wire_codec AssignPasidReq_bytes AssignPasidReq_of sizeof_AssignPasidReq
  by unfold_locales
    (simp_all add: AssignPasidReq_bytes_def AssignPasidReq_of_def xdna_consts wire_simps)

lemma AssignPasidReq_length [simp]: "length (AssignPasidReq_bytes r) = 4"
  using apr.enc_length by (simp add: xdna_consts)

record CqInfo =
  cqi_head_addr :: u32
  cqi_tail_addr :: u32
  cqi_buf_addr :: u32
  cqi_buf_size :: u32

definition CqInfo_bytes :: "CqInfo \<Rightarrow> u8 list" where
  "CqInfo_bytes r =
    le_bytes 4 (cqi_head_addr r) @ le_bytes 4 (cqi_tail_addr r) @
    le_bytes 4 (cqi_buf_addr r) @ le_bytes 4 (cqi_buf_size r)"

definition CqInfo_of :: "u8 list \<Rightarrow> CqInfo" where
  "CqInfo_of bs =
    \<lparr>cqi_head_addr = field_at 0 4 bs, cqi_tail_addr = field_at 4 4 bs,
     cqi_buf_addr = field_at 8 4 bs, cqi_buf_size = field_at 12 4 bs\<rparr>"

definition sizeof_CqInfo :: nat where
  [xdna_consts]: "sizeof_CqInfo = 16"

interpretation cqi: wire_codec CqInfo_bytes CqInfo_of sizeof_CqInfo
  by unfold_locales
    (simp_all add: CqInfo_bytes_def CqInfo_of_def xdna_consts wire_simps)

lemma CqInfo_length [simp]: "length (CqInfo_bytes r) = 16"
  using cqi.enc_length by (simp add: xdna_consts)

record CqPair =
  cqp_x2i_q :: CqInfo
  cqp_i2x_q :: CqInfo

definition CqPair_bytes :: "CqPair \<Rightarrow> u8 list" where
  "CqPair_bytes r =
    CqInfo_bytes (cqp_x2i_q r) @ CqInfo_bytes (cqp_i2x_q r)"

definition CqPair_of :: "u8 list \<Rightarrow> CqPair" where
  "CqPair_of bs =
    \<lparr>cqp_x2i_q = CqInfo_of bs, cqp_i2x_q = CqInfo_of (drop 16 bs)\<rparr>"

definition sizeof_CqPair :: nat where
  [xdna_consts]: "sizeof_CqPair = 32"

interpretation cqp: wire_codec CqPair_bytes CqPair_of sizeof_CqPair
  by unfold_locales
    (simp_all add: CqPair_bytes_def CqPair_of_def xdna_consts wire_simps cqi.dec_enc cqi.dec_enc_alone)

lemma CqPair_length [simp]: "length (CqPair_bytes r) = 32"
  using cqp.enc_length by (simp add: xdna_consts)

record CreateCtxReq =
  ccq_aie_type :: u32
  ccq_start_col :: u8
  ccq_num_col :: u8
  ccq_num_unused_col :: u8
  ccq_reserved :: u8
  ccq_num_cq_pairs_requested :: u8
  ccq_reserved1 :: u8
  ccq_pasid :: u16
  ccq_pad0 :: u32
  ccq_pad1 :: u32
  ccq_sec_comm_target_type :: u32
  ccq_context_priority :: u32

definition CreateCtxReq_bytes :: "CreateCtxReq \<Rightarrow> u8 list" where
  "CreateCtxReq_bytes r =
    le_bytes 4 (ccq_aie_type r) @ le_bytes 1 (ccq_start_col r) @
    le_bytes 1 (ccq_num_col r) @ le_bytes 1 (ccq_num_unused_col r) @
    le_bytes 1 (ccq_reserved r) @ le_bytes 1 (ccq_num_cq_pairs_requested r) @
    le_bytes 1 (ccq_reserved1 r) @ le_bytes 2 (ccq_pasid r) @ le_bytes 4 (ccq_pad0 r) @
    le_bytes 4 (ccq_pad1 r) @ le_bytes 4 (ccq_sec_comm_target_type r) @
    le_bytes 4 (ccq_context_priority r)"

definition CreateCtxReq_of :: "u8 list \<Rightarrow> CreateCtxReq" where
  "CreateCtxReq_of bs =
    \<lparr>ccq_aie_type = field_at 0 4 bs, ccq_start_col = field_at 4 1 bs,
     ccq_num_col = field_at 5 1 bs, ccq_num_unused_col = field_at 6 1 bs,
     ccq_reserved = field_at 7 1 bs, ccq_num_cq_pairs_requested = field_at 8 1 bs,
     ccq_reserved1 = field_at 9 1 bs, ccq_pasid = field_at 10 2 bs,
     ccq_pad0 = field_at 12 4 bs, ccq_pad1 = field_at 16 4 bs,
     ccq_sec_comm_target_type = field_at 20 4 bs,
     ccq_context_priority = field_at 24 4 bs\<rparr>"

definition sizeof_CreateCtxReq :: nat where
  [xdna_consts]: "sizeof_CreateCtxReq = 28"

interpretation ccq: wire_codec CreateCtxReq_bytes CreateCtxReq_of sizeof_CreateCtxReq
  by unfold_locales
    (simp_all add: CreateCtxReq_bytes_def CreateCtxReq_of_def xdna_consts wire_simps)

lemma CreateCtxReq_length [simp]: "length (CreateCtxReq_bytes r) = 28"
  using ccq.enc_length by (simp add: xdna_consts)

record CreateCtxResp =
  ccr_status :: u32
  ccr_context_id :: u32
  ccr_msix_id :: u16
  ccr_num_cq_pairs_allocated :: u8
  ccr_reserved :: u8
  ccr_cq_pair0 :: CqPair
  ccr_cq_pair1 :: CqPair

definition CreateCtxResp_bytes :: "CreateCtxResp \<Rightarrow> u8 list" where
  "CreateCtxResp_bytes r =
    le_bytes 4 (ccr_status r) @ le_bytes 4 (ccr_context_id r) @
    le_bytes 2 (ccr_msix_id r) @ le_bytes 1 (ccr_num_cq_pairs_allocated r) @
    le_bytes 1 (ccr_reserved r) @ CqPair_bytes (ccr_cq_pair0 r) @
    CqPair_bytes (ccr_cq_pair1 r)"

definition CreateCtxResp_of :: "u8 list \<Rightarrow> CreateCtxResp" where
  "CreateCtxResp_of bs =
    \<lparr>ccr_status = field_at 0 4 bs, ccr_context_id = field_at 4 4 bs,
     ccr_msix_id = field_at 8 2 bs, ccr_num_cq_pairs_allocated = field_at 10 1 bs,
     ccr_reserved = field_at 11 1 bs, ccr_cq_pair0 = CqPair_of (drop 12 bs),
     ccr_cq_pair1 = CqPair_of (drop 44 bs)\<rparr>"

definition sizeof_CreateCtxResp :: nat where
  [xdna_consts]: "sizeof_CreateCtxResp = 76"

interpretation ccr: wire_codec CreateCtxResp_bytes CreateCtxResp_of sizeof_CreateCtxResp
  by unfold_locales
    (simp_all add: CreateCtxResp_bytes_def CreateCtxResp_of_def xdna_consts wire_simps cqp.dec_enc cqp.dec_enc_alone)

lemma CreateCtxResp_length [simp]: "length (CreateCtxResp_bytes r) = 76"
  using ccr.enc_length by (simp add: xdna_consts)

record DestroyCtxReq =
  dcq_context_id :: u32

definition DestroyCtxReq_bytes :: "DestroyCtxReq \<Rightarrow> u8 list" where
  "DestroyCtxReq_bytes r =
    le_bytes 4 (dcq_context_id r)"

definition DestroyCtxReq_of :: "u8 list \<Rightarrow> DestroyCtxReq" where
  "DestroyCtxReq_of bs =
    \<lparr>dcq_context_id = field_at 0 4 bs\<rparr>"

definition sizeof_DestroyCtxReq :: nat where
  [xdna_consts]: "sizeof_DestroyCtxReq = 4"

interpretation dcq: wire_codec DestroyCtxReq_bytes DestroyCtxReq_of sizeof_DestroyCtxReq
  by unfold_locales
    (simp_all add: DestroyCtxReq_bytes_def DestroyCtxReq_of_def xdna_consts wire_simps)

lemma DestroyCtxReq_length [simp]: "length (DestroyCtxReq_bytes r) = 4"
  using dcq.enc_length by (simp add: xdna_consts)

record MapHostBufferReq =
  mhb_context_id :: u32
  mhb_buf_addr :: u64
  mhb_buf_size :: u64

definition MapHostBufferReq_bytes :: "MapHostBufferReq \<Rightarrow> u8 list" where
  "MapHostBufferReq_bytes r =
    le_bytes 4 (mhb_context_id r) @ le_bytes 8 (mhb_buf_addr r) @
    le_bytes 8 (mhb_buf_size r)"

definition MapHostBufferReq_of :: "u8 list \<Rightarrow> MapHostBufferReq" where
  "MapHostBufferReq_of bs =
    \<lparr>mhb_context_id = field_at 0 4 bs, mhb_buf_addr = field_at 4 8 bs,
     mhb_buf_size = field_at 12 8 bs\<rparr>"

definition sizeof_MapHostBufferReq :: nat where
  [xdna_consts]: "sizeof_MapHostBufferReq = 20"

interpretation mhb: wire_codec MapHostBufferReq_bytes MapHostBufferReq_of sizeof_MapHostBufferReq
  by unfold_locales
    (simp_all add: MapHostBufferReq_bytes_def MapHostBufferReq_of_def xdna_consts wire_simps)

lemma MapHostBufferReq_length [simp]: "length (MapHostBufferReq_bytes r) = 20"
  using mhb.enc_length by (simp add: xdna_consts)

record AsyncEventReq =
  aeq_buf_addr :: u64
  aeq_buf_size :: u32

definition AsyncEventReq_bytes :: "AsyncEventReq \<Rightarrow> u8 list" where
  "AsyncEventReq_bytes r =
    le_bytes 8 (aeq_buf_addr r) @ le_bytes 4 (aeq_buf_size r)"

definition AsyncEventReq_of :: "u8 list \<Rightarrow> AsyncEventReq" where
  "AsyncEventReq_of bs =
    \<lparr>aeq_buf_addr = field_at 0 8 bs, aeq_buf_size = field_at 8 4 bs\<rparr>"

definition sizeof_AsyncEventReq :: nat where
  [xdna_consts]: "sizeof_AsyncEventReq = 12"

interpretation aeq: wire_codec AsyncEventReq_bytes AsyncEventReq_of sizeof_AsyncEventReq
  by unfold_locales
    (simp_all add: AsyncEventReq_bytes_def AsyncEventReq_of_def xdna_consts wire_simps)

lemma AsyncEventReq_length [simp]: "length (AsyncEventReq_bytes r) = 12"
  using aeq.enc_length by (simp add: xdna_consts)

record AsyncEventResp =
  aer_status :: u32
  aer_type :: u32

definition AsyncEventResp_bytes :: "AsyncEventResp \<Rightarrow> u8 list" where
  "AsyncEventResp_bytes r =
    le_bytes 4 (aer_status r) @ le_bytes 4 (aer_type r)"

definition AsyncEventResp_of :: "u8 list \<Rightarrow> AsyncEventResp" where
  "AsyncEventResp_of bs =
    \<lparr>aer_status = field_at 0 4 bs, aer_type = field_at 4 4 bs\<rparr>"

definition sizeof_AsyncEventResp :: nat where
  [xdna_consts]: "sizeof_AsyncEventResp = 8"

interpretation aer: wire_codec AsyncEventResp_bytes AsyncEventResp_of sizeof_AsyncEventResp
  by unfold_locales
    (simp_all add: AsyncEventResp_bytes_def AsyncEventResp_of_def xdna_consts wire_simps)

lemma AsyncEventResp_length [simp]: "length (AsyncEventResp_bytes r) = 8"
  using aer.enc_length by (simp add: xdna_consts)

record ColumnInfoReq =
  ciq_dump_buff_addr :: u64
  ciq_dump_buff_size :: u32
  ciq_num_cols :: u32
  ciq_aie_bitmap :: u32

definition ColumnInfoReq_bytes :: "ColumnInfoReq \<Rightarrow> u8 list" where
  "ColumnInfoReq_bytes r =
    le_bytes 8 (ciq_dump_buff_addr r) @ le_bytes 4 (ciq_dump_buff_size r) @
    le_bytes 4 (ciq_num_cols r) @ le_bytes 4 (ciq_aie_bitmap r)"

definition ColumnInfoReq_of :: "u8 list \<Rightarrow> ColumnInfoReq" where
  "ColumnInfoReq_of bs =
    \<lparr>ciq_dump_buff_addr = field_at 0 8 bs, ciq_dump_buff_size = field_at 8 4 bs,
     ciq_num_cols = field_at 12 4 bs, ciq_aie_bitmap = field_at 16 4 bs\<rparr>"

definition sizeof_ColumnInfoReq :: nat where
  [xdna_consts]: "sizeof_ColumnInfoReq = 20"

interpretation ciq: wire_codec ColumnInfoReq_bytes ColumnInfoReq_of sizeof_ColumnInfoReq
  by unfold_locales
    (simp_all add: ColumnInfoReq_bytes_def ColumnInfoReq_of_def xdna_consts wire_simps)

lemma ColumnInfoReq_length [simp]: "length (ColumnInfoReq_bytes r) = 20"
  using ciq.enc_length by (simp add: xdna_consts)

record ColumnInfoResp =
  cir_status :: u32
  cir_size :: u32

definition ColumnInfoResp_bytes :: "ColumnInfoResp \<Rightarrow> u8 list" where
  "ColumnInfoResp_bytes r =
    le_bytes 4 (cir_status r) @ le_bytes 4 (cir_size r)"

definition ColumnInfoResp_of :: "u8 list \<Rightarrow> ColumnInfoResp" where
  "ColumnInfoResp_of bs =
    \<lparr>cir_status = field_at 0 4 bs, cir_size = field_at 4 4 bs\<rparr>"

definition sizeof_ColumnInfoResp :: nat where
  [xdna_consts]: "sizeof_ColumnInfoResp = 8"

interpretation cir: wire_codec ColumnInfoResp_bytes ColumnInfoResp_of sizeof_ColumnInfoResp
  by unfold_locales
    (simp_all add: ColumnInfoResp_bytes_def ColumnInfoResp_of_def xdna_consts wire_simps)

lemma ColumnInfoResp_length [simp]: "length (ColumnInfoResp_bytes r) = 8"
  using cir.enc_length by (simp add: xdna_consts)

record TelemetryReq =
  tlq_type :: u32
  tlq_buf_addr :: u64
  tlq_buf_size :: u32

definition TelemetryReq_bytes :: "TelemetryReq \<Rightarrow> u8 list" where
  "TelemetryReq_bytes r =
    le_bytes 4 (tlq_type r) @ le_bytes 8 (tlq_buf_addr r) @ le_bytes 4 (tlq_buf_size r)"

definition TelemetryReq_of :: "u8 list \<Rightarrow> TelemetryReq" where
  "TelemetryReq_of bs =
    \<lparr>tlq_type = field_at 0 4 bs, tlq_buf_addr = field_at 4 8 bs,
     tlq_buf_size = field_at 12 4 bs\<rparr>"

definition sizeof_TelemetryReq :: nat where
  [xdna_consts]: "sizeof_TelemetryReq = 16"

interpretation tlq: wire_codec TelemetryReq_bytes TelemetryReq_of sizeof_TelemetryReq
  by unfold_locales
    (simp_all add: TelemetryReq_bytes_def TelemetryReq_of_def xdna_consts wire_simps)

lemma TelemetryReq_length [simp]: "length (TelemetryReq_bytes r) = 16"
  using tlq.enc_length by (simp add: xdna_consts)

record TelemetryResp =
  tlr_major :: u32
  tlr_minor :: u32
  tlr_size :: u32
  tlr_status :: u32

definition TelemetryResp_bytes :: "TelemetryResp \<Rightarrow> u8 list" where
  "TelemetryResp_bytes r =
    le_bytes 4 (tlr_major r) @ le_bytes 4 (tlr_minor r) @ le_bytes 4 (tlr_size r) @
    le_bytes 4 (tlr_status r)"

definition TelemetryResp_of :: "u8 list \<Rightarrow> TelemetryResp" where
  "TelemetryResp_of bs =
    \<lparr>tlr_major = field_at 0 4 bs, tlr_minor = field_at 4 4 bs,
     tlr_size = field_at 8 4 bs, tlr_status = field_at 12 4 bs\<rparr>"

definition sizeof_TelemetryResp :: nat where
  [xdna_consts]: "sizeof_TelemetryResp = 16"

interpretation tlr: wire_codec TelemetryResp_bytes TelemetryResp_of sizeof_TelemetryResp
  by unfold_locales
    (simp_all add: TelemetryResp_bytes_def TelemetryResp_of_def xdna_consts wire_simps)

lemma TelemetryResp_length [simp]: "length (TelemetryResp_bytes r) = 16"
  using tlr.enc_length by (simp add: xdna_consts)

subsection \<open>The static assertions\<close>

text \<open>The assertions of the C file on the sizes of its structures.\<close>

definition static_asserts :: bool where
  "static_asserts \<longleftrightarrow> sizeof_ProtocolVersionResp = 12 \<and>
     sizeof_FirmwareVersionResp = 20 \<and>
     sizeof_AieVersionResp = 8 \<and>
     sizeof_AieTileInfo = 44 \<and>
     sizeof_AieTileInfoResp = 48 \<and>
     sizeof_StatusOnlyResp = 4 \<and>
     sizeof_GetRuntimeCfgResp = 12 \<and>
     sizeof_CreateCtxReq = 28 \<and>
     sizeof_CreateCtxResp = 76 \<and>
     sizeof_MapHostBufferReq = 20 \<and>
     sizeof_AsyncEventResp = 8 \<and>
     sizeof_ColumnInfoResp = 8 \<and>
     sizeof_TelemetryResp = 16"

lemma static_asserts_hold: static_asserts
  by (simp add: static_asserts_def xdna_consts)

end
