(* ===== verification/Xdna_Mert.thy ===== *)
theory Xdna_Mert
  imports Xdna_Wire
begin

text \<open>
  The management firmware's message handlers (\<open>src/xdna_mert.c\<close>): the table of reply sizes,
  replies, the context table, one definition per message of the dispatcher's switch, and the
  dispatcher \<open>xdna_mert_handle\<close>.  A handler takes the device state, the channel the message
  came on, its header and its payload, and returns the new state; the reply it sends goes
  through \<open>xdna_mbox_send\<close>, whose return code the C code ignores.
\<close>

definition XDNA_COL_STATUS_SIZE :: u32 where
  [xdna_consts]: "XDNA_COL_STATUS_SIZE = 0x2000"

subsection \<open>Replies\<close>

definition mert_reply ::
  "'h xdna_npu \<Rightarrow> nat \<Rightarrow> xdna_msg_header \<Rightarrow> u8 list \<Rightarrow> 'h xdna_npu" where
  "mert_reply npu k hdr payload =
     snd (xdna_mbox_send npu k (msg_id hdr) (opcode hdr) payload)"

text \<open>The size of an opcode's reply and the offset of its status field.\<close>

definition resp_size_for :: "u32 \<Rightarrow> nat \<times> nat" where
  "resp_size_for opc =
     (case opcode_of opc of
        Some MSG_OP_GET_PROTOCOL_VERSION \<Rightarrow> (sizeof_ProtocolVersionResp, 0)
      | Some MSG_OP_GET_FIRMWARE_VERSION \<Rightarrow> (sizeof_FirmwareVersionResp, 0)
      | Some MSG_OP_QUERY_AIE_VERSION \<Rightarrow> (sizeof_AieVersionResp, 0)
      | Some MSG_OP_QUERY_AIE_TILE_INFO \<Rightarrow> (sizeof_AieTileInfoResp, 0)
      | Some MSG_OP_QUERY_COL_STATUS \<Rightarrow> (sizeof_ColumnInfoResp, 0)
      | Some MSG_OP_GET_RUNTIME_CONFIG \<Rightarrow> (sizeof_GetRuntimeCfgResp, 0)
      | Some MSG_OP_GET_TELEMETRY \<Rightarrow> (sizeof_TelemetryResp, 12)
      | Some MSG_OP_CREATE_CONTEXT \<Rightarrow> (sizeof_CreateCtxResp, 0)
      | Some MSG_OP_REGISTER_ASYNC_EVENT_MSG \<Rightarrow> (sizeof_AsyncEventResp, 0)
      | Some MSG_OP_GET_APP_HEALTH \<Rightarrow> (36, 0)
      | Some MSG_OP_GET_DEV_REVISION \<Rightarrow> (12, 0)
      | Some MSG_OP_CHAIN_EXEC_BUFFER_CF \<Rightarrow> (12, 0)
      | Some MSG_OP_CHAIN_EXEC_DPU \<Rightarrow> (12, 0)
      | Some MSG_OP_CHAIN_EXEC_NPU \<Rightarrow> (12, 0)
      | _ \<Rightarrow> (sizeof_StatusOnlyResp, 0))"

definition status_reply_bytes :: "u32 \<Rightarrow> xdna_msg_status \<Rightarrow> u8 list" where
  "status_reply_bytes opc status =
     (let (size, status_off) = resp_size_for opc;
          buf = replicate 128 0
      in take size (take status_off buf @ le_bytes 4 (status_val status) @
                    drop (status_off + 4) buf))"

definition mert_reply_status ::
  "'h xdna_npu \<Rightarrow> nat \<Rightarrow> xdna_msg_header \<Rightarrow> xdna_msg_status \<Rightarrow> 'h xdna_npu" where
  "mert_reply_status npu k hdr status =
     (if fst (resp_size_for (opcode hdr)) > 128
      then xdna_log npu XDNA_LOG_ERROR
             (Log_mert_reply_buf (word_of_nat (fst (resp_size_for (opcode hdr)))))
      else mert_reply npu k hdr (status_reply_bytes (opcode hdr) status))"

definition fill_tile_info :: AieTileInfo where
  "fill_tile_info =
     \<lparr>ati_size = XDNA_COL_STATUS_SIZE,
      ati_major = ucast XDNA_AIE_VERSION_MAJOR, ati_minor = ucast XDNA_AIE_VERSION_MINOR,
      ati_cols = ucast XDNA_AIE_COLS, ati_rows = ucast XDNA_AIE_ROWS,
      ati_core_rows = ucast XDNA_AIE_CORE_ROWS, ati_mem_rows = ucast XDNA_AIE_MEM_ROWS,
      ati_shim_rows = ucast XDNA_AIE_SHIM_ROWS,
      ati_core_row_start = ucast XDNA_AIE_CORE_ROW_START,
      ati_mem_row_start = ucast XDNA_AIE_MEM_ROW_START,
      ati_shim_row_start = ucast XDNA_AIE_SHIM_ROW_START,
      ati_core_dma_channels = 2, ati_mem_dma_channels = 6, ati_shim_dma_channels = 2,
      ati_core_locks = 16, ati_mem_locks = 64, ati_shim_locks = 16,
      ati_core_events = 128, ati_mem_events = 128, ati_shim_events = 128, ati_reserved = 0\<rparr>"

subsection \<open>Contexts\<close>

definition ctx_by_id :: "'h xdna_npu \<Rightarrow> u32 \<Rightarrow> nat option" where
  "ctx_by_id npu cid =
     find (\<lambda>i. ctx_valid (ctx npu i) \<and> ctx_id (ctx npu i) = cid) [0..<XDNA_NPU1_HWCTX_LIMIT]"

definition free_slot :: "'h xdna_npu \<Rightarrow> nat option" where
  "free_slot npu = find (\<lambda>slot. \<not> ctx_valid (ctx npu slot)) [0..<XDNA_NPU1_HWCTX_LIMIT]"

definition ctx_rb_base :: "nat \<Rightarrow> u32" where
  "ctx_rb_base slot = XDNA_SRAM_CTX_RB_BASE + word_of_nat slot * XDNA_SRAM_CTX_RB_STRIDE"

text \<open>The channel of a new context: reset, activated, its two rings placed and cleared.\<close>

definition ctx_open_channel :: "'h xdna_npu \<Rightarrow> nat \<Rightarrow> 'h xdna_npu" where
  "ctx_open_channel npu slot =
     (let chan_idx = slot + 1;
          rb_base = ctx_rb_base slot;
          npu1 = xdna_mbox_channel_reset npu chan_idx;
          npu2 = npu1\<lparr>chan := (chan npu1)(chan_idx := (chan npu1 chan_idx)
                   \<lparr>ch_active := True, ch_index := chan_idx,
                    x2i_buf := rb_base, x2i_size := XDNA_SRAM_CTX_RB_SIZE,
                    i2x_buf := rb_base + XDNA_SRAM_CTX_RB_SIZE,
                    i2x_size := XDNA_SRAM_CTX_RB_SIZE\<rparr>)\<rparr>
      in sram_store npu2 (unat rb_base) (replicate (unat XDNA_SRAM_CTX_RB_STRIDE) 0))"

definition ctx_fill_slot :: "'h xdna_npu \<Rightarrow> nat \<Rightarrow> CreateCtxReq \<Rightarrow> 'h xdna_npu" where
  "ctx_fill_slot npu slot req =
     npu\<lparr>ctx := (ctx npu)(slot := \<lparr>ctx_valid = True, ctx_id = next_ctx_id npu,
            ctx_pasid = ccq_pasid req, ctx_start_col = ccq_start_col req,
            ctx_num_col = ccq_num_col req, ctx_priority = ccq_context_priority req,
            ctx_chan = slot + 1, heap_addr = 0, heap_size = 0\<rparr>),
         next_ctx_id := next_ctx_id npu + 1,
         stats := (stats npu)\<lparr>active_contexts := active_contexts (stats npu) + 1\<rparr>\<rparr>"

definition zero_cq_pair :: CqPair where
  "zero_cq_pair =
     \<lparr>cqp_x2i_q = \<lparr>cqi_head_addr = 0, cqi_tail_addr = 0, cqi_buf_addr = 0, cqi_buf_size = 0\<rparr>,
      cqp_i2x_q = \<lparr>cqi_head_addr = 0, cqi_tail_addr = 0, cqi_buf_addr = 0, cqi_buf_size = 0\<rparr>\<rparr>"

definition create_ctx_resp :: "'h xdna_npu \<Rightarrow> nat \<Rightarrow> CreateCtxResp" where
  "create_ctx_resp npu slot =
     (let chan_idx = slot + 1;
          cch = chan npu chan_idx;
          chan_base = XDNA_MBOX_CHAN_BASE (word_of_nat chan_idx)
      in \<lparr>ccr_status = status_val AIE2_STATUS_SUCCESS,
          ccr_context_id = ctx_id (ctx npu slot),
          ccr_msix_id = word_of_nat chan_idx,
          ccr_num_cq_pairs_allocated = 1,
          ccr_reserved = 0,
          ccr_cq_pair0 =
            \<lparr>cqp_x2i_q =
               \<lparr>cqi_head_addr = xdna_mbox_dev_addr (chan_base + XDNA_MBOX_X2I_HEAD_OFF),
                cqi_tail_addr = xdna_mbox_dev_addr (chan_base + XDNA_MBOX_X2I_TAIL_OFF),
                cqi_buf_addr = xdna_sram_dev_addr (x2i_buf cch),
                cqi_buf_size = x2i_size cch\<rparr>,
             cqp_i2x_q =
               \<lparr>cqi_head_addr = xdna_mbox_dev_addr (chan_base + XDNA_MBOX_I2X_HEAD_OFF),
                cqi_tail_addr = xdna_mbox_dev_addr (chan_base + XDNA_MBOX_I2X_TAIL_OFF),
                cqi_buf_addr = xdna_sram_dev_addr (i2x_buf cch),
                cqi_buf_size = i2x_size cch\<rparr>\<rparr>,
          ccr_cq_pair1 = zero_cq_pair\<rparr>)"

definition handle_create_context ::
  "'h xdna_npu \<Rightarrow> nat \<Rightarrow> xdna_msg_header \<Rightarrow> u8 list \<Rightarrow> 'h xdna_npu" where
  "handle_create_context npu k hdr payload =
     (if unat (total_size hdr) < sizeof_CreateCtxReq
      then mert_reply_status npu k hdr AIE2_STATUS_INVALID_INPUT_BUFFER
      else let req = CreateCtxReq_of payload in
      case free_slot npu of
        None \<Rightarrow>
          mert_reply_status
            (xdna_log npu XDNA_LOG_ERROR (Log_mert_ctx_limit XDNA_NPU1_HWCTX_LIMIT))
            k hdr AIE2_STATUS_MGMT_ERT_NOAVAIL
      | Some slot \<Rightarrow>
          if ccq_num_col req = 0 \<or> ucast (ccq_num_col req) > XDNA_AIE_COLS
          then mert_reply_status npu k hdr AIE2_STATUS_MGMT_ERT_INVALID_PARAM
          else let npu1 = ctx_fill_slot (ctx_open_channel npu slot) slot req;
                   npu2 = xdna_log npu1 XDNA_LOG_INFO
                     (Log_mert_ctx_created (ctx_id (ctx npu1 slot)) (ccq_start_col req)
                        (ccq_num_col req) (ccq_pasid req) (slot + 1))
               in mert_reply npu2 k hdr (CreateCtxResp_bytes (create_ctx_resp npu1 slot)))"

definition ctx_destroy_slot :: "'h xdna_npu \<Rightarrow> nat \<Rightarrow> 'h xdna_npu" where
  "ctx_destroy_slot npu slot =
     (let npu1 = xdna_mbox_channel_reset npu (ctx_chan (ctx npu slot));
          npu2 = npu1\<lparr>ctx := (ctx npu1)(slot := (ctx npu1 slot)\<lparr>ctx_valid := False\<rparr>)\<rparr>
      in if active_contexts (stats npu2) \<noteq> 0
         then npu2\<lparr>stats := (stats npu2)
                \<lparr>active_contexts := active_contexts (stats npu2) - 1\<rparr>\<rparr>
         else npu2)"

definition handle_destroy_context ::
  "'h xdna_npu \<Rightarrow> nat \<Rightarrow> xdna_msg_header \<Rightarrow> u8 list \<Rightarrow> 'h xdna_npu" where
  "handle_destroy_context npu k hdr payload =
     (if unat (total_size hdr) < sizeof_DestroyCtxReq
      then mert_reply_status npu k hdr AIE2_STATUS_INVALID_INPUT_BUFFER
      else let cid = dcq_context_id (DestroyCtxReq_of payload) in
      case ctx_by_id npu cid of
        None \<Rightarrow>
          mert_reply_status (xdna_log npu XDNA_LOG_ERROR (Log_mert_ctx_unknown cid)) k hdr
            AIE2_STATUS_MGMT_ERT_INVALID_PARAM
      | Some slot \<Rightarrow>
          mert_reply_status
            (xdna_log (ctx_destroy_slot npu slot) XDNA_LOG_INFO (Log_mert_ctx_destroyed cid))
            k hdr AIE2_STATUS_SUCCESS)"

subsection \<open>The other messages\<close>

definition handle_get_protocol_version ::
  "'h xdna_npu \<Rightarrow> nat \<Rightarrow> xdna_msg_header \<Rightarrow> 'h xdna_npu" where
  "handle_get_protocol_version npu k hdr =
     mert_reply npu k hdr (ProtocolVersionResp_bytes
       \<lparr>pvr_status = status_val AIE2_STATUS_SUCCESS, pvr_major = XDNA_MGMT_PROT_MAJOR,
        pvr_minor = XDNA_MGMT_PROT_MINOR\<rparr>)"

definition handle_get_firmware_version ::
  "'h xdna_npu \<Rightarrow> nat \<Rightarrow> xdna_msg_header \<Rightarrow> 'h xdna_npu" where
  "handle_get_firmware_version npu k hdr =
     mert_reply npu k hdr (FirmwareVersionResp_bytes
       \<lparr>fvr_status = status_val AIE2_STATUS_SUCCESS, fvr_major = XDNA_FW_VER_MAJOR,
        fvr_minor = XDNA_FW_VER_MINOR, fvr_sub = XDNA_FW_VER_SUB,
        fvr_build = XDNA_FW_VER_BUILD\<rparr>)"

definition handle_query_aie_version ::
  "'h xdna_npu \<Rightarrow> nat \<Rightarrow> xdna_msg_header \<Rightarrow> 'h xdna_npu" where
  "handle_query_aie_version npu k hdr =
     mert_reply npu k hdr (AieVersionResp_bytes
       \<lparr>avr_status = status_val AIE2_STATUS_SUCCESS, avr_major = ucast XDNA_AIE_VERSION_MAJOR,
        avr_minor = ucast XDNA_AIE_VERSION_MINOR\<rparr>)"

definition handle_query_tile_info ::
  "'h xdna_npu \<Rightarrow> nat \<Rightarrow> xdna_msg_header \<Rightarrow> 'h xdna_npu" where
  "handle_query_tile_info npu k hdr =
     mert_reply npu k hdr (AieTileInfoResp_bytes
       \<lparr>atr_status = status_val AIE2_STATUS_SUCCESS, atr_info = fill_tile_info\<rparr>)"

definition RT_CFG_LEN :: nat where
  [xdna_consts]: "RT_CFG_LEN = 64"

definition handle_set_runtime_config ::
  "'h xdna_npu \<Rightarrow> nat \<Rightarrow> xdna_msg_header \<Rightarrow> u8 list \<Rightarrow> 'h xdna_npu" where
  "handle_set_runtime_config npu k hdr payload =
     (if unat (total_size hdr) < sizeof_SetRuntimeCfgReq
      then mert_reply_status npu k hdr AIE2_STATUS_INVALID_INPUT_BUFFER
      else let req = SetRuntimeCfgReq_of payload in
      if unat (src_type req) \<ge> RT_CFG_LEN
      then mert_reply_status (xdna_log npu XDNA_LOG_WARN (Log_mert_rt_type (src_type req)))
             k hdr AIE2_STATUS_INVALID_PARAM
      else mert_reply_status
             (xdna_log (npu\<lparr>rt_cfg := (rt_cfg npu)(unat (src_type req) := src_value req)\<rparr>)
                XDNA_LOG_DEBUG (Log_mert_rt_set (src_type req) (src_value req)))
             k hdr AIE2_STATUS_SUCCESS)"

definition handle_get_runtime_config ::
  "'h xdna_npu \<Rightarrow> nat \<Rightarrow> xdna_msg_header \<Rightarrow> u8 list \<Rightarrow> 'h xdna_npu" where
  "handle_get_runtime_config npu k hdr payload =
     (if unat (total_size hdr) < sizeof_GetRuntimeCfgReq
      then mert_reply_status npu k hdr AIE2_STATUS_INVALID_INPUT_BUFFER
      else let req = GetRuntimeCfgReq_of payload;
               resp = (if unat (grc_type req) \<ge> RT_CFG_LEN
                       then \<lparr>grr_status = status_val AIE2_STATUS_INVALID_PARAM, grr_value = 0\<rparr>
                       else \<lparr>grr_status = status_val AIE2_STATUS_SUCCESS,
                             grr_value = rt_cfg npu (unat (grc_type req))\<rparr>)
           in mert_reply npu k hdr (GetRuntimeCfgResp_bytes resp))"

definition handle_assign_mgmt_pasid ::
  "'h xdna_npu \<Rightarrow> nat \<Rightarrow> xdna_msg_header \<Rightarrow> u8 list \<Rightarrow> 'h xdna_npu" where
  "handle_assign_mgmt_pasid npu k hdr payload =
     (if unat (total_size hdr) < sizeof_AssignPasidReq
      then mert_reply_status npu k hdr AIE2_STATUS_INVALID_INPUT_BUFFER
      else let req = AssignPasidReq_of payload
           in mert_reply_status
                (xdna_log (npu\<lparr>mgmt_pasid := apr_pasid req\<rparr>) XDNA_LOG_INFO
                   (Log_mert_pasid (apr_pasid req)))
                k hdr AIE2_STATUS_SUCCESS)"

definition handle_map_host_buffer ::
  "'h xdna_npu \<Rightarrow> nat \<Rightarrow> xdna_msg_header \<Rightarrow> u8 list \<Rightarrow> 'h xdna_npu" where
  "handle_map_host_buffer npu k hdr payload =
     (if unat (total_size hdr) < sizeof_MapHostBufferReq
      then mert_reply_status npu k hdr AIE2_STATUS_INVALID_INPUT_BUFFER
      else let req = MapHostBufferReq_of payload in
      case ctx_by_id npu (mhb_context_id req) of
        None \<Rightarrow> mert_reply_status npu k hdr AIE2_STATUS_MGMT_ERT_INVALID_PARAM
      | Some slot \<Rightarrow>
          mert_reply_status
            (xdna_log
               (npu\<lparr>ctx := (ctx npu)(slot := (ctx npu slot)
                      \<lparr>heap_addr := mhb_buf_addr req, heap_size := mhb_buf_size req\<rparr>)\<rparr>)
               XDNA_LOG_INFO
               (Log_mert_heap (mhb_context_id req) (mhb_buf_addr req) (mhb_buf_size req)))
            k hdr AIE2_STATUS_SUCCESS)"

definition handle_register_async ::
  "'h xdna_npu \<Rightarrow> nat \<Rightarrow> xdna_msg_header \<Rightarrow> u8 list \<Rightarrow> 'h xdna_npu" where
  "handle_register_async npu k hdr payload =
     (if unat (total_size hdr) < sizeof_AsyncEventReq
      then mert_reply_status npu k hdr AIE2_STATUS_INVALID_INPUT_BUFFER
      else let req = AsyncEventReq_of payload
           in xdna_log
                (npu\<lparr>async_buf_addr := aeq_buf_addr req, async_buf_size := aeq_buf_size req,
                     async_registered := True\<rparr>)
                XDNA_LOG_DEBUG (Log_mert_async (aeq_buf_addr req)))"

text \<open>
  The zero dump of a column status query: 256 bytes at a time until the buffer is full or a
  write fails.  The result is the count of bytes written, whether a write failed, and the host.
\<close>

function col_dump ::
  "('h \<Rightarrow> u64 \<Rightarrow> u8 list \<Rightarrow> int \<times> 'h) \<Rightarrow> u64 \<Rightarrow> u32 \<Rightarrow> u32 \<Rightarrow> 'h \<Rightarrow> u32 \<times> bool \<times> 'h" where
  "col_dump dma addr len cnt h =
     (if cnt < len
      then let n = (if len - cnt > 256 then 256 else len - cnt);
               (rc, h') = dma h (addr + ucast cnt) (replicate (unat n) 0)
           in if rc \<noteq> 0 then (cnt, True, h') else col_dump dma addr len (cnt + n) h'
      else (cnt, False, h))"
  by pat_completeness auto
termination
proof (relation "measure (\<lambda>(dma, addr, len, cnt, h). unat (len - cnt))")
  fix dma :: "'h \<Rightarrow> u64 \<Rightarrow> u8 list \<Rightarrow> int \<times> 'h" and addr :: u64 and len cnt n :: u32
    and h h' :: 'h and x :: "int \<times> 'h" and rc :: int
  assume less: "cnt < len" and n: "n = (if len - cnt > 256 then 256 else len - cnt)"
  have le: "n \<le> len - cnt" and pos: "0 < n"
    using less by (auto simp: n word_gt_0)
  have "unat (len - (cnt + n)) = unat (len - cnt) - unat n"
    using unat_sub [OF le] by (simp add: diff_diff_eq)
  moreover have "0 < unat n" "unat n \<le> unat (len - cnt)"
    using le pos by (simp_all add: word_le_nat_alt unat_gt_0 word_gt_0)
  ultimately show "((dma, addr, len, cnt + n, h'), dma, addr, len, cnt, h)
      \<in> measure (\<lambda>(dma, addr, len, cnt, h). unat (len - cnt))"
    by simp
qed simp

declare col_dump.simps [simp del]

definition handle_query_col_status ::
  "'h xdna_npu \<Rightarrow> nat \<Rightarrow> xdna_msg_header \<Rightarrow> u8 list \<Rightarrow> 'h xdna_npu" where
  "handle_query_col_status npu k hdr payload =
     (if unat (total_size hdr) < sizeof_ColumnInfoReq
      then mert_reply_status npu k hdr AIE2_STATUS_INVALID_INPUT_BUFFER
      else let req = ColumnInfoReq_of payload in
      if ciq_dump_buff_addr req = 0 \<or> ciq_dump_buff_size req = 0
      then mert_reply npu k hdr (ColumnInfoResp_bytes
             \<lparr>cir_status = status_val AIE2_STATUS_INVALID_PARAM, cir_size = 0\<rparr>)
      else case dma_write (ops npu) of
        None \<Rightarrow>
          mert_reply npu k hdr (ColumnInfoResp_bytes
            \<lparr>cir_status = status_val AIE2_STATUS_AIE_DMA_ERROR, cir_size = 0\<rparr>)
      | Some dma \<Rightarrow>
          let (cnt, failed, h) =
                col_dump dma (ciq_dump_buff_addr req) (ciq_dump_buff_size req) 0 (opaque npu);
              status = (if cnt = ciq_dump_buff_size req then status_val AIE2_STATUS_SUCCESS
                        else if failed then status_val AIE2_STATUS_AIE_DMA_ERROR else 0)
          in mert_reply (npu\<lparr>opaque := h\<rparr>) k hdr
               (ColumnInfoResp_bytes \<lparr>cir_status = status, cir_size = cnt\<rparr>))"

definition handle_get_telemetry ::
  "'h xdna_npu \<Rightarrow> nat \<Rightarrow> xdna_msg_header \<Rightarrow> 'h xdna_npu" where
  "handle_get_telemetry npu k hdr =
     mert_reply npu k hdr (TelemetryResp_bytes
       \<lparr>tlr_major = 1, tlr_minor = 0, tlr_size = 0,
        tlr_status = status_val AIE2_STATUS_SUCCESS\<rparr>)"

definition handle_array_stage ::
  "'h xdna_npu \<Rightarrow> nat \<Rightarrow> xdna_msg_header \<Rightarrow> 'h xdna_npu" where
  "handle_array_stage npu k hdr =
     mert_reply_status
       (xdna_log npu XDNA_LOG_WARN (Log_mert_array_stage (opcode hdr)))
       k hdr AIE2_STATUS_INVALID_OPERATION"

definition handle_unknown_opcode ::
  "'h xdna_npu \<Rightarrow> nat \<Rightarrow> xdna_msg_header \<Rightarrow> 'h xdna_npu" where
  "handle_unknown_opcode npu k hdr =
     mert_reply_status
       (xdna_log npu XDNA_LOG_WARN (Log_mert_unknown_op (opcode hdr)))
       k hdr AIE2_STATUS_INVALID_COMMAND"

subsection \<open>The dispatcher\<close>

definition xdna_mert_handle ::
  "'h xdna_npu \<Rightarrow> nat \<Rightarrow> xdna_msg_header \<Rightarrow> u8 list \<Rightarrow> 'h xdna_npu" where
  "xdna_mert_handle npu k hdr payload =
     (if \<not> fw_alive npu
      then xdna_log npu XDNA_LOG_ERROR (Log_mert_fw_not_alive (opcode hdr))
      else case opcode_of (opcode hdr) of
        Some MSG_OP_GET_PROTOCOL_VERSION \<Rightarrow> handle_get_protocol_version npu k hdr
      | Some MSG_OP_GET_FIRMWARE_VERSION \<Rightarrow> handle_get_firmware_version npu k hdr
      | Some MSG_OP_QUERY_AIE_VERSION \<Rightarrow> handle_query_aie_version npu k hdr
      | Some MSG_OP_QUERY_AIE_TILE_INFO \<Rightarrow> handle_query_tile_info npu k hdr
      | Some MSG_OP_SET_RUNTIME_CONFIG \<Rightarrow> handle_set_runtime_config npu k hdr payload
      | Some MSG_OP_GET_RUNTIME_CONFIG \<Rightarrow> handle_get_runtime_config npu k hdr payload
      | Some MSG_OP_ASSIGN_MGMT_PASID \<Rightarrow> handle_assign_mgmt_pasid npu k hdr payload
      | Some MSG_OP_SUSPEND \<Rightarrow>
          mert_reply_status (npu\<lparr>fw_suspended := True\<rparr>) k hdr AIE2_STATUS_SUCCESS
      | Some MSG_OP_RESUME \<Rightarrow>
          mert_reply_status (npu\<lparr>fw_suspended := False\<rparr>) k hdr AIE2_STATUS_SUCCESS
      | Some MSG_OP_INVOKE_SELF_TEST \<Rightarrow> mert_reply_status npu k hdr AIE2_STATUS_SUCCESS
      | Some MSG_OP_CREATE_CONTEXT \<Rightarrow> handle_create_context npu k hdr payload
      | Some MSG_OP_DESTROY_CONTEXT \<Rightarrow> handle_destroy_context npu k hdr payload
      | Some MSG_OP_MAP_HOST_BUFFER \<Rightarrow> handle_map_host_buffer npu k hdr payload
      | Some MSG_OP_ADD_HOST_BUFFER \<Rightarrow> handle_map_host_buffer npu k hdr payload
      | Some MSG_OP_REGISTER_ASYNC_EVENT_MSG \<Rightarrow> handle_register_async npu k hdr payload
      | Some MSG_OP_QUERY_COL_STATUS \<Rightarrow> handle_query_col_status npu k hdr payload
      | Some MSG_OP_GET_TELEMETRY \<Rightarrow> handle_get_telemetry npu k hdr
      | Some MSG_OP_CONFIG_CU \<Rightarrow> handle_array_stage npu k hdr
      | Some MSG_OP_EXECUTE_BUFFER_CF \<Rightarrow> handle_array_stage npu k hdr
      | Some MSG_OP_EXEC_DPU \<Rightarrow> handle_array_stage npu k hdr
      | Some MSG_OP_CHAIN_EXEC_BUFFER_CF \<Rightarrow> handle_array_stage npu k hdr
      | Some MSG_OP_CHAIN_EXEC_DPU \<Rightarrow> handle_array_stage npu k hdr
      | Some MSG_OP_CHAIN_EXEC_NPU \<Rightarrow> handle_array_stage npu k hdr
      | Some MSG_OP_SYNC_BO \<Rightarrow> handle_array_stage npu k hdr
      | Some MSG_OP_CONFIG_DEBUG_BO \<Rightarrow> handle_array_stage npu k hdr
      | _ \<Rightarrow> handle_unknown_opcode npu k hdr)"

end
