(* ===== verification/Xdna_Rx.thy ===== *)
theory Xdna_Rx
  imports Xdna_Mert
begin

text \<open>
  The receiving half of the mailbox (\<open>src/xdna_mailbox.c\<close>): the loop that consumes the
  messages of a channel's x2i ring and hands each to the message dispatcher, and the MBOX BAR
  register writes, one of which starts it.  The C loop counts its iterations and gives up at
  the 257th; the fuel of \<open>mbox_rx_loop\<close> is that counter, so running out of fuel is a branch
  of the code and not of the model.
\<close>

definition MBOX_MAX_MSG_PER_KICK :: nat where
  [xdna_consts]: "MBOX_MAX_MSG_PER_KICK = 256"

definition MBOX_PAYLOAD_MAX :: u32 where
  [xdna_consts]: "MBOX_PAYLOAD_MAX = XDNA_SRAM_CTX_RB_SIZE"

definition set_x2i_head :: "'h xdna_npu \<Rightarrow> nat \<Rightarrow> u32 \<Rightarrow> 'h xdna_npu" where
  "set_x2i_head npu k v = npu\<lparr>chan := (chan npu)(k := (chan npu k)\<lparr>x2i_head := v\<rparr>)\<rparr>"

definition count_msg_in :: "'h xdna_npu \<Rightarrow> 'h xdna_npu" where
  "count_msg_in npu =
     npu\<lparr>stats := (stats npu)\<lparr>mbox_msgs_in := mbox_msgs_in (stats npu) + 1\<rparr>\<rparr>"

text \<open>One iteration of the loop either goes round again or returns from the function.\<close>

datatype 'h rx_outcome = Rx_again "'h xdna_npu" | Rx_stop "'h xdna_npu"

definition mbox_rx_one :: "'h xdna_npu \<Rightarrow> nat \<Rightarrow> 'h rx_outcome" where
  "mbox_rx_one npu k =
     (let ch = chan npu k in
      if x2i_head ch \<ge> x2i_size ch then Rx_again (set_x2i_head npu k 0)
      else let (peek, npu1) = xdna_sram_read32 npu (x2i_buf ch + x2i_head ch) in
      if peek = XDNA_MBOX_TOMBSTONE then Rx_again (set_x2i_head npu1 k 0)
      else if peek = 0 \<or> peek AND 3 \<noteq> 0
      then Rx_stop (xdna_log npu1 XDNA_LOG_ERROR (Log_mbox_bad_size k peek))
      else let msg_size = word_of_nat sizeof_hdr + peek in
      if msg_size > x2i_size ch - x2i_head ch
      then Rx_stop (xdna_log npu1 XDNA_LOG_ERROR (Log_mbox_past_ring k))
      else if peek > MBOX_PAYLOAD_MAX
      then Rx_stop (xdna_log npu1 XDNA_LOG_ERROR (Log_mbox_payload_big k peek))
      else let a = unat (x2i_buf ch) + unat (x2i_head ch);
               hdr = hdr_of (mem_load (sram npu1) a sizeof_hdr);
               payload = mem_load (sram npu1) (a + sizeof_hdr) (unat peek);
               npu2 = sram_load_mark (sram_load_mark npu1 a sizeof_hdr)
                        (a + sizeof_hdr) (unat peek);
               npu3 = count_msg_in (set_x2i_head npu2 k (x2i_head ch + msg_size))
           in Rx_again (xdna_mert_handle npu3 k hdr payload))"

fun mbox_rx_loop :: "nat \<Rightarrow> 'h xdna_npu \<Rightarrow> nat \<Rightarrow> 'h xdna_npu" where
  "mbox_rx_loop 0 npu k =
     (if x2i_head (chan npu k) = x2i_tail (chan npu k) then npu
      else xdna_log npu XDNA_LOG_ERROR (Log_mbox_stuck k))"
| "mbox_rx_loop (Suc n) npu k =
     (if x2i_head (chan npu k) = x2i_tail (chan npu k) then npu
      else case mbox_rx_one npu k of
             Rx_stop s \<Rightarrow> s
           | Rx_again s \<Rightarrow> mbox_rx_loop n s k)"

definition xdna_mbox_process :: "'h xdna_npu \<Rightarrow> nat \<Rightarrow> 'h xdna_npu" where
  "xdna_mbox_process npu k =
     (if k \<ge> XDNA_MAX_CHANNELS then npu
      else if \<not> ch_active (chan npu k)
      then xdna_log npu XDNA_LOG_WARN (Log_mbox_passive_chan k)
      else mbox_rx_loop MBOX_MAX_MSG_PER_KICK npu k)"

definition xdna_mbox_reg_write :: "'h xdna_npu \<Rightarrow> u32 \<Rightarrow> u32 \<Rightarrow> 'h xdna_npu" where
  "xdna_mbox_reg_write npu off val =
     (case chan_from_off off of
        None \<Rightarrow> npu
      | Some (idx, reg) \<Rightarrow>
          let ch = chan npu idx in
          if reg = XDNA_MBOX_X2I_TAIL_OFF
          then xdna_mbox_process (npu\<lparr>chan := (chan npu)(idx := ch\<lparr>x2i_tail := val\<rparr>)\<rparr>)
                 (ch_index ch)
          else if reg = XDNA_MBOX_I2X_HEAD_OFF
          then npu\<lparr>chan := (chan npu)(idx := ch\<lparr>i2x_head := val\<rparr>)\<rparr>
          else if reg = XDNA_MBOX_INTR_OFF
          then npu\<lparr>chan := (chan npu)(idx := ch\<lparr>intr := val\<rparr>)\<rparr>
          else if reg = XDNA_MBOX_X2I_HEAD_OFF \<or> reg = XDNA_MBOX_I2X_TAIL_OFF
          then xdna_log npu XDNA_LOG_WARN (Log_mbox_dev_reg_write off)
          else npu)"

end
