(* ===== verification/Xdna_Power.thy ===== *)
theory Xdna_Power
  imports Xdna_Mailbox
begin

text \<open>
  The command units behind the REG BAR and the firmware they start: the SMU
  (\<open>src/xdna_smu.c\<close>), the firmware boot and shutdown (\<open>src/xdna_fw.c\<close>) and the PSP
  (\<open>src/xdna_psp.c\<close>).  Each unit reads its command and arguments from the scratch registers
  when it is kicked and completes by writing its response registers.
\<close>

subsection \<open>SMU\<close>

definition SMU_RESULT_FAIL :: u32 where
  [xdna_consts]: "SMU_RESULT_FAIL = 2"

definition smu_complete :: "'h xdna_npu \<Rightarrow> u32 \<Rightarrow> u32 \<Rightarrow> 'h xdna_npu" where
  "smu_complete npu resp out = npu\<lparr>scratch := (scratch npu)(7 := out, 6 := resp)\<rparr>"

definition xdna_smu_kick :: "'h xdna_npu \<Rightarrow> 'h xdna_npu" where
  "xdna_smu_kick npu0 =
     (let cmd = scratch npu0 5;
          arg = scratch npu0 7;
          npu = npu0\<lparr>stats := (stats npu0)\<lparr>smu_cmds := smu_cmds (stats npu0) + 1\<rparr>\<rparr>
      in if cmd = AIE_SMU_POWER_ON
         then smu_complete
                (xdna_log (npu\<lparr>power_on := True\<rparr>) XDNA_LOG_INFO Log_smu_power_on)
                SMU_RESULT_OK 0
         else if cmd = AIE_SMU_POWER_OFF
         then smu_complete
                (xdna_log (npu\<lparr>power_on := False\<rparr>) XDNA_LOG_INFO Log_smu_power_off)
                SMU_RESULT_OK 0
         else if cmd = AIE_SMU_SET_MPNPUCLK_FREQ
         then smu_complete (npu\<lparr>npuclk := arg\<rparr>) SMU_RESULT_OK arg
         else if cmd = AIE_SMU_SET_HCLK_FREQ
         then smu_complete (npu\<lparr>hclk := arg\<rparr>) SMU_RESULT_OK arg
         else if cmd = AIE_SMU_SET_SOFT_DPMLEVEL \<or> cmd = AIE_SMU_SET_HARD_DPMLEVEL
         then (if arg > XDNA_NPU1_MAX_DPM_LEVEL
               then smu_complete (xdna_log npu XDNA_LOG_ERROR (Log_smu_bad_dpm arg))
                      SMU_RESULT_FAIL 0
               else smu_complete (npu\<lparr>dpm_level := arg\<rparr>) SMU_RESULT_OK arg)
         else smu_complete (xdna_log npu XDNA_LOG_ERROR (Log_smu_unknown cmd))
                SMU_RESULT_FAIL 0)"

subsection \<open>Firmware\<close>

definition mgmt_chan_info :: "xdna_channel \<Rightarrow> xdna_mgmt_mbox_info" where
  "mgmt_chan_info mgmt =
     (let chan_base = XDNA_MBOX_CHAN_BASE 0
      in \<lparr>mi_x2i_tail = xdna_mbox_dev_addr (chan_base + XDNA_MBOX_X2I_TAIL_OFF),
          mi_x2i_head = xdna_mbox_dev_addr (chan_base + XDNA_MBOX_X2I_HEAD_OFF),
          mi_x2i_buf = xdna_sram_dev_addr (x2i_buf mgmt),
          mi_x2i_buf_sz = x2i_size mgmt,
          mi_i2x_tail = xdna_mbox_dev_addr (chan_base + XDNA_MBOX_I2X_TAIL_OFF),
          mi_i2x_head = xdna_mbox_dev_addr (chan_base + XDNA_MBOX_I2X_HEAD_OFF),
          mi_i2x_buf = xdna_sram_dev_addr (i2x_buf mgmt),
          mi_i2x_buf_sz = i2x_size mgmt,
          mi_magic = XDNA_MGMT_MBOX_MAGIC,
          mi_msi_id = word_of_nat XDNA_MGMT_MSIX_VECTOR,
          mi_prot_major = XDNA_MGMT_PROT_MAJOR,
          mi_prot_minor = XDNA_MGMT_PROT_MINOR\<rparr>)"

definition xdna_fw_boot :: "'h xdna_npu \<Rightarrow> 'h xdna_npu" where
  "xdna_fw_boot npu =
     (let npu1 = xdna_mbox_channel_reset npu 0;
          mgmt = (chan npu1 0)
            \<lparr>ch_active := True, ch_index := XDNA_MGMT_MSIX_VECTOR,
             x2i_buf := XDNA_SRAM_MGMT_X2I_OFF, x2i_size := XDNA_SRAM_MGMT_RB_SIZE,
             i2x_buf := XDNA_SRAM_MGMT_I2X_OFF, i2x_size := XDNA_SRAM_MGMT_RB_SIZE\<rparr>;
          npu2 = npu1\<lparr>chan := (chan npu1)(0 := mgmt)\<rparr>;
          npu3 = sram_store npu2 (unat (x2i_buf mgmt)) (replicate (unat (x2i_size mgmt)) 0);
          npu4 = sram_store npu3 (unat (i2x_buf mgmt)) (replicate (unat (i2x_size mgmt)) 0);
          npu5 = sram_store npu4 (unat XDNA_SRAM_MGMT_INFO_OFF)
                   (mgmt_info_bytes (mgmt_chan_info mgmt));
          npu6 = xdna_sram_write32 npu5 XDNA_SRAM_FW_ALIVE_OFF
                   (xdna_sram_dev_addr XDNA_SRAM_MGMT_INFO_OFF);
          npu7 = npu6\<lparr>fw_alive := True, fw_suspended := False,
                      pwaitmode := pwaitmode npu6 OR 1\<rparr>
      in xdna_log npu7 XDNA_LOG_INFO
           (Log_fw_up XDNA_MGMT_PROT_MAJOR XDNA_MGMT_PROT_MINOR XDNA_MGMT_MSIX_VECTOR))"

definition xdna_fw_shutdown :: "'h xdna_npu \<Rightarrow> 'h xdna_npu" where
  "xdna_fw_shutdown npu =
     (let npu1 = npu\<lparr>ctx := \<lambda>i. if i < XDNA_NPU1_HWCTX_LIMIT
                               then (ctx npu i)\<lparr>ctx_valid := False\<rparr> else ctx npu i,
                     col_used := 0,
                     stats := (stats npu)\<lparr>active_contexts := 0\<rparr>,
                     async_registered := False\<rparr>;
          npu2 = xdna_mbox_reset npu1;
          npu3 = xdna_sram_write32 npu2 XDNA_SRAM_FW_ALIVE_OFF 0;
          npu4 = npu3\<lparr>fw_alive := False, pwaitmode := pwaitmode npu3 AND NOT 1\<rparr>
      in xdna_log npu4 XDNA_LOG_INFO Log_fw_down)"

subsection \<open>PSP\<close>

definition PSP_PEEK_BYTES :: u32 where
  [xdna_consts]: "PSP_PEEK_BYTES = 64"

definition psp_complete :: "'h xdna_npu \<Rightarrow> u32 \<Rightarrow> 'h xdna_npu" where
  "psp_complete npu resp = npu\<lparr>scratch := (scratch npu)(3 := resp, 2 := PSP_STATUS_READY)\<rparr>"

definition psp_fetch_image :: "'h xdna_npu \<Rightarrow> u64 \<Rightarrow> u32 \<Rightarrow> u32 \<times> 'h xdna_npu" where
  "psp_fetch_image npu paddr sz =
     (let n = (if sz < PSP_PEEK_BYTES then sz else PSP_PEEK_BYTES) in
      if sz = 0 then (PSP_ERROR_BAD_STATE, npu)
      else let rd = (case dma_read_phys (ops npu) of
                       Some f \<Rightarrow> Some f
                     | None \<Rightarrow> dma_read (ops npu)) in
      case rd of
        None \<Rightarrow>
          (PSP_ERROR_CANCEL, xdna_log npu XDNA_LOG_ERROR (Log_psp_unreadable paddr sz))
      | Some f \<Rightarrow>
          let (rc, peek, h) = f (opaque npu) paddr (unat n);
              npu1 = npu\<lparr>opaque := h\<rparr>
          in if rc \<noteq> 0
             then (PSP_ERROR_CANCEL,
                   xdna_log npu1 XDNA_LOG_ERROR (Log_psp_unreadable paddr sz))
             else (0, npu1))"

definition xdna_psp_kick :: "'h xdna_npu \<Rightarrow> 'h xdna_npu" where
  "xdna_psp_kick npu0 =
     (let cmd = scratch npu0 2;
          arg0 = scratch npu0 3;
          arg1 = scratch npu0 4;
          arg2 = scratch npu0 9;
          paddr = push_bit 32 (ucast arg1) OR ucast arg0 :: u64;
          sz = arg2 AND PSP_ARG2_MASK;
          npu = npu0\<lparr>stats := (stats npu0)\<lparr>psp_cmds := psp_cmds (stats npu0) + 1\<rparr>\<rparr>;
          (resp, npu') =
            (if cmd = PSP_CMD_VALIDATE
             then let (resp, npu1) = psp_fetch_image npu paddr sz
                  in if resp = 0
                     then (resp, xdna_log
                             (npu1\<lparr>fw_paddr := paddr, fw_size := sz,
                                   psp_state := XDNA_PSP_VALIDATED\<rparr>)
                             XDNA_LOG_INFO (Log_psp_validated paddr sz))
                     else (resp, npu1)
             else if cmd = PSP_CMD_VALIDATE_CERT then psp_fetch_image npu paddr sz
             else if cmd = PSP_CMD_START
             then (if psp_state npu \<noteq> XDNA_PSP_VALIDATED
                   then (PSP_ERROR_BAD_STATE, xdna_log npu XDNA_LOG_ERROR Log_psp_start_early)
                   else let npu1 = (if arg0 \<noteq> PSP_START_COPY_FW
                                    then xdna_log npu XDNA_LOG_WARN (Log_psp_start_arg0 arg0)
                                    else npu)
                        in (0, xdna_fw_boot (npu1\<lparr>psp_state := XDNA_PSP_RUNNING\<rparr>)))
             else if cmd = PSP_CMD_RELEASE_TMR
             then (0, (xdna_fw_shutdown npu)\<lparr>psp_state := XDNA_PSP_COLD\<rparr>)
             else (PSP_ERROR_BAD_STATE,
                   xdna_log npu XDNA_LOG_ERROR (Log_psp_unknown cmd)))
      in psp_complete npu' resp)"

end
