(* ===== verification/Xdna_Device.thy ===== *)
theory Xdna_Device
  imports Xdna_Rx Xdna_Power
begin

text \<open>
  The body of the device (\<open>src/xdna_device.c\<close>): creation, reset, statistics, the REG BAR
  register file with its two doorbells, and the MMIO entry points that route an access to the
  REG, SRAM or MBOX BAR.  A buffer access to a register BAR is a loop over 32-bit words whose
  32-bit index wraps for buffers of more than 2^32 - 4 bytes; it is a
  \<open>partial_function (option)\<close>, and its results below show that every access through
  \<open>xdna_npu_mmio_read\<close> and \<open>xdna_npu_mmio_write\<close> returns.
\<close>

subsection \<open>Creation, reset, statistics\<close>

definition xdna_npu_bar_size :: "int \<Rightarrow> u32" where
  "xdna_npu_bar_size bar =
     (if bar = XDNA_BAR_REG then XDNA_BAR_REG_SIZE
      else if bar = XDNA_BAR_SRAM then XDNA_BAR_SRAM_SIZE
      else if bar = XDNA_BAR_MBOX then XDNA_BAR_MBOX_SIZE
      else 0)"

definition zero_context :: xdna_context where
  "zero_context = \<lparr>ctx_valid = False, ctx_id = 0, ctx_pasid = 0, ctx_start_col = 0,
     ctx_num_col = 0, ctx_priority = 0, ctx_chan = 0, heap_addr = 0, heap_size = 0\<rparr>"

definition zero_stats :: xdna_stats where
  "zero_stats = \<lparr>psp_cmds = 0, smu_cmds = 0, mbox_msgs_in = 0, mbox_msgs_out = 0,
     irqs_raised = 0, active_contexts = 0, stat_fw_alive = 0, stat_power_on = 0\<rparr>"

text \<open>A zeroed device structure over a given SRAM allocation and host.\<close>

definition zero_npu ::
  "'h host_ops \<Rightarrow> 'h \<Rightarrow> (nat \<Rightarrow> u8) \<Rightarrow> bool \<Rightarrow> bool \<Rightarrow> 'h xdna_npu" where
  "zero_npu hops h mem obr obw =
     \<lparr>ops = hops, opaque = h, scratch = (\<lambda>_. 0), pwaitmode = 0, sec_intr = 0,
      pwrmgmt_intr = 0, sram = mem, chan = (\<lambda>_. zero_channel),
      psp_state = XDNA_PSP_COLD, power_on = False, fw_alive = False, fw_suspended = False,
      fw_paddr = 0, fw_size = 0, npuclk = 0, hclk = 0, dpm_level = 0, mgmt_pasid = 0,
      rt_cfg = (\<lambda>_. 0), ctx = (\<lambda>_. zero_context), next_ctx_id = 0, col_used = 0,
      async_buf_addr = 0, async_buf_size = 0, async_registered = False,
      stats = zero_stats, oob_read = obr, oob_write = obw\<rparr>"

definition xdna_npu_reset :: "'h xdna_npu \<Rightarrow> 'h xdna_npu" where
  "xdna_npu_reset npu =
     (let npu1 = sram_store npu 0 (replicate (unat XDNA_BAR_SRAM_SIZE) 0);
          npu2 = zero_npu (ops npu1) (opaque npu1) (sram npu1) (oob_read npu1) (oob_write npu1);
          npu3 = npu2\<lparr>psp_state := XDNA_PSP_COLD, power_on := False, fw_alive := False,
                      next_ctx_id := 1,
                      scratch := (scratch npu2)(2 := PSP_STATUS_READY)\<rparr>
      in xdna_mbox_reset npu3)"

text \<open>
  The two flags say whether the two callocs succeed; the SRAM they give is zeroed.
\<close>

definition xdna_npu_new :: "'h host_ops \<Rightarrow> 'h \<Rightarrow> bool \<Rightarrow> bool \<Rightarrow> 'h xdna_npu option" where
  "xdna_npu_new hops h npu_alloc sram_alloc =
     (if \<not> npu_alloc then None
      else if \<not> sram_alloc then None
      else Some (xdna_npu_reset (zero_npu hops h (\<lambda>_. 0) False False)))"

definition xdna_npu_get_stats :: "'h xdna_npu \<Rightarrow> xdna_stats" where
  "xdna_npu_get_stats npu =
     (stats npu)\<lparr>stat_fw_alive := of_bool (fw_alive npu),
                 stat_power_on := of_bool (power_on npu)\<rparr>"

subsection \<open>REG BAR\<close>

definition reg_bar_read :: "'h xdna_npu \<Rightarrow> u32 \<Rightarrow> u32 \<times> 'h xdna_npu" where
  "reg_bar_read npu off =
     (if off = XDNA_REG_PWAITMODE then (pwaitmode npu, npu)
      else if off = XDNA_REG_PUB_SEC_INTR then (sec_intr npu, npu)
      else if off = XDNA_REG_PUB_PWRMGMT_IR then (pwrmgmt_intr npu, npu)
      else if off = XDNA_REG_SCRATCH2 then (scratch npu 2, npu)
      else if off = XDNA_REG_SCRATCH3 then (scratch npu 3, npu)
      else if off = XDNA_REG_SCRATCH4 then (scratch npu 4, npu)
      else if off = XDNA_REG_SCRATCH5 then (scratch npu 5, npu)
      else if off = XDNA_REG_SCRATCH6 then (scratch npu 6, npu)
      else if off = XDNA_REG_SCRATCH7 then (scratch npu 7, npu)
      else if off = XDNA_REG_SCRATCH9 then (scratch npu 9, npu)
      else (0, xdna_log npu XDNA_LOG_DEBUG (Log_reg_unread off)))"

definition set_scratch :: "'h xdna_npu \<Rightarrow> nat \<Rightarrow> u32 \<Rightarrow> 'h xdna_npu" where
  "set_scratch npu i v = npu\<lparr>scratch := (scratch npu)(i := v)\<rparr>"

definition reg_bar_write :: "'h xdna_npu \<Rightarrow> u32 \<Rightarrow> u32 \<Rightarrow> 'h xdna_npu" where
  "reg_bar_write npu off val =
     (if off = XDNA_REG_PWAITMODE then npu\<lparr>pwaitmode := val\<rparr>
      else if off = XDNA_REG_PUB_SEC_INTR
      then let npu1 = npu\<lparr>sec_intr := val\<rparr>
           in (if val = PSP_NOTIFY_VAL then xdna_psp_kick npu1 else npu1)
      else if off = XDNA_REG_PUB_PWRMGMT_IR
      then let npu1 = npu\<lparr>pwrmgmt_intr := val\<rparr>
           in (if val = 1 then xdna_smu_kick npu1 else npu1)
      else if off = XDNA_REG_SCRATCH2 then set_scratch npu 2 val
      else if off = XDNA_REG_SCRATCH3 then set_scratch npu 3 val
      else if off = XDNA_REG_SCRATCH4 then set_scratch npu 4 val
      else if off = XDNA_REG_SCRATCH5 then set_scratch npu 5 val
      else if off = XDNA_REG_SCRATCH6 then set_scratch npu 6 val
      else if off = XDNA_REG_SCRATCH7 then set_scratch npu 7 val
      else if off = XDNA_REG_SCRATCH9 then set_scratch npu 9 val
      else xdna_log npu XDNA_LOG_DEBUG (Log_reg_unwritten off val))"

subsection \<open>MMIO\<close>

text \<open>The word access at the heart of the two loops: REG, MBOX, or no register BAR.\<close>

definition bar_word_read :: "'h xdna_npu \<Rightarrow> int \<Rightarrow> u32 \<Rightarrow> u32 \<times> 'h xdna_npu" where
  "bar_word_read npu bar off =
     (if bar = XDNA_BAR_REG then reg_bar_read npu off
      else if bar = XDNA_BAR_MBOX then (xdna_mbox_reg_read npu off, npu)
      else (0, npu))"

definition bar_word_write :: "'h xdna_npu \<Rightarrow> int \<Rightarrow> u32 \<Rightarrow> u32 \<Rightarrow> 'h xdna_npu" where
  "bar_word_write npu bar off v =
     (if bar = XDNA_BAR_REG then reg_bar_write npu off v
      else if bar = XDNA_BAR_MBOX then xdna_mbox_reg_write npu off v
      else npu)"

partial_function (option) mmio_read_loop ::
  "'h xdna_npu \<Rightarrow> int \<Rightarrow> u32 \<Rightarrow> u32 \<Rightarrow> u32 \<Rightarrow> u8 list \<Rightarrow> (u8 list \<times> 'h xdna_npu) option" where
  "mmio_read_loop npu bar off len i dst =
     (if i < len
      then let n = (if len - i < 4 then len - i else 4);
               r = bar_word_read npu bar (off + i)
           in mmio_read_loop (snd r) bar off len (i + 4) (dst @ take (unat n) (le_bytes 4 (fst r)))
      else Some (dst, npu))"

definition xdna_npu_mmio_read_buf ::
  "'h xdna_npu \<Rightarrow> int \<Rightarrow> u32 \<Rightarrow> u32 \<Rightarrow> (u8 list \<times> 'h xdna_npu) option" where
  "xdna_npu_mmio_read_buf npu bar off len =
     (if bar = XDNA_BAR_SRAM
      then if (ucast off + ucast len :: u64) > ucast XDNA_BAR_SRAM_SIZE
           then Some (replicate (unat len) 0, npu)
           else Some (mem_load (sram npu) (unat off) (unat len),
                      sram_load_mark npu (unat off) (unat len))
      else mmio_read_loop npu bar off len 0 [])"

partial_function (option) mmio_write_loop ::
  "'h xdna_npu \<Rightarrow> int \<Rightarrow> u32 \<Rightarrow> u8 list \<Rightarrow> u32 \<Rightarrow> u32 \<Rightarrow> 'h xdna_npu option" where
  "mmio_write_loop npu bar off src len i =
     (if i < len
      then let n = (if len - i < 4 then len - i else 4);
               v = le_word (take (unat n) (drop (unat i) src))
           in mmio_write_loop (bar_word_write npu bar (off + i) v) bar off src len (i + 4)
      else Some npu)"

definition xdna_npu_mmio_write_buf ::
  "'h xdna_npu \<Rightarrow> int \<Rightarrow> u32 \<Rightarrow> u8 list \<Rightarrow> u32 \<Rightarrow> 'h xdna_npu option" where
  "xdna_npu_mmio_write_buf npu bar off src len =
     (if bar = XDNA_BAR_SRAM
      then if (ucast off + ucast len :: u64) > ucast XDNA_BAR_SRAM_SIZE then Some npu
           else Some (sram_store npu (unat off) (take (unat len) src))
      else mmio_write_loop npu bar off src len 0)"

definition xdna_npu_mmio_read ::
  "'h xdna_npu \<Rightarrow> int \<Rightarrow> u32 \<Rightarrow> u32 \<Rightarrow> (u64 \<times> 'h xdna_npu) option" where
  "xdna_npu_mmio_read npu bar off len =
     map_option (\<lambda>(bs, s). (le_word bs, s))
       (xdna_npu_mmio_read_buf npu bar off (if len > 8 then 8 else len))"

definition xdna_npu_mmio_write ::
  "'h xdna_npu \<Rightarrow> int \<Rightarrow> u32 \<Rightarrow> u64 \<Rightarrow> u32 \<Rightarrow> 'h xdna_npu option" where
  "xdna_npu_mmio_write npu bar off val len =
     xdna_npu_mmio_write_buf npu bar off (le_bytes 8 val) (if len > 8 then 8 else len)"

end
