(* ===== verification/Xdna_Closure.thy ===== *)
theory Xdna_Closure
  imports Xdna_Device
begin

text \<open>
  The interfaces between the layers of the device, as locales over a predicate \<open>I\<close> on its
  state.  A layer promises which elementary updates it makes; a predicate closed under those
  updates is kept by every operation of the layer.  \<open>reply_closed\<close> is what the handlers rely
  on of the mailbox, \<open>plain_closed\<close> what the handlers of the messages that name no existing
  context do, \<open>message_closed\<close> what all handlers but the one that destroys a context do,
  \<open>handler_closed\<close> what the receive loop relies on of all of them,
  \<open>rx_closed\<close> what the register file relies on of the mailbox, \<open>device_closed\<close> what a run of
  the whole device relies on; \<open>access_closed\<close> is the last without the creation of the
  device, for predicates that speak of one host.  The parameter \<open>G\<close> is the discipline the
  driver is assumed to keep when it writes a mailbox head register; the parameter \<open>K\<close> says
  on which channels messages come in and replies go out (on all of them, for the whole
  device).  Each invariant of the
  development is an interpretation of \<open>device_closed\<close>, and what the device does to its host is
  an interpretation of \<open>access_closed\<close>.
\<close>

lemma resp_size_bounds: "4 \<le> fst (resp_size_for opc) \<and> fst (resp_size_for opc) \<le> 76"
  by (simp add: resp_size_for_def xdna_consts split: option.split xdna_msg_opcode.split)

lemma length_status_reply [simp]:
  "length (status_reply_bytes opc st) = fst (resp_size_for opc)"
proof -
  have "snd (resp_size_for opc) \<le> 12"
    by (simp add: resp_size_for_def xdna_consts split: option.split xdna_msg_opcode.split)
  with resp_size_bounds [of opc] show ?thesis
    by (cases "resp_size_for opc") (auto simp: status_reply_bytes_def min_def)
qed

lemma find_upt_Some: "find P [0..<n] = Some i \<Longrightarrow> i < n \<and> P i"
  by (auto simp: find_Some_iff)

lemma free_slot_Some: "free_slot s = Some i \<Longrightarrow> i < 6 \<and> \<not> ctx_valid (ctx s i)"
  by (auto simp: free_slot_def xdna_consts dest: find_upt_Some)

lemma ctx_by_id_Some:
  "ctx_by_id s c = Some i \<Longrightarrow> i < 6 \<and> ctx_valid (ctx s i) \<and> ctx_id (ctx s i) = c"
  by (auto simp: ctx_by_id_def xdna_consts dest: find_upt_Some)

subsection \<open>What the device does to its host\<close>

text \<open>
  The device changes its host only by calling its callbacks: a peek at the firmware image
  through the physical read, or the translated one when there is no other, a write of a column
  dump, an interrupt of one of the seven channels, a log message.
\<close>

inductive host_step :: "'h host_ops \<Rightarrow> 'h \<Rightarrow> 'h \<Rightarrow> bool" for hops where
  peek_phys: "dma_read_phys hops = Some f \<Longrightarrow> f h a n = (rc, bs, h') \<Longrightarrow> host_step hops h h'"
| peek: "dma_read_phys hops = None \<Longrightarrow> dma_read hops = Some f \<Longrightarrow> f h a n = (rc, bs, h') \<Longrightarrow>
    host_step hops h h'"
| dump: "dma_write hops = Some f \<Longrightarrow> f h a bs = (rc, h') \<Longrightarrow> host_step hops h h'"
| irq: "raise_irq hops = Some f \<Longrightarrow> v < XDNA_MAX_CHANNELS \<Longrightarrow> host_step hops h (f h v)"
| log: "log_cb hops = Some f \<Longrightarrow> host_step hops h (f h l m)"

abbreviation host_run :: "'h host_ops \<Rightarrow> 'h \<Rightarrow> 'h \<Rightarrow> bool" where
  "host_run hops \<equiv> (host_step hops)\<^sup>*\<^sup>*"

lemma col_dump_run:
  "dma_write hops = Some dma \<Longrightarrow> host_run hops h (snd (snd (col_dump dma a len cnt h)))"
proof (induction dma a len cnt h rule: col_dump.induct)
  case (1 dma a len cnt h)
  let ?n = "if len - cnt > 256 then 256 else len - cnt"
  let ?w = "dma h (a + ucast cnt) (replicate (unat ?n) 0)"
  have first: "host_step hops h (snd ?w)"
    using 1(2) by (rule host_step.dump) (rule prod.collapse [symmetric])
  show ?case
  proof (cases "cnt < len \<and> fst ?w = 0")
    case True
    then have "host_run hops (snd ?w) (snd (snd (col_dump dma a len (cnt + ?n) (snd ?w))))"
      using 1(2) by (intro "1.IH" [OF _ refl prod.collapse]) simp_all
    with first True show ?thesis
      by (simp only: col_dump.simps [of dma a len cnt h] Let_def)
        (simp add: split_beta converse_rtranclp_into_rtranclp)
  next
    case False
    with first show ?thesis
      by (simp only: col_dump.simps [of dma a len cnt h] Let_def) (auto simp: split_beta)
  qed
qed

subsection \<open>The interfaces\<close>

text \<open>The opcodes whose message names an existing context.\<close>

definition names_context :: "u32 \<Rightarrow> bool" where
  "names_context w \<longleftrightarrow> opcode_of w \<in>
     {Some MSG_OP_DESTROY_CONTEXT, Some MSG_OP_MAP_HOST_BUFFER, Some MSG_OP_ADD_HOST_BUFFER}"

locale reply_closed =
  fixes I :: "'h xdna_npu \<Rightarrow> bool" and K :: "nat \<Rightarrow> bool"
  assumes I_log: "I s \<Longrightarrow> I (xdna_log s l m)"
    and I_send: "I s \<Longrightarrow> K k \<Longrightarrow> length bs \<le> 76 \<Longrightarrow> I (snd (xdna_mbox_send s k i p bs))"
begin

lemma I_reply: "I s \<Longrightarrow> K k \<Longrightarrow> length bs \<le> 76 \<Longrightarrow> I (mert_reply s k h bs)"
  by (simp add: mert_reply_def I_send)

lemma I_reply_status: "I s \<Longrightarrow> K k \<Longrightarrow> I (mert_reply_status s k h st)"
  using resp_size_bounds [of "opcode h"] by (simp add: mert_reply_status_def I_log I_reply)

end

locale plain_closed = reply_closed I K
  for I :: "'h xdna_npu \<Rightarrow> bool" and K :: "nat \<Rightarrow> bool" +
  assumes I_host: "I s \<Longrightarrow> host_step (ops s) (opaque s) h \<Longrightarrow> I (s\<lparr>opaque := h\<rparr>)"
    and I_rt_cfg: "I s \<Longrightarrow> i < RT_CFG_LEN \<Longrightarrow> I (s\<lparr>rt_cfg := (rt_cfg s)(i := v)\<rparr>)"
    and I_pasid: "I s \<Longrightarrow> I (s\<lparr>mgmt_pasid := w\<rparr>)"
    and I_suspended: "I s \<Longrightarrow> I (s\<lparr>fw_suspended := b\<rparr>)"
    and I_async: "I s \<Longrightarrow>
      I (s\<lparr>async_buf_addr := a, async_buf_size := z, async_registered := True\<rparr>)"
    and I_create: "I s \<Longrightarrow> fw_alive s \<Longrightarrow> slot < 6 \<Longrightarrow> \<not> ctx_valid (ctx s slot) \<Longrightarrow>
      ccq_num_col req \<noteq> 0 \<Longrightarrow> ucast (ccq_num_col req) \<le> XDNA_AIE_COLS \<Longrightarrow>
      I (ctx_fill_slot (ctx_open_channel s slot) slot req)"
begin

lemma I_host_run: "host_run (ops s) (opaque s) h \<Longrightarrow> I s \<Longrightarrow> I (s\<lparr>opaque := h\<rparr>)"
proof (induction rule: rtranclp_induct)
  case (step h h')
  then show ?case
    using I_host [of "s\<lparr>opaque := h\<rparr>" h'] by simp
qed simp

lemma I_create_context: "I s \<Longrightarrow> K k \<Longrightarrow> fw_alive s \<Longrightarrow> I (handle_create_context s k h p)"
  by (auto simp: handle_create_context_def Let_def not_le not_less
      intro!: I_reply I_reply_status I_log I_create dest: free_slot_Some split: option.split)

lemma I_dump:
  "I s \<Longrightarrow> dma_write (ops s) = Some dma \<Longrightarrow> col_dump dma a len cnt (opaque s) = (n, failed, h) \<Longrightarrow>
    I (s\<lparr>opaque := h\<rparr>)"
  using I_host_run col_dump_run [of "ops s" dma "opaque s" a len cnt] by simp

lemma I_col_status: "I s \<Longrightarrow> K k \<Longrightarrow> I (handle_query_col_status s k h p)"
  by (simp add: handle_query_col_status_def Let_def I_reply I_reply_status I_dump
      split: option.split prod.split)

lemma I_simple_handlers:
  assumes "I s" and "K k"
  shows "I (handle_get_protocol_version s k h)"
    and "I (handle_get_firmware_version s k h)"
    and "I (handle_query_aie_version s k h)"
    and "I (handle_query_tile_info s k h)"
    and "I (handle_set_runtime_config s k h p)"
    and "I (handle_get_runtime_config s k h p)"
    and "I (handle_assign_mgmt_pasid s k h p)"
    and "I (handle_register_async s k h p)"
    and "I (handle_get_telemetry s k h)"
    and "I (handle_array_stage s k h)"
    and "I (handle_unknown_opcode s k h)"
  using assms
  by (simp_all add: handle_get_protocol_version_def handle_get_firmware_version_def
      handle_query_aie_version_def handle_query_tile_info_def handle_set_runtime_config_def
      handle_get_runtime_config_def handle_assign_mgmt_pasid_def handle_register_async_def
      handle_get_telemetry_def handle_array_stage_def handle_unknown_opcode_def Let_def
      I_reply I_reply_status I_log I_rt_cfg I_pasid I_async)

lemma I_handle_plain:
  "I s \<Longrightarrow> K k \<Longrightarrow> \<not> names_context (opcode h) \<Longrightarrow> I (xdna_mert_handle s k h p)"
  by (simp add: xdna_mert_handle_def names_context_def I_log I_simple_handlers I_reply_status I_suspended
      I_create_context I_col_status split: option.split xdna_msg_opcode.split)

end

locale message_closed = plain_closed I K
  for I :: "'h xdna_npu \<Rightarrow> bool" and K :: "nat \<Rightarrow> bool" +
  assumes I_heap: "I s \<Longrightarrow> slot < 6 \<Longrightarrow> ctx_valid (ctx s slot) \<Longrightarrow>
      I (s\<lparr>ctx := (ctx s)(slot := (ctx s slot)\<lparr>heap_addr := a, heap_size := a'\<rparr>)\<rparr>)"
begin

lemma I_map_host_buffer: "I s \<Longrightarrow> K k \<Longrightarrow> I (handle_map_host_buffer s k h p)"
  by (auto simp: handle_map_host_buffer_def Let_def
      intro!: I_reply_status I_log I_heap dest: ctx_by_id_Some split: option.split)

lemma I_handle_other:
  "I s \<Longrightarrow> K k \<Longrightarrow> opcode_of (opcode h) \<noteq> Some MSG_OP_DESTROY_CONTEXT \<Longrightarrow> I (xdna_mert_handle s k h p)"
  using I_handle_plain [of s k h p]
  by (cases "names_context (opcode h)") (auto simp: names_context_def xdna_mert_handle_def I_log I_map_host_buffer)

end

locale handler_closed = message_closed I K
  for I :: "'h xdna_npu \<Rightarrow> bool" and K :: "nat \<Rightarrow> bool" +
  assumes I_destroy: "I s \<Longrightarrow> slot < 6 \<Longrightarrow> ctx_valid (ctx s slot) \<Longrightarrow> I (ctx_destroy_slot s slot)"
begin

lemma I_destroy_context: "I s \<Longrightarrow> K k \<Longrightarrow> I (handle_destroy_context s k h p)"
  by (auto simp: handle_destroy_context_def Let_def
      intro!: I_reply_status I_log I_destroy dest: ctx_by_id_Some split: option.split)

lemma I_handle: "I s \<Longrightarrow> K k \<Longrightarrow> I (xdna_mert_handle s k h p)"
proof (cases "opcode_of (opcode h) = Some MSG_OP_DESTROY_CONTEXT")
  case True
  assume "I s" and "K k"
  with True show ?thesis
    by (simp add: xdna_mert_handle_def I_log I_reply_status I_destroy_context)
qed (rule I_handle_other)

end

text \<open>The four ways an iteration of the receive loop can go.\<close>

lemma rx_one_cases:
  obtains
    (past_end) "x2i_size (chan s k) \<le> x2i_head (chan s k)"
      and "mbox_rx_one s k = Rx_again (set_x2i_head s k 0)"
  | (tombstone) s1 where "x2i_head (chan s k) < x2i_size (chan s k)"
      and "xdna_sram_read32 s (x2i_buf (chan s k) + x2i_head (chan s k)) = (XDNA_MBOX_TOMBSTONE, s1)"
      and "s1 = snd (xdna_sram_read32 s (x2i_buf (chan s k) + x2i_head (chan s k)))"
      and "mbox_rx_one s k = Rx_again (set_x2i_head s1 k 0)"
  | (malformed) s1 m where "x2i_head (chan s k) < x2i_size (chan s k)"
      and "s1 = snd (xdna_sram_read32 s (x2i_buf (chan s k) + x2i_head (chan s k)))"
      and "mbox_rx_one s k = Rx_stop (xdna_log s1 XDNA_LOG_ERROR m)"
  | (message) s1 peek a where "x2i_head (chan s k) < x2i_size (chan s k)"
      and "xdna_sram_read32 s (x2i_buf (chan s k) + x2i_head (chan s k)) = (peek, s1)"
      and "s1 = snd (xdna_sram_read32 s (x2i_buf (chan s k) + x2i_head (chan s k)))"
      and "chan s1 = chan s"
      and "peek \<noteq> XDNA_MBOX_TOMBSTONE" and "peek \<noteq> 0" and "peek AND 3 = 0"
      and "16 + peek \<le> x2i_size (chan s k) - x2i_head (chan s k)" and "peek \<le> 0x2000"
      and "a = unat (x2i_buf (chan s k)) + unat (x2i_head (chan s k))"
      and "mbox_rx_one s k = Rx_again (xdna_mert_handle
             (count_msg_in (set_x2i_head (sram_load_mark (sram_load_mark s1 a 16) (a + 16) (unat peek))
                k (x2i_head (chan s k) + (16 + peek))))
             k (hdr_of (mem_load (sram s1) a 16)) (mem_load (sram s1) (a + 16) (unat peek)))"
proof -
  let ?ch = "chan s k"
  obtain peek s1 where read: "xdna_sram_read32 s (x2i_buf ?ch + x2i_head ?ch) = (peek, s1)"
    by (cases "xdna_sram_read32 s (x2i_buf ?ch + x2i_head ?ch)")
  have ch: "chan s1 = chan s"
    using read32_frame [of s "x2i_buf ?ch + x2i_head ?ch"] read by simp
  note step = mbox_rx_one_def [of s k] Let_def read xdna_consts
  consider "x2i_size ?ch \<le> x2i_head ?ch"
    | "x2i_head ?ch < x2i_size ?ch" "peek = XDNA_MBOX_TOMBSTONE"
    | "x2i_head ?ch < x2i_size ?ch" "peek \<noteq> XDNA_MBOX_TOMBSTONE" "peek = 0 \<or> peek AND 3 \<noteq> 0"
    | "x2i_head ?ch < x2i_size ?ch" "peek \<noteq> XDNA_MBOX_TOMBSTONE" "peek \<noteq> 0" "peek AND 3 = 0"
      "16 + peek > x2i_size ?ch - x2i_head ?ch"
    | "x2i_head ?ch < x2i_size ?ch" "peek \<noteq> XDNA_MBOX_TOMBSTONE" "peek \<noteq> 0" "peek AND 3 = 0"
      "16 + peek \<le> x2i_size ?ch - x2i_head ?ch" "peek > 0x2000"
    | "x2i_head ?ch < x2i_size ?ch" "peek \<noteq> XDNA_MBOX_TOMBSTONE" "peek \<noteq> 0" "peek AND 3 = 0"
      "16 + peek \<le> x2i_size ?ch - x2i_head ?ch" "peek \<le> 0x2000"
    using not_less by blast
  then show thesis
  proof cases
    case 1
    then show thesis by (intro past_end) (simp_all add: step)
  next
    case 2
    then show thesis by (intro tombstone [of s1]) (simp_all add: step)
  next
    case 3
    then show thesis
      by (intro malformed [of s1 "Log_mbox_bad_size k peek"]) (simp_all add: step)
  next
    case 4
    then show thesis
      by (intro malformed [of s1 "Log_mbox_past_ring k"]) (simp_all add: step)
  next
    case 5
    then show thesis
      by (intro malformed [of s1 "Log_mbox_payload_big k peek"]) (simp_all add: step)
  next
    case 6
    then show thesis
      by (intro message [OF _ read _ ch]) (simp_all add: step flip: not_less)
  qed
qed

locale rx_closed = handler_closed I K
  for I :: "'h xdna_npu \<Rightarrow> bool" and K :: "nat \<Rightarrow> bool" +
  assumes I_rewind: "I s \<Longrightarrow> K k \<Longrightarrow> k < XDNA_MAX_CHANNELS \<Longrightarrow> I (set_x2i_head s k 0)"
    and I_peek: "I s \<Longrightarrow> K k \<Longrightarrow> k < XDNA_MAX_CHANNELS \<Longrightarrow> x2i_head (chan s k) < x2i_size (chan s k) \<Longrightarrow>
      I (snd (xdna_sram_read32 s (x2i_buf (chan s k) + x2i_head (chan s k))))"
    and I_consume: "I s \<Longrightarrow> K k \<Longrightarrow> k < XDNA_MAX_CHANNELS \<Longrightarrow> x2i_head (chan s k) < x2i_size (chan s k) \<Longrightarrow>
      16 + peek \<le> x2i_size (chan s k) - x2i_head (chan s k) \<Longrightarrow> peek \<le> 0x2000 \<Longrightarrow>
      a = unat (x2i_buf (chan s k)) + unat (x2i_head (chan s k)) \<Longrightarrow>
      I (count_msg_in (set_x2i_head (sram_load_mark (sram_load_mark s a 16) (a + 16) (unat peek))
           k (x2i_head (chan s k) + (16 + peek))))"
begin

lemma I_rx_one:
  assumes "I s" and K: "K k" and k: "k < XDNA_MAX_CHANNELS"
  shows "case mbox_rx_one s k of Rx_again t \<Rightarrow> I t | Rx_stop t \<Rightarrow> I t"
proof (cases rule: rx_one_cases [of s k])
  case past_end
  with assms show ?thesis by (simp add: I_rewind)
next
  case (tombstone s1)
  with assms have "I s1" by (simp add: I_peek)
  with tombstone K k show ?thesis by (simp add: I_rewind)
next
  case (malformed s1 m)
  with assms have "I s1" by (simp add: I_peek)
  with malformed show ?thesis by (simp add: I_log)
next
  case (message s1 peek a)
  have s1: "I s1"
    unfolding message(3) by (rule I_peek [OF assms(1) K k message(1)])
  have "I (count_msg_in (set_x2i_head (sram_load_mark (sram_load_mark s1 a 16) (a + 16) (unat peek))
          k (x2i_head (chan s1 k) + (16 + peek))))"
    using message by (intro I_consume [OF s1 K k]) (simp_all only:)
  then show ?thesis
    unfolding message(11) by (simp only: rx_outcome.case message(4) I_handle [OF _ K])
qed

lemma I_rx_loop: "I s \<Longrightarrow> K k \<Longrightarrow> k < XDNA_MAX_CHANNELS \<Longrightarrow> I (mbox_rx_loop n s k)"
proof (induction n arbitrary: s)
  case 0
  then show ?case by (simp add: I_log)
next
  case (Suc n)
  then show ?case
    using I_rx_one [of s k] by (auto split: rx_outcome.splits)
qed

lemma I_process: "I s \<Longrightarrow> K k \<Longrightarrow> I (xdna_mbox_process s k)"
  by (simp add: xdna_mbox_process_def I_log I_rx_loop)

end

locale access_closed = rx_closed I "\<lambda>_. True"
  for I :: "'h xdna_npu \<Rightarrow> bool" +
  fixes G :: "'h xdna_npu \<Rightarrow> nat \<Rightarrow> u32 \<Rightarrow> bool"
  assumes I_x2i_tail: "I s \<Longrightarrow> k < XDNA_MAX_CHANNELS \<Longrightarrow>
      I (s\<lparr>chan := (chan s)(k := (chan s k)\<lparr>x2i_tail := v\<rparr>)\<rparr>)"
    and I_intr: "I s \<Longrightarrow> k < XDNA_MAX_CHANNELS \<Longrightarrow>
      I (s\<lparr>chan := (chan s)(k := (chan s k)\<lparr>intr := v\<rparr>)\<rparr>)"
    and I_i2x_head: "I s \<Longrightarrow> k < XDNA_MAX_CHANNELS \<Longrightarrow> G s k v \<Longrightarrow>
      I (s\<lparr>chan := (chan s)(k := (chan s k)\<lparr>i2x_head := v\<rparr>)\<rparr>)"
    and I_scratch: "I s \<Longrightarrow> I (s\<lparr>scratch := f\<rparr>)"
    and I_pwaitmode: "I s \<Longrightarrow> I (s\<lparr>pwaitmode := v\<rparr>)"
    and I_sec_intr: "I s \<Longrightarrow> I (s\<lparr>sec_intr := v\<rparr>)"
    and I_pwrmgmt_intr: "I s \<Longrightarrow> I (s\<lparr>pwrmgmt_intr := v\<rparr>)"
    and I_psp_cmds: "I s \<Longrightarrow> I (s\<lparr>stats := (stats s)\<lparr>psp_cmds := c\<rparr>\<rparr>)"
    and I_smu_cmds: "I s \<Longrightarrow> I (s\<lparr>stats := (stats s)\<lparr>smu_cmds := c\<rparr>\<rparr>)"
    and I_power_on: "I s \<Longrightarrow> I (s\<lparr>power_on := b\<rparr>)"
    and I_npuclk: "I s \<Longrightarrow> I (s\<lparr>npuclk := v\<rparr>)"
    and I_hclk: "I s \<Longrightarrow> I (s\<lparr>hclk := v\<rparr>)"
    and I_dpm: "I s \<Longrightarrow> v \<le> XDNA_NPU1_MAX_DPM_LEVEL \<Longrightarrow> I (s\<lparr>dpm_level := v\<rparr>)"
    and I_validate: "I s \<Longrightarrow>
      I (s\<lparr>fw_paddr := a, fw_size := z, psp_state := XDNA_PSP_VALIDATED\<rparr>)"
    and I_boot: "I s \<Longrightarrow> psp_state s = XDNA_PSP_VALIDATED \<Longrightarrow>
      I (xdna_fw_boot (s\<lparr>psp_state := XDNA_PSP_RUNNING\<rparr>))"
    and I_release: "I s \<Longrightarrow> I ((xdna_fw_shutdown s)\<lparr>psp_state := XDNA_PSP_COLD\<rparr>)"
    and I_guest_write: "I s \<Longrightarrow> off + length bs \<le> 0x40000 \<Longrightarrow> I (sram_store s off bs)"
    and I_guest_read: "I s \<Longrightarrow> off + n \<le> 0x40000 \<Longrightarrow> I (sram_load_mark s off n)"
    and I_reset: "I s \<Longrightarrow> I (xdna_npu_reset s)"
begin

lemma I_smu_kick: "I s \<Longrightarrow> I (xdna_smu_kick s)"
  by (simp add: xdna_smu_kick_def smu_complete_def Let_def not_less
      I_scratch I_log I_power_on I_npuclk I_hclk I_dpm I_smu_cmds)

lemma I_fetch_image: "I s \<Longrightarrow> I (snd (psp_fetch_image s a z))"
  by (auto simp: psp_fetch_image_def Let_def split: option.split prod.split
      intro!: I_log I_host intro: host_step.peek host_step.peek_phys)

lemma I_psp_kick: "I s \<Longrightarrow> I (xdna_psp_kick s)"
  using I_fetch_image [OF I_psp_cmds]
  by (auto simp: xdna_psp_kick_def psp_complete_def Let_def split_beta
      intro!: I_scratch I_log I_validate I_boot I_release I_psp_cmds)

lemma I_reg_write: "I s \<Longrightarrow> I (reg_bar_write s off v)"
  by (simp add: reg_bar_write_def set_scratch_def Let_def
      I_log I_scratch I_pwaitmode I_sec_intr I_pwrmgmt_intr I_psp_kick I_smu_kick)

lemma I_reg_read: "I s \<Longrightarrow> I (snd (reg_bar_read s off))"
  by (simp add: reg_bar_read_def I_log)

end

subsection \<open>Runs of the device\<close>

text \<open>
  A step of a run is one access by the driver: a word of a register BAR read or written, a
  block of the SRAM BAR read or written, or a device reset.  A write to a mailbox head
  register is constrained by the discipline \<open>G\<close>; \<open>any_guest\<close> is no discipline at all.
\<close>

definition any_guest :: "'h xdna_npu \<Rightarrow> nat \<Rightarrow> u32 \<Rightarrow> bool" where
  "any_guest s k v \<longleftrightarrow> True"

definition head_guard ::
  "('h xdna_npu \<Rightarrow> nat \<Rightarrow> u32 \<Rightarrow> bool) \<Rightarrow> 'h xdna_npu \<Rightarrow> int \<Rightarrow> u32 \<Rightarrow> u32 \<Rightarrow> bool" where
  "head_guard G s bar off v \<longleftrightarrow>
     (bar = XDNA_BAR_MBOX \<longrightarrow>
        (case chan_from_off off of
           None \<Rightarrow> True
         | Some (k, reg) \<Rightarrow> reg = XDNA_MBOX_I2X_HEAD_OFF \<longrightarrow> G s k v))"

inductive dev_step ::
  "('h xdna_npu \<Rightarrow> nat \<Rightarrow> u32 \<Rightarrow> bool) \<Rightarrow> 'h xdna_npu \<Rightarrow> 'h xdna_npu \<Rightarrow> bool" for G where
  word_read: "dev_step G s (snd (bar_word_read s bar off))"
| word_write: "head_guard G s bar off v \<Longrightarrow> dev_step G s (bar_word_write s bar off v)"
| sram_read: "off + n \<le> 0x40000 \<Longrightarrow> dev_step G s (sram_load_mark s off n)"
| sram_write: "off + length bs \<le> 0x40000 \<Longrightarrow> dev_step G s (sram_store s off bs)"
| reset: "dev_step G s (xdna_npu_reset s)"

abbreviation dev_run ::
  "('h xdna_npu \<Rightarrow> nat \<Rightarrow> u32 \<Rightarrow> bool) \<Rightarrow> 'h xdna_npu \<Rightarrow> 'h xdna_npu \<Rightarrow> bool" where
  "dev_run G \<equiv> (dev_step G)\<^sup>*\<^sup>*"

inductive dev_reach ::
  "('h xdna_npu \<Rightarrow> nat \<Rightarrow> u32 \<Rightarrow> bool) \<Rightarrow> 'h xdna_npu \<Rightarrow> bool" for G where
  new: "xdna_npu_new hops h True True = Some s \<Longrightarrow> dev_reach G s"
| step: "dev_reach G s \<Longrightarrow> dev_step G s t \<Longrightarrow> dev_reach G t"

lemma dev_reach_run: "dev_run G s t \<Longrightarrow> dev_reach G s \<Longrightarrow> dev_reach G t"
  by (induction rule: rtranclp_induct) (auto intro: dev_reach.step)

lemma chan_from_off_bound: "chan_from_off off = Some (k, r) \<Longrightarrow> k < XDNA_MAX_CHANNELS"
  by (auto simp: chan_from_off_def Let_def split: if_splits)

context access_closed
begin

lemma I_mbox_write:
  "I s \<Longrightarrow> head_guard G s XDNA_BAR_MBOX off v \<Longrightarrow> I (xdna_mbox_reg_write s off v)"
  by (auto simp: xdna_mbox_reg_write_def head_guard_def Let_def
      intro!: I_log I_process I_x2i_tail I_intr I_i2x_head
      dest: chan_from_off_bound split: option.splits)

lemma I_step: "dev_step G s t \<Longrightarrow> I s \<Longrightarrow> I t"
proof (induction rule: dev_step.induct)
  case (word_read s bar off)
  then show ?case by (simp add: bar_word_read_def I_reg_read)
next
  case (word_write s bar off v)
  then show ?case by (auto simp: bar_word_write_def I_reg_write intro!: I_mbox_write)
qed (simp_all add: I_guest_read I_guest_write I_reset)

lemma I_run: "dev_run G s t \<Longrightarrow> I s \<Longrightarrow> I t"
  by (induction rule: rtranclp_induct) (auto intro: I_step)

end

locale device_closed = access_closed I G
  for I :: "'h xdna_npu \<Rightarrow> bool" and G :: "'h xdna_npu \<Rightarrow> nat \<Rightarrow> u32 \<Rightarrow> bool" +
  assumes I_new: "xdna_npu_new hops h True True = Some s \<Longrightarrow> I s"
begin

lemma I_reach: "dev_reach G s \<Longrightarrow> I s"
  by (induction rule: dev_reach.induct) (auto intro: I_new I_step)

end

end
