(* ===== verification/Xdna_Layout.thy ===== *)
theory Xdna_Layout
  imports Xdna_Closure
begin

text \<open>
  The first invariant of the device, for every guest: the layout of its channels.  An active
  channel has the rings of its index (management rings for channel 0, the rings of slot
  \<open>i\<close> for channel \<open>i + 1\<close>), its read position is inside its x2i ring, a channel is active
  exactly when the firmware (channel 0) or the context it belongs to is up, and no read ever
  left the SRAM allocation.
\<close>

definition ring_base :: "nat \<Rightarrow> nat" where
  "ring_base k = (if k = 0 then 0x21000 else 0x24000 + (k - 1) * 0x4000)"

definition ring_len :: "nat \<Rightarrow> nat" where
  "ring_len k = (if k = 0 then 0x1000 else 0x2000)"

definition chan_ok :: "nat \<Rightarrow> xdna_channel \<Rightarrow> bool" where
  "chan_ok k c \<longleftrightarrow> ch_index c = k \<and> unat (x2i_head c) \<le> unat (x2i_size c) \<and>
     (if ch_active c
      then unat (x2i_buf c) = ring_base k \<and> unat (x2i_size c) = ring_len k \<and>
           unat (i2x_buf c) = ring_base k + ring_len k \<and> unat (i2x_size c) = ring_len k
      else x2i_size c = 0)"

definition layout_inv :: "'h xdna_npu \<Rightarrow> bool" where
  "layout_inv s \<longleftrightarrow>
     (\<forall>k < 7. chan_ok k (chan s k)) \<and>
     (ch_active (chan s 0) \<longleftrightarrow> fw_alive s) \<and>
     (\<forall>i < 6. ctx_valid (ctx s i) \<longleftrightarrow> ch_active (chan s (Suc i))) \<and>
     (\<forall>i < 6. ctx_valid (ctx s i) \<longrightarrow> ctx_chan (ctx s i) = Suc i \<and> fw_alive s) \<and>
     \<not> oob_read s"

subsection \<open>Arithmetic of the layout\<close>

lemma ring_end: "k < 7 \<Longrightarrow> ring_base k + 2 * ring_len k \<le> 0x3C000"
  by (auto simp: ring_base_def ring_len_def)

lemma rings_disjoint:
  "j \<noteq> k \<Longrightarrow> ring_base j + 2 * ring_len j \<le> ring_base k \<or>
     ring_base k + 2 * ring_len k \<le> ring_base j"
  by (auto simp: ring_base_def ring_len_def nat_neq_iff)

lemma less_6_cases: "(i :: nat) < 6 \<Longrightarrow> i = 0 \<or> i = 1 \<or> i = 2 \<or> i = 3 \<or> i = 4 \<or> i = 5"
  by auto

lemma unat_ctx_rb_base: "slot < 6 \<Longrightarrow> unat (ctx_rb_base slot) = 0x24000 + slot * 0x4000"
  by (drule less_6_cases) (auto simp: ctx_rb_base_def xdna_consts)

lemma unat_ctx_i2x_base:
  "slot < 6 \<Longrightarrow> unat (ctx_rb_base slot + XDNA_SRAM_CTX_RB_SIZE) = 0x26000 + slot * 0x4000"
  by (drule less_6_cases) (auto simp: ctx_rb_base_def xdna_consts)

lemma consume_arith:
  assumes "x2i_head c < x2i_size c" and "16 + peek \<le> x2i_size c - x2i_head c"
    and "peek \<le> 0x2000" and "unat (x2i_size c) \<le> 0x2000"
  shows "unat (x2i_head c + (16 + peek)) = unat (x2i_head c) + 16 + unat peek"
    and "unat (x2i_head c) + 16 + unat peek \<le> unat (x2i_size c)"
proof -
  have peek: "unat peek \<le> 0x2000"
    using assms(3) by (simp add: word_le_nat_alt)
  then have pkg: "unat (16 + peek) = 16 + unat peek"
    by (subst unat_add_small) simp_all
  have head: "unat (x2i_head c) < unat (x2i_size c)"
    using assms(1) by (simp add: word_less_nat_alt)
  show le: "unat (x2i_head c) + 16 + unat peek \<le> unat (x2i_size c)"
    using assms(2) pkg head unat_sub [of "x2i_head c" "x2i_size c"]
    by (simp add: word_le_nat_alt)
  show "unat (x2i_head c + (16 + peek)) = unat (x2i_head c) + 16 + unat peek"
    using assms(4) le pkg by (subst unat_add_small) simp_all
qed

subsection \<open>The invariant in every run\<close>

lemma layout_chan:
  assumes "layout_inv s" and "k < 7"
  shows "chan_ok k (chan s k)"
  using assms by (simp add: layout_inv_def)

lemma layout_size: "layout_inv s \<Longrightarrow> k < 7 \<Longrightarrow> unat (x2i_size (chan s k)) \<le> 0x2000"
  by (drule (1) layout_chan) (auto simp: chan_ok_def ring_len_def split: if_splits)

lemma layout_active:
  "layout_inv s \<Longrightarrow> k < 7 \<Longrightarrow> x2i_head (chan s k) < x2i_size (chan s k) \<Longrightarrow> ch_active (chan s k)"
  by (drule (1) layout_chan) (auto simp: chan_ok_def split: if_splits)

lemma chan_ok_update [simp]:
  "chan_ok k (c\<lparr>x2i_tail := v\<rparr>) = chan_ok k c"
  "chan_ok k (c\<lparr>i2x_head := v\<rparr>) = chan_ok k c"
  "chan_ok k (c\<lparr>intr := v\<rparr>) = chan_ok k c"
  "chan_ok k c \<Longrightarrow> chan_ok k (c\<lparr>x2i_head := 0\<rparr>)"
  "chan_ok k (zero_channel\<lparr>ch_index := k\<rparr>)"
  "chan_ok j (chan (snd (xdna_mbox_send s k i p bs)) j) = chan_ok j (chan s j)"
  by (simp_all add: chan_ok_def zero_channel_def)

lemma layout_unread [simp]:
  "layout_inv (s\<lparr>opaque := h\<rparr>) = layout_inv s"
  "layout_inv (s\<lparr>rt_cfg := rc\<rparr>) = layout_inv s"
  "layout_inv (s\<lparr>mgmt_pasid := w\<rparr>) = layout_inv s"
  "layout_inv (s\<lparr>fw_suspended := b\<rparr>) = layout_inv s"
  "layout_inv (s\<lparr>async_buf_addr := ad, async_buf_size := z, async_registered := b\<rparr>) = layout_inv s"
  "layout_inv (s\<lparr>scratch := f\<rparr>) = layout_inv s"
  "layout_inv (s\<lparr>pwaitmode := v\<rparr>) = layout_inv s"
  "layout_inv (s\<lparr>sec_intr := v\<rparr>) = layout_inv s"
  "layout_inv (s\<lparr>pwrmgmt_intr := v\<rparr>) = layout_inv s"
  "layout_inv (s\<lparr>stats := st\<rparr>) = layout_inv s"
  "layout_inv (s\<lparr>power_on := b\<rparr>) = layout_inv s"
  "layout_inv (s\<lparr>npuclk := v\<rparr>) = layout_inv s"
  "layout_inv (s\<lparr>hclk := v\<rparr>) = layout_inv s"
  "layout_inv (s\<lparr>dpm_level := v\<rparr>) = layout_inv s"
  "layout_inv (s\<lparr>fw_paddr := ad, fw_size := z, psp_state := ps\<rparr>) = layout_inv s"
  "layout_inv (xdna_log s l m) = layout_inv s"
  "layout_inv (sram_store s a bs) = layout_inv s"
  "layout_inv (snd (xdna_mbox_send s k i p bs)) = layout_inv s"
  by (simp_all add: layout_inv_def)

lemma layout_chan_update:
  assumes "layout_inv s" and "k < 7"
    and "chan_ok k c" and "ch_active c = ch_active (chan s k)"
  shows "layout_inv (s\<lparr>chan := (chan s)(k := c)\<rparr>)"
  using assms by (auto simp: layout_inv_def)

lemma layout_heap:
  "layout_inv s \<Longrightarrow>
    layout_inv (s\<lparr>ctx := (ctx s)(slot := (ctx s slot)\<lparr>heap_addr := a, heap_size := a'\<rparr>)\<rparr>)"
  by (auto simp: layout_inv_def)

lemma layout_read: "layout_inv s \<Longrightarrow> a + n \<le> 0x40000 \<Longrightarrow> layout_inv (sram_load_mark s a n)"
  by (simp add: layout_inv_def)

lemma chan_ok_open:
  assumes "slot < 6"
  shows "chan_ok (Suc slot) (zero_channel\<lparr>ch_active := True, ch_index := Suc slot,
    x2i_buf := ctx_rb_base slot, x2i_size := XDNA_SRAM_CTX_RB_SIZE,
    i2x_buf := ctx_rb_base slot + XDNA_SRAM_CTX_RB_SIZE,
    i2x_size := XDNA_SRAM_CTX_RB_SIZE\<rparr>)"
  using unat_ctx_rb_base [OF assms] unat_ctx_i2x_base [OF assms]
  by (simp add: chan_ok_def zero_channel_def ring_base_def ring_len_def xdna_consts)

lemma layout_create:
  assumes "layout_inv s" and "fw_alive s" and "slot < 6" and "\<not> ctx_valid (ctx s slot)"
  shows "layout_inv (ctx_fill_slot (ctx_open_channel s slot) slot req)"
  using assms chan_ok_open [OF assms(3)]
  by (auto simp: layout_inv_def ctx_fill_slot_def ctx_open_channel_def Let_def
      channel_reset_chan XDNA_MAX_CHANNELS_def XDNA_NPU1_HWCTX_LIMIT_def)

lemma layout_destroy:
  assumes "layout_inv s" and "slot < 6" and "ctx_valid (ctx s slot)"
  shows "layout_inv (ctx_destroy_slot s slot)"
proof -
  have "ctx_chan (ctx s slot) = Suc slot" "fw_alive s"
    using assms by (auto simp: layout_inv_def)
  with assms show ?thesis
    by (auto simp: layout_inv_def ctx_destroy_slot_def Let_def zero_channel_def
        channel_reset_chan XDNA_MAX_CHANNELS_def XDNA_NPU1_HWCTX_LIMIT_def
        intro: chan_ok_update(5) [unfolded zero_channel_def, simplified])
qed

lemma chan_ok_mgmt:
  "chan_ok 0 (zero_channel\<lparr>ch_active := True, ch_index := XDNA_MGMT_MSIX_VECTOR,
    x2i_buf := XDNA_SRAM_MGMT_X2I_OFF, x2i_size := XDNA_SRAM_MGMT_RB_SIZE,
    i2x_buf := XDNA_SRAM_MGMT_I2X_OFF, i2x_size := XDNA_SRAM_MGMT_RB_SIZE\<rparr>)"
  by (simp add: chan_ok_def zero_channel_def ring_base_def ring_len_def xdna_consts)

lemma layout_boot: "layout_inv s \<Longrightarrow> layout_inv (xdna_fw_boot (s\<lparr>psp_state := p\<rparr>))"
  using chan_ok_mgmt
  by (auto simp: layout_inv_def xdna_fw_boot_def Let_def channel_reset_chan
      XDNA_MAX_CHANNELS_def)

lemma layout_release: "layout_inv s \<Longrightarrow> layout_inv ((xdna_fw_shutdown s)\<lparr>psp_state := p\<rparr>)"
  by (simp add: layout_inv_def xdna_fw_shutdown_def Let_def mbox_reset_eq
      XDNA_MAX_CHANNELS_def XDNA_NPU1_HWCTX_LIMIT_def) (simp add: zero_channel_def)

lemma layout_reset: "\<not> oob_read s \<Longrightarrow> layout_inv (xdna_npu_reset s)"
  by (simp add: layout_inv_def xdna_npu_reset_def zero_npu_def Let_def mbox_reset_eq
      zero_context_def XDNA_MAX_CHANNELS_def XDNA_NPU1_HWCTX_LIMIT_def)
    (simp add: zero_channel_def)

lemma layout_x2i_read:
  assumes s: "layout_inv s" and k: "k < 7"
    and less: "x2i_head (chan s k) < x2i_size (chan s k)"
  shows "unat (x2i_buf (chan s k)) + unat (x2i_size (chan s k)) + 4 \<le> 0x40000"
    and "unat (x2i_buf (chan s k) + x2i_head (chan s k)) =
      unat (x2i_buf (chan s k)) + unat (x2i_head (chan s k))"
proof -
  note ok = layout_chan [OF s k]
  show buf: "unat (x2i_buf (chan s k)) + unat (x2i_size (chan s k)) + 4 \<le> 0x40000"
    using ok layout_active [OF s k less] ring_end [OF k]
    by (auto simp: chan_ok_def ring_len_def split: if_splits)
  show "unat (x2i_buf (chan s k) + x2i_head (chan s k)) =
      unat (x2i_buf (chan s k)) + unat (x2i_head (chan s k))"
    using ok buf by (subst unat_add_small) (auto simp: chan_ok_def)
qed

lemma layout_peek:
  assumes "layout_inv s" and "k < 7" and less: "x2i_head (chan s k) < x2i_size (chan s k)"
  shows "layout_inv (snd (xdna_sram_read32 s (x2i_buf (chan s k) + x2i_head (chan s k))))"
proof -
  have "unat (x2i_head (chan s k)) < unat (x2i_size (chan s k))"
    using less by (simp add: word_less_nat_alt)
  then show ?thesis
    using layout_x2i_read [OF assms] assms(1)
    by (simp add: read32_in_bounds layout_read)
qed

lemma layout_consume:
  assumes s: "layout_inv s" and k: "k < 7"
    and less: "x2i_head (chan s k) < x2i_size (chan s k)"
    and fits: "16 + peek \<le> x2i_size (chan s k) - x2i_head (chan s k)" "peek \<le> 0x2000"
    and a: "a = unat (x2i_buf (chan s k)) + unat (x2i_head (chan s k))"
  shows "layout_inv (count_msg_in (set_x2i_head
      (sram_load_mark (sram_load_mark s a 16) (a + 16) (unat peek))
      k (x2i_head (chan s k) + (16 + peek))))"
proof -
  note arith = consume_arith [OF less fits layout_size [OF s k]]
  have "layout_inv (sram_load_mark (sram_load_mark s a 16) (a + 16) (unat peek))"
    using arith layout_x2i_read [OF s k less] by (intro layout_read s) (simp_all add: a)
  moreover have "chan_ok k ((chan s k)\<lparr>x2i_head := x2i_head (chan s k) + (16 + peek)\<rparr>)"
    using layout_chan [OF s k] arith by (simp add: chan_ok_def)
  ultimately show ?thesis
    using k layout_chan_update [of "sram_load_mark (sram_load_mark s a 16) (a + 16) (unat peek)"]
    by (simp add: count_msg_in_def set_x2i_head_def)
qed

lemma layout_rewind: "layout_inv s \<Longrightarrow> k < 7 \<Longrightarrow> layout_inv (set_x2i_head s k 0)"
  by (simp add: set_x2i_head_def layout_chan_update layout_chan)

lemma max_channels: "k < XDNA_MAX_CHANNELS \<longleftrightarrow> k < 7"
  by (simp add: xdna_consts)

interpretation layout: device_closed layout_inv any_guest
proof unfold_locales
  fix hops :: "'h host_ops" and h s
  assume "xdna_npu_new hops h True True = Some s"
  then show "layout_inv s"
    by (auto simp: xdna_npu_new_def zero_npu_def intro: layout_reset)
next
  fix s :: "'h xdna_npu"
  assume "layout_inv s"
  then show "layout_inv (xdna_npu_reset s)"
    by (simp add: layout_inv_def [of s] layout_reset)
qed (simp_all add: max_channels layout_create layout_destroy layout_heap layout_boot
    layout_release layout_peek layout_consume layout_read layout_rewind
    layout_chan_update layout_chan)

end
