(* ===== verification/Xdna_Access.thy ===== *)
theory Xdna_Access
  imports Xdna_Closure
begin

text \<open>
  The MMIO entry points as the host calls them: what a 4-byte access does, that every
  access of up to eight bytes returns, which buffer accesses return, and that every state the
  public functions can produce is a state of a run of \<open>Xdna_Closure\<close>, so that the
  invariants proved for runs hold for every caller of the library.
\<close>

lemma unat_bound: "unat (w :: 'a::len word) < 2 ^ LENGTH('a)"
  by (rule unsigned_less)

subsection \<open>One iteration of the loops\<close>

lemma write_loop_done: "\<not> i < len \<Longrightarrow> mmio_write_loop s bar off src len i = Some s"
  by (simp add: mmio_write_loop.simps)

lemma read_loop_done: "\<not> i < len \<Longrightarrow> mmio_read_loop s bar off len i dst = Some (dst, s)"
  by (simp add: mmio_read_loop.simps)

lemma take_le_bytes_u64 [simp]: "take 4 (le_bytes 8 (v :: u64)) = le_bytes 4 v"
  by (simp add: byte_eval eval_nat_numeral)

lemma le_word_le_bytes_low [simp]: "(le_word (le_bytes 4 (v :: u64)) :: u32) = ucast v"
  by (simp add: le_word_le_bytes) (rule bit_word_eqI, auto simp: bit_simps)

lemma le_word_le_bytes_high [simp]: "(le_word (le_bytes 4 (v :: u32)) :: u64) = ucast v"
  by (simp add: le_word_le_bytes take_bit_word_eq_self)

text \<open>A 4-byte access to a register BAR is one word access at the offset.\<close>

lemma mmio_write_word:
  assumes "bar \<noteq> XDNA_BAR_SRAM"
  shows "xdna_npu_mmio_write s bar off v 4 = Some (bar_word_write s bar off (ucast v))"
  using assms
  by (simp add: xdna_npu_mmio_write_def xdna_npu_mmio_write_buf_def
      mmio_write_loop.simps [of _ _ _ _ _ 0] write_loop_done)

lemma mmio_read_word:
  assumes "bar \<noteq> XDNA_BAR_SRAM"
  shows "xdna_npu_mmio_read s bar off 4 =
    Some (ucast (fst (bar_word_read s bar off)), snd (bar_word_read s bar off))"
  using assms
  by (simp add: xdna_npu_mmio_read_def xdna_npu_mmio_read_buf_def Let_def
      mmio_read_loop.simps [of _ _ _ _ 0] read_loop_done)

lemma sram_guard:
  "(ucast (off :: u32) + ucast (len :: u32) :: u64) > ucast XDNA_BAR_SRAM_SIZE \<longleftrightarrow>
    unat off + unat len > 0x40000"
proof -
  have wide: "unat (ucast w :: u64) = unat w" for w :: u32
    using unat_bound [of w]
    by (simp add: unsigned_ucast_eq take_bit_nat_eq_self)
  have "unat (ucast off + ucast len :: u64) = unat off + unat len"
    using unat_bound [of off] unat_bound [of len]
    by (subst unat_add_small) (simp_all add: wide)
  then show ?thesis
    by (simp add: word_less_nat_alt xdna_consts)
qed

lemma mmio_read_sram:
  "xdna_npu_mmio_read_buf s XDNA_BAR_SRAM off len =
    (if unat off + unat len > 0x40000 then Some (replicate (unat len) 0, s)
     else Some (mem_load (sram s) (unat off) (unat len),
                sram_load_mark s (unat off) (unat len)))"
  unfolding xdna_npu_mmio_read_buf_def sram_guard by simp

lemma mmio_write_sram:
  "xdna_npu_mmio_write_buf s XDNA_BAR_SRAM off src len =
    (if unat off + unat len > 0x40000 then Some s
     else Some (sram_store s (unat off) (take (unat len) src)))"
  unfolding xdna_npu_mmio_write_buf_def sram_guard by simp

text \<open>C38: The SRAM BAR is memory.  A block written inside the SRAM is read back, a disjoint block
  reads as before, and a block that does not fit is neither written (the device is unchanged)
  nor read (zeros come back); all of these calls return.\<close>

lemma sram_block_access:
  assumes "length src = unat len"
  shows "if unat off + unat len \<le> unat XDNA_BAR_SRAM_SIZE
    then (\<exists>t u. xdna_npu_mmio_write_buf s XDNA_BAR_SRAM off src len = Some t \<and>
      xdna_npu_mmio_read_buf t XDNA_BAR_SRAM off len = Some (src, u) \<and>
      (unat off' + unat len' \<le> unat off \<or> unat off + unat len \<le> unat off' \<longrightarrow>
        map_option fst (xdna_npu_mmio_read_buf t XDNA_BAR_SRAM off' len') =
        map_option fst (xdna_npu_mmio_read_buf s XDNA_BAR_SRAM off' len')))
    else xdna_npu_mmio_write_buf s XDNA_BAR_SRAM off src len = Some s \<and>
      xdna_npu_mmio_read_buf s XDNA_BAR_SRAM off len = Some (replicate (unat len) 0, s)"
  using assms mem.load_store_same [of "sram s" "unat off" src]
  by (auto simp: mmio_read_sram mmio_write_sram mem.load_store_apart XDNA_BAR_SRAM_SIZE_def)

lemma sram_block_access_witness:
  "\<exists>t u. xdna_npu_mmio_write_buf (zero_npu \<lparr>dma_read = None, dma_read_phys = None, dma_write = None,
      raise_irq = None, log_cb = None\<rparr> () (\<lambda>_. 0) False False) XDNA_BAR_SRAM 0x100 [1, 2, 3] 3 = Some t \<and>
    xdna_npu_mmio_read_buf t XDNA_BAR_SRAM 0x100 3 = Some ([1, 2, 3], u)"
  using sram_block_access [of "[1, 2, 3]" 3 "0x100"
      "zero_npu \<lparr>dma_read = None, dma_read_phys = None, dma_write = None, raise_irq = None,
         log_cb = None\<rparr> () (\<lambda>_. 0) False False" 0 0]
  by (simp add: XDNA_BAR_SRAM_SIZE_def) blast

subsection \<open>Which accesses return\<close>

lemma loop_index_step:
  fixes i len :: u32
  assumes "i < len" and "len \<le> 0xFFFFFFFC"
  shows "unat len - unat (i + 4) < unat len - unat i"
proof -
  have less: "unat i < unat len" and bound: "unat len \<le> 0xFFFFFFFC"
    using assms by (simp_all add: word_less_nat_alt word_le_nat_alt)
  then have "unat (i + 4) = unat i + 4"
    by (subst unat_add_small) simp_all
  with less show ?thesis by simp
qed

lemma read_loop_returns:
  "len \<le> 0xFFFFFFFC \<Longrightarrow> mmio_read_loop s bar off len i dst \<noteq> None"
proof (induction "unat len - unat i" arbitrary: s i dst rule: less_induct)
  case less
  show ?case
  proof (cases "i < len")
    case True
    note shorter = loop_index_step [OF True less.prems]
    show ?thesis
      by (subst mmio_read_loop.simps)
        (simp add: True less.hyps [OF shorter less.prems] Let_def del: not_None_eq)
  qed (simp add: read_loop_done)
qed

lemma write_loop_returns:
  "len \<le> 0xFFFFFFFC \<Longrightarrow> mmio_write_loop s bar off src len i \<noteq> None"
proof (induction "unat len - unat i" arbitrary: s i rule: less_induct)
  case less
  show ?case
  proof (cases "i < len")
    case True
    note shorter = loop_index_step [OF True less.prems]
    show ?thesis
      by (subst mmio_write_loop.simps)
        (simp add: True less.hyps [OF shorter less.prems] Let_def del: not_None_eq)
  qed (simp add: write_loop_done)
qed

lemma read_buf_returns: "len \<le> 0xFFFFFFFC \<Longrightarrow> xdna_npu_mmio_read_buf s bar off len \<noteq> None"
  by (simp add: xdna_npu_mmio_read_buf_def read_loop_returns del: not_None_eq)

lemma write_buf_returns: "len \<le> 0xFFFFFFFC \<Longrightarrow> xdna_npu_mmio_write_buf s bar off src len \<noteq> None"
  by (simp add: xdna_npu_mmio_write_buf_def write_loop_returns del: not_None_eq)

lemma mmio_len_cut: "(if len > 8 then 8 else len :: u32) \<le> 0xFFFFFFFC"
  by (auto simp: word_less_nat_alt word_le_nat_alt)

lemma unat_and_3: "unat (w AND 3 :: u32) = unat w mod 4"
  using take_bit_eq_mask [of 2 "unat w"]
  by (simp add: unsigned_and_eq take_bit_eq_mod mask_eq_exp_minus_1)

text \<open>
  A longer buffer on a register BAR never returns: the index of the loop is a 32-bit multiple
  of four, and every such value is below the length.
\<close>

lemma multiple_of_4:
  fixes i len :: u32
  assumes "0xFFFFFFFC < len" and "i AND 3 = 0"
  shows "i < len" and "(i + 4) AND 3 = 0"
proof -
  have i: "unat i mod 4 = 0"
    using assms(2) unat_and_3 [of i] by simp
  moreover have "unat i < 4294967296"
    using unat_bound [of i] by simp
  ultimately have "unat i \<le> 0xFFFFFFFC"
    by presburger
  with assms(1) show "i < len"
    by (simp add: word_less_nat_alt)
  have "unat ((i + 4) AND 3) = (unat i + 4) mod 4294967296 mod 4"
    unfolding unat_and_3 by (simp add: unat_word_ariths)
  also have "\<dots> = 0"
    using i mod_add_left_eq [of "unat i" 4 4] by (simp add: mod_mod_cancel)
  finally show "(i + 4) AND 3 = 0"
    by (simp add: unat_eq_0)
qed

lemma read_loop_diverges:
  "mmio_read_loop s bar off len i dst = Some r \<Longrightarrow> \<not> (0xFFFFFFFC < len \<and> i AND 3 = 0)"
proof (induction rule: mmio_read_loop.raw_induct [rotated, consumes 1, case_names loop])
  case (loop mmio_read_loop npu bar off len i dst y)
  then show ?case
    using multiple_of_4 [of len i] by (auto simp: Let_def split: if_splits)
qed

lemma write_loop_diverges:
  "mmio_write_loop s bar off src len i = Some r \<Longrightarrow> \<not> (0xFFFFFFFC < len \<and> i AND 3 = 0)"
proof (induction rule: mmio_write_loop.raw_induct [rotated, consumes 1, case_names loop])
  case (loop mmio_write_loop npu bar off src len i y)
  then show ?case
    using multiple_of_4 [of len i] by (auto simp: Let_def split: if_splits)
qed

lemma mmio_returns:
  "xdna_npu_mmio_read s bar off len \<noteq> None" "xdna_npu_mmio_write s bar off v len \<noteq> None"
  using read_buf_returns [OF mmio_len_cut, of s bar off len]
    write_buf_returns [OF mmio_len_cut, of s bar off "le_bytes 8 v" len]
  by (simp_all add: xdna_npu_mmio_read_def xdna_npu_mmio_write_def del: not_None_eq)

text \<open>C34: Which MMIO calls return.  \<open>xdna_npu_mmio_read\<close> and \<open>xdna_npu_mmio_write\<close> return for
  every BAR, offset and length, because they cut the length to eight; the buffer functions
  return on a register BAR exactly when the length is at most 2^32 - 4: for the three lengths
  above, their 32-bit index wraps to zero without having reached the length, and the loop
  goes on for ever.\<close>

lemma mmio_calls_return:
  "xdna_npu_mmio_read s bar off len \<noteq> None \<and>
   xdna_npu_mmio_write s bar off v len \<noteq> None \<and>
   (xdna_npu_mmio_read_buf s bar off len = None \<longleftrightarrow>
      bar \<noteq> XDNA_BAR_SRAM \<and> len > 0xFFFFFFFC) \<and>
   (xdna_npu_mmio_write_buf s bar off src len = None \<longleftrightarrow>
      bar \<noteq> XDNA_BAR_SRAM \<and> len > 0xFFFFFFFC)"
proof (intro conjI)
  show "xdna_npu_mmio_read s bar off len \<noteq> None" "xdna_npu_mmio_write s bar off v len \<noteq> None"
    by (rule mmio_returns)+
  show "xdna_npu_mmio_read_buf s bar off len = None \<longleftrightarrow>
      bar \<noteq> XDNA_BAR_SRAM \<and> len > 0xFFFFFFFC"
    using read_buf_returns [of len s bar off] read_loop_diverges [of s bar off len 0 "[]"]
    by (cases "len \<le> 0xFFFFFFFC"; cases "xdna_npu_mmio_read_buf s bar off len")
      (auto simp: xdna_npu_mmio_read_buf_def not_le not_less split: if_splits)
  show "xdna_npu_mmio_write_buf s bar off src len = None \<longleftrightarrow>
      bar \<noteq> XDNA_BAR_SRAM \<and> len > 0xFFFFFFFC"
    using write_buf_returns [of len s bar off src] write_loop_diverges [of s bar off src len 0]
    by (cases "len \<le> 0xFFFFFFFC"; cases "xdna_npu_mmio_write_buf s bar off src len")
      (auto simp: xdna_npu_mmio_write_buf_def not_le not_less split: if_splits)
qed

lemma any_guest_free: "head_guard any_guest s bar off v"
  by (auto simp: head_guard_def any_guest_def split: option.split)

subsection \<open>Every caller's run is a run of the device\<close>

lemma write_loop_run:
  "mmio_write_loop s bar off src len i = Some t \<Longrightarrow> dev_run any_guest s t"
proof (induction rule: mmio_write_loop.raw_induct [rotated, consumes 1, case_names loop])
  case (loop mmio_write_loop npu bar off src len i y)
  have first: "dev_run any_guest npu t" if "dev_run any_guest (bar_word_write npu bar a v) t" for a v t
    by (rule converse_rtranclp_into_rtranclp [OF dev_step.word_write that]) (simp add: any_guest_free)
  from loop(2) show ?case
    by (auto simp: Let_def split: if_splits dest!: loop(1) intro: first)
qed

lemma read_loop_run:
  "mmio_read_loop s bar off len i dst = Some r \<Longrightarrow> dev_run any_guest s (snd r)"
proof (induction rule: mmio_read_loop.raw_induct [rotated, consumes 1, case_names loop])
  case (loop mmio_read_loop npu bar off len i dst y)
  have first: "dev_run any_guest npu t" if "dev_run any_guest (snd (bar_word_read npu bar a)) t" for a t
    by (rule converse_rtranclp_into_rtranclp [OF dev_step.word_read that])
  from loop(2) show ?case
    by (auto simp: Let_def split: if_splits dest!: loop(1) intro: first)
qed

lemma read_buf_run:
  assumes "xdna_npu_mmio_read_buf s bar off len = Some (bs, t)"
  shows "dev_run any_guest s t"
proof (cases "bar = XDNA_BAR_SRAM")
  case True
  with assms show ?thesis
    by (auto simp only: mmio_read_sram not_less split: if_splits
        intro: dev_step.sram_read)
next
  case False
  with assms show ?thesis
    using read_loop_run [of s bar off len 0 "[]" "(bs, t)"]
    by (simp add: xdna_npu_mmio_read_buf_def)
qed

lemma write_buf_run:
  assumes "xdna_npu_mmio_write_buf s bar off src len = Some t"
  shows "dev_run any_guest s t"
proof (cases "bar = XDNA_BAR_SRAM")
  case True
  have "dev_step any_guest s (sram_store s (unat off) (take (unat len) src))"
    if "unat off + unat len \<le> 0x40000"
    using that by (intro dev_step.sram_write) simp
  with assms True show ?thesis
    by (auto simp only: mmio_write_sram not_less split: if_splits)
next
  case False
  with assms show ?thesis
    using write_loop_run [of s bar off src len 0 t]
    by (simp add: xdna_npu_mmio_write_buf_def)
qed

lemma mmio_read_run: "xdna_npu_mmio_read s bar off len = Some (v, t) \<Longrightarrow> dev_run any_guest s t"
  by (auto simp: xdna_npu_mmio_read_def elim: read_buf_run split: if_splits)

lemma mmio_write_run: "xdna_npu_mmio_write s bar off v len = Some t \<Longrightarrow> dev_run any_guest s t"
  by (auto simp: xdna_npu_mmio_write_def elim: write_buf_run split: if_splits)

text \<open>
  A caller of the library: any sequence of calls of the public functions of
  \<open>include/xdna/xdna_emu.h\<close> on one device, with arguments of the caller's choice.
\<close>

inductive api_step :: "'h xdna_npu \<Rightarrow> 'h xdna_npu \<Rightarrow> bool" where
  mmio_read: "xdna_npu_mmio_read s bar off len = Some (v, t) \<Longrightarrow> api_step s t"
| mmio_write: "xdna_npu_mmio_write s bar off v len = Some t \<Longrightarrow> api_step s t"
| mmio_read_buf: "xdna_npu_mmio_read_buf s bar off len = Some (bs, t) \<Longrightarrow> api_step s t"
| mmio_write_buf: "xdna_npu_mmio_write_buf s bar off src len = Some t \<Longrightarrow> api_step s t"
| device_reset: "api_step s (xdna_npu_reset s)"

inductive api_reach :: "'h xdna_npu \<Rightarrow> bool" where
  new: "xdna_npu_new hops h True True = Some s \<Longrightarrow> api_reach s"
| step: "api_reach s \<Longrightarrow> api_step s t \<Longrightarrow> api_reach t"

lemma api_step_run: "api_step s t \<Longrightarrow> dev_run any_guest s t"
  by (induction rule: api_step.induct)
    (auto intro: mmio_read_run mmio_write_run read_buf_run write_buf_run dev_step.reset)

lemma api_reach_run: "api_reach s \<Longrightarrow> dev_reach any_guest s"
  by (induction rule: api_reach.induct) (auto intro: dev_reach.new dev_reach_run api_step_run)

lemma api_write: "api_reach s \<Longrightarrow> xdna_npu_mmio_write s bar off v len = Some t \<Longrightarrow> api_reach t"
  by (rule api_reach.step [OF _ api_step.mmio_write])

end
