(* ===== verification/Xdna_Host.thy ===== *)
theory Xdna_Host
  imports Xdna_Access
begin

text \<open>
  The host of the repository's boot test (\<open>tests/test_boot.c\<close>): 8 MB of memory that the
  device reaches by DMA, interrupt lines, and the log.  It gives the development a concrete
  host on which runs are evaluated; the log it prints is kept as a list.
\<close>

definition HOST_MEM_BASE :: u64 where
  [xdna_consts]: "HOST_MEM_BASE = 0x100000000"

definition HOST_MEM_SIZE :: u64 where
  [xdna_consts]: "HOST_MEM_SIZE = 8 * 1024 * 1024"

record Host =
  h_mem :: "nat \<Rightarrow> u8"
  irq_count :: u32
  last_vector :: nat
  irq_pending :: "nat \<Rightarrow> bool"
  verbose :: bool
  printed :: "(xdna_log_level \<times> log_msg) list"

definition host_dma_read :: "Host \<Rightarrow> u64 \<Rightarrow> nat \<Rightarrow> int \<times> u8 list \<times> Host" where
  "host_dma_read h addr len =
     (if addr < HOST_MEM_BASE \<or> addr + word_of_nat len > HOST_MEM_BASE + HOST_MEM_SIZE
      then (-1, [], h)
      else (0, mem_load (h_mem h) (unat (addr - HOST_MEM_BASE)) len, h))"

definition host_dma_write :: "Host \<Rightarrow> u64 \<Rightarrow> u8 list \<Rightarrow> int \<times> Host" where
  "host_dma_write h addr buf =
     (if addr < HOST_MEM_BASE \<or>
         addr + word_of_nat (length buf) > HOST_MEM_BASE + HOST_MEM_SIZE
      then (-1, h)
      else (0, h\<lparr>h_mem := mem_store (h_mem h) (unat (addr - HOST_MEM_BASE)) buf\<rparr>))"

definition host_raise_irq :: "Host \<Rightarrow> nat \<Rightarrow> Host" where
  "host_raise_irq h0 vector =
     (let h = h0\<lparr>irq_count := irq_count h0 + 1, last_vector := vector\<rparr>
      in if vector < XDNA_MSIX_VECTORS
         then h\<lparr>irq_pending := (irq_pending h)(vector := True)\<rparr> else h)"

definition host_log :: "Host \<Rightarrow> xdna_log_level \<Rightarrow> log_msg \<Rightarrow> Host" where
  "host_log h level msg =
     (if \<not> verbose h \<and> level > XDNA_LOG_INFO then h
      else h\<lparr>printed := printed h @ [(level, msg)]\<rparr>)"

definition test_ops :: "Host host_ops" where
  "test_ops = \<lparr>dma_read = Some host_dma_read, dma_read_phys = None,
     dma_write = Some host_dma_write, raise_irq = Some host_raise_irq,
     log_cb = Some host_log\<rparr>"

definition FW_PADDR :: u64 where
  [xdna_consts]: "FW_PADDR = HOST_MEM_BASE + 0x10000"

definition FW_SIZE :: u32 where
  [xdna_consts]: "FW_SIZE = 0x40000"

text \<open>The host at the start of the test: zeroed memory with a fake firmware image in it.\<close>

definition test_host :: "bool \<Rightarrow> Host" where
  "test_host v =
     \<lparr>h_mem = mem_store (\<lambda>_. 0) (unat (FW_PADDR - HOST_MEM_BASE))
                (replicate (unat FW_SIZE) 0xA5),
      irq_count = 0, last_vector = 0, irq_pending = (\<lambda>_. False), verbose = v, printed = []\<rparr>"

definition test_npu :: "Host xdna_npu" where
  "test_npu = xdna_npu_reset (zero_npu test_ops (test_host False) (\<lambda>_. 0) False False)"

lemma test_npu_new: "xdna_npu_new test_ops (test_host False) True True = Some test_npu"
  by (simp add: xdna_npu_new_def test_npu_def)

lemma test_npu_reach: "api_reach test_npu"
  by (rule api_reach.new) (rule test_npu_new)

subsection \<open>The device right after creation\<close>

lemma reset_fields:
  "ops (xdna_npu_reset s) = ops s"
  "opaque (xdna_npu_reset s) = opaque s"
  "scratch (xdna_npu_reset s) = (\<lambda>_. 0)(2 := PSP_STATUS_READY)"
  "pwaitmode (xdna_npu_reset s) = 0"
  "sec_intr (xdna_npu_reset s) = 0"
  "pwrmgmt_intr (xdna_npu_reset s) = 0"
  "fw_paddr (xdna_npu_reset s) = 0"
  "fw_size (xdna_npu_reset s) = 0"
  "npuclk (xdna_npu_reset s) = 0"
  "hclk (xdna_npu_reset s) = 0"
  "mgmt_pasid (xdna_npu_reset s) = 0"
  "async_buf_addr (xdna_npu_reset s) = 0"
  "async_buf_size (xdna_npu_reset s) = 0"
  "psp_state (xdna_npu_reset s) = XDNA_PSP_COLD"
  "power_on (xdna_npu_reset s) = False"
  "fw_alive (xdna_npu_reset s) = False"
  "fw_suspended (xdna_npu_reset s) = False"
  "dpm_level (xdna_npu_reset s) = 0"
  "rt_cfg (xdna_npu_reset s) = (\<lambda>_. 0)"
  "ctx (xdna_npu_reset s) = (\<lambda>_. zero_context)"
  "next_ctx_id (xdna_npu_reset s) = 1"
  "col_used (xdna_npu_reset s) = 0"
  "async_registered (xdna_npu_reset s) = False"
  "stats (xdna_npu_reset s) = zero_stats"
  "oob_read (xdna_npu_reset s) = oob_read s"
  "oob_write (xdna_npu_reset s) = oob_write s"
  "chan (xdna_npu_reset s) =
    (\<lambda>i. if i < XDNA_MAX_CHANNELS then zero_channel\<lparr>ch_index := i\<rparr> else zero_channel)"
  "sram (xdna_npu_reset s) = mem_store (sram s) 0 (replicate 0x40000 0)"
  by (simp_all add: xdna_npu_reset_def zero_npu_def Let_def mbox_reset_eq)
    (simp_all add: sram_store_def xdna_consts cong: if_cong)

lemma reset_sram: "mem_load (sram (xdna_npu_reset s)) 0 0x40000 = replicate 0x40000 0"
  using mem.load_store_same [of "sram s" 0 "replicate 0x40000 0"] by (simp add: reset_fields)

text \<open>C39: A reset device is a new device.  Whatever happened before, \<open>xdna_npu_reset\<close> leaves the
  device exactly as \<open>xdna_npu_new\<close> makes it for the same host: registers, channels, contexts,
  firmware state and statistics are those of the new device, and so is every byte of the SRAM
  allocation; creation itself fails exactly when one of the two allocations fails.\<close>

lemma reset_is_new:
  "let t = xdna_npu_reset s in
    (case xdna_npu_new (ops s) (opaque s) ok_npu ok_sram of
       None \<Rightarrow> \<not> (ok_npu \<and> ok_sram)
     | Some u \<Rightarrow> ok_npu \<and> ok_sram \<and>
         t = u\<lparr>sram := sram t, oob_read := oob_read s, oob_write := oob_write s\<rparr> \<and>
         mem_load (sram t) 0 (unat XDNA_BAR_SRAM_SIZE) = mem_load (sram u) 0 (unat XDNA_BAR_SRAM_SIZE))"
proof -
  let ?u = "xdna_npu_reset (zero_npu (ops s) (opaque s) (\<lambda>_. 0) False False)"
  have "xdna_npu_reset s = ?u\<lparr>sram := sram (xdna_npu_reset s), oob_read := oob_read s,
      oob_write := oob_write s\<rparr>"
    by (rule xdna_npu.equality) (simp_all add: reset_fields zero_npu_def)
  then show ?thesis
    by (simp add: Let_def xdna_npu_new_def reset_sram XDNA_BAR_SRAM_SIZE_def)
qed

end
