(* ===== verification/Xdna_Units.thy ===== *)
theory Xdna_Units
  imports Xdna_Host
begin

text \<open>
  What the two command units of the REG BAR promise the driver: the SMU table, the PSP state
  machine, the firmware boot and its shutdown.  \<open>command_unit\<close> is the contract both share:
  a kick writes the response registers of its unit and no other scratch register, and what it
  leaves there ends the driver's poll at its first read.  The register file around them and the
  steps that can start the firmware come last.
\<close>

subsection \<open>Register decoding\<close>

lemma reg_write_simps [simp]:
  "reg_bar_write s XDNA_REG_PWAITMODE v = s\<lparr>pwaitmode := v\<rparr>"
  "reg_bar_write s XDNA_REG_SCRATCH2 v = set_scratch s 2 v"
  "reg_bar_write s XDNA_REG_SCRATCH3 v = set_scratch s 3 v"
  "reg_bar_write s XDNA_REG_SCRATCH4 v = set_scratch s 4 v"
  "reg_bar_write s XDNA_REG_SCRATCH5 v = set_scratch s 5 v"
  "reg_bar_write s XDNA_REG_SCRATCH6 v = set_scratch s 6 v"
  "reg_bar_write s XDNA_REG_SCRATCH7 v = set_scratch s 7 v"
  "reg_bar_write s XDNA_REG_SCRATCH9 v = set_scratch s 9 v"
  "reg_bar_write s XDNA_REG_PUB_SEC_INTR v =
    (if v = PSP_NOTIFY_VAL then xdna_psp_kick (s\<lparr>sec_intr := v\<rparr>) else s\<lparr>sec_intr := v\<rparr>)"
  "reg_bar_write s XDNA_REG_PUB_PWRMGMT_IR v =
    (if v = 1 then xdna_smu_kick (s\<lparr>pwrmgmt_intr := v\<rparr>) else s\<lparr>pwrmgmt_intr := v\<rparr>)"
  by (simp_all add: reg_bar_write_def xdna_consts Let_def)

lemma reg_read_simps [simp]:
  "reg_bar_read s XDNA_REG_PWAITMODE = (pwaitmode s, s)"
  "reg_bar_read s XDNA_REG_PUB_SEC_INTR = (sec_intr s, s)"
  "reg_bar_read s XDNA_REG_PUB_PWRMGMT_IR = (pwrmgmt_intr s, s)"
  "reg_bar_read s XDNA_REG_SCRATCH2 = (scratch s 2, s)"
  "reg_bar_read s XDNA_REG_SCRATCH3 = (scratch s 3, s)"
  "reg_bar_read s XDNA_REG_SCRATCH4 = (scratch s 4, s)"
  "reg_bar_read s XDNA_REG_SCRATCH5 = (scratch s 5, s)"
  "reg_bar_read s XDNA_REG_SCRATCH6 = (scratch s 6, s)"
  "reg_bar_read s XDNA_REG_SCRATCH7 = (scratch s 7, s)"
  "reg_bar_read s XDNA_REG_SCRATCH9 = (scratch s 9, s)"
  by (simp_all add: reg_bar_read_def xdna_consts)

subsection \<open>The contract of a command unit\<close>

locale command_unit =
  fixes kick :: "'h xdna_npu \<Rightarrow> 'h xdna_npu"
    and responses :: "nat set"
    and answered :: "(nat \<Rightarrow> u32) \<Rightarrow> bool"
  assumes kick_keeps: "i \<notin> responses \<Longrightarrow> scratch (kick s) i = scratch s i"
    and kick_answers: "answered (scratch (kick s))"
begin

lemma kicks_keep: "i \<notin> responses \<Longrightarrow> scratch ((kick ^^ n) s) i = scratch s i"
  by (induction n) (simp_all add: kick_keeps)

lemma kicks_answered: "answered (scratch s) \<Longrightarrow> answered (scratch ((kick ^^ n) s))"
  by (cases n) (simp_all add: kick_answers)

end

subsection \<open>SMU\<close>

definition smu_answer :: "u32 \<Rightarrow> u32 \<Rightarrow> u32 \<times> u32" where
  "smu_answer cmd arg =
     (if cmd = AIE_SMU_POWER_ON \<or> cmd = AIE_SMU_POWER_OFF then (SMU_RESULT_OK, 0)
      else if cmd = AIE_SMU_SET_MPNPUCLK_FREQ \<or> cmd = AIE_SMU_SET_HCLK_FREQ
      then (SMU_RESULT_OK, arg)
      else if (cmd = AIE_SMU_SET_SOFT_DPMLEVEL \<or> cmd = AIE_SMU_SET_HARD_DPMLEVEL) \<and>
              arg \<le> XDNA_NPU1_MAX_DPM_LEVEL
      then (SMU_RESULT_OK, arg)
      else (SMU_RESULT_FAIL, 0))"

lemma smu_scratch:
  "scratch (xdna_smu_kick s) =
    (scratch s)(6 := fst (smu_answer (scratch s 5) (scratch s 7)),
                7 := snd (smu_answer (scratch s 5) (scratch s 7)))"
  by (auto simp: xdna_smu_kick_def smu_complete_def smu_answer_def Let_def)

interpretation smu: command_unit xdna_smu_kick "{6, 7}" "\<lambda>r. r 6 \<noteq> 0"
  by unfold_locales (auto simp: smu_scratch smu_answer_def xdna_consts)

lemma smu_kick_frame [simp]:
  "ops (xdna_smu_kick s) = ops s"
  "sram (xdna_smu_kick s) = sram s"
  "chan (xdna_smu_kick s) = chan s"
  "ctx (xdna_smu_kick s) = ctx s"
  "psp_state (xdna_smu_kick s) = psp_state s"
  "fw_alive (xdna_smu_kick s) = fw_alive s"
  "fw_suspended (xdna_smu_kick s) = fw_suspended s"
  "pwaitmode (xdna_smu_kick s) = pwaitmode s"
  "sec_intr (xdna_smu_kick s) = sec_intr s"
  "pwrmgmt_intr (xdna_smu_kick s) = pwrmgmt_intr s"
  "rt_cfg (xdna_smu_kick s) = rt_cfg s"
  "next_ctx_id (xdna_smu_kick s) = next_ctx_id s"
  "stats (xdna_smu_kick s) = (stats s)\<lparr>smu_cmds := smu_cmds (stats s) + 1\<rparr>"
  "oob_read (xdna_smu_kick s) = oob_read s"
  "oob_write (xdna_smu_kick s) = oob_write s"
  by (simp_all add: xdna_smu_kick_def smu_complete_def Let_def)

lemma smu_state:
  "power_on (xdna_smu_kick s) =
    (if scratch s 5 = AIE_SMU_POWER_ON then True
     else if scratch s 5 = AIE_SMU_POWER_OFF then False else power_on s)"
  "npuclk (xdna_smu_kick s) =
    (if scratch s 5 = AIE_SMU_SET_MPNPUCLK_FREQ then scratch s 7 else npuclk s)"
  "hclk (xdna_smu_kick s) =
    (if scratch s 5 = AIE_SMU_SET_HCLK_FREQ then scratch s 7 else hclk s)"
  "dpm_level (xdna_smu_kick s) =
    (if (scratch s 5 = AIE_SMU_SET_SOFT_DPMLEVEL \<or> scratch s 5 = AIE_SMU_SET_HARD_DPMLEVEL) \<and>
        scratch s 7 \<le> XDNA_NPU1_MAX_DPM_LEVEL
     then scratch s 7 else dpm_level s)"
  by (auto simp: xdna_smu_kick_def smu_complete_def Let_def xdna_consts)

subsection \<open>PSP\<close>

text \<open>What the PSP answers about an image at a host address.\<close>

definition psp_image_result :: "'h xdna_npu \<Rightarrow> u64 \<Rightarrow> u32 \<Rightarrow> u32" where
  "psp_image_result s paddr sz =
     (if sz = 0 then PSP_ERROR_BAD_STATE
      else case (case dma_read_phys (ops s) of Some f \<Rightarrow> Some f | None \<Rightarrow> dma_read (ops s)) of
             None \<Rightarrow> PSP_ERROR_CANCEL
           | Some f \<Rightarrow>
               if fst (f (opaque s) paddr (min (unat sz) 64)) = 0 then 0 else PSP_ERROR_CANCEL)"

definition psp_kick_image :: "'h xdna_npu \<Rightarrow> u32" where
  "psp_kick_image s =
     psp_image_result s (push_bit 32 (ucast (scratch s 4)) OR ucast (scratch s 3))
       (scratch s 9 AND PSP_ARG2_MASK)"

text \<open>The state machine: a state and a command with the fate of its image give the next state
  and the response.\<close>

definition psp_next :: "xdna_psp_state \<Rightarrow> u32 \<Rightarrow> u32 \<Rightarrow> xdna_psp_state \<times> u32" where
  "psp_next st cmd img =
     (if cmd = PSP_CMD_VALIDATE then (if img = 0 then XDNA_PSP_VALIDATED else st, img)
      else if cmd = PSP_CMD_VALIDATE_CERT then (st, img)
      else if cmd = PSP_CMD_START
      then (if st = XDNA_PSP_VALIDATED then (XDNA_PSP_RUNNING, 0) else (st, PSP_ERROR_BAD_STATE))
      else if cmd = PSP_CMD_RELEASE_TMR then (XDNA_PSP_COLD, 0)
      else (st, PSP_ERROR_BAD_STATE))"

lemma fetch_image_frame [simp]:
  "ops (snd (psp_fetch_image s a z)) = ops s"
  "scratch (snd (psp_fetch_image s a z)) = scratch s"
  "pwaitmode (snd (psp_fetch_image s a z)) = pwaitmode s"
  "sram (snd (psp_fetch_image s a z)) = sram s"
  "chan (snd (psp_fetch_image s a z)) = chan s"
  "ctx (snd (psp_fetch_image s a z)) = ctx s"
  "psp_state (snd (psp_fetch_image s a z)) = psp_state s"
  "power_on (snd (psp_fetch_image s a z)) = power_on s"
  "fw_alive (snd (psp_fetch_image s a z)) = fw_alive s"
  "fw_suspended (snd (psp_fetch_image s a z)) = fw_suspended s"
  "fw_paddr (snd (psp_fetch_image s a z)) = fw_paddr s"
  "fw_size (snd (psp_fetch_image s a z)) = fw_size s"
  "rt_cfg (snd (psp_fetch_image s a z)) = rt_cfg s"
  "next_ctx_id (snd (psp_fetch_image s a z)) = next_ctx_id s"
  "stats (snd (psp_fetch_image s a z)) = stats s"
  by (simp_all add: psp_fetch_image_def Let_def split: option.split prod.split)

lemma fetch_image_result: "fst (psp_fetch_image s a z) = psp_image_result s a z"
proof -
  have n: "unat (if z < PSP_PEEK_BYTES then z else PSP_PEEK_BYTES) = min (unat z) 64"
    by (auto simp: xdna_consts word_less_nat_alt)
  show ?thesis
    unfolding psp_fetch_image_def psp_image_result_def Let_def n
    by (auto split: option.split prod.split)
qed

lemma image_result_cong:
  "ops s = ops t \<Longrightarrow> opaque s = opaque t \<Longrightarrow> psp_image_result s = psp_image_result t"
  by (intro ext) (auto simp: psp_image_result_def split: option.split)

lemma fw_boot_frame [simp]:
  "ops (xdna_fw_boot s) = ops s"
  "scratch (xdna_fw_boot s) = scratch s"
  "ctx (xdna_fw_boot s) = ctx s"
  "psp_state (xdna_fw_boot s) = psp_state s"
  "power_on (xdna_fw_boot s) = power_on s"
  "fw_alive (xdna_fw_boot s)"
  "\<not> fw_suspended (xdna_fw_boot s)"
  "fw_paddr (xdna_fw_boot s) = fw_paddr s"
  "fw_size (xdna_fw_boot s) = fw_size s"
  "dpm_level (xdna_fw_boot s) = dpm_level s"
  "col_used (xdna_fw_boot s) = col_used s"
  "rt_cfg (xdna_fw_boot s) = rt_cfg s"
  "next_ctx_id (xdna_fw_boot s) = next_ctx_id s"
  "stats (xdna_fw_boot s) = stats s"
  "pwaitmode (xdna_fw_boot s) = pwaitmode s OR 1"
  "oob_read (xdna_fw_boot s) = oob_read s"
  by (simp_all add: xdna_fw_boot_def Let_def)

lemma fw_shutdown_frame [simp]:
  "ops (xdna_fw_shutdown s) = ops s"
  "scratch (xdna_fw_shutdown s) = scratch s"
  "psp_state (xdna_fw_shutdown s) = psp_state s"
  "power_on (xdna_fw_shutdown s) = power_on s"
  "\<not> fw_alive (xdna_fw_shutdown s)"
  "fw_suspended (xdna_fw_shutdown s) = fw_suspended s"
  "dpm_level (xdna_fw_shutdown s) = dpm_level s"
  "col_used (xdna_fw_shutdown s) = 0"
  "rt_cfg (xdna_fw_shutdown s) = rt_cfg s"
  "next_ctx_id (xdna_fw_shutdown s) = next_ctx_id s"
  "stats (xdna_fw_shutdown s) = (stats s)\<lparr>active_contexts := 0\<rparr>"
  "pwaitmode (xdna_fw_shutdown s) = pwaitmode s AND NOT 1"
  "oob_read (xdna_fw_shutdown s) = oob_read s"
  "\<not> async_registered (xdna_fw_shutdown s)"
  by (simp_all add: xdna_fw_shutdown_def Let_def mbox_reset_eq)

lemma psp_scratch:
  "scratch (xdna_psp_kick s) = (scratch s)
    (3 := snd (psp_next (psp_state s) (scratch s 2) (psp_kick_image s)), 2 := PSP_STATUS_READY)"
  by (auto simp: xdna_psp_kick_def psp_complete_def psp_next_def psp_kick_image_def Let_def
      split_beta fetch_image_result
      image_result_cong [of "s\<lparr>stats := (stats s)\<lparr>psp_cmds := psp_cmds (stats s) + 1\<rparr>\<rparr>" s])

interpretation psp: command_unit xdna_psp_kick "{2, 3}" "\<lambda>r. r 2 AND PSP_STATUS_READY \<noteq> 0"
  by unfold_locales (auto simp: psp_scratch xdna_consts)

lemma psp_kick_state:
  "psp_state (xdna_psp_kick s) = fst (psp_next (psp_state s) (scratch s 2) (psp_kick_image s))"
  by (auto simp: xdna_psp_kick_def psp_complete_def psp_next_def psp_kick_image_def Let_def
      split_beta fetch_image_result
      image_result_cong [of "s\<lparr>stats := (stats s)\<lparr>psp_cmds := psp_cmds (stats s) + 1\<rparr>\<rparr>" s])

lemma psp_kick_alive:
  "fw_alive (xdna_psp_kick s) =
    (if scratch s 2 = PSP_CMD_RELEASE_TMR then False
     else if scratch s 2 = PSP_CMD_START \<and> psp_state s = XDNA_PSP_VALIDATED then True
     else fw_alive s)"
  by (simp add: xdna_psp_kick_def psp_complete_def Let_def split_beta)
    (auto simp: xdna_consts)


subsection \<open>Firmware boot\<close>

text \<open>The management channel after a boot, and the structure the driver finds in SRAM.\<close>

definition mgmt_channel :: xdna_channel where
  "mgmt_channel = zero_channel
     \<lparr>ch_active := True, ch_index := 0,
      x2i_buf := XDNA_SRAM_MGMT_X2I_OFF, x2i_size := XDNA_SRAM_MGMT_RB_SIZE,
      i2x_buf := XDNA_SRAM_MGMT_I2X_OFF, i2x_size := XDNA_SRAM_MGMT_RB_SIZE\<rparr>"

lemma fw_boot_chan: "chan (xdna_fw_boot s) = (chan s)(0 := mgmt_channel)"
  by (simp add: xdna_fw_boot_def Let_def channel_reset_chan mgmt_channel_def xdna_consts)

lemma fw_boot_sram:
  "sram (xdna_fw_boot s) =
    mem_store (mem_store (mem_store (mem_store (sram s)
      0x21000 (replicate 0x1000 0)) 0x22000 (replicate 0x1000 0))
      0x20000 (mgmt_info_bytes (mgmt_chan_info mgmt_channel)))
      0x3F000 (le_bytes 4 (xdna_sram_dev_addr XDNA_SRAM_MGMT_INFO_OFF))"
  by (simp add: xdna_fw_boot_def Let_def channel_reset_chan mgmt_channel_def
      write32_in_bounds xdna_consts)

lemma fw_boot_alive_word:
  "mem_load (sram (xdna_fw_boot s)) 0x3F000 4 =
    le_bytes 4 (xdna_sram_dev_addr XDNA_SRAM_MGMT_INFO_OFF)"
  using mem.load_store_same [of _ "0x3F000" "le_bytes 4 (xdna_sram_dev_addr XDNA_SRAM_MGMT_INFO_OFF)"]
  by (simp add: fw_boot_sram)

lemma fw_boot_info:
  "mgmt_info_of (mem_load (sram (xdna_fw_boot s)) 0x20000 64) = mgmt_chan_info mgmt_channel"
  using info_mem.read_back [of _ "0x20000" "mgmt_chan_info mgmt_channel"]
  by (simp add: fw_boot_sram mem.load_store_apart sizeof_mgmt_info_def)

lemma fw_boot_rings:
  "mem_load (sram (xdna_fw_boot s)) 0x21000 0x2000 = replicate 0x2000 0"
proof -
  let ?m = "mem_store (mem_store (sram s) 0x21000 (replicate 0x1000 0)) 0x22000 (replicate 0x1000 0)"
  have "mem_load (sram (xdna_fw_boot s)) 0x21000 0x2000 = mem_load ?m 0x21000 (0x1000 + 0x1000)"
    using info_mem.enc_length [of "mgmt_chan_info mgmt_channel"]
    by (simp add: fw_boot_sram mem.load_store_apart sizeof_mgmt_info_def)
  also have "\<dots> = replicate 0x1000 0 @ replicate 0x1000 0"
    using mem.load_store_same [of "sram s" "0x21000" "replicate 0x1000 0"]
      mem.load_store_same [of _ "0x22000" "replicate 0x1000 0"]
    by (simp only: mem.load_split) (simp add: mem.load_store_apart)
  finally show ?thesis
    by (simp flip: replicate_add)
qed

lemma psp_boot:
  assumes "scratch s 2 = PSP_CMD_START" and "psp_state s = XDNA_PSP_VALIDATED"
  shows "sram (xdna_psp_kick s) = sram (xdna_fw_boot s)"
    and "chan (xdna_psp_kick s) = (chan s)(0 := mgmt_channel)"
    and "pwaitmode (xdna_psp_kick s) = pwaitmode s OR 1"
    and "ctx (xdna_psp_kick s) = ctx s"
  using assms
  by (simp_all add: xdna_psp_kick_def psp_complete_def Let_def fw_boot_chan fw_boot_sram)
    (simp_all add: xdna_consts)

lemma psp_kick_contexts:
  "next_ctx_id (xdna_psp_kick s) = next_ctx_id s"
  "scratch s 2 \<noteq> PSP_CMD_RELEASE_TMR \<Longrightarrow> ctx (xdna_psp_kick s) = ctx s"
  by (simp_all add: xdna_psp_kick_def psp_complete_def Let_def split_beta)

subsection \<open>Shutdown\<close>

lemma fw_shutdown_state:
  "chan (xdna_fw_shutdown s) =
    (\<lambda>k. if k < XDNA_MAX_CHANNELS then zero_channel\<lparr>ch_index := k\<rparr> else chan s k)"
  "ctx (xdna_fw_shutdown s) =
    (\<lambda>i. if i < XDNA_NPU1_HWCTX_LIMIT then (ctx s i)\<lparr>ctx_valid := False\<rparr> else ctx s i)"
  "sram (xdna_fw_shutdown s) = mem_store (sram s) 0x3F000 [0, 0, 0, 0]"
  by (simp_all add: xdna_fw_shutdown_def Let_def mbox_reset_eq cong: if_cong)
    (simp add: write32_in_bounds xdna_consts byte_eval)

lemma psp_release:
  assumes "scratch s 2 = PSP_CMD_RELEASE_TMR"
  shows "chan (xdna_psp_kick s) = chan (xdna_fw_shutdown s)"
    and "ctx (xdna_psp_kick s) = ctx (xdna_fw_shutdown s)"
    and "sram (xdna_psp_kick s) = sram (xdna_fw_shutdown s)"
    and "pwaitmode (xdna_psp_kick s) = pwaitmode s AND NOT 1"
    and "active_contexts (stats (xdna_psp_kick s)) = 0"
  using assms
  by (simp_all add: xdna_psp_kick_def psp_complete_def Let_def fw_shutdown_state cong: if_cong)
    (simp_all add: xdna_consts)

subsection \<open>The power invariant\<close>

definition power_inv :: "'h xdna_npu \<Rightarrow> bool" where
  "power_inv s \<longleftrightarrow>
     (psp_state s = XDNA_PSP_RUNNING \<longrightarrow> fw_alive s) \<and>
     (psp_state s = XDNA_PSP_COLD \<longrightarrow> \<not> fw_alive s) \<and>
     dpm_level s \<le> XDNA_NPU1_MAX_DPM_LEVEL \<and> col_used s = 0"

lemma power_unread [simp]:
  "power_inv (s\<lparr>opaque := h\<rparr>) = power_inv s"
  "power_inv (s\<lparr>rt_cfg := rc\<rparr>) = power_inv s"
  "power_inv (s\<lparr>mgmt_pasid := w\<rparr>) = power_inv s"
  "power_inv (s\<lparr>fw_suspended := b\<rparr>) = power_inv s"
  "power_inv (s\<lparr>async_buf_addr := ad, async_buf_size := z, async_registered := b\<rparr>) = power_inv s"
  "power_inv (s\<lparr>scratch := f\<rparr>) = power_inv s"
  "power_inv (s\<lparr>pwaitmode := v\<rparr>) = power_inv s"
  "power_inv (s\<lparr>sec_intr := v\<rparr>) = power_inv s"
  "power_inv (s\<lparr>pwrmgmt_intr := v\<rparr>) = power_inv s"
  "power_inv (s\<lparr>stats := st\<rparr>) = power_inv s"
  "power_inv (s\<lparr>power_on := b\<rparr>) = power_inv s"
  "power_inv (s\<lparr>npuclk := v\<rparr>) = power_inv s"
  "power_inv (s\<lparr>hclk := v\<rparr>) = power_inv s"
  "power_inv (s\<lparr>chan := c\<rparr>) = power_inv s"
  "power_inv (s\<lparr>ctx := x\<rparr>) = power_inv s"
  "power_inv (xdna_log s l m) = power_inv s"
  "power_inv (sram_store s a bs) = power_inv s"
  "power_inv (sram_load_mark s a n) = power_inv s"
  "power_inv (snd (xdna_mbox_send s k i p bs)) = power_inv s"
  "power_inv (snd (xdna_sram_read32 s off)) = power_inv s"
  "power_inv (set_x2i_head s k v) = power_inv s"
  "power_inv (count_msg_in s) = power_inv s"
  by (simp_all add: power_inv_def set_x2i_head_def count_msg_in_def)

lemma power_ctx [simp]:
  "power_inv (ctx_fill_slot (ctx_open_channel s slot) slot req) = power_inv s"
  "power_inv (ctx_destroy_slot s slot) = power_inv s"
  by (simp_all add: power_inv_def ctx_fill_slot_def ctx_open_channel_def ctx_destroy_slot_def Let_def)

lemma power_psp:
  "power_inv s \<Longrightarrow> v \<le> XDNA_NPU1_MAX_DPM_LEVEL \<Longrightarrow> power_inv (s\<lparr>dpm_level := v\<rparr>)"
  "power_inv s \<Longrightarrow> power_inv (s\<lparr>fw_paddr := a, fw_size := z, psp_state := XDNA_PSP_VALIDATED\<rparr>)"
  "power_inv s \<Longrightarrow> power_inv (xdna_fw_boot (s\<lparr>psp_state := XDNA_PSP_RUNNING\<rparr>))"
  "power_inv s \<Longrightarrow> power_inv ((xdna_fw_shutdown s)\<lparr>psp_state := XDNA_PSP_COLD\<rparr>)"
  by (simp_all add: power_inv_def)

interpretation power: device_closed power_inv any_guest
proof unfold_locales
  fix hops :: "'h host_ops" and h s
  assume "xdna_npu_new hops h True True = Some s"
  then show "power_inv s"
    by (auto simp: xdna_npu_new_def power_inv_def reset_fields)
next
  fix s :: "'h xdna_npu"
  show "power_inv (xdna_npu_reset s)"
    by (simp add: power_inv_def reset_fields)
qed (simp_all add: power_psp)

subsection \<open>A booted device\<close>

text \<open>
  The register writes with which a driver validates the test's firmware image and starts it,
  and the device of the boot test after them.
\<close>

definition boot_writes :: "(u32 \<times> u32) list" where
  "boot_writes =
     [(XDNA_REG_SCRATCH2, PSP_CMD_VALIDATE), (XDNA_REG_SCRATCH3, 0x10000),
      (XDNA_REG_SCRATCH4, 1), (XDNA_REG_SCRATCH9, 0x40000),
      (XDNA_REG_PUB_SEC_INTR, PSP_NOTIFY_VAL),
      (XDNA_REG_SCRATCH2, PSP_CMD_START), (XDNA_REG_SCRATCH3, PSP_START_COPY_FW),
      (XDNA_REG_PUB_SEC_INTR, PSP_NOTIFY_VAL)]"

definition booted_npu :: "Host xdna_npu" where
  "booted_npu = fold (\<lambda>(off, v) s. reg_bar_write s off v) boot_writes test_npu"

lemma ucast_u32_u64 [simp]: "(ucast (ucast (v :: u32) :: u64) :: u32) = v"
  by (rule bit_word_eqI) (auto simp: bit_simps)

lemma reg_writes_reach:
  "api_reach s \<Longrightarrow> api_reach (fold (\<lambda>(off, v) s. reg_bar_write s off v) ws s)"
proof (induction ws arbitrary: s)
  case (Cons w ws)
  obtain off v where w: "w = (off, v)" by (cases w)
  have "xdna_npu_mmio_write s XDNA_BAR_REG off (ucast v) 4 = Some (reg_bar_write s off v)"
    using mmio_write_word [of XDNA_BAR_REG s off "ucast v"]
    by (simp add: bar_word_write_def XDNA_BAR_REG_def XDNA_BAR_SRAM_def)
  with Cons.prems have "api_reach (reg_bar_write s off v)"
    by (rule api_write)
  then show ?case
    by (simp add: w Cons.IH)
qed simp

lemma booted_reach: "api_reach booted_npu"
  unfolding booted_npu_def by (intro reg_writes_reach test_npu_reach)

lemma set_scratch_frame [simp]:
  "ops (set_scratch s i v) = ops s"
  "opaque (set_scratch s i v) = opaque s"
  "scratch (set_scratch s i v) = (scratch s)(i := v)"
  "psp_state (set_scratch s i v) = psp_state s"
  "chan (set_scratch s i v) = chan s"
  "ctx (set_scratch s i v) = ctx s"
  by (simp_all add: set_scratch_def)

lemma test_image:
  "ops s = test_ops \<Longrightarrow> opaque s = test_host v \<Longrightarrow> psp_image_result s 0x100010000 0x40000 = 0"
  by (simp add: psp_image_result_def test_ops_def host_dma_read_def xdna_consts)

lemma test_npu_fields [simp]:
  "ops test_npu = test_ops" "opaque test_npu = test_host False"
  "psp_state test_npu = XDNA_PSP_COLD" "scratch test_npu = (\<lambda>_. 0)(2 := PSP_STATUS_READY)"
  "\<not> fw_alive test_npu"
  by (simp_all add: test_npu_def reset_fields zero_npu_def)

definition validated_npu :: "Host xdna_npu" where
  "validated_npu = fold (\<lambda>(off, v) s. reg_bar_write s off v) (take 7 boot_writes) test_npu"

lemma validated_fields [simp]:
  "psp_state validated_npu = XDNA_PSP_VALIDATED"
  "scratch validated_npu 2 = PSP_CMD_START"
  "scratch validated_npu 3 = PSP_START_COPY_FW"
  by (simp_all add: validated_npu_def boot_writes_def psp_kick_state psp_scratch psp_next_def
      psp_kick_image_def test_image)
    (simp_all add: test_image xdna_consts)

lemma validated_contexts:
  "ctx validated_npu = (\<lambda>_. zero_context)" "next_ctx_id validated_npu = 1"
  by (simp_all add: validated_npu_def boot_writes_def psp_kick_contexts)
    (simp_all add: psp_kick_contexts test_npu_def reset_fields zero_npu_def set_scratch_def xdna_consts)

lemma booted_kick: "booted_npu = xdna_psp_kick (validated_npu\<lparr>sec_intr := PSP_NOTIFY_VAL\<rparr>)"
  by (simp add: booted_npu_def validated_npu_def boot_writes_def)

lemma booted_fields [simp]:
  "psp_state booted_npu = XDNA_PSP_RUNNING"
  "fw_alive booted_npu"
  "chan booted_npu 0 = mgmt_channel"
  "ctx booted_npu = (\<lambda>_. zero_context)"
  "next_ctx_id booted_npu = 1"
  by (simp_all add: booted_kick psp_kick_state psp_next_def psp_kick_alive psp_boot
      psp_kick_contexts validated_contexts)
    (simp_all add: xdna_consts)

subsection \<open>The register file\<close>

text \<open>The ten registers, and the writes that kick a command unit.\<close>

definition reg_offsets :: "u32 list" where
  "reg_offsets =
     [XDNA_REG_PWAITMODE, XDNA_REG_PUB_SEC_INTR, XDNA_REG_PUB_PWRMGMT_IR, XDNA_REG_SCRATCH2,
      XDNA_REG_SCRATCH3, XDNA_REG_SCRATCH4, XDNA_REG_SCRATCH5, XDNA_REG_SCRATCH6,
      XDNA_REG_SCRATCH7, XDNA_REG_SCRATCH9]"

definition rings_bell :: "u32 \<Rightarrow> u32 \<Rightarrow> bool" where
  "rings_bell off v \<longleftrightarrow>
     off = XDNA_PSP_INTR_REG \<and> v = PSP_NOTIFY_VAL \<or> off = XDNA_SMU_INTR_REG \<and> v = 1"

lemma plain_write:
  assumes "off \<in> set reg_offsets" and "\<not> rings_bell off v"
  obtains (scratch) i where "reg_bar_write s off v = s\<lparr>scratch := (scratch s)(i := v)\<rparr>"
      and "(off, i) \<in> {(XDNA_REG_SCRATCH2, 2), (XDNA_REG_SCRATCH3, 3), (XDNA_REG_SCRATCH4, 4), (XDNA_REG_SCRATCH5, 5),
        (XDNA_REG_SCRATCH6, 6), (XDNA_REG_SCRATCH7, 7), (XDNA_REG_SCRATCH9, 9)}"
    | (mode) "reg_bar_write s off v = s\<lparr>pwaitmode := v\<rparr>" and "off = XDNA_REG_PWAITMODE"
    | (sec) "reg_bar_write s off v = s\<lparr>sec_intr := v\<rparr>" and "off = XDNA_REG_PUB_SEC_INTR"
    | (pwrmgmt) "reg_bar_write s off v = s\<lparr>pwrmgmt_intr := v\<rparr>" and "off = XDNA_REG_PUB_PWRMGMT_IR"
  using assms
  by (auto simp: reg_offsets_def rings_bell_def set_scratch_def XDNA_PSP_INTR_REG_def XDNA_SMU_INTR_REG_def)

lemma other_offset:
  assumes "off \<notin> set reg_offsets"
  shows "reg_bar_read s off = (0, xdna_log s XDNA_LOG_DEBUG (Log_reg_unread off))"
    and "reg_bar_write s off v = xdna_log s XDNA_LOG_DEBUG (Log_reg_unwritten off v)"
  using assms by (simp_all add: reg_offsets_def reg_bar_read_def reg_bar_write_def)

lemma plain_write_reads:
  assumes "off \<in> set reg_offsets" and "\<not> rings_bell off v"
  shows "fst (reg_bar_read (reg_bar_write s off v) off') = (if off' = off then v else fst (reg_bar_read s off'))"
proof (cases "off' \<in> set reg_offsets")
  case True
  then have off': "off' \<in> {XDNA_REG_PWAITMODE, XDNA_REG_PUB_SEC_INTR, XDNA_REG_PUB_PWRMGMT_IR, XDNA_REG_SCRATCH2,
      XDNA_REG_SCRATCH3, XDNA_REG_SCRATCH4, XDNA_REG_SCRATCH5, XDNA_REG_SCRATCH6, XDNA_REG_SCRATCH7, XDNA_REG_SCRATCH9}"
    by (simp add: reg_offsets_def)
  show ?thesis
  proof (cases rule: plain_write [OF assms, of s, case_names scratch mode sec pwrmgmt])
    case (scratch i)
    show ?thesis
      unfolding scratch(1) using scratch(2) off' by (elim insertE emptyE) (simp_all, simp_all add: xdna_consts)
  next
    case mode
    show ?thesis
      unfolding mode(1) using mode(2) off' by (elim insertE emptyE) (simp_all, simp_all add: xdna_consts)
  next
    case sec
    show ?thesis
      unfolding sec(1) using sec(2) off' by (elim insertE emptyE) (simp_all, simp_all add: xdna_consts)
  next
    case pwrmgmt
    show ?thesis
      unfolding pwrmgmt(1) using pwrmgmt(2) off' by (elim insertE emptyE) (simp_all, simp_all add: xdna_consts)
  qed
next
  case False
  with assms(1) show ?thesis
    by (auto simp: other_offset(1) [OF False])
qed

lemma plain_write_rest:
  fixes s :: "'h xdna_npu"
  assumes "off \<in> set reg_offsets" and "\<not> rings_bell off v"
  defines "t \<equiv> reg_bar_write s off v"
  shows "t = s\<lparr>scratch := scratch t, pwaitmode := pwaitmode t, sec_intr := sec_intr t, pwrmgmt_intr := pwrmgmt_intr t\<rparr> \<and>
    (\<forall>i. i \<notin> {2, 3, 4, 5, 6, 7, 9} \<longrightarrow> scratch t i = scratch s i)"
  unfolding t_def
  by (cases rule: plain_write [OF assms(1,2), of s]) auto

subsection \<open>Who starts the firmware\<close>

text \<open>The mailbox moves neither the PSP nor the firmware.\<close>

interpretation unit_frame: rx_closed
  "\<lambda>t. psp_state t = psp_state r \<and> fw_alive t = fw_alive r" "\<lambda>_. True" for r :: "'h xdna_npu"
  by unfold_locales
    (simp_all add: ctx_fill_slot_def ctx_open_channel_def ctx_destroy_slot_def set_x2i_head_def count_msg_in_def Let_def)

lemma mbox_write_units:
  "psp_state (xdna_mbox_reg_write s off v) = psp_state s \<and> fw_alive (xdna_mbox_reg_write s off v) = fw_alive s"
  by (auto simp: xdna_mbox_reg_write_def Let_def intro!: unit_frame.I_process [THEN conjunct1]
      unit_frame.I_process [THEN conjunct2] split: option.split)

lemma reg_write_units:
  "off = XDNA_PSP_INTR_REG \<and> v = PSP_NOTIFY_VAL \<or>
    psp_state (reg_bar_write s off v) = psp_state s \<and> fw_alive (reg_bar_write s off v) = fw_alive s"
  by (simp add: reg_bar_write_def set_scratch_def Let_def XDNA_PSP_INTR_REG_def)

lemma psp_image_intr: "psp_kick_image (s\<lparr>sec_intr := v\<rparr>) = psp_kick_image s"
  using image_result_cong [of "s\<lparr>sec_intr := v\<rparr>" s] by (simp add: psp_kick_image_def)

lemma step_units:
  assumes "dev_step G s t"
  shows "t = bar_word_write s XDNA_BAR_REG XDNA_PSP_INTR_REG PSP_NOTIFY_VAL \<or>
    psp_state t = psp_state s \<and> fw_alive t = fw_alive s \<or> psp_state t = XDNA_PSP_COLD \<and> \<not> fw_alive t"
  using assms
proof cases
  case (word_read bar off)
  then show ?thesis
    by (simp add: bar_word_read_def reg_bar_read_def)
next
  case (word_write bar off v)
  then show ?thesis
    using mbox_write_units [of s off v] reg_write_units [of off v s]
    by (auto simp: bar_word_write_def)
next
  case reset
  then show ?thesis
    by (simp add: reset_fields)
qed simp_all

subsection \<open>The contracts the driver relies on\<close>

text \<open>C37: The register file of the REG BAR.  A write that is not the kick of a command unit changes
  the register at its offset, if there is one, to the value written, and no other: read at any
  offset, the registers are what they were, and of the device only the ten registers can have
  changed.  Reading a register has no effect.  An offset that is no register is neither stored
  nor read: a write only logs, and a read logs and gives zero.\<close>

lemma register_file:
  assumes "\<not> rings_bell off v"
  shows "let t = reg_bar_write s off v in
    fst (reg_bar_read t off') = (if off' = off \<and> off \<in> set reg_offsets then v else fst (reg_bar_read s off')) \<and>
    (if off \<in> set reg_offsets
     then snd (reg_bar_read s off) = s \<and> (\<forall>i. i \<notin> {2, 3, 4, 5, 6, 7, 9} \<longrightarrow> scratch t i = scratch s i) \<and>
       t = s\<lparr>scratch := scratch t, pwaitmode := pwaitmode t, sec_intr := sec_intr t, pwrmgmt_intr := pwrmgmt_intr t\<rparr>
     else reg_bar_read s off = (0, xdna_log s XDNA_LOG_DEBUG (Log_reg_unread off)) \<and>
       t = xdna_log s XDNA_LOG_DEBUG (Log_reg_unwritten off v))"
proof (cases "off \<in> set reg_offsets")
  case True
  have "snd (reg_bar_read s off) = s"
    using True by (auto simp: reg_offsets_def reg_bar_read_def)
  moreover have "fst (reg_bar_read (reg_bar_write s off v) off') =
      (if off' = off \<and> off \<in> set reg_offsets then v else fst (reg_bar_read s off'))"
    using True plain_write_reads [OF True assms, of s off'] by simp
  ultimately show ?thesis
    unfolding Let_def if_P [OF True] by (intro conjI plain_write_rest [OF True assms, THEN conjunct1]
      plain_write_rest [OF True assms, THEN conjunct2])
next
  case False
  have "fst (reg_bar_read (xdna_log s l m) off') = fst (reg_bar_read s off')" for l m
    by (simp add: reg_bar_read_def)
  then show ?thesis
    using False other_offset [OF False, of s] by (simp add: Let_def)
qed

lemma register_file_witness:
  "fst (reg_bar_read (reg_bar_write booted_npu XDNA_REG_SCRATCH3 7) XDNA_REG_SCRATCH3) = 7 \<and>
   fst (reg_bar_read (reg_bar_write booted_npu XDNA_REG_SCRATCH3 7) XDNA_REG_SCRATCH4) = scratch booted_npu 4 \<and>
   fw_alive (reg_bar_write booted_npu XDNA_REG_SCRATCH3 7)"
proof -
  have bell: "\<not> rings_bell XDNA_REG_SCRATCH3 7" and reg: "XDNA_REG_SCRATCH3 \<in> set reg_offsets"
    and other: "XDNA_REG_SCRATCH4 \<noteq> XDNA_REG_SCRATCH3"
    by (simp_all add: rings_bell_def reg_offsets_def xdna_consts)
  have "fst (reg_bar_read (reg_bar_write booted_npu XDNA_REG_SCRATCH3 7) XDNA_REG_SCRATCH3) = 7"
    "fst (reg_bar_read (reg_bar_write booted_npu XDNA_REG_SCRATCH3 7) XDNA_REG_SCRATCH4) = scratch booted_npu 4"
    using register_file [OF bell, of booted_npu XDNA_REG_SCRATCH3] register_file [OF bell, of booted_npu XDNA_REG_SCRATCH4]
      reg other by (simp_all add: Let_def del: reg_write_simps)
  moreover have "fw_alive (reg_bar_write booted_npu XDNA_REG_SCRATCH3 7)"
    by (simp add: set_scratch_def)
  ultimately show ?thesis by simp
qed

text \<open>C27: The SMU.  Writing 1 to the SMU doorbell runs the command of SCRATCH5 with the argument of
  SCRATCH7: the result and the output appear in SCRATCH6 and SCRATCH7 as the command table
  \<open>smu_answer\<close> says, every other scratch register keeps its value, and power, the two
  clocks and the DPM level change exactly for their commands (a DPM level above 7 is rejected
  and changes nothing); channels, contexts, SRAM and the firmware are not touched.\<close>

lemma smu_doorbell:
  "let t = reg_bar_write s XDNA_SMU_INTR_REG 1; cmd = scratch s 5; arg = scratch s 7 in
     scratch t = (scratch s)(6 := fst (smu_answer cmd arg), 7 := snd (smu_answer cmd arg)) \<and>
     power_on t = (cmd = AIE_SMU_POWER_ON \<or> cmd \<noteq> AIE_SMU_POWER_OFF \<and> power_on s) \<and>
     npuclk t = (if cmd = AIE_SMU_SET_MPNPUCLK_FREQ then arg else npuclk s) \<and>
     hclk t = (if cmd = AIE_SMU_SET_HCLK_FREQ then arg else hclk s) \<and>
     dpm_level t =
       (if (cmd = AIE_SMU_SET_SOFT_DPMLEVEL \<or> cmd = AIE_SMU_SET_HARD_DPMLEVEL) \<and>
           arg \<le> XDNA_NPU1_MAX_DPM_LEVEL then arg else dpm_level s) \<and>
     chan t = chan s \<and> ctx t = ctx s \<and> sram t = sram s \<and>
     fw_alive t = fw_alive s \<and> psp_state t = psp_state s"
proof -
  have kick: "reg_bar_write s XDNA_SMU_INTR_REG 1 = xdna_smu_kick (s\<lparr>pwrmgmt_intr := 1\<rparr>)"
    by (simp add: XDNA_SMU_INTR_REG_def)
  have "AIE_SMU_POWER_ON \<noteq> AIE_SMU_POWER_OFF"
    by (simp add: xdna_consts)
  then show ?thesis
    unfolding kick Let_def by (simp add: smu_scratch smu_state)
qed

text \<open>C22: The PSP is a refinement of the state machine \<open>psp_next\<close>.  Writing 1 to the PSP doorbell
  with command SCRATCH2 moves the PSP state and answers in SCRATCH3 as that machine does, with
  the fate of the image at (SCRATCH4, SCRATCH3) for the two VALIDATE commands; STATUS is READY
  afterwards for every command, and the firmware comes up exactly on a START in state
  VALIDATED and goes down exactly on RELEASE_TMR.\<close>

lemma psp_doorbell:
  "let t = reg_bar_write s XDNA_PSP_INTR_REG PSP_NOTIFY_VAL; cmd = scratch s 2 in
     (psp_state t, scratch t 3) = psp_next (psp_state s) cmd (psp_kick_image s) \<and>
     scratch t 2 = PSP_STATUS_READY \<and>
     fw_alive t =
       (cmd \<noteq> PSP_CMD_RELEASE_TMR \<and>
        (cmd = PSP_CMD_START \<and> psp_state s = XDNA_PSP_VALIDATED \<or> fw_alive s))"
  by (auto simp: XDNA_PSP_INTR_REG_def Let_def psp_scratch psp_kick_state psp_kick_alive psp_image_intr)

text \<open>C23: No firmware starts unvalidated.  Whatever the driver does in a step, an access to any BAR or
  a reset: if the PSP is RUNNING afterwards, or the firmware alive, it was before, or the step is
  the PSP doorbell with a START command in state VALIDATED; and if it is VALIDATED afterwards, it
  was before, or the step is the PSP doorbell with a VALIDATE command whose image the host could
  read.  The doorbell with a START in any other state (cold, or already running) answers BAD_STATE
  and leaves the firmware, the PSP state, the SRAM, every channel and every context as they
  were.\<close>

lemma start_needs_validate:
  assumes "dev_step any_guest s t"
  shows "let u = bar_word_write s XDNA_BAR_REG XDNA_PSP_INTR_REG PSP_NOTIFY_VAL;
      start = (t = u \<and> scratch s 2 = PSP_CMD_START \<and> psp_state s = XDNA_PSP_VALIDATED)
    in (psp_state t = XDNA_PSP_RUNNING \<longrightarrow> psp_state s = XDNA_PSP_RUNNING \<or> start) \<and>
       (fw_alive t \<longrightarrow> fw_alive s \<or> start) \<and>
       (psp_state t = XDNA_PSP_VALIDATED \<longrightarrow> psp_state s = XDNA_PSP_VALIDATED \<or>
          t = u \<and> scratch s 2 = PSP_CMD_VALIDATE \<and> psp_kick_image s = 0) \<and>
       (scratch s 2 = PSP_CMD_START \<and> psp_state s \<noteq> XDNA_PSP_VALIDATED \<longrightarrow>
          scratch u 3 = PSP_ERROR_BAD_STATE \<and> psp_state u = psp_state s \<and> fw_alive u = fw_alive s \<and>
          sram u = sram s \<and> chan u = chan s \<and> ctx u = ctx s \<and> pwaitmode u = pwaitmode s)"
proof -
  let ?u = "bar_word_write s XDNA_BAR_REG XDNA_PSP_INTR_REG PSP_NOTIFY_VAL"
  have u: "?u = xdna_psp_kick (s\<lparr>sec_intr := PSP_NOTIFY_VAL\<rparr>)"
    by (simp add: bar_word_write_def XDNA_PSP_INTR_REG_def)
  have state: "psp_state ?u = fst (psp_next (psp_state s) (scratch s 2) (psp_kick_image s))"
    and alive: "fw_alive ?u = (if scratch s 2 = PSP_CMD_RELEASE_TMR then False
      else if scratch s 2 = PSP_CMD_START \<and> psp_state s = XDNA_PSP_VALIDATED then True else fw_alive s)"
    by (simp_all add: u psp_kick_state psp_kick_alive psp_image_intr)
  have refused: "scratch ?u 3 = PSP_ERROR_BAD_STATE \<and> psp_state ?u = psp_state s \<and> fw_alive ?u = fw_alive s \<and>
      sram ?u = sram s \<and> chan ?u = chan s \<and> ctx ?u = ctx s \<and> pwaitmode ?u = pwaitmode s"
    if "scratch s 2 = PSP_CMD_START" "psp_state s \<noteq> XDNA_PSP_VALIDATED"
    using that by (simp add: u xdna_psp_kick_def psp_complete_def Let_def) (simp add: xdna_consts)
  have units: "(psp_state t = XDNA_PSP_RUNNING \<longrightarrow> psp_state s = XDNA_PSP_RUNNING \<or>
        t = ?u \<and> scratch s 2 = PSP_CMD_START \<and> psp_state s = XDNA_PSP_VALIDATED) \<and>
      (fw_alive t \<longrightarrow> fw_alive s \<or>
        t = ?u \<and> scratch s 2 = PSP_CMD_START \<and> psp_state s = XDNA_PSP_VALIDATED) \<and>
      (psp_state t = XDNA_PSP_VALIDATED \<longrightarrow> psp_state s = XDNA_PSP_VALIDATED \<or>
        t = ?u \<and> scratch s 2 = PSP_CMD_VALIDATE \<and> psp_kick_image s = 0)"
    using step_units [OF assms]
  proof (elim disjE)
    assume t: "t = ?u"
    show ?thesis
      unfolding t state alive psp_next_def by simp
  qed simp_all
  then show ?thesis
    unfolding Let_def using refused by blast
qed

lemma start_needs_validate_witness:
  "let t = bar_word_write validated_npu XDNA_BAR_REG XDNA_PSP_INTR_REG PSP_NOTIFY_VAL in
    dev_step any_guest validated_npu t \<and> psp_state t = XDNA_PSP_RUNNING \<and> psp_state validated_npu \<noteq> XDNA_PSP_RUNNING \<and>
    scratch validated_npu 2 = PSP_CMD_START \<and> psp_state validated_npu = XDNA_PSP_VALIDATED"
proof -
  let ?t = "bar_word_write validated_npu XDNA_BAR_REG XDNA_PSP_INTR_REG PSP_NOTIFY_VAL"
  have step: "dev_step any_guest validated_npu ?t"
    by (intro dev_step.word_write) (simp add: head_guard_def any_guest_def split: option.split)
  have "psp_state ?t = XDNA_PSP_RUNNING"
    using booted_fields(1) by (simp add: booted_kick bar_word_write_def XDNA_PSP_INTR_REG_def)
  with start_needs_validate [OF step] step show ?thesis
    by (simp add: Let_def)
qed

text \<open>C24: What a START leaves for the driver.  After a START of a validated image the FW_ALIVE word
  of the SRAM is the non-zero device address of a structure with the mailbox magic and the
  protocol version, whose ring addresses and sizes are those of the management channel and
  whose register addresses decode to channel 0 (the interrupt register four bytes after the
  i2x head); the channel is active and empty, both of its rings are zero, and bit 0 of the wait
  mode is set.\<close>

lemma boot_announces:
  assumes "scratch s 2 = PSP_CMD_START" and "psp_state s = XDNA_PSP_VALIDATED"
  shows "let t = xdna_psp_kick s; c = chan t 0;
      addr = le_word (mem_load (sram t) (unat XDNA_SRAM_FW_ALIVE_OFF) 4) :: u32;
      info = mgmt_info_of (mem_load (sram t) (unat (addr - MPNPU_APERTURE1_BASE)) sizeof_mgmt_info)
    in addr \<noteq> 0 \<and> mi_magic info = XDNA_MGMT_MBOX_MAGIC \<and>
       mi_prot_major info = XDNA_MGMT_PROT_MAJOR \<and> mi_prot_minor info = XDNA_MGMT_PROT_MINOR \<and>
       mi_msi_id info = word_of_nat (ch_index c) \<and>
       mi_x2i_buf info - MPNPU_APERTURE1_BASE = x2i_buf c \<and> mi_x2i_buf_sz info = x2i_size c \<and>
       mi_i2x_buf info - MPNPU_APERTURE1_BASE = i2x_buf c \<and> mi_i2x_buf_sz info = i2x_size c \<and>
       chan_from_off (mi_x2i_head info - MPNPU_APERTURE2_BASE) = Some (0, XDNA_MBOX_X2I_HEAD_OFF) \<and>
       chan_from_off (mi_x2i_tail info - MPNPU_APERTURE2_BASE) = Some (0, XDNA_MBOX_X2I_TAIL_OFF) \<and>
       chan_from_off (mi_i2x_head info - MPNPU_APERTURE2_BASE) = Some (0, XDNA_MBOX_I2X_HEAD_OFF) \<and>
       chan_from_off (mi_i2x_tail info - MPNPU_APERTURE2_BASE) = Some (0, XDNA_MBOX_I2X_TAIL_OFF) \<and>
       chan_from_off (mi_i2x_head info - MPNPU_APERTURE2_BASE + 4) = Some (0, XDNA_MBOX_INTR_OFF) \<and>
       ch_active c \<and> x2i_head c = x2i_tail c \<and> i2x_head c = i2x_tail c \<and>
       mem_load (sram t) (unat (x2i_buf c)) (unat (x2i_size c + i2x_size c)) =
         replicate (unat (x2i_size c + i2x_size c)) 0 \<and>
       fw_alive t \<and> pwaitmode t AND 1 = 1"
proof -
  have word: "mem_load (sram (xdna_psp_kick s)) 0x3F000 4 = le_bytes 4 (0x30A0000 :: u32)"
    using fw_boot_alive_word [of s] psp_boot [OF assms] by (simp add: xdna_sram_dev_addr_def xdna_consts)
  have info: "mgmt_info_of (mem_load (sram (xdna_psp_kick s)) 0x20000 64) = mgmt_chan_info mgmt_channel"
    using fw_boot_info [of s] psp_boot [OF assms] by simp
  have rings: "mem_load (sram (xdna_psp_kick s)) 0x21000 0x2000 = replicate 0x2000 0"
    using fw_boot_rings [of s] psp_boot [OF assms] by simp
  have bit0: "(w OR 1) AND 1 = (1 :: u32)" for w
    by (rule bit_word_eqI) (auto simp: bit_simps)
  have "fw_alive (xdna_psp_kick s)"
    using assms by (simp add: psp_kick_alive) (simp add: xdna_consts)
  then show ?thesis
    using psp_boot [OF assms] word info rings
    by (simp add: Let_def bit0 mgmt_chan_info_def mgmt_channel_def zero_channel_def
        chan_from_off_def xdna_sram_dev_addr_def xdna_mbox_dev_addr_def xdna_consts)
qed

lemma boot_announces_witness:
  "let t = xdna_psp_kick validated_npu; c = chan t 0;
      addr = le_word (mem_load (sram t) (unat XDNA_SRAM_FW_ALIVE_OFF) 4) :: u32;
      info = mgmt_info_of (mem_load (sram t) (unat (addr - MPNPU_APERTURE1_BASE)) sizeof_mgmt_info)
    in mi_magic info = XDNA_MGMT_MBOX_MAGIC \<and> ch_active c \<and> fw_alive t"
  using boot_announces [OF validated_fields(2,1)] by (simp add: Let_def)

text \<open>C25: RELEASE_TMR takes everything down.  It succeeds in every state and leaves the PSP cold, the
  firmware down, no valid context, no active channel, the FW_ALIVE word and the context count
  zero and bit 0 of the wait mode clear; a START straight after it is refused.\<close>

lemma release_shuts_down:
  assumes "scratch s 2 = PSP_CMD_RELEASE_TMR"
  shows "let t = xdna_psp_kick s in
    scratch t 3 = 0 \<and> psp_state t = XDNA_PSP_COLD \<and> \<not> fw_alive t \<and>
    list_all (\<lambda>i. \<not> ctx_valid (ctx t i)) [0..<XDNA_NPU1_HWCTX_LIMIT] \<and>
    list_all (\<lambda>k. \<not> ch_active (chan t k)) [0..<XDNA_MAX_CHANNELS] \<and>
    active_contexts (stats t) = 0 \<and>
    mem_load (sram t) (unat XDNA_SRAM_FW_ALIVE_OFF) 4 = [0, 0, 0, 0] \<and>
    pwaitmode t AND 1 = 0 \<and>
    scratch (xdna_psp_kick (set_scratch t 2 PSP_CMD_START)) 3 = PSP_ERROR_BAD_STATE"
proof -
  have "(w AND NOT 1) AND 1 = (0 :: u32)" for w
    by (rule bit_word_eqI) (auto simp: bit_simps)
  then have bit0: "(w AND - 2) AND 1 = (0 :: u32)" for w
    by simp
  have word: "mem_load (mem_store m 0x3F000 [0, 0, 0, 0]) 0x3F000 4 = [0, 0, 0, 0]" for m
    by (simp add: mem.load_store_under [where i = 0])
  have "psp_state (xdna_psp_kick s) = XDNA_PSP_COLD" "scratch (xdna_psp_kick s) 3 = 0"
    using assms by (simp_all add: psp_kick_state psp_scratch psp_next_def) (simp_all add: xdna_consts)
  moreover have "\<not> fw_alive (xdna_psp_kick s)"
    using assms by (simp add: psp_kick_alive)
  ultimately show ?thesis
    using psp_release [OF assms]
    by (simp add: Let_def fw_shutdown_state list_all_iff zero_channel_def psp_scratch [of "set_scratch _ _ _"]
        psp_next_def)
      (simp add: xdna_consts word bit0)
qed

lemma release_shuts_down_witness:
  "let t = xdna_psp_kick (set_scratch booted_npu 2 PSP_CMD_RELEASE_TMR) in
    psp_state t = XDNA_PSP_COLD \<and> \<not> fw_alive t \<and>
    scratch (xdna_psp_kick (set_scratch t 2 PSP_CMD_START)) 3 = PSP_ERROR_BAD_STATE"
  using release_shuts_down [of "set_scratch booted_npu 2 PSP_CMD_RELEASE_TMR"]
  by (simp add: Let_def)

text \<open>C26: The power invariant.  After any sequence of calls of the library, a running PSP state means
  that the firmware is up, a cold one that it is down, the DPM level is at most 7, and the
  column bitmap is zero (no operation maintains it).\<close>

lemma power_invariant:
  assumes "api_reach s"
  shows "(psp_state s = XDNA_PSP_RUNNING \<longrightarrow> fw_alive s) \<and>
    (psp_state s = XDNA_PSP_COLD \<longrightarrow> \<not> fw_alive s) \<and>
    dpm_level s \<le> XDNA_NPU1_MAX_DPM_LEVEL \<and> col_used s = 0"
  using power.I_reach [OF api_reach_run [OF assms]] by (simp add: power_inv_def)

lemma power_invariant_witness:
  "psp_state booted_npu = XDNA_PSP_RUNNING \<and> fw_alive booted_npu \<and>
    dpm_level booted_npu \<le> XDNA_NPU1_MAX_DPM_LEVEL \<and> col_used booted_npu = 0"
  using power_invariant [OF booted_reach] by simp

end
