(* ===== verification/Xdna_Bounds.thy ===== *)
theory Xdna_Bounds
  imports Xdna_Layout Xdna_Units
begin

text \<open>
  The second invariant, for drivers that keep one discipline: the value they write to the i2x
  head register of an active channel is an offset inside its ring.  Then the device's i2x
  tail stays inside the ring too, and no write of the device leaves the SRAM allocation.
\<close>

definition polite_guest :: "'h xdna_npu \<Rightarrow> nat \<Rightarrow> u32 \<Rightarrow> bool" where
  "polite_guest s k v \<longleftrightarrow> (ch_active (chan s k) \<longrightarrow> v \<le> mbox_usable (chan s k))"

definition i2x_ok :: "nat \<Rightarrow> xdna_channel \<Rightarrow> bool" where
  "i2x_ok k c \<longleftrightarrow>
     (ch_active c \<longrightarrow> unat (i2x_head c) \<le> ring_len k - 4 \<and> unat (i2x_tail c) \<le> ring_len k - 4)"

definition bounds_inv :: "'h xdna_npu \<Rightarrow> bool" where
  "bounds_inv s \<longleftrightarrow> layout_inv s \<and> (\<forall>k < 7. i2x_ok k (chan s k)) \<and> \<not> oob_write s"

lemma ring_len_bounds: "0x1000 \<le> ring_len k" "ring_len k \<le> 0x2000"
  by (simp_all add: ring_len_def)

subsection \<open>The two ring tests, in plain numbers\<close>

text \<open>
  For an active channel inside its bounds and a reply of the firmware, the 32-bit tests of
  \<open>xdna_mbox_send\<close> do not wrap.
\<close>

lemma usable_nat:
  assumes "chan_ok k c" and "ch_active c"
  shows "unat (mbox_usable c) = ring_len k - 4"
proof -
  have "unat (i2x_size c) = ring_len k"
    using assms by (simp add: chan_ok_def)
  moreover from this have "4 \<le> i2x_size c"
    using ring_len_bounds [of k] by (simp add: word_le_nat_alt)
  ultimately show ?thesis
    by (simp add: mbox_usable_def unat_sub)
qed

lemma pkg_nat:
  "n \<le> 0x2000 \<Longrightarrow> unat (word_of_nat sizeof_hdr + word_of_nat n :: u32) = 16 + n"
  by (simp add: xdna_consts unat_word_ariths unat_of_nat)

lemma ring_tests_nat:
  assumes ok: "chan_ok k c" "ch_active c" and i2x: "i2x_ok k c"
    and pkg: "unat pkg \<le> 0x3000"
  shows "mbox_wraps c pkg \<longleftrightarrow> unat (i2x_head c) \<le> unat (i2x_tail c) \<and>
      ring_len k - 4 < unat (i2x_tail c) + unat pkg"
    and "tail = 0 \<or> tail = i2x_tail c \<Longrightarrow> mbox_no_room c tail pkg \<longleftrightarrow>
      unat tail < unat (i2x_head c) \<and> unat (i2x_head c) \<le> unat tail + unat pkg"
    and "tail = 0 \<or> tail = i2x_tail c \<Longrightarrow> unat (tail + pkg) = unat tail + unat pkg"
proof -
  have bounds: "unat (i2x_head c) < 0x2000" "unat (i2x_tail c) < 0x2000"
    using i2x ok(2) ring_len_bounds [of k] by (auto simp: i2x_ok_def)
  show sum: "unat (tail + pkg) = unat tail + unat pkg" if "tail = 0 \<or> tail = i2x_tail c" for tail
    using that bounds pkg by (subst unat_add_small) auto
  show "mbox_wraps c pkg \<longleftrightarrow> unat (i2x_head c) \<le> unat (i2x_tail c) \<and>
      ring_len k - 4 < unat (i2x_tail c) + unat pkg"
    using sum [of "i2x_tail c"]
    by (simp add: mbox_wraps_def word_le_nat_alt word_less_nat_alt usable_nat [OF ok])
  show "mbox_no_room c tail pkg \<longleftrightarrow>
      unat tail < unat (i2x_head c) \<and> unat (i2x_head c) \<le> unat tail + unat pkg"
    if "tail = 0 \<or> tail = i2x_tail c"
    using sum [OF that] by (simp add: mbox_no_room_def word_le_nat_alt word_less_nat_alt)
qed

subsection \<open>The outcomes of a send\<close>

definition mark_tail :: "'h xdna_npu \<Rightarrow> nat \<Rightarrow> bool \<Rightarrow> 'h xdna_npu" where
  "mark_tail s k wraps =
     (if wraps
      then sram_store s (unat (i2x_buf (chan s k)) + unat (i2x_tail (chan s k)))
             (le_bytes 4 XDNA_MBOX_TOMBSTONE)
      else s)"

lemma mark_tail_frame [simp]:
  "chan (mark_tail s k w) = chan s"
  "stats (mark_tail s k w) = stats s"
  "ops (mark_tail s k w) = ops s"
  "opaque (mark_tail s k w) = opaque s"
  by (simp_all add: mark_tail_def)

lemma active_chan:
  assumes "layout_inv s" and "k < 7" and "ch_active (chan s k)"
  shows "unat (i2x_buf (chan s k)) = ring_base k + ring_len k"
    and "unat (i2x_size (chan s k)) = ring_len k"
    and "ring_base k + 2 * ring_len k \<le> 0x3C000"
  using layout_chan [OF assms(1,2)] assms(3) ring_end [OF assms(2)] by (auto simp: chan_ok_def)

lemma send_cases:
  assumes s: "layout_inv s" "k < 7" "ch_active (chan s k)" "i2x_ok k (chan s k)"
    and len: "length bs \<le> 0x2000"
  defines "H \<equiv> unat (i2x_head (chan s k))" and "T \<equiv> unat (i2x_tail (chan s k))"
    and "n \<equiv> 16 + length bs" and "U \<equiv> ring_len k - 4"
  obtains
    (too_big) msg where "U < n" and "xdna_mbox_send s k i p bs = (-1, xdna_log s XDNA_LOG_ERROR msg)"
  | (full) w msg where "n \<le> U" and "w \<longleftrightarrow> H \<le> T \<and> U < T + n"
      and "(if w then 0 else T) < H" and "H \<le> (if w then 0 else T) + n"
      and "xdna_mbox_send s k i p bs = (-1, xdna_log (mark_tail s k w) XDNA_LOG_ERROR msg)"
  | (sent) w t where "n \<le> U" and "w \<longleftrightarrow> H \<le> T \<and> U < T + n"
      and "unat t = (if w then 0 else T)" and "H \<le> unat t \<or> unat t + n < H"
      and "unat (t + (16 + word_of_nat (length bs))) = unat t + n"
      and "xdna_mbox_send s k i p bs = (0, mbox_commit (mark_tail s k w) k t i p bs)"
proof -
  let ?c = "chan s k"
  let ?pkg = "word_of_nat sizeof_hdr + word_of_nat (length bs) :: u32"
  let ?w = "mbox_wraps ?c ?pkg"
  let ?t = "if ?w then 0 else i2x_tail ?c"
  have ok: "chan_ok k ?c" by (rule layout_chan [OF s(1,2)])
  have pkg: "unat ?pkg = n" "unat ?pkg \<le> 0x3000"
    using pkg_nat [OF len] len by (simp_all add: n_def)
  note tests = ring_tests_nat [OF ok s(3,4) pkg(2)]
  have big: "?pkg > mbox_usable ?c \<longleftrightarrow> U < n"
    using pkg(1) usable_nat [OF ok s(3)] by (simp add: word_less_nat_alt U_def)
  have at: "unat (i2x_buf ?c + i2x_tail ?c) = unat (i2x_buf ?c) + T"
    and inside: "unat (i2x_buf ?c) + T + 4 \<le> 0x40000"
    using active_chan [OF s(1,2,3)] s(3,4) ring_len_bounds [of k]
    by (auto simp: T_def i2x_ok_def unat_add_small)
  have mark: "(if ?w then xdna_sram_write32 s (i2x_buf ?c + i2x_tail ?c) XDNA_MBOX_TOMBSTONE else s) =
      mark_tail s k ?w"
    using at inside by (simp add: mark_tail_def write32_in_bounds T_def)
  have w: "?w \<longleftrightarrow> H \<le> T \<and> U < T + n"
    unfolding tests(1) pkg(1) by (simp add: H_def T_def U_def)
  have t: "?t = 0 \<or> ?t = i2x_tail ?c" and tn: "unat ?t = (if ?w then 0 else T)"
    by (simp_all add: T_def)
  have idx: "\<not> k \<ge> XDNA_MAX_CHANNELS"
    using s(2) by (simp add: xdna_consts)
  note send = xdna_mbox_send_def [of s k i p bs] Let_def idx s(3) big mark
  consider "U < n" | "n \<le> U" "mbox_no_room ?c ?t ?pkg" | "n \<le> U" "\<not> mbox_no_room ?c ?t ?pkg"
    by linarith
  then show thesis
  proof cases
    case 1
    then show thesis by (intro too_big) (simp_all add: send)
  next
    case 2
    from 2(2) have "unat ?t < H" "H \<le> unat ?t + n"
      unfolding tests(2) [OF t] pkg(1) H_def by auto
    moreover have "xdna_mbox_send s k i p bs =
        (-1, xdna_log (mark_tail s k ?w) XDNA_LOG_ERROR (Log_mbox_i2x_full k))"
      using 2 by (simp add: send)
    ultimately show thesis
      unfolding tn by (intro full [OF 2(1) w])
  next
    case 3
    from 3(2) have "H \<le> unat ?t \<or> unat ?t + n < H"
      unfolding tests(2) [OF t] pkg(1) H_def by auto
    moreover have "unat (?t + (16 + word_of_nat (length bs))) = unat ?t + n"
      using tests(3) [OF t] pkg(1) by (simp add: xdna_consts)
    ultimately show thesis
      using 3 by (intro sent [OF 3(1) w tn]) (simp_all add: send)
  qed
qed

subsection \<open>The invariant in every run of a polite driver\<close>

lemma commit_in_bounds:
  assumes "unat (i2x_buf (chan s k)) + unat t + 16 + length bs \<le> 0x40000"
  shows "oob_write (mbox_commit s k t i p bs) = oob_write s"
  using assms by (simp add: mbox_commit_def Let_def xdna_consts split: option.split)

lemma bounds_unread [simp]:
  "bounds_inv (s\<lparr>opaque := h\<rparr>) = bounds_inv s"
  "bounds_inv (s\<lparr>rt_cfg := rc\<rparr>) = bounds_inv s"
  "bounds_inv (s\<lparr>mgmt_pasid := w\<rparr>) = bounds_inv s"
  "bounds_inv (s\<lparr>fw_suspended := b\<rparr>) = bounds_inv s"
  "bounds_inv (s\<lparr>async_buf_addr := ad, async_buf_size := z, async_registered := b\<rparr>) = bounds_inv s"
  "bounds_inv (s\<lparr>scratch := f\<rparr>) = bounds_inv s"
  "bounds_inv (s\<lparr>pwaitmode := v\<rparr>) = bounds_inv s"
  "bounds_inv (s\<lparr>sec_intr := v\<rparr>) = bounds_inv s"
  "bounds_inv (s\<lparr>pwrmgmt_intr := v\<rparr>) = bounds_inv s"
  "bounds_inv (s\<lparr>stats := st\<rparr>) = bounds_inv s"
  "bounds_inv (s\<lparr>power_on := b\<rparr>) = bounds_inv s"
  "bounds_inv (s\<lparr>npuclk := v\<rparr>) = bounds_inv s"
  "bounds_inv (s\<lparr>hclk := v\<rparr>) = bounds_inv s"
  "bounds_inv (s\<lparr>dpm_level := v\<rparr>) = bounds_inv s"
  "bounds_inv (s\<lparr>fw_paddr := ad, fw_size := z, psp_state := ps\<rparr>) = bounds_inv s"
  "bounds_inv (xdna_log s l m) = bounds_inv s"
  by (simp_all add: bounds_inv_def)

lemma i2x_ok_update [simp]:
  "i2x_ok k (c\<lparr>x2i_head := v\<rparr>) = i2x_ok k c"
  "i2x_ok k (c\<lparr>x2i_tail := v\<rparr>) = i2x_ok k c"
  "i2x_ok k (c\<lparr>intr := v\<rparr>) = i2x_ok k c"
  "i2x_ok k (zero_channel\<lparr>ch_index := j\<rparr>)"
  "i2x_ok k (zero_channel\<lparr>ch_active := True, ch_index := j, x2i_buf := a, x2i_size := b,
    i2x_buf := d, i2x_size := e\<rparr>)"
  by (simp_all add: i2x_ok_def zero_channel_def)

lemma bounds_layout: "bounds_inv s \<Longrightarrow> layout_inv s"
  by (simp add: bounds_inv_def)

lemma bounds_mark:
  assumes "bounds_inv s" and "k < 7" and "ch_active (chan s k)"
  shows "bounds_inv (mark_tail s k w)"
proof -
  have "unat (i2x_tail (chan s k)) \<le> ring_len k - 4"
    using assms by (auto simp: bounds_inv_def i2x_ok_def)
  with active_chan [OF bounds_layout [OF assms(1)] assms(2,3)] ring_len_bounds [of k] assms(1)
  show ?thesis
    by (simp add: bounds_inv_def mark_tail_def)
qed

lemma bounds_send:
  assumes s: "bounds_inv s" and len: "length bs \<le> 76"
  shows "bounds_inv (snd (xdna_mbox_send s k i p bs))"
proof (cases "k < 7 \<and> ch_active (chan s k)")
  case False
  with s show ?thesis
    by (auto simp: xdna_mbox_send_def Let_def xdna_consts)
next
  case True
  then have k: "k < 7" "ch_active (chan s k)" by simp_all
  have i2x: "i2x_ok k (chan s k)" and len': "length bs \<le> 0x2000"
    using s k(1) len by (simp_all add: bounds_inv_def)
  note rings = active_chan [OF bounds_layout [OF s] k]
  show ?thesis
  proof (cases rule: send_cases [OF bounds_layout [OF s] k i2x len', of i p, case_names too_big full sent])
    case (too_big msg)
    with s show ?thesis by simp
  next
    case (full w msg)
    with bounds_mark [OF s k] show ?thesis by simp
  next
    case (sent w t)
    have end_t: "unat t + (16 + length bs) \<le> ring_len k - 4"
      using sent(1,2,3,4) i2x k(2) by (auto simp: i2x_ok_def split: if_splits)
    have "oob_write (mbox_commit (mark_tail s k w) k t i p bs) = oob_write (mark_tail s k w)"
      using end_t rings ring_len_bounds [of k] by (intro commit_in_bounds) simp
    moreover have "layout_inv (snd (xdna_mbox_send s k i p bs))"
      using s by (simp add: bounds_layout)
    moreover have "i2x_ok j (chan (mbox_commit (mark_tail s k w) k t i p bs) j)" if "j < 7" for j
      using s that end_t sent(5) i2x by (simp add: commit_chan bounds_inv_def i2x_ok_def)
    ultimately show ?thesis
      using bounds_mark [OF s k, of w] unfolding sent(6) by (simp add: bounds_inv_def)
  qed
qed

lemma bounds_store: "bounds_inv s \<Longrightarrow> a + length bs \<le> 0x40000 \<Longrightarrow> bounds_inv (sram_store s a bs)"
  by (simp add: bounds_inv_def)

lemma bounds_read: "bounds_inv s \<Longrightarrow> a + n \<le> 0x40000 \<Longrightarrow> bounds_inv (sram_load_mark s a n)"
  by (simp add: bounds_inv_def layout_read)

lemma bounds_chan_update:
  assumes "bounds_inv s" and "layout_inv (s\<lparr>chan := (chan s)(k := c)\<rparr>)" and "i2x_ok k c"
  shows "bounds_inv (s\<lparr>chan := (chan s)(k := c)\<rparr>)"
  using assms by (auto simp: bounds_inv_def)

lemma bounds_create:
  assumes "bounds_inv s" and "fw_alive s" and slot: "slot < 6" and "\<not> ctx_valid (ctx s slot)"
  shows "bounds_inv (ctx_fill_slot (ctx_open_channel s slot) slot req)"
  using layout_create [OF bounds_layout [OF assms(1)] assms(2-4), of req] assms(1) slot
  by (auto simp: bounds_inv_def ctx_fill_slot_def ctx_open_channel_def Let_def channel_reset_chan
      XDNA_MAX_CHANNELS_def XDNA_NPU1_HWCTX_LIMIT_def unat_ctx_rb_base XDNA_SRAM_CTX_RB_STRIDE_def
      XDNA_SRAM_CTX_RB_SIZE_def)

lemma bounds_destroy:
  assumes "bounds_inv s" and "slot < 6" and "ctx_valid (ctx s slot)"
  shows "bounds_inv (ctx_destroy_slot s slot)"
  using layout_destroy [OF bounds_layout [OF assms(1)] assms(2,3)] assms(1)
  by (simp add: bounds_inv_def ctx_destroy_slot_def Let_def channel_reset_chan)

lemma bounds_heap:
  "bounds_inv s \<Longrightarrow>
    bounds_inv (s\<lparr>ctx := (ctx s)(slot := (ctx s slot)\<lparr>heap_addr := a, heap_size := n\<rparr>)\<rparr>)"
  by (simp add: bounds_inv_def layout_heap)

lemma bounds_boot: "bounds_inv s \<Longrightarrow> bounds_inv (xdna_fw_boot (s\<lparr>psp_state := p\<rparr>))"
  using layout_boot [of s p]
  by (auto simp: bounds_inv_def fw_boot_chan mgmt_channel_def)
    (auto simp: xdna_fw_boot_def Let_def channel_reset_chan write32_in_bounds
      info_mem.enc_length xdna_consts)

lemma bounds_release: "bounds_inv s \<Longrightarrow> bounds_inv ((xdna_fw_shutdown s)\<lparr>psp_state := p\<rparr>)"
  using layout_release [of s p]
  by (auto simp: bounds_inv_def fw_shutdown_state xdna_consts)
    (auto simp: xdna_fw_shutdown_def Let_def mbox_reset_eq write32_in_bounds xdna_consts)

lemma bounds_reset: "bounds_inv s \<Longrightarrow> bounds_inv (xdna_npu_reset s)"
  using layout_reset [of s]
  by (auto simp: bounds_inv_def reset_fields layout_inv_def [of s] xdna_consts)

lemma bounds_new: "xdna_npu_new hops h True True = Some s \<Longrightarrow> bounds_inv s"
  by (auto simp: xdna_npu_new_def bounds_inv_def reset_fields xdna_consts zero_npu_def
      intro!: layout_reset)

lemma bounds_rewind:
  assumes "bounds_inv s" and "k < 7"
  shows "bounds_inv (set_x2i_head s k 0)"
  using layout_rewind [OF bounds_layout [OF assms(1)] assms(2)] assms
  by (auto simp: set_x2i_head_def bounds_inv_def)

lemma bounds_peek:
  assumes "bounds_inv s" and "k < 7" and "x2i_head (chan s k) < x2i_size (chan s k)"
  shows "bounds_inv (snd (xdna_sram_read32 s (x2i_buf (chan s k) + x2i_head (chan s k))))"
  using layout_peek [OF bounds_layout [OF assms(1)] assms(2,3)] assms(1)
  by (simp add: bounds_inv_def)

lemma bounds_consume:
  assumes s: "bounds_inv s" and k: "k < 7" and less: "x2i_head (chan s k) < x2i_size (chan s k)"
    and fits: "16 + peek \<le> x2i_size (chan s k) - x2i_head (chan s k)" "peek \<le> 0x2000"
    and a: "a = unat (x2i_buf (chan s k)) + unat (x2i_head (chan s k))"
  shows "bounds_inv (count_msg_in (set_x2i_head
      (sram_load_mark (sram_load_mark s a 16) (a + 16) (unat peek))
      k (x2i_head (chan s k) + (16 + peek))))"
  using layout_consume [OF bounds_layout [OF s] k less fits a] s
  by (simp add: bounds_inv_def set_x2i_head_def count_msg_in_def)

lemma bounds_head:
  assumes "bounds_inv s" and "k < 7" and "polite_guest s k v"
  shows "bounds_inv (s\<lparr>chan := (chan s)(k := (chan s k)\<lparr>i2x_head := v\<rparr>)\<rparr>)"
proof (rule bounds_chan_update [OF assms(1)])
  note ok = layout_chan [OF bounds_layout [OF assms(1)] assms(2)]
  show "layout_inv (s\<lparr>chan := (chan s)(k := (chan s k)\<lparr>i2x_head := v\<rparr>)\<rparr>)"
    using ok by (intro layout_chan_update bounds_layout assms) simp_all
  show "i2x_ok k ((chan s k)\<lparr>i2x_head := v\<rparr>)"
    using assms usable_nat [OF ok]
    by (auto simp: bounds_inv_def i2x_ok_def polite_guest_def word_le_nat_alt)
qed

lemma bounds_driver_regs:
  assumes "bounds_inv s" and "k < 7"
  shows "bounds_inv (s\<lparr>chan := (chan s)(k := (chan s k)\<lparr>x2i_tail := v\<rparr>)\<rparr>)"
    and "bounds_inv (s\<lparr>chan := (chan s)(k := (chan s k)\<lparr>intr := v\<rparr>)\<rparr>)"
  using layout_chan [OF bounds_layout [OF assms(1)] assms(2)] assms
  by (auto simp: bounds_inv_def intro!: bounds_chan_update [OF assms(1)] layout_chan_update)

interpretation bounds: device_closed bounds_inv polite_guest
  by unfold_locales
    (simp_all add: max_channels bounds_send bounds_create bounds_destroy bounds_heap bounds_rewind
      bounds_peek bounds_consume bounds_head bounds_driver_regs bounds_boot bounds_release
      bounds_store bounds_read bounds_reset bounds_new)

lemma reg_writes_polite:
  "dev_reach G s \<Longrightarrow> dev_reach G (fold (\<lambda>(off, v) s. reg_bar_write s off v) ws s)"
proof (induction ws arbitrary: s)
  case (Cons w ws)
  obtain off v where w: "w = (off, v)" by (cases w)
  have "dev_step G s (bar_word_write s XDNA_BAR_REG off v)"
    by (rule dev_step.word_write) (simp add: head_guard_def xdna_consts)
  with Cons.prems have "dev_reach G (reg_bar_write s off v)"
    by (auto simp: bar_word_write_def intro: dev_reach.step)
  then show ?case
    by (simp add: w Cons.IH)
qed simp

lemma booted_polite: "dev_reach polite_guest booted_npu"
  unfolding booted_npu_def by (intro reg_writes_polite dev_reach.new [OF test_npu_new])

text \<open>C6: Memory safety for polite drivers.  In every run of the device in which the driver only
  writes ring offsets to the i2x head register of an active channel (and anything at all to
  every other register and to the SRAM, resets included), no access of the device leaves the
  SRAM allocation, and the head and tail of every active i2x ring stay within its usable part.\<close>

lemma polite_driver_is_safe:
  assumes "dev_reach polite_guest s"
  shows "\<not> oob_read s \<and> \<not> oob_write s \<and>
    (\<forall>k < XDNA_MAX_CHANNELS. ch_active (chan s k) \<longrightarrow>
       i2x_head (chan s k) \<le> mbox_usable (chan s k) \<and>
       i2x_tail (chan s k) \<le> mbox_usable (chan s k))"
proof -
  have inv: "bounds_inv s"
    using assms by (rule bounds.I_reach)
  then show ?thesis
    using usable_nat [OF layout_chan [OF bounds_layout [OF inv]]]
    by (auto simp: max_channels bounds_inv_def layout_inv_def [of s] i2x_ok_def word_le_nat_alt)
qed

lemma polite_driver_is_safe_witness:
  "\<not> oob_read booted_npu \<and> \<not> oob_write booted_npu \<and>
    i2x_tail (chan booted_npu 0) \<le> mbox_usable (chan booted_npu 0)"
  using polite_driver_is_safe [OF booted_polite]
  by (simp add: mgmt_channel_def zero_channel_def)

end
