(* ===== verification/Xdna_Ring.thy ===== *)
theory Xdna_Ring
  imports Xdna_Bounds
begin

text \<open>
  The rings as queues.  \<open>frames m a b q\<close> says that the memory from \<open>a\<close> to \<open>b\<close> is the messages
  \<open>q\<close> laid out one after the other; \<open>ring_holds\<close> that a ring with a head and a tail holds
  \<open>q\<close>: in one piece, or in two with a TOMBSTONE word at the end of the first.  \<open>U\<close> is the
  usable size of the ring, which leaves room for that word.
\<close>

type_synonym msg = "xdna_msg_header \<times> u8 list"

fun frames :: "(nat \<Rightarrow> u8) \<Rightarrow> nat \<Rightarrow> nat \<Rightarrow> msg list \<Rightarrow> bool" where
  "frames m a b [] \<longleftrightarrow> a = b"
| "frames m a b ((h, p) # q) \<longleftrightarrow>
     hdr_of (mem_load m a 16) = h \<and> mem_load m (a + 16) (length p) = p \<and>
     unat (total_size h) = length p \<and> frames m (a + 16 + length p) b q"

definition word_at :: "(nat \<Rightarrow> u8) \<Rightarrow> nat \<Rightarrow> u32" where
  "word_at m a = le_word (mem_load m a 4)"

definition ring_holds ::
  "(nat \<Rightarrow> u8) \<Rightarrow> nat \<Rightarrow> nat \<Rightarrow> nat \<Rightarrow> nat \<Rightarrow> msg list \<Rightarrow> bool" where
  "ring_holds m B U H T q \<longleftrightarrow>
     H \<le> T \<and> T \<le> U \<and> frames m (B + H) (B + T) q \<or>
     T < H \<and> (\<exists>M q1 q2. q = q1 @ q2 \<and> H \<le> M \<and> M \<le> U \<and>
       word_at m (B + M) = XDNA_MBOX_TOMBSTONE \<and>
       frames m (B + H) (B + M) q1 \<and> frames m B (B + T) q2)"

subsection \<open>Frames\<close>

lemma frames_le: "frames m a b q \<Longrightarrow> a \<le> b"
  by (induction q arbitrary: a) force+

lemma frames_same: "frames m a a q \<longleftrightarrow> q = []"
proof (cases q)
  case (Cons x q')
  then show ?thesis by (cases x) (auto dest: frames_le)
qed simp

lemma frames_append: "frames m a b q \<Longrightarrow> frames m b c r \<Longrightarrow> frames m a c (q @ r)"
  by (induction q arbitrary: a) auto

lemma frames_cong:
  assumes "frames m a b q" and "\<And>i. a \<le> i \<Longrightarrow> i < b \<Longrightarrow> m i = m' i"
  shows "frames m' a b q"
  using assms
proof (induction q arbitrary: a)
  case (Cons x q)
  obtain h p where x: "x = (h, p)" by (cases x)
  from Cons.prems(1) have rest: "frames m (a + 16 + length p) b q"
    by (simp add: x)
  then have le: "a + 16 + length p \<le> b" by (rule frames_le)
  have "mem_load m' a 16 = mem_load m a 16" "mem_load m' (a + 16) (length p) = mem_load m (a + 16) (length p)"
    using le Cons.prems(2) by (auto intro!: mem_load_cong)
  moreover have "frames m' (a + 16 + length p) b q"
    using rest Cons.prems(2) by (intro Cons.IH) auto
  ultimately show ?case
    using Cons.prems(1) by (simp add: x)
qed simp

lemma frames_store:
  "frames m a b q \<Longrightarrow> b \<le> c \<or> c + length bs \<le> a \<Longrightarrow> frames (mem_store m c bs) a b q"
  by (erule frames_cong) (auto simp: mem_store_outside)

lemma word_at_store:
  "a + 4 \<le> c \<or> c + length bs \<le> a \<Longrightarrow> word_at (mem_store m c bs) a = word_at m a"
  by (simp add: word_at_def mem.load_store_apart)

lemma word_at_tombstone: "word_at (mem_store m a (le_bytes 4 w)) a = w"
  using mem.load_store_same [of m a "le_bytes 4 w"] by (simp add: word_at_def)

lemma frame_size_word:
  "hdr_of (mem_load m a 16) = h \<Longrightarrow> word_at m a = total_size h"
  by (auto simp: hdr_of_def word_at_def field_at_def mem.take_load)

text \<open>A frame just written, by the two stores of a send.\<close>

lemma frame_written:
  assumes "unat (total_size h) = length p" and "b = a + 16 + length p"
  shows "frames (mem_store (mem_store m a (hdr_bytes h)) (a + 16) p) a b [(h, p)]"
  using assms hdr_mem.frame_header [of m a h p] hdr_mem.frame_payload [of m a h p]
  by (simp add: sizeof_hdr_def)

subsection \<open>The queue of replies\<close>

definition i2x_holds :: "'h xdna_npu \<Rightarrow> nat \<Rightarrow> msg list \<Rightarrow> bool" where
  "i2x_holds s k q = ring_holds (sram s) (unat (i2x_buf (chan s k))) (unat (mbox_usable (chan s k)))
     (unat (i2x_head (chan s k))) (unat (i2x_tail (chan s k))) q"

definition reply_header :: "u32 \<Rightarrow> u32 \<Rightarrow> u8 list \<Rightarrow> xdna_msg_header" where
  "reply_header mid opc bs =
     \<lparr>total_size = word_of_nat (length bs),
      sz_ver = (word_of_nat (length bs) AND XDNA_MSG_BODY_SZ_MASK) OR
               push_bit XDNA_MSG_PROTO_VER_SHIFT XDNA_MSG_PROTOCOL_VER,
      msg_id = mid, opcode = opc\<rparr>"

text \<open>A reply fits in the remainder of the ring before the head, or the ring wraps for it
  while its head is not at the start.\<close>

definition room_kept :: "xdna_channel \<Rightarrow> u8 list \<Rightarrow> bool" where
  "room_kept c bs \<longleftrightarrow> \<not> (i2x_head c = 0 \<and> mbox_wraps c (word_of_nat sizeof_hdr + word_of_nat (length bs)))"

lemma ring_holds_mark:
  assumes "ring_holds m B U H T q" and "T \<le> U" and "H \<le> T"
  shows "ring_holds (mem_store m (B + T) bs) B U H T q"
  using assms by (auto simp: ring_holds_def intro: frames_store)

text \<open>Appending in one piece, after a wrap, and in front of the head of a wrapped ring.\<close>

lemma ring_holds_append:
  assumes holds: "ring_holds m B U H T q" and len: "unat (total_size h) = length p"
    and n: "n = 16 + length p"
  shows "H \<le> T \<Longrightarrow> T + n \<le> U \<Longrightarrow>
      ring_holds (mem_store (mem_store m (B + T) (hdr_bytes h)) (B + T + 16) p) B U H (T + n) (q @ [(h, p)])"
    and "T < H \<Longrightarrow> T + n < H \<Longrightarrow>
      ring_holds (mem_store (mem_store m (B + T) (hdr_bytes h)) (B + T + 16) p) B U H (T + n) (q @ [(h, p)])"
    and "H \<le> T \<Longrightarrow> n < H \<Longrightarrow> word_at m (B + T) = XDNA_MBOX_TOMBSTONE \<Longrightarrow>
      ring_holds (mem_store (mem_store m B (hdr_bytes h)) (B + 16) p) B U H n (q @ [(h, p)])"
proof -
  let ?at = "\<lambda>a. mem_store (mem_store m a (hdr_bytes h)) (a + 16) p"
  have new: "frames (?at a) a (a + n) [(h, p)]" for a
    using n by (intro frame_written [OF len]) simp
  have keep: "frames (?at a) x y r" if "frames m x y r" "y \<le> a \<or> a + n \<le> x" for a x y r
    using that n by (intro frames_store) auto
  have word: "word_at (?at a) x = word_at m x" if "x + 4 \<le> a \<or> a + n \<le> x" for a x
  proof -
    have "mem_load (?at a) x 4 = mem_load m x 4"
      using that n by (intro hdr_mem.frame_apart [unfolded sizeof_hdr_def]) auto
    then show ?thesis by (simp add: word_at_def)
  qed
  show "ring_holds (?at (B + T)) B U H (T + n) (q @ [(h, p)])" if "H \<le> T" "T + n \<le> U"
  proof -
    have "frames m (B + H) (B + T) q"
      using holds that(1) by (auto simp: ring_holds_def)
    then have "frames (?at (B + T)) (B + H) (B + T + n) (q @ [(h, p)])"
      by (intro frames_append [OF keep new]) simp_all
    with that show ?thesis
      by (simp add: ring_holds_def add.assoc)
  qed
  show "ring_holds (?at (B + T)) B U H (T + n) (q @ [(h, p)])" if "T < H" "T + n < H"
  proof -
    note less = that(1)
    obtain M q1 q2 where q: "q = q1 @ q2" "H \<le> M" "M \<le> U"
      "word_at m (B + M) = XDNA_MBOX_TOMBSTONE"
      "frames m (B + H) (B + M) q1" "frames m B (B + T) q2"
      using holds less by (auto simp: ring_holds_def)
    have "frames (?at (B + T)) B (B + T + n) (q2 @ [(h, p)])"
      using q(6) by (intro frames_append [OF keep new]) simp_all
    moreover have "frames (?at (B + T)) (B + H) (B + M) q1"
      using q(5) that by (intro keep) simp_all
    moreover have "word_at (?at (B + T)) (B + M) = XDNA_MBOX_TOMBSTONE"
      using q(2,4) that by (subst word) simp_all
    ultimately show ?thesis
      using q(1-3) that unfolding ring_holds_def
      by (intro disjI2 conjI exI [of _ M] exI [of _ q1] exI [of _ "q2 @ [(h, p)]"])
        (simp_all add: add.assoc)
  qed
  show "ring_holds (?at B) B U H n (q @ [(h, p)])"
    if "H \<le> T" "n < H" "word_at m (B + T) = XDNA_MBOX_TOMBSTONE"
  proof -
    have q: "T \<le> U" "frames m (B + H) (B + T) q"
      using holds that(1) by (auto simp: ring_holds_def)
    have "frames (?at B) (B + H) (B + T) q"
      using q(2) that by (intro keep) simp_all
    moreover have "word_at (?at B) (B + T) = XDNA_MBOX_TOMBSTONE"
      using that by (subst word) simp_all
    ultimately show ?thesis
      using new [of B] q(1) that unfolding ring_holds_def
      by (intro disjI2 conjI exI [of _ T] exI [of _ q] exI [of _ "[(h, p)]"]) simp_all
  qed
qed

subsection \<open>A send is an enqueue\<close>

lemma commit_ring:
  assumes "length bs \<le> 0x2000"
  shows "sram (mbox_commit s k t i p bs) =
    mem_store (mem_store (sram s) (unat (i2x_buf (chan s k)) + unat t)
      (hdr_bytes (reply_header i p bs))) (unat (i2x_buf (chan s k)) + unat t + 16) bs"
proof -
  have "(word_of_nat (length bs) :: u32) = 0 \<longleftrightarrow> bs = []"
    using assms by (simp add: unat_of_nat flip: unat_eq_0)
  then show ?thesis
    by (simp add: commit_sram reply_header_def sizeof_hdr_def)
qed

lemma send_refines_enqueue:
  assumes s: "layout_inv s" "k < 7" "ch_active (chan s k)" "i2x_ok k (chan s k)"
    and len: "length bs \<le> 0x2000" and holds: "i2x_holds s k q"
  shows "i2x_holds (snd (xdna_mbox_send s k i p bs)) k
     (if fst (xdna_mbox_send s k i p bs) \<noteq> 0 then q
      else if room_kept (chan s k) bs then q @ [(reply_header i p bs, bs)]
      else [(reply_header i p bs, bs)])"
proof -
  let ?c = "chan s k" and ?h = "reply_header i p bs" and ?n = "16 + length bs"
  define B H T U where defs: "B = unat (i2x_buf ?c)" "H = unat (i2x_head ?c)"
    "T = unat (i2x_tail ?c)" "U = unat (mbox_usable ?c)"
  have U: "U = ring_len k - 4"
    using usable_nat [OF layout_chan [OF s(1,2)] s(3)] by (simp add: defs)
  have T: "T \<le> U" "H \<le> U"
    using s(3,4) by (simp_all add: defs U [unfolded defs] i2x_ok_def)
  have ring: "ring_holds (sram s) B U H T q"
    using holds by (simp add: i2x_holds_def defs)
  have size: "unat (total_size ?h) = length bs"
    using len by (simp add: reply_header_def unat_of_nat)
  have kept: "room_kept ?c bs \<longleftrightarrow> \<not> (H = 0 \<and> U < T + ?n)"
    using ring_tests_nat(1) [OF layout_chan [OF s(1,2)] s(3,4), of "word_of_nat sizeof_hdr + word_of_nat (length bs)"]
      pkg_nat [OF len] len
    by (auto simp: room_kept_def defs U [unfolded defs] unat_eq_0)
  have marked: "ring_holds (sram (mark_tail s k w)) B U H T q" if "w \<Longrightarrow> H \<le> T" for w
    using ring_holds_mark [OF ring T(1)] ring that by (auto simp: mark_tail_def defs)
  show ?thesis
  proof (cases rule: send_cases [OF s len, of i p, case_names too_big full sent])
    case (too_big msg)
    with holds show ?thesis
      by (simp add: i2x_holds_def)
  next
    case (full w msg)
    with marked [of w] show ?thesis
      by (simp add: i2x_holds_def defs)
  next
    case (sent w t)
    let ?u = "mbox_commit (mark_tail s k w) k t i p bs"
    note sent' = sent [folded U, folded defs]
    have u: "i2x_holds ?u k r \<longleftrightarrow> ring_holds (mem_store (mem_store (sram (mark_tail s k w)) (B + unat t)
        (hdr_bytes ?h)) (B + unat t + 16) bs) B U H (unat t + ?n) r" for r
      using sent(5) by (simp add: i2x_holds_def commit_chan commit_ring [OF len] defs mbox_usable_def)
    show ?thesis
    proof (cases w)
      case True
      note u' = u [unfolded eqTrueI [OF True]]
      from True have w: "H \<le> T" "U < T + ?n" "unat t = 0" using sent'(2,3) by simp_all
      have mark: "word_at (sram (mark_tail s k w)) (B + T) = XDNA_MBOX_TOMBSTONE"
        using True by (simp add: mark_tail_def defs word_at_tombstone)
      show ?thesis
      proof (cases "H = 0")
        case True
        then have "\<not> room_kept ?c bs" using w kept by simp
        moreover have "frames (mem_store (mem_store (sram (mark_tail s k w)) B (hdr_bytes ?h)) (B + 16) bs)
            B (B + ?n) [(?h, bs)]"
          using size by (intro frame_written) simp_all
        ultimately show ?thesis
          using sent' True w unfolding sent(6) by (simp add: u' ring_holds_def)
      next
        case False
        then have "room_kept ?c bs" "?n < H" using kept sent'(4) w by auto
        then show ?thesis
          using ring_holds_append(3) [OF marked size refl, of w] w mark
          unfolding sent(6) by (simp add: u' \<open>w\<close>)
      qed
    next
      case False
      then have t: "unat t = T" and s': "mark_tail s k w = s" using sent'(3) by (simp_all add: mark_tail_def)
      note u' = u [unfolded s']
      consider "H \<le> T" "T + ?n \<le> U" | "T < H" "T + ?n < H"
        using sent'(2,4) False t by linarith
      then show ?thesis
      proof cases
        case 1
        then have "room_kept ?c bs" using kept by simp
        then show ?thesis
          using ring_holds_append(1) [OF ring size refl 1] t unfolding sent(6) s' by (simp add: u')
      next
        case 2
        then have "room_kept ?c bs" using kept by simp
        then show ?thesis
          using ring_holds_append(2) [OF ring size refl 2] t unfolding sent(6) s' by (simp add: u')
      qed
    qed
  qed
qed

subsection \<open>Reading a queue\<close>

text \<open>
  Where a reader finds the first message: at the head, or at the start of the ring when the
  word at the head is the TOMBSTONE.  In the first case the word is the size of the message.
\<close>

lemma ring_front:
  assumes "ring_holds m B U H T ((h, p) # q)"
  obtains (here) "hdr_of (mem_load m (B + H) 16) = h" and "mem_load m (B + H + 16) (length p) = p"
      and "unat (total_size h) = length p" and "word_at m (B + H) = total_size h"
      and "H + 16 + length p \<le> U" and "H \<noteq> T" and "ring_holds m B U (H + 16 + length p) T q"
  | (wrapped) "word_at m (B + H) = XDNA_MBOX_TOMBSTONE" and "T < H" and "H \<le> U"
      and "ring_holds m B U 0 T ((h, p) # q)"
  using assms unfolding ring_holds_def
proof (elim disjE conjE exE)
  assume f: "frames m (B + H) (B + T) ((h, p) # q)" and "H \<le> T" "T \<le> U"
  then have "frames m (B + (H + 16 + length p)) (B + T) q" "H + 16 + length p \<le> T"
    by (auto simp: add.assoc dest: frames_le)
  with f \<open>T \<le> U\<close> show thesis
    by (intro here) (auto simp: frame_size_word ring_holds_def)
next
  fix M q1 q2
  assume q: "(h, p) # q = q1 @ q2" and T: "T < H" "H \<le> M" "M \<le> U"
    and mark: "word_at m (B + M) = XDNA_MBOX_TOMBSTONE"
    and f1: "frames m (B + H) (B + M) q1" and f2: "frames m B (B + T) q2"
  show thesis
  proof (cases q1)
    case Nil
    with q T mark f1 f2 show thesis
      by (intro wrapped) (auto simp: ring_holds_def)
  next
    case (Cons x q1')
    with q have x: "x = (h, p)" and q': "q = q1' @ q2" by simp_all
    have rest: "frames m (B + (H + 16 + length p)) (B + M) q1'"
      using f1 by (simp add: Cons x add.assoc)
    then have "H + 16 + length p \<le> M"
      by (auto dest: frames_le)
    then have "ring_holds m B U (H + 16 + length p) T q"
      unfolding ring_holds_def using T mark rest f2 q'
      by (intro disjI2 conjI exI [of _ M] exI [of _ q1'] exI [of _ q2]) simp_all
    with f1 T \<open>H + 16 + length p \<le> M\<close> show thesis
      by (intro here) (auto simp: Cons x frame_size_word)
  qed
qed

lemma ring_empty: "ring_holds m B U H H q \<longleftrightarrow> q = [] \<and> H \<le> U"
  by (auto simp: ring_holds_def frames_same)

lemma ring_nonempty: "ring_holds m B U H T q \<Longrightarrow> H = T \<Longrightarrow> q = []"
  by (simp add: ring_empty)

lemma ring_holds_cong:
  assumes "ring_holds m B U H T q" and "\<And>i. B \<le> i \<Longrightarrow> i < B + U + 4 \<Longrightarrow> m i = m' i"
  shows "ring_holds m' B U H T q"
proof -
  have frames: "frames m' (B + x) (B + y) r" if "frames m (B + x) (B + y) r" "y \<le> U" for x y r
    using that(1) by (rule frames_cong) (use that(2) assms(2) in auto)
  have frames0: "frames m' B (B + y) r" if "frames m B (B + y) r" "y \<le> U" for y r
    using frames [of 0 y r] that by simp
  have "word_at m' (B + M) = word_at m (B + M)" if "M \<le> U" for M
    unfolding word_at_def using that assms(2) by (intro arg_cong [of _ _ le_word] mem_load_cong) simp
  with assms(1) frames frames0 show ?thesis
    unfolding ring_holds_def by (smt (verit) le_trans less_imp_le_nat)
qed

subsection \<open>The contract of a send\<close>

lemma polite_send:
  assumes "dev_reach polite_guest s" and "k < XDNA_MAX_CHANNELS"
  shows "layout_inv s" and "k < 7" and "i2x_ok k (chan s k)"
  using bounds.I_reach [OF assms(1)] assms(2) by (simp_all add: max_channels bounds_inv_def)

text \<open>
  When a ring has room for a message of \<open>n\<close> bytes, header included, in plain arithmetic on its
  head \<open>H\<close> and tail \<open>T\<close>: behind the tail, the last four bytes of the ring apart, which are kept
  for the TOMBSTONE, or at the start of the ring strictly in front of the head; in a ring that
  has wrapped only strictly in front of the head.
\<close>

definition i2x_fits :: "xdna_channel \<Rightarrow> nat \<Rightarrow> bool" where
  "i2x_fits c n \<longleftrightarrow>
     (let H = unat (i2x_head c); T = unat (i2x_tail c); U = unat (i2x_size c) - 4
      in n \<le> U \<and> (if T < H then T + n < H else T + n \<le> U \<or> n < H))"

lemma send_accepts:
  assumes s: "layout_inv s" "k < 7" "ch_active (chan s k)" "i2x_ok k (chan s k)"
    and len: "length bs \<le> 0x2000" and kept: "room_kept (chan s k) bs"
  shows "fst (xdna_mbox_send s k i p bs) = (if i2x_fits (chan s k) (16 + length bs) then 0 else -1)"
proof -
  let ?c = "chan s k"
  have size: "unat (i2x_size ?c) - 4 = ring_len k - 4"
    using layout_chan [OF s(1,2)] s(3) by (simp add: chan_ok_def)
  have head: "unat (i2x_head ?c) = 0 \<Longrightarrow>
      unat (i2x_tail ?c) + (16 + length bs) \<le> ring_len k - 4"
    using kept ring_tests_nat(1) [OF layout_chan [OF s(1,2)] s(3,4), of "word_of_nat sizeof_hdr + word_of_nat (length bs)"]
      pkg_nat [OF len] len
    by (simp add: room_kept_def unat_eq_0)
  note fits = i2x_fits_def Let_def size
  show ?thesis
  proof (cases rule: send_cases [OF s len, of i p, case_names too_big full sent])
    case (too_big msg)
    then show ?thesis by (simp add: fits)
  next
    case (full w msg)
    then have "\<not> i2x_fits ?c (16 + length bs)"
      by (auto simp: fits split: if_splits)
    with full show ?thesis by simp
  next
    case (sent w t)
    then have "i2x_fits ?c (16 + length bs)"
      using head by (auto simp: fits split: if_splits)
    with sent show ?thesis by simp
  qed
qed

text \<open>C11: A send is an enqueue.  In every run of a polite driver, on an active channel whose i2x ring
  holds the unread messages \<open>q\<close>, a send returns 0 exactly when the ring has room for the message
  and its header, and then leaves \<open>q\<close> followed by the new message, with the length of the
  payload and the protocol version in its header; otherwise it returns -1 and leaves \<open>q\<close>.
  The one exception is a reply for which the ring must wrap while its head is at offset 0.\<close>

lemma send_is_enqueue:
  assumes "dev_reach polite_guest s" and "k < XDNA_MAX_CHANNELS" and "ch_active (chan s k)"
    and "length bs \<le> 0x2000" and "i2x_holds s k q" and "room_kept (chan s k) bs"
  shows "let (rc, t) = xdna_mbox_send s k mid opc bs; fits = i2x_fits (chan s k) (16 + length bs) in
    rc = (if fits then 0 else -1) \<and>
    i2x_holds t k (if fits then q @ [(reply_header mid opc bs, bs)] else q)"
  using send_refines_enqueue [OF polite_send(1,2) [OF assms(1,2)] assms(3)
      polite_send(3) [OF assms(1,2)] assms(4,5), of mid opc]
    send_accepts [OF polite_send(1,2) [OF assms(1,2)] assms(3)
      polite_send(3) [OF assms(1,2)] assms(4,6), of mid opc] assms(6)
  by (simp add: split_beta Let_def split: if_splits)

lemma booted_ring: "i2x_holds booted_npu 0 []" "room_kept (chan booted_npu 0) [1, 2, 3, 4]"
  by (simp_all add: i2x_holds_def ring_holds_def room_kept_def mgmt_channel_def zero_channel_def
      mbox_wraps_def mbox_usable_def xdna_consts)

lemma send_is_enqueue_witness:
  "let (rc, t) = xdna_mbox_send booted_npu 0 9 2 [1, 2, 3, 4] in
    rc = 0 \<and> i2x_holds t 0 [(reply_header 9 2 [1, 2, 3, 4], [1, 2, 3, 4])]"
proof -
  have "i2x_fits (chan booted_npu 0) 20"
    by (simp add: i2x_fits_def mgmt_channel_def zero_channel_def xdna_consts)
  then show ?thesis
    using send_is_enqueue [OF booted_polite _ _ _ booted_ring, of 9 2]
    by (simp add: mgmt_channel_def XDNA_MAX_CHANNELS_def split_beta)
qed

text \<open>C13: The exception loses messages.  When the head of an active i2x ring is at offset 0 and the
  ring must wrap for a reply, the send reports success and writes the reply over the oldest
  unread message: whatever the ring held, the reply alone is left in it.\<close>

lemma send_overwrites_unread:
  assumes "layout_inv s" and "k < XDNA_MAX_CHANNELS" and "ch_active (chan s k)"
    and "i2x_ok k (chan s k)" and "i2x_holds s k q" and "i2x_head (chan s k) = 0"
    and "16 + length bs \<le> unat (mbox_usable (chan s k))"
    and "unat (mbox_usable (chan s k)) < unat (i2x_tail (chan s k)) + (16 + length bs)"
  shows "let (rc, t) = xdna_mbox_send s k mid opc bs in
    rc = 0 \<and> i2x_holds t k [(reply_header mid opc bs, bs)]"
proof -
  have k: "k < 7" using assms(2) by (simp add: max_channels)
  have U: "unat (mbox_usable (chan s k)) = ring_len k - 4"
    using usable_nat [OF layout_chan [OF assms(1) k] assms(3)] .
  then have len: "length bs \<le> 0x2000"
    using assms(7) ring_len_bounds [of k] by simp
  have "\<not> room_kept (chan s k) bs"
    using ring_tests_nat(1) [OF layout_chan [OF assms(1) k] assms(3,4),
        of "word_of_nat sizeof_hdr + word_of_nat (length bs)"] pkg_nat [OF len] len assms(6,8) U
    by (simp add: room_kept_def)
  moreover have "fst (xdna_mbox_send s k mid opc bs) = 0"
  proof (cases rule: send_cases [OF assms(1) k assms(3,4) len, of mid opc, case_names too_big full sent])
    case (too_big msg)
    with assms(7) U show ?thesis by simp
  next
    case (full w msg)
    with assms(6) show ?thesis by (simp split: if_splits)
  qed simp
  ultimately show ?thesis
    using send_refines_enqueue [OF assms(1) k assms(3,4) len assms(5), of mid opc]
    by (simp add: split_beta)
qed

definition unread_msg :: msg where
  "unread_msg = (reply_header 7 2 (replicate 4068 1), replicate 4068 1)"

definition full_ring_npu :: "Host xdna_npu" where
  "full_ring_npu =
     (let s = sram_store (sram_store booted_npu 0x22000 (hdr_bytes (fst unread_msg)))
                0x22010 (snd unread_msg)
      in s\<lparr>chan := (chan s)(0 := mgmt_channel\<lparr>i2x_tail := 4084\<rparr>)\<rparr>)"

lemma booted_layout: "layout_inv booted_npu"
  using booted_reach by (rule layout.I_reach [OF api_reach_run])

lemma full_ring:
  "layout_inv full_ring_npu" "chan full_ring_npu 0 = mgmt_channel\<lparr>i2x_tail := 4084\<rparr>"
  "i2x_holds full_ring_npu 0 [unread_msg]"
proof -
  have chan: "chan full_ring_npu = (chan booted_npu)(0 := mgmt_channel\<lparr>i2x_tail := 4084\<rparr>)"
    by (simp add: full_ring_npu_def Let_def)
  then show "chan full_ring_npu 0 = mgmt_channel\<lparr>i2x_tail := 4084\<rparr>"
    by simp
  show "layout_inv full_ring_npu"
    unfolding full_ring_npu_def Let_def
    by (rule layout_chan_update)
      (simp_all add: booted_layout chan_ok_def mgmt_channel_def zero_channel_def
        ring_base_def ring_len_def xdna_consts)
  have "frames (sram full_ring_npu) 0x22000 0x22FF4 [unread_msg]"
    using frame_written [of "fst unread_msg" "snd unread_msg" "0x22FF4" "0x22000" "sram booted_npu"]
    by (simp add: full_ring_npu_def Let_def unread_msg_def reply_header_def unat_of_nat del: frames.simps)
  then show "i2x_holds full_ring_npu 0 [unread_msg]"
    by (simp add: i2x_holds_def ring_holds_def chan mgmt_channel_def zero_channel_def mbox_usable_def
        xdna_consts del: frames.simps)
qed

lemma send_overwrites_unread_witness:
  "let (rc, t) = xdna_mbox_send full_ring_npu 0 8 2 (replicate 20 0) in
    i2x_holds full_ring_npu 0 [unread_msg] \<and>
    rc = 0 \<and> i2x_holds t 0 [(reply_header 8 2 (replicate 20 0), replicate 20 0)]"
  using send_overwrites_unread [of full_ring_npu 0 "[unread_msg]" "replicate 20 0" 8 2] full_ring
  by (simp add: i2x_ok_def mgmt_channel_def zero_channel_def mbox_usable_def ring_len_def xdna_consts
      split_beta)

end
