(* ===== verification/Xdna_Contexts.thy ===== *)
theory Xdna_Contexts
  imports Xdna_Layout Xdna_Units
begin

text \<open>
  The hardware contexts as the driver sees them: a map from context ids to contexts.  The slot
  array of the code represents it as long as the ids of valid slots are distinct
  (\<open>ids_ok\<close>); creating, destroying and configuring a context are then an insertion, a removal
  and an update, and the slot of a new context is the first free channel.
\<close>

definition ctx_map :: "'h xdna_npu \<Rightarrow> u32 \<rightharpoonup> xdna_context" where
  "ctx_map s cid = map_option (ctx s) (ctx_by_id s cid)"

definition ids_ok :: "'h xdna_npu \<Rightarrow> bool" where
  "ids_ok s \<longleftrightarrow> 0 < next_ctx_id s \<and>
     (\<forall>i < 6. ctx_valid (ctx s i) \<longrightarrow> 0 < ctx_id (ctx s i) \<and> ctx_id (ctx s i) < next_ctx_id s) \<and>
     (\<forall>i < 6. \<forall>j < 6. ctx_valid (ctx s i) \<longrightarrow> ctx_valid (ctx s j) \<longrightarrow>
        ctx_id (ctx s i) = ctx_id (ctx s j) \<longrightarrow> i = j)"

text \<open>The channel a new context gets: the lowest one no context has.\<close>

definition free_chan :: "(u32 \<rightharpoonup> xdna_context) \<Rightarrow> nat option" where
  "free_chan m = find (\<lambda>k. \<forall>c \<in> ran m. ctx_chan c \<noteq> k) [1..<Suc XDNA_NPU1_HWCTX_LIMIT]"

lemma find_upt_unique:
  assumes "i < n" and "P i" and unique: "\<And>j. j < n \<Longrightarrow> P j \<Longrightarrow> j = i"
  shows "find P [0..<n] = Some i"
proof (cases "find P [0..<n]")
  case None
  with assms(1,2) show ?thesis by (auto simp: find_None_iff)
next
  case (Some j)
  with unique [of j] show ?thesis by (auto dest: find_upt_Some)
qed

lemma find_map: "find P (map f xs) = map_option f (find (\<lambda>x. P (f x)) xs)"
  by (induction xs) simp_all

lemma map_ext_Some: "(\<And>c x. m c = Some x \<longleftrightarrow> m' c = Some x) \<Longrightarrow> m = m'"
  by (rule ext) (metis not_None_eq)

lemma ctx_by_id_cong: "ctx s = ctx t \<Longrightarrow> ctx_by_id s = ctx_by_id t"
  by (intro ext) (simp add: ctx_by_id_def)

lemma ctx_map_cong: "ctx s = ctx t \<Longrightarrow> ctx_map s = ctx_map t"
  by (intro ext) (simp add: ctx_map_def ctx_by_id_cong [of s t])

lemma ids_ok_cong: "ctx s = ctx t \<Longrightarrow> next_ctx_id s = next_ctx_id t \<Longrightarrow> ids_ok s = ids_ok t"
  by (simp add: ids_ok_def)

lemma ctx_by_id_iff:
  assumes "ids_ok s"
  shows "ctx_by_id s c = Some i \<longleftrightarrow> i < 6 \<and> ctx_valid (ctx s i) \<and> ctx_id (ctx s i) = c"
proof
  assume "i < 6 \<and> ctx_valid (ctx s i) \<and> ctx_id (ctx s i) = c"
  with assms show "ctx_by_id s c = Some i"
    unfolding ctx_by_id_def XDNA_NPU1_HWCTX_LIMIT_def
    by (intro find_upt_unique) (auto simp: ids_ok_def)
qed (simp add: ctx_by_id_Some)

lemma ctx_map_iff:
  assumes "ids_ok s"
  shows "ctx_map s c = Some x \<longleftrightarrow>
    (\<exists>i < 6. ctx_valid (ctx s i) \<and> ctx_id (ctx s i) = c \<and> ctx s i = x)"
  using ctx_by_id_iff [OF assms] by (auto simp: ctx_map_def)

lemma ctx_map_ran:
  assumes "ids_ok s"
  shows "ran (ctx_map s) = ctx s ` {i. i < 6 \<and> ctx_valid (ctx s i)}"
  using ctx_map_iff [OF assms] by (auto simp: ran_def)

lemma ctx_map_id: "ctx_map s c = Some x \<Longrightarrow> ctx_id x = c \<and> ctx_valid x"
  by (auto simp: ctx_map_def dest: ctx_by_id_Some)

lemma free_chan_slot:
  assumes "layout_inv s" and "ids_ok s"
  shows "free_chan (ctx_map s) = map_option Suc (free_slot s)"
proof -
  have used: "(\<forall>c \<in> ran (ctx_map s). ctx_chan c \<noteq> Suc i) \<longleftrightarrow> \<not> ctx_valid (ctx s i)" if "i < 6" for i
    using assms(1) that by (auto simp: ctx_map_ran [OF assms(2)] layout_inv_def)
  have "[1..<Suc XDNA_NPU1_HWCTX_LIMIT] = map Suc [0..<6]"
    by (simp add: map_Suc_upt xdna_consts del: upt_Suc)
  then have "free_chan (ctx_map s) =
      map_option Suc (find (\<lambda>i. \<forall>c \<in> ran (ctx_map s). ctx_chan c \<noteq> Suc i) [0..<6])"
    by (simp add: free_chan_def find_map del: upt_Suc)
  also have "find (\<lambda>i. \<forall>c \<in> ran (ctx_map s). ctx_chan c \<noteq> Suc i) [0..<6] = free_slot s"
    unfolding free_slot_def XDNA_NPU1_HWCTX_LIMIT_def
    by (rule find_cong) (simp_all add: used)
  finally show ?thesis .
qed

subsection \<open>The operations on the map\<close>

lemma fill_slot_ctx:
  "ctx (ctx_fill_slot (ctx_open_channel s slot) slot req) = (ctx s)(slot :=
     \<lparr>ctx_valid = True, ctx_id = next_ctx_id s, ctx_pasid = ccq_pasid req,
      ctx_start_col = ccq_start_col req, ctx_num_col = ccq_num_col req,
      ctx_priority = ccq_context_priority req, ctx_chan = slot + 1,
      heap_addr = 0, heap_size = 0\<rparr>)"
  "next_ctx_id (ctx_fill_slot (ctx_open_channel s slot) slot req) = next_ctx_id s + 1"
  by (simp_all add: ctx_fill_slot_def ctx_open_channel_def Let_def)

lemma next_id:
  assumes "(w :: u32) \<noteq> -1"
  shows "unat (w + 1) = Suc (unat w)"
proof -
  have "1 + w \<noteq> 0"
    using assms max_word_wrap [of w] by (auto simp only: add.commute)
  from unatSuc [OF this] show ?thesis
    by (simp only: add.commute)
qed

lemma next_id_bound: "(w :: u32) \<noteq> -1 \<Longrightarrow> v < w \<Longrightarrow> v < w + 1" "(w :: u32) \<noteq> -1 \<Longrightarrow> w < w + 1"
  by (simp_all add: word_less_nat_alt next_id)

lemma next_id_positive: "(w :: u32) \<noteq> -1 \<Longrightarrow> 0 < w + 1"
  by (simp add: word_less_nat_alt next_id)

lemma create_ids:
  assumes "ids_ok s" and "slot < 6" and "\<not> ctx_valid (ctx s slot)"
    and "next_ctx_id s \<noteq> -1"
  shows "ids_ok (ctx_fill_slot (ctx_open_channel s slot) slot req)"
  using assms unfolding ids_ok_def fill_slot_ctx by (auto simp: fill_slot_ctx next_id_bound intro: next_id_positive)


text \<open>The map after one slot has been overwritten, whatever the slot and the new content.\<close>

lemma ctx_map_update:
  assumes ids: "ids_ok s" "ids_ok t" and slot: "slot < 6" and upd: "ctx t = (ctx s)(slot := v)"
  shows "ctx_map t c =
    (if ctx_valid v \<and> c = ctx_id v then Some v
     else if ctx_valid (ctx s slot) \<and> c = ctx_id (ctx s slot) then None else ctx_map s c)"
proof -
  have t: "ctx_map t c = Some x \<longleftrightarrow> ctx_valid v \<and> c = ctx_id v \<and> x = v \<or>
      (\<exists>i < 6. i \<noteq> slot \<and> ctx_valid (ctx s i) \<and> ctx_id (ctx s i) = c \<and> ctx s i = x)" for x
    unfolding ctx_map_iff [OF ids(2)] upd using slot by (auto split: if_splits)
  have s: "ctx_map s c = Some x \<longleftrightarrow>
      ctx_valid (ctx s slot) \<and> c = ctx_id (ctx s slot) \<and> x = ctx s slot \<or>
      (\<exists>i < 6. i \<noteq> slot \<and> ctx_valid (ctx s i) \<and> ctx_id (ctx s i) = c \<and> ctx s i = x)" for x
    unfolding ctx_map_iff [OF ids(1)] using slot by blast
  have v: "i = slot" if "ctx_valid v" "i < 6" "ctx_valid (ctx s i)" "ctx_id (ctx s i) = ctx_id v" for i
  proof (rule ccontr)
    assume "i \<noteq> slot"
    then have "ctx t i = ctx s i" "ctx t slot = v" by (simp_all add: upd)
    with ids(2) slot that have "i = slot"
      unfolding ids_ok_def by metis
    with \<open>i \<noteq> slot\<close> show False by simp
  qed
  have old: "i = slot"
    if "ctx_valid (ctx s slot)" "i < 6" "ctx_valid (ctx s i)" "ctx_id (ctx s i) = ctx_id (ctx s slot)" for i
    using ids(1) slot that unfolding ids_ok_def by blast
  show ?thesis
  proof (cases "ctx_map t c")
    case None
    with t have "\<not> (ctx_valid v \<and> c = ctx_id v)"
      and "\<And>i. i < 6 \<Longrightarrow> i \<noteq> slot \<Longrightarrow> \<not> (ctx_valid (ctx s i) \<and> ctx_id (ctx s i) = c)"
      by auto
    moreover from this(2) s have "ctx_map s c = None \<or> ctx_valid (ctx s slot) \<and> c = ctx_id (ctx s slot)"
      by (cases "ctx_map s c") auto
    ultimately show ?thesis using None by auto
  next
    case (Some x)
    with t [of x] consider "ctx_valid v" "c = ctx_id v" "x = v"
      | i where "i < 6" "i \<noteq> slot" "ctx_valid (ctx s i)" "ctx_id (ctx s i) = c" "ctx s i = x"
      by blast
    then show ?thesis
    proof cases
      case 1
      with Some show ?thesis by simp
    next
      case (2 i)
      then have "\<not> (ctx_valid v \<and> c = ctx_id v)" "\<not> (ctx_valid (ctx s slot) \<and> c = ctx_id (ctx s slot))"
        using v [of i] old [of i] by auto
      moreover have "ctx_map s c = Some x"
        using s [of x] 2 by blast
      ultimately show ?thesis using Some by auto
    qed
  qed
qed

lemma create_map:
  assumes ids: "ids_ok s" and slot: "slot < 6" "\<not> ctx_valid (ctx s slot)"
    and next_id: "next_ctx_id s \<noteq> -1"
  shows "ctx_map (ctx_fill_slot (ctx_open_channel s slot) slot req) = (ctx_map s)
    (next_ctx_id s \<mapsto> \<lparr>ctx_valid = True, ctx_id = next_ctx_id s, ctx_pasid = ccq_pasid req,
      ctx_start_col = ccq_start_col req, ctx_num_col = ccq_num_col req,
      ctx_priority = ccq_context_priority req, ctx_chan = slot + 1,
      heap_addr = 0, heap_size = 0\<rparr>)"
  using ctx_map_update [OF ids create_ids [OF ids slot next_id] slot(1) fill_slot_ctx(1)] slot(2)
  by (simp add: fun_eq_iff)

lemma destroy_ctx:
  "ctx (ctx_destroy_slot s slot) = (ctx s)(slot := (ctx s slot)\<lparr>ctx_valid := False\<rparr>)"
  "next_ctx_id (ctx_destroy_slot s slot) = next_ctx_id s"
  by (simp_all add: ctx_destroy_slot_def Let_def)

lemma destroy_ids: "ids_ok s \<Longrightarrow> ids_ok (ctx_destroy_slot s slot)"
  by (auto simp: ids_ok_def destroy_ctx)

lemma destroy_map:
  assumes ids: "ids_ok s" and slot: "slot < 6" "ctx_valid (ctx s slot)"
  shows "ctx_map (ctx_destroy_slot s slot) = (ctx_map s)(ctx_id (ctx s slot) := None)"
  using ctx_map_update [OF ids destroy_ids [OF ids] slot(1) destroy_ctx(1)] slot(2)
  by (simp add: fun_eq_iff)

definition heap_ctx :: "xdna_context \<Rightarrow> u64 \<Rightarrow> u64 \<Rightarrow> xdna_context" where
  "heap_ctx c a n = c\<lparr>heap_addr := a, heap_size := n\<rparr>"

lemma heap_ids:
  "ids_ok s \<Longrightarrow> ids_ok (s\<lparr>ctx := (ctx s)(slot := (ctx s slot)\<lparr>heap_addr := a, heap_size := n\<rparr>)\<rparr>)"
  by (auto simp: ids_ok_def)

lemma heap_map:
  assumes ids: "ids_ok s" and slot: "slot < 6" "ctx_valid (ctx s slot)"
  shows "ctx_map (s\<lparr>ctx := (ctx s)(slot := (ctx s slot)\<lparr>heap_addr := a, heap_size := n\<rparr>)\<rparr>) =
    (ctx_map s)(ctx_id (ctx s slot) \<mapsto> heap_ctx (ctx s slot) a n)"
  using ctx_map_update [OF ids heap_ids [OF ids] slot(1)] slot(2)
  by (simp add: fun_eq_iff heap_ctx_def)

subsection \<open>The context count\<close>

definition live_slots :: "'h xdna_npu \<Rightarrow> nat set" where
  "live_slots s = {i. i < 6 \<and> ctx_valid (ctx s i)}"

definition count_inv :: "'h xdna_npu \<Rightarrow> bool" where
  "count_inv s \<longleftrightarrow> active_contexts (stats s) = word_of_nat (card (live_slots s)) \<and>
     (\<forall>i < 6. ctx_valid (ctx s i) \<longrightarrow>
        ctx_num_col (ctx s i) \<noteq> 0 \<and> ucast (ctx_num_col (ctx s i)) \<le> XDNA_AIE_COLS)"

lemma live_finite: "finite (live_slots s)" and live_bound: "card (live_slots s) \<le> 6"
proof -
  have "live_slots s \<subseteq> {0..<6}" by (auto simp: live_slots_def)
  from card_mono [OF _ this] finite_subset [OF this]
  show "finite (live_slots s)" "card (live_slots s) \<le> 6" by simp_all
qed

lemma count_unread [simp]:
  "count_inv (s\<lparr>opaque := h\<rparr>) = count_inv s"
  "count_inv (s\<lparr>rt_cfg := rc\<rparr>) = count_inv s"
  "count_inv (s\<lparr>mgmt_pasid := w\<rparr>) = count_inv s"
  "count_inv (s\<lparr>fw_suspended := b\<rparr>) = count_inv s"
  "count_inv (s\<lparr>async_buf_addr := ad, async_buf_size := z, async_registered := b\<rparr>) = count_inv s"
  "count_inv (s\<lparr>scratch := f\<rparr>) = count_inv s"
  "count_inv (s\<lparr>pwaitmode := v\<rparr>) = count_inv s"
  "count_inv (s\<lparr>sec_intr := v\<rparr>) = count_inv s"
  "count_inv (s\<lparr>pwrmgmt_intr := v\<rparr>) = count_inv s"
  "count_inv (s\<lparr>stats := (stats s)\<lparr>psp_cmds := c\<rparr>\<rparr>) = count_inv s"
  "count_inv (s\<lparr>stats := (stats s)\<lparr>smu_cmds := c\<rparr>\<rparr>) = count_inv s"
  "count_inv (s\<lparr>power_on := b\<rparr>) = count_inv s"
  "count_inv (s\<lparr>npuclk := v\<rparr>) = count_inv s"
  "count_inv (s\<lparr>hclk := v\<rparr>) = count_inv s"
  "count_inv (s\<lparr>dpm_level := v\<rparr>) = count_inv s"
  "count_inv (s\<lparr>fw_paddr := ad, fw_size := z, psp_state := ps\<rparr>) = count_inv s"
  "count_inv (s\<lparr>chan := ch\<rparr>) = count_inv s"
  "count_inv (xdna_log s l m) = count_inv s"
  "count_inv (sram_store s a bs) = count_inv s"
  "count_inv (sram_load_mark s a n) = count_inv s"
  "count_inv (snd (xdna_mbox_send s k i p bs)) = count_inv s"
  "count_inv (snd (xdna_sram_read32 s off)) = count_inv s"
  "count_inv (set_x2i_head s k v) = count_inv s"
  "count_inv (count_msg_in s) = count_inv s"
  "count_inv (xdna_fw_boot (s\<lparr>psp_state := ps\<rparr>)) = count_inv s"
  by (simp_all add: count_inv_def live_slots_def set_x2i_head_def count_msg_in_def)

lemma count_heap:
  "count_inv s \<Longrightarrow>
    count_inv (s\<lparr>ctx := (ctx s)(slot := (ctx s slot)\<lparr>heap_addr := a, heap_size := n\<rparr>)\<rparr>)"
proof -
  have "live_slots (s\<lparr>ctx := (ctx s)(slot := (ctx s slot)\<lparr>heap_addr := a, heap_size := n\<rparr>)\<rparr>) = live_slots s"
    by (auto simp: live_slots_def)
  then show "count_inv s \<Longrightarrow> ?thesis"
    by (auto simp: count_inv_def)
qed

lemma count_create:
  assumes "count_inv s" and slot: "slot < 6" "\<not> ctx_valid (ctx s slot)"
    and "ccq_num_col req \<noteq> 0" and "ucast (ccq_num_col req) \<le> XDNA_AIE_COLS"
  shows "count_inv (ctx_fill_slot (ctx_open_channel s slot) slot req)"
proof -
  let ?t = "ctx_fill_slot (ctx_open_channel s slot) slot req"
  have "live_slots ?t = insert slot (live_slots s)"
    using slot(1) unfolding live_slots_def fill_slot_ctx by auto
  moreover have "slot \<notin> live_slots s"
    using slot by (simp add: live_slots_def)
  ultimately have "card (live_slots ?t) = Suc (card (live_slots s))"
    by (simp add: live_finite)
  moreover have "active_contexts (stats ?t) = active_contexts (stats s) + 1"
    by (simp add: ctx_fill_slot_def ctx_open_channel_def Let_def)
  ultimately show ?thesis
    using assms unfolding count_inv_def by (simp add: fill_slot_ctx add.commute)
qed

lemma count_destroy:
  assumes "count_inv s" and slot: "slot < 6" "ctx_valid (ctx s slot)"
  shows "count_inv (ctx_destroy_slot s slot)"
proof -
  let ?t = "ctx_destroy_slot s slot"
  have live: "live_slots ?t = live_slots s - {slot}" and mem: "slot \<in> live_slots s"
    using slot by (auto simp: live_slots_def destroy_ctx)
  have card: "card (live_slots s) = Suc (card (live_slots ?t))"
    unfolding live by (rule card.remove [OF live_finite mem])
  then have n: "active_contexts (stats s) = word_of_nat (card (live_slots ?t)) + 1"
    using assms(1) by (simp add: count_inv_def add.commute)
  have "unat (active_contexts (stats s)) = card (live_slots s)"
    using assms(1) live_bound [of s] by (simp add: count_inv_def unat_of_nat)
  then have "active_contexts (stats s) \<noteq> 0"
    using card by auto
  then have "active_contexts (stats ?t) = active_contexts (stats s) - 1"
    by (simp add: ctx_destroy_slot_def Let_def)
  then have "active_contexts (stats ?t) = word_of_nat (card (live_slots ?t))"
    unfolding n by (simp only: add_diff_cancel_right')
  then show ?thesis
    using assms(1) unfolding count_inv_def by (auto simp: destroy_ctx)
qed

lemma count_release: "count_inv ((xdna_fw_shutdown s)\<lparr>psp_state := p\<rparr>)"
  by (auto simp: count_inv_def live_slots_def fw_shutdown_state xdna_consts)

lemma count_reset: "count_inv (xdna_npu_reset s)"
  by (simp add: count_inv_def live_slots_def reset_fields zero_context_def zero_stats_def)

interpretation count: device_closed count_inv any_guest
proof unfold_locales
  fix hops :: "'h host_ops" and h s
  assume "xdna_npu_new hops h True True = Some s"
  then show "count_inv s"
    by (auto simp: xdna_npu_new_def count_reset)
qed (simp_all add: count_heap count_create count_destroy count_release count_reset)

lemma count_length:
  assumes "count_inv s"
  shows "unat (active_contexts (stats s)) = length (filter (\<lambda>i. ctx_valid (ctx s i)) [0..<6])"
proof -
  have "length (filter (\<lambda>i. ctx_valid (ctx s i)) [0..<6]) = card (live_slots s)"
    using distinct_card [of "filter (\<lambda>i. ctx_valid (ctx s i)) [0..<6]"]
    by (simp add: live_slots_def)
  then show ?thesis
    using assms live_bound [of s] by (simp add: count_inv_def unat_of_nat)
qed

end
