(* ===== verification/Xdna_Contract.thy ===== *)
theory Xdna_Contract
  imports Xdna_Contexts
begin

text \<open>
  The contract of the management firmware.  \<open>mert_spec\<close> is a specification of every message
  over an abstract state (a map of contexts by id, the runtime configuration, and the three
  settings the firmware keeps) and a parsed request; it says what the message changes and what
  it answers.  The refinement below shows that \<open>xdna_mert_handle\<close> is that specification
  followed by the sending of the answer, and that a message answered by a status other than
  success leaves the device alone.
\<close>

subsection \<open>Abstract state, requests, answers\<close>

record mstate =
  m_ctx :: "u32 \<rightharpoonup> xdna_context"
  m_next :: u32
  m_rt :: "nat \<Rightarrow> u64"
  m_pasid :: u16
  m_susp :: bool
  m_async :: "u64 \<times> u32 \<times> bool"

definition mert_abs :: "'h xdna_npu \<Rightarrow> mstate" where
  "mert_abs s =
     \<lparr>m_ctx = ctx_map s, m_next = next_ctx_id s, m_rt = rt_cfg s, m_pasid = mgmt_pasid s,
      m_susp = fw_suspended s,
      m_async = (async_buf_addr s, async_buf_size s, async_registered s)\<rparr>"

datatype mert_request =
    Rq_short
  | Rq_protocol
  | Rq_firmware
  | Rq_aie
  | Rq_tiles
  | Rq_set_rt u32 u64
  | Rq_get_rt u32
  | Rq_pasid u16
  | Rq_suspend bool
  | Rq_self_test
  | Rq_create CreateCtxReq
  | Rq_destroy u32
  | Rq_map u32 u64 u64
  | Rq_async u64 u32
  | Rq_col u64 u32
  | Rq_telemetry
  | Rq_array
  | Rq_unknown

datatype mert_answer = No_answer | Status xdna_msg_status | Struct "u8 list"

definition sized :: "xdna_msg_header \<Rightarrow> nat \<Rightarrow> mert_request \<Rightarrow> mert_request" where
  "sized h n r = (if unat (total_size h) < n then Rq_short else r)"

definition mert_request_of :: "xdna_msg_header \<Rightarrow> u8 list \<Rightarrow> mert_request" where
  "mert_request_of h p =
     (case opcode_of (opcode h) of
        Some MSG_OP_GET_PROTOCOL_VERSION \<Rightarrow> Rq_protocol
      | Some MSG_OP_GET_FIRMWARE_VERSION \<Rightarrow> Rq_firmware
      | Some MSG_OP_QUERY_AIE_VERSION \<Rightarrow> Rq_aie
      | Some MSG_OP_QUERY_AIE_TILE_INFO \<Rightarrow> Rq_tiles
      | Some MSG_OP_SET_RUNTIME_CONFIG \<Rightarrow>
          sized h 12 (Rq_set_rt (field_at 0 4 p) (field_at 4 8 p))
      | Some MSG_OP_GET_RUNTIME_CONFIG \<Rightarrow> sized h 4 (Rq_get_rt (field_at 0 4 p))
      | Some MSG_OP_ASSIGN_MGMT_PASID \<Rightarrow> sized h 4 (Rq_pasid (field_at 0 2 p))
      | Some MSG_OP_SUSPEND \<Rightarrow> Rq_suspend True
      | Some MSG_OP_RESUME \<Rightarrow> Rq_suspend False
      | Some MSG_OP_INVOKE_SELF_TEST \<Rightarrow> Rq_self_test
      | Some MSG_OP_CREATE_CONTEXT \<Rightarrow> sized h 28 (Rq_create (CreateCtxReq_of p))
      | Some MSG_OP_DESTROY_CONTEXT \<Rightarrow> sized h 4 (Rq_destroy (field_at 0 4 p))
      | Some MSG_OP_MAP_HOST_BUFFER \<Rightarrow>
          sized h 20 (Rq_map (field_at 0 4 p) (field_at 4 8 p) (field_at 12 8 p))
      | Some MSG_OP_ADD_HOST_BUFFER \<Rightarrow>
          sized h 20 (Rq_map (field_at 0 4 p) (field_at 4 8 p) (field_at 12 8 p))
      | Some MSG_OP_REGISTER_ASYNC_EVENT_MSG \<Rightarrow>
          sized h 12 (Rq_async (field_at 0 8 p) (field_at 8 4 p))
      | Some MSG_OP_QUERY_COL_STATUS \<Rightarrow>
          sized h 20 (Rq_col (field_at 0 8 p) (field_at 8 4 p))
      | Some MSG_OP_GET_TELEMETRY \<Rightarrow> Rq_telemetry
      | Some MSG_OP_CONFIG_CU \<Rightarrow> Rq_array
      | Some MSG_OP_EXECUTE_BUFFER_CF \<Rightarrow> Rq_array
      | Some MSG_OP_EXEC_DPU \<Rightarrow> Rq_array
      | Some MSG_OP_CHAIN_EXEC_BUFFER_CF \<Rightarrow> Rq_array
      | Some MSG_OP_CHAIN_EXEC_DPU \<Rightarrow> Rq_array
      | Some MSG_OP_CHAIN_EXEC_NPU \<Rightarrow> Rq_array
      | Some MSG_OP_SYNC_BO \<Rightarrow> Rq_array
      | Some MSG_OP_CONFIG_DEBUG_BO \<Rightarrow> Rq_array
      | _ \<Rightarrow> Rq_unknown)"

subsection \<open>The specification\<close>

definition queue_info :: "nat \<Rightarrow> u32 \<Rightarrow> u32 \<Rightarrow> nat \<Rightarrow> CqInfo" where
  "queue_info k head tail base =
     \<lparr>cqi_head_addr = xdna_mbox_dev_addr (XDNA_MBOX_CHAN_BASE (word_of_nat k) + head),
      cqi_tail_addr = xdna_mbox_dev_addr (XDNA_MBOX_CHAN_BASE (word_of_nat k) + tail),
      cqi_buf_addr = xdna_sram_dev_addr (word_of_nat base),
      cqi_buf_size = word_of_nat (ring_len k)\<rparr>"

definition ctx_announcement :: "u32 \<Rightarrow> nat \<Rightarrow> CreateCtxResp" where
  "ctx_announcement cid k =
     \<lparr>ccr_status = 0, ccr_context_id = cid, ccr_msix_id = word_of_nat k,
      ccr_num_cq_pairs_allocated = 1, ccr_reserved = 0,
      ccr_cq_pair0 =
        \<lparr>cqp_x2i_q = queue_info k XDNA_MBOX_X2I_HEAD_OFF XDNA_MBOX_X2I_TAIL_OFF (ring_base k),
         cqp_i2x_q = queue_info k XDNA_MBOX_I2X_HEAD_OFF XDNA_MBOX_I2X_TAIL_OFF
           (ring_base k + ring_len k)\<rparr>,
      ccr_cq_pair1 = zero_cq_pair\<rparr>"

definition new_context :: "u32 \<Rightarrow> nat \<Rightarrow> CreateCtxReq \<Rightarrow> xdna_context" where
  "new_context cid k req =
     \<lparr>ctx_valid = True, ctx_id = cid, ctx_pasid = ccq_pasid req,
      ctx_start_col = ccq_start_col req, ctx_num_col = ccq_num_col req,
      ctx_priority = ccq_context_priority req, ctx_chan = k, heap_addr = 0, heap_size = 0\<rparr>"

text \<open>
  The second argument is what became of the zero dump a column status query asks for: no DMA
  callback, or the count of bytes that reached the host and whether a write failed.
\<close>

fun mert_spec :: "mstate \<Rightarrow> (u32 \<times> bool) option \<Rightarrow> mert_request \<Rightarrow> mstate \<times> mert_answer" where
  "mert_spec m d Rq_short = (m, Status AIE2_STATUS_INVALID_INPUT_BUFFER)"
| "mert_spec m d Rq_protocol =
     (m, Struct (ProtocolVersionResp_bytes \<lparr>pvr_status = 0, pvr_major = 5, pvr_minor = 7\<rparr>))"
| "mert_spec m d Rq_firmware =
     (m, Struct (FirmwareVersionResp_bytes \<lparr>fvr_status = 0, fvr_major = XDNA_FW_VER_MAJOR,
        fvr_minor = XDNA_FW_VER_MINOR, fvr_sub = XDNA_FW_VER_SUB, fvr_build = XDNA_FW_VER_BUILD\<rparr>))"
| "mert_spec m d Rq_aie =
     (m, Struct (AieVersionResp_bytes \<lparr>avr_status = 0, avr_major = ucast XDNA_AIE_VERSION_MAJOR,
        avr_minor = ucast XDNA_AIE_VERSION_MINOR\<rparr>))"
| "mert_spec m d Rq_tiles =
     (m, Struct (AieTileInfoResp_bytes \<lparr>atr_status = 0, atr_info = fill_tile_info\<rparr>))"
| "mert_spec m d (Rq_set_rt ty v) =
     (if unat ty < RT_CFG_LEN
      then (m\<lparr>m_rt := (m_rt m)(unat ty := v)\<rparr>, Status AIE2_STATUS_SUCCESS)
      else (m, Status AIE2_STATUS_INVALID_PARAM))"
| "mert_spec m d (Rq_get_rt ty) =
     (m, Struct (GetRuntimeCfgResp_bytes
       (if unat ty < RT_CFG_LEN
        then \<lparr>grr_status = 0, grr_value = m_rt m (unat ty)\<rparr>
        else \<lparr>grr_status = status_val AIE2_STATUS_INVALID_PARAM, grr_value = 0\<rparr>)))"
| "mert_spec m d (Rq_pasid w) = (m\<lparr>m_pasid := w\<rparr>, Status AIE2_STATUS_SUCCESS)"
| "mert_spec m d (Rq_suspend b) = (m\<lparr>m_susp := b\<rparr>, Status AIE2_STATUS_SUCCESS)"
| "mert_spec m d Rq_self_test = (m, Status AIE2_STATUS_SUCCESS)"
| "mert_spec m d (Rq_create req) =
     (case free_chan (m_ctx m) of
        None \<Rightarrow> (m, Status AIE2_STATUS_MGMT_ERT_NOAVAIL)
      | Some k \<Rightarrow>
          if ccq_num_col req = 0 \<or> ucast (ccq_num_col req) > XDNA_AIE_COLS
          then (m, Status AIE2_STATUS_MGMT_ERT_INVALID_PARAM)
          else (m\<lparr>m_ctx := (m_ctx m)(m_next m \<mapsto> new_context (m_next m) k req),
                  m_next := m_next m + 1\<rparr>,
                Struct (CreateCtxResp_bytes (ctx_announcement (m_next m) k))))"
| "mert_spec m d (Rq_destroy cid) =
     (case m_ctx m cid of
        None \<Rightarrow> (m, Status AIE2_STATUS_MGMT_ERT_INVALID_PARAM)
      | Some c \<Rightarrow> (m\<lparr>m_ctx := (m_ctx m)(cid := None)\<rparr>, Status AIE2_STATUS_SUCCESS))"
| "mert_spec m d (Rq_map cid a n) =
     (case m_ctx m cid of
        None \<Rightarrow> (m, Status AIE2_STATUS_MGMT_ERT_INVALID_PARAM)
      | Some c \<Rightarrow> (m\<lparr>m_ctx := (m_ctx m)(cid \<mapsto> heap_ctx c a n)\<rparr>, Status AIE2_STATUS_SUCCESS))"
| "mert_spec m d (Rq_async a n) = (m\<lparr>m_async := (a, n, True)\<rparr>, No_answer)"
| "mert_spec m d (Rq_col a n) =
     (m, Struct (ColumnInfoResp_bytes
       (if a = 0 \<or> n = 0
        then \<lparr>cir_status = status_val AIE2_STATUS_INVALID_PARAM, cir_size = 0\<rparr>
        else case d of
            None \<Rightarrow> \<lparr>cir_status = status_val AIE2_STATUS_AIE_DMA_ERROR, cir_size = 0\<rparr>
          | Some (cnt, failed) \<Rightarrow>
              \<lparr>cir_status = (if failed then status_val AIE2_STATUS_AIE_DMA_ERROR else 0),
               cir_size = cnt\<rparr>)))"
| "mert_spec m d Rq_telemetry =
     (m, Struct (TelemetryResp_bytes \<lparr>tlr_major = 1, tlr_minor = 0, tlr_size = 0, tlr_status = 0\<rparr>))"
| "mert_spec m d Rq_array = (m, Status AIE2_STATUS_INVALID_OPERATION)"
| "mert_spec m d Rq_unknown = (m, Status AIE2_STATUS_INVALID_COMMAND)"

definition answer_bytes :: "u32 \<Rightarrow> mert_answer \<Rightarrow> u8 list option" where
  "answer_bytes opc ans =
     (case ans of
        No_answer \<Rightarrow> None
      | Status st \<Rightarrow> Some (status_reply_bytes opc st)
      | Struct bs \<Rightarrow> Some bs)"

definition dump_result :: "'h xdna_npu \<Rightarrow> u8 list \<Rightarrow> (u32 \<times> bool) option" where
  "dump_result s p =
     (case dma_write (ops s) of
        None \<Rightarrow> None
      | Some dma \<Rightarrow>
          (let (cnt, failed, h) = col_dump dma (field_at 0 8 p) (field_at 8 4 p) 0 (opaque s)
           in Some (cnt, failed)))"

subsection \<open>The refinement relation\<close>

text \<open>
  A state \<open>u\<close> after a message answers as a result of the specification says: it is a state
  \<open>t\<close> with the specified abstract content, whose management channel and SRAM below the
  context rings are still those of \<open>s\<close>, after the sending of the specified answer, if any.
\<close>

definition mgmt_kept :: "'h xdna_npu \<Rightarrow> 'h xdna_npu \<Rightarrow> bool" where
  "mgmt_kept s t \<longleftrightarrow> chan t 0 = chan s 0 \<and> (\<forall>a < 0x24000. sram t a = sram s a) \<and>
     ops t = ops s \<and> fw_alive t = fw_alive s \<and> (layout_inv s \<longrightarrow> layout_inv t)"

definition answers ::
  "'h xdna_npu \<Rightarrow> nat \<Rightarrow> xdna_msg_header \<Rightarrow> mstate \<times> mert_answer \<Rightarrow> 'h xdna_npu \<Rightarrow> bool" where
  "answers s k h r u \<longleftrightarrow>
     (\<exists>t. mert_abs t = fst r \<and> ids_ok t \<and> mgmt_kept s t \<and>
        u = (case answer_bytes (opcode h) (snd r) of
               None \<Rightarrow> t
             | Some bs \<Rightarrow> snd (xdna_mbox_send t k (msg_id h) (opcode h) bs)))"

lemma answers_status:
  "mert_abs t = m \<Longrightarrow> ids_ok t \<Longrightarrow> mgmt_kept s t \<Longrightarrow>
    answers s k h (m, Status st) (mert_reply_status t k h st)"
  using resp_size_bounds [of "opcode h"]
  by (auto simp: answers_def answer_bytes_def mert_reply_status_def mert_reply_def)

lemma answers_struct:
  "mert_abs t = m \<Longrightarrow> ids_ok t \<Longrightarrow> mgmt_kept s t \<Longrightarrow> bs = bs' \<Longrightarrow>
    answers s k h (m, Struct bs) (mert_reply t k h bs')"
  by (auto simp: answers_def answer_bytes_def mert_reply_def)

lemma answers_none:
  "mert_abs t = m \<Longrightarrow> ids_ok t \<Longrightarrow> mgmt_kept s t \<Longrightarrow> answers s k h (m, No_answer) t"
  by (auto simp: answers_def answer_bytes_def)

lemma ctx_map_unread [simp]:
  "ctx_map (xdna_log s l msg) = ctx_map s"
  "ctx_map (snd (xdna_mbox_send s k i p bs)) = ctx_map s"
  "ctx_map (s\<lparr>rt_cfg := rc\<rparr>) = ctx_map s"
  "ctx_map (s\<lparr>mgmt_pasid := w\<rparr>) = ctx_map s"
  "ctx_map (s\<lparr>fw_suspended := b\<rparr>) = ctx_map s"
  "ctx_map (s\<lparr>async_buf_addr := a, async_buf_size := n, async_registered := r\<rparr>) = ctx_map s"
  "ctx_map (s\<lparr>opaque := host\<rparr>) = ctx_map s"
  by (rule ctx_map_cong, simp)+

lemma ids_unread [simp]:
  "ids_ok (xdna_log s l msg) = ids_ok s"
  "ids_ok (snd (xdna_mbox_send s k i p bs)) = ids_ok s"
  "ids_ok (s\<lparr>rt_cfg := rc\<rparr>) = ids_ok s"
  "ids_ok (s\<lparr>mgmt_pasid := w\<rparr>) = ids_ok s"
  "ids_ok (s\<lparr>fw_suspended := b\<rparr>) = ids_ok s"
  "ids_ok (s\<lparr>async_buf_addr := a, async_buf_size := n, async_registered := r\<rparr>) = ids_ok s"
  "ids_ok (s\<lparr>opaque := host\<rparr>) = ids_ok s"
  by (simp_all add: ids_ok_def)

lemma mert_abs_unread [simp]:
  "mert_abs (xdna_log s l msg) = mert_abs s"
  "mert_abs (snd (xdna_mbox_send s k i p bs)) = mert_abs s"
  "mert_abs (s\<lparr>opaque := host\<rparr>) = mert_abs s"
  by (simp_all add: mert_abs_def)

lemma mert_abs_updates:
  "mert_abs (s\<lparr>rt_cfg := rc\<rparr>) = (mert_abs s)\<lparr>m_rt := rc\<rparr>"
  "mert_abs (s\<lparr>mgmt_pasid := w\<rparr>) = (mert_abs s)\<lparr>m_pasid := w\<rparr>"
  "mert_abs (s\<lparr>fw_suspended := b\<rparr>) = (mert_abs s)\<lparr>m_susp := b\<rparr>"
  "mert_abs (s\<lparr>async_buf_addr := a, async_buf_size := n, async_registered := r\<rparr>) =
    (mert_abs s)\<lparr>m_async := (a, n, r)\<rparr>"
  by (simp_all add: mert_abs_def)

lemma mgmt_kept_unread [simp]:
  "mgmt_kept s s"
  "mgmt_kept s (xdna_log t l msg) = mgmt_kept s t"
  "mgmt_kept s (t\<lparr>rt_cfg := rc\<rparr>) = mgmt_kept s t"
  "mgmt_kept s (t\<lparr>mgmt_pasid := w\<rparr>) = mgmt_kept s t"
  "mgmt_kept s (t\<lparr>fw_suspended := b\<rparr>) = mgmt_kept s t"
  "mgmt_kept s (t\<lparr>async_buf_addr := a, async_buf_size := n, async_registered := r\<rparr>) = mgmt_kept s t"
  "mgmt_kept s (t\<lparr>opaque := host\<rparr>) = mgmt_kept s t"
  "mgmt_kept s (s\<lparr>ctx := (ctx s)(slot := (ctx s slot)\<lparr>heap_addr := v, heap_size := z\<rparr>)\<rparr>)"
  by (simp_all add: mgmt_kept_def layout_heap)

lemmas answer_intros = answers_status answers_struct answers_none

subsection \<open>Each message answers as specified\<close>

lemma simple_answers:
  assumes "ids_ok s"
  shows "answers s k h (mert_spec (mert_abs s) d Rq_protocol) (handle_get_protocol_version s k h)"
    and "answers s k h (mert_spec (mert_abs s) d Rq_firmware) (handle_get_firmware_version s k h)"
    and "answers s k h (mert_spec (mert_abs s) d Rq_aie) (handle_query_aie_version s k h)"
    and "answers s k h (mert_spec (mert_abs s) d Rq_tiles) (handle_query_tile_info s k h)"
    and "answers s k h (mert_spec (mert_abs s) d (Rq_suspend b))
      (mert_reply_status (s\<lparr>fw_suspended := b\<rparr>) k h AIE2_STATUS_SUCCESS)"
    and "answers s k h (mert_spec (mert_abs s) d Rq_self_test)
      (mert_reply_status s k h AIE2_STATUS_SUCCESS)"
    and "answers s k h (mert_spec (mert_abs s) d Rq_telemetry) (handle_get_telemetry s k h)"
    and "answers s k h (mert_spec (mert_abs s) d Rq_array) (handle_array_stage s k h)"
    and "answers s k h (mert_spec (mert_abs s) d Rq_unknown) (handle_unknown_opcode s k h)"
  using assms
  by (auto intro!: answer_intros simp: handle_get_protocol_version_def
      handle_get_firmware_version_def handle_query_aie_version_def handle_query_tile_info_def
      handle_get_telemetry_def handle_array_stage_def handle_unknown_opcode_def mert_abs_updates
      XDNA_MGMT_PROT_MAJOR_def XDNA_MGMT_PROT_MINOR_def)

lemma settings_answer:
  assumes "ids_ok s"
  shows "answers s k h (mert_spec (mert_abs s) d
        (sized h 12 (Rq_set_rt (field_at 0 4 p) (field_at 4 8 p)))) (handle_set_runtime_config s k h p)"
    and "answers s k h (mert_spec (mert_abs s) d (sized h 4 (Rq_get_rt (field_at 0 4 p))))
      (handle_get_runtime_config s k h p)"
    and "answers s k h (mert_spec (mert_abs s) d (sized h 4 (Rq_pasid (field_at 0 2 p))))
      (handle_assign_mgmt_pasid s k h p)"
    and "answers s k h (mert_spec (mert_abs s) d
        (sized h 12 (Rq_async (field_at 0 8 p) (field_at 8 4 p)))) (handle_register_async s k h p)"
  using assms
  by (auto intro!: answer_intros simp: sized_def Let_def mert_abs_updates
      handle_set_runtime_config_def SetRuntimeCfgReq_of_def sizeof_SetRuntimeCfgReq_def
      handle_get_runtime_config_def GetRuntimeCfgReq_of_def sizeof_GetRuntimeCfgReq_def
      handle_assign_mgmt_pasid_def AssignPasidReq_of_def sizeof_AssignPasidReq_def
      handle_register_async_def AsyncEventReq_of_def sizeof_AsyncEventReq_def
      not_le mert_abs_def)

lemma open_channel_mgmt:
  assumes "slot < 6" and "fw_alive s" and "\<not> ctx_valid (ctx s slot)"
  shows "mgmt_kept s (ctx_fill_slot (ctx_open_channel s slot) slot req)"
proof -
  have "0x24000 \<le> unat (ctx_rb_base slot)"
    using assms by (simp add: unat_ctx_rb_base)
  then show ?thesis
    using layout_create [OF _ assms(2,1,3)]
    by (simp add: mgmt_kept_def) (simp add: ctx_fill_slot_def ctx_open_channel_def Let_def
        channel_reset_chan mem_store_outside)
qed

lemma open_channel_chan:
  assumes "slot < 6"
  shows "chan (ctx_fill_slot (ctx_open_channel s slot) slot req) (Suc slot) = zero_channel
    \<lparr>ch_active := True, ch_index := Suc slot, x2i_buf := ctx_rb_base slot,
     x2i_size := XDNA_SRAM_CTX_RB_SIZE, i2x_buf := ctx_rb_base slot + XDNA_SRAM_CTX_RB_SIZE,
     i2x_size := XDNA_SRAM_CTX_RB_SIZE\<rparr>"
  using assms
  by (simp add: ctx_fill_slot_def ctx_open_channel_def Let_def channel_reset_chan
      XDNA_MAX_CHANNELS_def XDNA_NPU1_HWCTX_LIMIT_def)

lemma create_resp_announces:
  assumes "slot < 6"
  shows "create_ctx_resp (ctx_fill_slot (ctx_open_channel s slot) slot req) slot =
    ctx_announcement (next_ctx_id s) (Suc slot)"
  using assms
  by (simp add: create_ctx_resp_def Let_def open_channel_chan fill_slot_ctx ctx_announcement_def
      queue_info_def ring_base_def ring_len_def ctx_rb_base_def xdna_consts
      add.commute mult.commute)

lemma create_answer:
  assumes "layout_inv s" and ids: "ids_ok s" and "next_ctx_id s \<noteq> -1" and "fw_alive s"
  shows "answers s k h (mert_spec (mert_abs s) d (sized h 28 (Rq_create (CreateCtxReq_of p))))
    (handle_create_context s k h p)"
proof -
  have free: "free_chan (m_ctx (mert_abs s)) = map_option Suc (free_slot s)"
    using free_chan_slot [OF assms(1,2)] by (simp add: mert_abs_def)
  show ?thesis
  proof (cases "free_slot s")
    case None
    with ids free show ?thesis
      by (auto intro!: answer_intros simp: sized_def handle_create_context_def Let_def
          sizeof_CreateCtxReq_def)
  next
    case (Some slot)
    then have slot: "slot < 6" "\<not> ctx_valid (ctx s slot)"
      by (simp_all add: free_slot_Some)
    have "mert_abs (ctx_fill_slot (ctx_open_channel s slot) slot req) = (mert_abs s)
        \<lparr>m_ctx := (ctx_map s)(next_ctx_id s \<mapsto> new_context (next_ctx_id s) (Suc slot) req),
         m_next := next_ctx_id s + 1\<rparr>" for req
      using create_map [OF ids slot assms(3)]
      by (simp add: mert_abs_def new_context_def fill_slot_ctx)
        (simp add: ctx_fill_slot_def ctx_open_channel_def Let_def)
    moreover have "m_ctx (mert_abs s) = ctx_map s" "m_next (mert_abs s) = next_ctx_id s"
      by (simp_all add: mert_abs_def)
    ultimately show ?thesis
      using Some slot ids free create_ids [OF ids slot assms(3)]
      by (auto intro!: answer_intros simp: sized_def handle_create_context_def Let_def
          sizeof_CreateCtxReq_def create_resp_announces open_channel_mgmt assms(4))
  qed
qed

lemma by_id_cases:
  assumes "ids_ok s"
  obtains "ctx_by_id s c = None" and "m_ctx (mert_abs s) c = None"
  | slot where "ctx_by_id s c = Some slot" and "slot < 6" and "ctx_valid (ctx s slot)"
      and "ctx_id (ctx s slot) = c" and "m_ctx (mert_abs s) c = Some (ctx s slot)"
proof (cases "ctx_by_id s c")
  case None
  then show thesis by (intro that(1)) (simp_all add: mert_abs_def ctx_map_def)
next
  case (Some slot)
  then show thesis
    using ctx_by_id_Some [of s c slot] by (intro that(2) [of slot]) (simp_all add: mert_abs_def ctx_map_def)
qed

lemma destroy_answer:
  assumes "layout_inv s" and ids: "ids_ok s"
  shows "answers s k h (mert_spec (mert_abs s) d (sized h 4 (Rq_destroy (field_at 0 4 p))))
    (handle_destroy_context s k h p)"
proof (cases rule: by_id_cases [OF ids, of "field_at 0 4 p"])
  case 1
  with ids show ?thesis
    by (auto intro!: answer_intros simp: sized_def handle_destroy_context_def Let_def
        sizeof_DestroyCtxReq_def DestroyCtxReq_of_def)
next
  case (2 slot)
  have "ctx_chan (ctx s slot) = Suc slot"
    using assms(1) 2 by (auto simp: layout_inv_def)
  then have "mgmt_kept s (ctx_destroy_slot s slot)"
    using layout_destroy [OF assms(1) 2(2,3)]
    by (simp add: mgmt_kept_def) (simp add: ctx_destroy_slot_def Let_def channel_reset_chan)
  moreover have "mert_abs (ctx_destroy_slot s slot) =
      (mert_abs s)\<lparr>m_ctx := (m_ctx (mert_abs s))(field_at 0 4 p := None)\<rparr>"
    using destroy_map [OF ids 2(2,3)] 2
    by (simp add: mert_abs_def destroy_ctx) (simp add: ctx_destroy_slot_def Let_def)
  ultimately show ?thesis
    using 2 ids destroy_ids [OF ids]
    by (auto intro!: answer_intros simp: sized_def handle_destroy_context_def Let_def
        sizeof_DestroyCtxReq_def DestroyCtxReq_of_def)
qed

lemma map_answer:
  assumes ids: "ids_ok s"
  shows "answers s k h (mert_spec (mert_abs s) d
      (sized h 20 (Rq_map (field_at 0 4 p) (field_at 4 8 p) (field_at 12 8 p))))
    (handle_map_host_buffer s k h p)"
proof (cases rule: by_id_cases [OF ids, of "field_at 0 4 p"])
  case 1
  with ids show ?thesis
    by (auto intro!: answer_intros simp: sized_def handle_map_host_buffer_def Let_def
        sizeof_MapHostBufferReq_def MapHostBufferReq_of_def)
next
  case (2 slot)
  have "mert_abs (s\<lparr>ctx := (ctx s)(slot := (ctx s slot)\<lparr>heap_addr := a, heap_size := n\<rparr>)\<rparr>) =
      (mert_abs s)\<lparr>m_ctx := (m_ctx (mert_abs s))(field_at 0 4 p \<mapsto> heap_ctx (ctx s slot) a n)\<rparr>" for a n
    using heap_map [OF ids 2(2,3)] 2 by (simp add: mert_abs_def)
  with 2 ids heap_ids [OF ids] show ?thesis
    by (auto intro!: answer_intros simp: sized_def handle_map_host_buffer_def Let_def
        sizeof_MapHostBufferReq_def MapHostBufferReq_of_def)
qed

lemma add_le_of_minus:
  assumes "(n :: u32) \<le> len - cnt" and "cnt \<le> len"
  shows "cnt + n \<le> len"
proof -
  have "unat cnt + unat n \<le> unat len"
    using assms unat_sub [of cnt len] by (simp add: word_le_nat_alt)
  then show ?thesis
    using unat_bound [of len] by (simp add: word_le_nat_alt unat_add_small)
qed

text \<open>The dump either writes everything it was asked to or stops at a failed write.\<close>

lemma col_dump_result:
  "col_dump dma addr len cnt host = (n, failed, host') \<Longrightarrow> cnt \<le> len \<Longrightarrow>
    n \<le> len \<and> (failed \<longleftrightarrow> n \<noteq> len)"
proof (induction dma addr len cnt host arbitrary: n failed host' rule: col_dump.induct)
  case (1 dma addr len cnt host)
  show ?case
  proof (cases "cnt < len")
    case True
    let ?n = "if len - cnt > 256 then 256 else len - cnt"
    obtain rc h1 where w: "dma host (addr + ucast cnt) (replicate (unat ?n) 0) = (rc, h1)"
      by (cases "dma host (addr + ucast cnt) (replicate (unat ?n) 0)")
    have "?n \<le> len - cnt" by (auto simp: not_less)
    then have le: "cnt + ?n \<le> len"
      using True by (intro add_le_of_minus) simp_all
    show ?thesis
    proof (cases "rc = 0")
      case True
      with 1 le w \<open>cnt < len\<close> show ?thesis
        by (simp add: col_dump.simps [of dma addr len cnt host])
    next
      case False
      with 1 w True show ?thesis
        by (auto simp: col_dump.simps [of dma addr len cnt host])
    qed
  next
    case False
    with 1(2,3) show ?thesis
      by (auto simp: col_dump.simps [of dma addr len cnt host])
  qed
qed

lemma col_answer:
  assumes ids: "ids_ok s"
  shows "answers s k h (mert_spec (mert_abs s) (dump_result s p)
      (sized h 20 (Rq_col (field_at 0 8 p) (field_at 8 4 p))))
    (handle_query_col_status s k h p)"
proof (cases "dma_write (ops s)")
  case None
  with ids show ?thesis
    by (auto intro!: answer_intros simp: sized_def handle_query_col_status_def Let_def
        sizeof_ColumnInfoReq_def ColumnInfoReq_of_def dump_result_def)
next
  case (Some dma)
  obtain cnt failed host where dump:
    "col_dump dma (field_at 0 8 p) (field_at 8 4 p) 0 (opaque s) = (cnt, failed, host)"
    by (metis prod_cases3)
  have "failed \<longleftrightarrow> cnt \<noteq> field_at 8 4 p"
    using col_dump_result [OF dump] by simp
  with Some dump ids show ?thesis
    by (auto intro!: answer_intros simp: sized_def handle_query_col_status_def Let_def
        sizeof_ColumnInfoReq_def ColumnInfoReq_of_def dump_result_def)
qed

lemma handle_answers:
  assumes "fw_alive s" and "layout_inv s" and "ids_ok s" and "next_ctx_id s \<noteq> -1"
  shows "answers s k h (mert_spec (mert_abs s) (dump_result s p) (mert_request_of h p))
    (xdna_mert_handle s k h p)"
  using assms
  by (simp add: xdna_mert_handle_def mert_request_of_def simple_answers settings_answer
      create_answer destroy_answer map_answer col_answer del: mert_spec.simps
      split: option.split xdna_msg_opcode.split)

text \<open>C4: The management firmware refines its specification.  While the firmware is up, for every
  message on every channel, in every state with the device's channel layout and distinct
  context ids (short of the 2^32nd context), handling the message changes the abstract state
  as \<open>mert_spec\<close> says for the parsed request, keeps the context ids distinct, leaves the
  management channel and its memory alone, keeps the channel layout, and then sends exactly the specified answer, with
  the id and the opcode of the request, on the channel the message came on (nothing for an
  async event registration).\<close>

lemma mert_handle_refines:
  assumes "fw_alive s" and "layout_inv s" and "ids_ok s" and "next_ctx_id s \<noteq> -1"
  shows "answers s k h (mert_spec (mert_abs s) (dump_result s p) (mert_request_of h p))
    (xdna_mert_handle s k h p)"
  using assms by (rule handle_answers)

lemma booted_ids: "ids_ok booted_npu"
  by (simp add: ids_ok_def zero_context_def)

lemma mert_handle_refines_witness:
  "answers booted_npu 0 \<lparr>total_size = 4, sz_ver = 0, msg_id = 7, opcode = opcode_val MSG_OP_EXEC_DPU\<rparr>
     (mert_abs booted_npu, Status AIE2_STATUS_INVALID_OPERATION)
     (xdna_mert_handle booted_npu 0
        \<lparr>total_size = 4, sz_ver = 0, msg_id = 7, opcode = opcode_val MSG_OP_EXEC_DPU\<rparr> [0, 0, 0, 0])"
  using mert_handle_refines [OF booted_fields(2) layout.I_reach [OF api_reach_run [OF booted_reach]]
      booted_ids, of 0 "\<lparr>total_size = 4, sz_ver = 0, msg_id = 7, opcode = opcode_val MSG_OP_EXEC_DPU\<rparr>"
      "[0, 0, 0, 0]"]
  by (simp add: mert_request_of_def del: opcode_val.simps)

text \<open>Every answer has the size the driver expects, of a rejected request too; only the async event
  registration is not answered.\<close>

lemma answer_length:
  "case answer_bytes (opcode h) (snd (mert_spec m d (mert_request_of h p))) of
     None \<Rightarrow> opcode_of (opcode h) = Some MSG_OP_REGISTER_ASYNC_EVENT_MSG
   | Some bs \<Rightarrow> length bs = fst (resp_size_for (opcode h))"
  by (auto simp: mert_request_of_def sized_def answer_bytes_def resp_size_for_def xdna_consts
      split: option.split xdna_msg_opcode.split)

text \<open>A status reply puts the status where the driver's structure has it.  For every opcode the
  reply has the length of the opcode's structure, holds the status code at the offset of its
  status field (the last word for telemetry, the first otherwise), and is zero everywhere
  else.\<close>

lemma status_reply_layout:
  "let bs = status_reply_bytes opc st; (size, off) = resp_size_for opc in
    length bs = size \<and> field_at off 4 bs = status_val st \<and>
    take off bs = replicate off 0 \<and> drop (off + 4) bs = replicate (size - (off + 4)) 0 \<and>
    (off = 0 \<or> off + 4 = size)"
  by (simp add: Let_def split_beta status_reply_bytes_def field_at_def resp_size_for_def xdna_consts
      min_def
      split: option.split xdna_msg_opcode.split)

subsection \<open>Refusals\<close>

text \<open>
  What a refusal may do to the device: call its host, and send the reply.  \<open>refuses s k h ans u\<close> says
  that if the status field of the answer \<open>ans\<close> is not zero, then \<open>u\<close> is \<open>s\<close> with the
  host changed at most, after the answer has been sent.
\<close>

definition host_only :: "'h xdna_npu \<Rightarrow> 'h xdna_npu \<Rightarrow> bool" where
  "host_only s t \<longleftrightarrow> (\<exists>host. t = s\<lparr>opaque := host\<rparr>)"

lemma host_only_intros [simp]: "host_only s s" "host_only s (xdna_log s l m)" "host_only s (s\<lparr>opaque := host\<rparr>)"
proof -
  show "host_only s s"
    unfolding host_only_def by (rule exI [of _ "opaque s"]) simp
  then show "host_only s (xdna_log s l m)"
    by (auto simp: xdna_log_def host_only_def split: option.split)
  show "host_only s (s\<lparr>opaque := host\<rparr>)"
    by (auto simp: host_only_def)
qed

definition refuses :: "'h xdna_npu \<Rightarrow> nat \<Rightarrow> xdna_msg_header \<Rightarrow> mert_answer \<Rightarrow> 'h xdna_npu \<Rightarrow> bool" where
  "refuses s k h ans u \<longleftrightarrow>
     (\<forall>bs. answer_bytes (opcode h) ans = Some bs \<longrightarrow>
        field_at (snd (resp_size_for (opcode h))) 4 bs \<noteq> status_val AIE2_STATUS_SUCCESS \<longrightarrow>
        (\<exists>t. host_only s t \<and> u = snd (xdna_mbox_send t k (msg_id h) (opcode h) bs)))"

lemma refuses_status: "host_only s t \<Longrightarrow> refuses s k h (Status st) (mert_reply_status t k h st)"
  using resp_size_bounds [of "opcode h"]
  by (auto simp: refuses_def answer_bytes_def mert_reply_status_def mert_reply_def)

lemma refuses_struct: "host_only s t \<Longrightarrow> bs = bs' \<Longrightarrow> refuses s k h (Struct bs) (mert_reply t k h bs')"
  by (auto simp: refuses_def answer_bytes_def mert_reply_def)

lemma refuses_success: "refuses s k h (Status AIE2_STATUS_SUCCESS) u"
  using status_reply_layout [of "opcode h" AIE2_STATUS_SUCCESS]
  by (simp add: refuses_def answer_bytes_def Let_def split_beta)

lemma refuses_none: "refuses s k h No_answer u"
  by (simp add: refuses_def answer_bytes_def)

lemmas refusal_intros = refuses_status refuses_struct refuses_success refuses_none

lemma simple_refusals:
  "refuses s k h (snd (mert_spec m d Rq_protocol)) (handle_get_protocol_version s k h)"
  "refuses s k h (snd (mert_spec m d Rq_firmware)) (handle_get_firmware_version s k h)"
  "refuses s k h (snd (mert_spec m d Rq_aie)) (handle_query_aie_version s k h)"
  "refuses s k h (snd (mert_spec m d Rq_tiles)) (handle_query_tile_info s k h)"
  "refuses s k h (snd (mert_spec m d (Rq_suspend b))) u"
  "refuses s k h (snd (mert_spec m d Rq_self_test)) u"
  "refuses s k h (snd (mert_spec m d Rq_telemetry)) (handle_get_telemetry s k h)"
  "refuses s k h (snd (mert_spec m d Rq_array)) (handle_array_stage s k h)"
  "refuses s k h (snd (mert_spec m d Rq_unknown)) (handle_unknown_opcode s k h)"
  by (auto intro!: refusal_intros simp: handle_get_protocol_version_def
      handle_get_firmware_version_def handle_query_aie_version_def handle_query_tile_info_def
      handle_get_telemetry_def handle_array_stage_def handle_unknown_opcode_def
      XDNA_MGMT_PROT_MAJOR_def XDNA_MGMT_PROT_MINOR_def)

lemma settings_refusals:
  "refuses s k h (snd (mert_spec m d (sized h 12 (Rq_set_rt (field_at 0 4 p) (field_at 4 8 p)))))
    (handle_set_runtime_config s k h p)"
  "m_rt m = rt_cfg s \<Longrightarrow> refuses s k h (snd (mert_spec m d (sized h 4 (Rq_get_rt (field_at 0 4 p)))))
    (handle_get_runtime_config s k h p)"
  "refuses s k h (snd (mert_spec m d (sized h 4 (Rq_pasid (field_at 0 2 p)))))
    (handle_assign_mgmt_pasid s k h p)"
  "refuses s k h (snd (mert_spec m d (sized h 12 (Rq_async (field_at 0 8 p) (field_at 8 4 p)))))
    (handle_register_async s k h p)"
  by (auto intro!: refusal_intros simp: sized_def Let_def
      handle_set_runtime_config_def SetRuntimeCfgReq_of_def sizeof_SetRuntimeCfgReq_def
      handle_get_runtime_config_def GetRuntimeCfgReq_of_def sizeof_GetRuntimeCfgReq_def
      handle_assign_mgmt_pasid_def AssignPasidReq_of_def sizeof_AssignPasidReq_def
      handle_register_async_def AsyncEventReq_of_def sizeof_AsyncEventReq_def not_le)

lemma create_refusal:
  assumes "layout_inv s" and ids: "ids_ok s" and opc: "opcode_of (opcode h) = Some MSG_OP_CREATE_CONTEXT"
  shows "refuses s k h (snd (mert_spec (mert_abs s) d (sized h 28 (Rq_create (CreateCtxReq_of p)))))
    (handle_create_context s k h p)"
proof -
  have free: "free_chan (m_ctx (mert_abs s)) = map_option Suc (free_slot s)"
    using free_chan_slot [OF assms(1,2)] by (simp add: mert_abs_def)
  have "field_at 0 4 (CreateCtxResp_bytes r) = ccr_status r" for r
    using arg_cong [OF ccr.dec_enc_alone [of r], of ccr_status] by (simp add: CreateCtxResp_of_def)
  then have ok: "refuses s k h (Struct (CreateCtxResp_bytes (ctx_announcement c j))) u" for c j u
    by (simp add: refuses_def answer_bytes_def resp_size_for_def opc ctx_announcement_def)
  show ?thesis
    by (cases "free_slot s")
      (auto intro!: refusal_intros ok simp: sized_def free handle_create_context_def Let_def sizeof_CreateCtxReq_def)
qed

lemma context_refusals:
  assumes ids: "ids_ok s"
  shows "refuses s k h (snd (mert_spec (mert_abs s) d (sized h 4 (Rq_destroy (field_at 0 4 p)))))
      (handle_destroy_context s k h p)"
    and "refuses s k h (snd (mert_spec (mert_abs s) d
        (sized h 20 (Rq_map (field_at 0 4 p) (field_at 4 8 p) (field_at 12 8 p)))))
      (handle_map_host_buffer s k h p)"
  by (cases rule: by_id_cases [OF ids, of "field_at 0 4 p"];
      auto intro!: refusal_intros simp: sized_def Let_def handle_destroy_context_def handle_map_host_buffer_def
        sizeof_DestroyCtxReq_def DestroyCtxReq_of_def sizeof_MapHostBufferReq_def MapHostBufferReq_of_def)+

lemma col_refusal:
  "refuses s k h (snd (mert_spec m (dump_result s p) (sized h 20 (Rq_col (field_at 0 8 p) (field_at 8 4 p)))))
    (handle_query_col_status s k h p)"
proof (cases "dma_write (ops s)")
  case None
  then show ?thesis
    by (auto intro!: refusal_intros simp: sized_def handle_query_col_status_def Let_def
        sizeof_ColumnInfoReq_def ColumnInfoReq_of_def dump_result_def)
next
  case (Some dma)
  obtain cnt failed host where dump:
    "col_dump dma (field_at 0 8 p) (field_at 8 4 p) 0 (opaque s) = (cnt, failed, host)"
    by (metis prod_cases3)
  have "failed \<longleftrightarrow> cnt \<noteq> field_at 8 4 p"
    using col_dump_result [OF dump] by simp
  with Some dump show ?thesis
    by (auto intro!: refusal_intros simp: sized_def handle_query_col_status_def Let_def
        sizeof_ColumnInfoReq_def ColumnInfoReq_of_def dump_result_def)
qed

lemma handle_refuses:
  assumes "fw_alive s" and "layout_inv s" and "ids_ok s"
  shows "refuses s k h (snd (mert_spec (mert_abs s) (dump_result s p) (mert_request_of h p)))
    (xdna_mert_handle s k h p)"
proof -
  have "m_rt (mert_abs s) = rt_cfg s"
    by (simp add: mert_abs_def)
  with assms show ?thesis
    by (simp add: xdna_mert_handle_def mert_request_of_def simple_refusals settings_refusals
        create_refusal context_refusals col_refusal del: mert_spec.simps
        split: option.split xdna_msg_opcode.split)
qed

text \<open>C36: A refused message changes nothing.  Whenever the specified answer to a message, a status or a
  structure, carries a status other than success, the handler leaves the whole device as it was
  but for its host, whose callbacks it may have called (for the log, for a column dump that
  failed), and then sends this answer on the channel of the message; in particular the firmware's
  state is the one before the message.\<close>

lemma rejection_is_inert:
  assumes "fw_alive s" and "layout_inv s" and "ids_ok s"
    and "answer_bytes (opcode h) (snd (mert_spec (mert_abs s) (dump_result s p) (mert_request_of h p))) = Some bs"
    and "field_at (snd (resp_size_for (opcode h))) 4 bs \<noteq> status_val AIE2_STATUS_SUCCESS"
  shows "let t = xdna_mert_handle s k h p in mert_abs t = mert_abs s \<and>
    (\<exists>host. t = snd (xdna_mbox_send (s\<lparr>opaque := host\<rparr>) k (msg_id h) (opcode h) bs))"
  using handle_refuses [OF assms(1-3), of k h p] assms(4,5) by (auto simp: refuses_def host_only_def)

lemma rejection_is_inert_witness:
  "let h = \<lparr>total_size = 12, sz_ver = 0, msg_id = 7, opcode = opcode_val MSG_OP_SET_RUNTIME_CONFIG\<rparr>;
      t = xdna_mert_handle booted_npu 0 h (le_bytes 4 (1000 :: u32) @ replicate 8 0)
    in rt_cfg t = rt_cfg booted_npu \<and>
      (\<exists>host. t = snd (xdna_mbox_send (booted_npu\<lparr>opaque := host\<rparr>) 0 7 (opcode h)
         (status_reply_bytes (opcode h) AIE2_STATUS_INVALID_PARAM)))"
proof -
  let ?h = "\<lparr>total_size = 12, sz_ver = 0, msg_id = 7, opcode = opcode_val MSG_OP_SET_RUNTIME_CONFIG\<rparr>"
  let ?bs = "status_reply_bytes (opcode ?h) AIE2_STATUS_INVALID_PARAM"
  have "\<not> unat (field_at 0 4 (le_bytes 4 (1000 :: u32) @ replicate 8 0 :: u8 list) :: u32) < RT_CFG_LEN"
    by (simp add: field_at_def le_word_le_bytes take_bit_word_eq_self xdna_consts)
  then have ans: "answer_bytes (opcode ?h) (snd (mert_spec (mert_abs booted_npu)
      (dump_result booted_npu (le_bytes 4 (1000 :: u32) @ replicate 8 0)) (mert_request_of ?h (le_bytes 4 (1000 :: u32) @ replicate 8 0)))) = Some ?bs"
    by (simp add: answer_bytes_def mert_request_of_def sized_def del: opcode_val.simps)
  have status: "field_at (snd (resp_size_for (opcode ?h))) 4 ?bs \<noteq> status_val AIE2_STATUS_SUCCESS"
    using status_reply_layout [of "opcode ?h" AIE2_STATUS_INVALID_PARAM]
    by (simp add: Let_def split_beta del: opcode_val.simps)
  have "layout_inv booted_npu"
    by (rule layout.I_reach [OF api_reach_run [OF booted_reach]])
  from rejection_is_inert [OF booted_fields(2) this booted_ids ans status, of 0]
  show ?thesis
    by (auto simp: Let_def mert_abs_def simp del: opcode_val.simps)
qed

end
