(* ===== verification/Xdna_Recv.thy ===== *)
theory Xdna_Recv
  imports Xdna_Ring Xdna_Contract
begin

text \<open>
  The doorbell of a channel.  When its x2i ring holds a queue of well-formed
  messages, writing the tail register hands them to the firmware one after the other and in
  order, each exactly once, and the abstract state of the firmware moves by \<open>mert_spec\<close> of
  each in turn.
\<close>

definition x2i_holds :: "nat \<Rightarrow> 'h xdna_npu \<Rightarrow> msg list \<Rightarrow> bool" where
  "x2i_holds k s q = ring_holds (sram s) (ring_base k) (ring_len k - 4) (unat (x2i_head (chan s k)))
     (unat (x2i_tail (chan s k))) q"

text \<open>
  What the receive loop accepts: a payload that is not empty and is a whole number of words.
  A context channel may not carry the destruction of a context, which could be its own.
\<close>

definition msg_ok :: "nat \<Rightarrow> msg \<Rightarrow> bool" where
  "msg_ok k x \<longleftrightarrow> 0 < length (snd x) \<and> 4 dvd length (snd x) \<and>
     (k = 0 \<or> opcode_of (opcode (fst x)) \<noteq> Some MSG_OP_DESTROY_CONTEXT)"

inductive delivered :: "nat \<Rightarrow> 'h xdna_npu \<Rightarrow> msg list \<Rightarrow> 'h xdna_npu \<Rightarrow> bool" for k where
  nothing: "delivered k s [] s"
| message: "unat v \<le> ring_len k \<Longrightarrow> delivered k (xdna_mert_handle (count_msg_in (set_x2i_head s k v)) k h p) q t \<Longrightarrow>
    delivered k s ((h, p) # q) t"
| rewind: "delivered k (set_x2i_head s k 0) q t \<Longrightarrow> delivered k s q t"

subsection \<open>What the handlers leave of the ring\<close>

definition x2i_kept :: "nat \<Rightarrow> 'h xdna_npu \<Rightarrow> 'h xdna_npu \<Rightarrow> bool" where
  "x2i_kept k s t \<longleftrightarrow> x2i_head (chan t k) = x2i_head (chan s k) \<and>
     x2i_tail (chan t k) = x2i_tail (chan s k) \<and> ch_active (chan t k) = ch_active (chan s k) \<and>
     (\<forall>a. ring_base k \<le> a \<longrightarrow> a < ring_base k + ring_len k \<longrightarrow> sram t a = sram s a)"

lemma kept_unread [simp]:
  "x2i_kept k r (xdna_log s l m) = x2i_kept k r s"
  "x2i_kept k r (s\<lparr>opaque := h\<rparr>) = x2i_kept k r s"
  "x2i_kept k r (s\<lparr>rt_cfg := rc\<rparr>) = x2i_kept k r s"
  "x2i_kept k r (s\<lparr>mgmt_pasid := w\<rparr>) = x2i_kept k r s"
  "x2i_kept k r (s\<lparr>fw_suspended := b\<rparr>) = x2i_kept k r s"
  "x2i_kept k r (s\<lparr>async_buf_addr := ad, async_buf_size := z, async_registered := b\<rparr>) = x2i_kept k r s"
  "x2i_kept k r (s\<lparr>ctx := x\<rparr>) = x2i_kept k r s"
  by (simp_all add: x2i_kept_def)

text \<open>A reply on channel \<open>j\<close> is written inside the i2x ring of \<open>j\<close>, away from every x2i ring.\<close>

lemma x2i_i2x_apart:
  "ring_base k \<le> a \<Longrightarrow> a < ring_base k + ring_len k \<Longrightarrow>
    a < ring_base j + ring_len j \<or> ring_base j + 2 * ring_len j \<le> a"
  using rings_disjoint [of j k] by (cases "j = k") auto

lemma send_outside:
  assumes "bounds_inv s" and "length bs \<le> 76"
    and apart: "a < ring_base j + ring_len j \<or> ring_base j + 2 * ring_len j \<le> a"
  shows "sram (snd (xdna_mbox_send s j i p bs)) a = sram s a"
proof (cases "j < 7 \<and> ch_active (chan s j)")
  case False
  then show ?thesis
    by (auto simp: xdna_mbox_send_def Let_def xdna_consts)
next
  case True
  then have j: "j < 7" "ch_active (chan s j)" by simp_all
  have i2x: "i2x_ok j (chan s j)" and len: "length bs \<le> 0x2000"
    using assms j(1) by (simp_all add: bounds_inv_def)
  then have pos: "unat (i2x_tail (chan s j)) \<le> ring_len j - 4"
    using j(2) by (simp add: i2x_ok_def)
  note base = active_chan(1) [OF bounds_layout [OF assms(1)] j]
  note apart = apart ring_len_bounds [of j]
  have mark: "sram (mark_tail s j w) a = sram s a" for w
    using base apart pos by (auto simp: mark_tail_def intro!: mem_store_outside)
  show ?thesis
  proof (cases rule: send_cases [OF bounds_layout [OF assms(1)] j i2x len, of i p, case_names too_big full sent])
    case (sent w t)
    have "unat t + (16 + length bs) \<le> ring_len j - 4"
      using sent(1,2,3,4) i2x j(2) by (auto simp: i2x_ok_def split: if_splits)
    then have "a < ring_base j + ring_len j + unat t \<or> ring_base j + ring_len j + unat t + 16 + length bs \<le> a"
      using apart by auto
    with base sent(6) show ?thesis
      by (auto simp: commit_ring [OF len] mem_store_outside mark)
  qed (simp_all add: mark)
qed

lemma kept_send:
  "bounds_inv s \<Longrightarrow> length bs \<le> 76 \<Longrightarrow>
    x2i_kept k r (snd (xdna_mbox_send s j i p bs)) = x2i_kept k r s"
  by (auto simp: x2i_kept_def send_outside [OF _ _ x2i_i2x_apart])

lemma kept_create:
  assumes "layout_inv s" and "ch_active (chan s k)" and "slot < 6" and "\<not> ctx_valid (ctx s slot)"
  shows "x2i_kept k r (ctx_fill_slot (ctx_open_channel s slot) slot req) = x2i_kept k r s"
    and "ch_active (chan (ctx_fill_slot (ctx_open_channel s slot) slot req) k)"
proof -
  have other: "k \<noteq> Suc slot"
    using assms by (auto simp: layout_inv_def)
  then have "a < ring_base (Suc slot) \<or> ring_base (Suc slot) + 2 * ring_len (Suc slot) \<le> a"
    if "ring_base k \<le> a" "a < ring_base k + ring_len k" for a
    using that rings_disjoint [of "Suc slot" k] by auto
  then have "a < 0x24000 + slot * 0x4000 \<or> 0x28000 + slot * 0x4000 \<le> a"
    if "ring_base k \<le> a" "a < ring_base k + ring_len k" for a
    using that by (fastforce simp: ring_base_def ring_len_def)
  note apart = this
  have "sram (ctx_fill_slot (ctx_open_channel s slot) slot req) a = sram s a"
    if "ring_base k \<le> a" "a < ring_base k + ring_len k" for a
    using apart [OF that] assms(3)
    by (auto simp: ctx_fill_slot_def ctx_open_channel_def Let_def unat_ctx_rb_base
        XDNA_SRAM_CTX_RB_STRIDE_def XDNA_SRAM_CTX_RB_SIZE_def intro!: mem_store_outside)
  moreover have "chan (ctx_fill_slot (ctx_open_channel s slot) slot req) k = chan s k"
    using other by (simp add: ctx_fill_slot_def ctx_open_channel_def Let_def channel_reset_chan)
  ultimately show "x2i_kept k r (ctx_fill_slot (ctx_open_channel s slot) slot req) = x2i_kept k r s"
    and "ch_active (chan (ctx_fill_slot (ctx_open_channel s slot) slot req) k)"
    using assms(2) by (auto simp: x2i_kept_def)
qed

lemma kept_destroy:
  assumes "layout_inv s" and "slot < 6" and "ctx_valid (ctx s slot)"
  shows "x2i_kept 0 r (ctx_destroy_slot s slot) = x2i_kept 0 r s"
    and "ch_active (chan (ctx_destroy_slot s slot) 0) = ch_active (chan s 0)"
proof -
  have "ctx_chan (ctx s slot) = Suc slot"
    using assms by (auto simp: layout_inv_def)
  then show "x2i_kept 0 r (ctx_destroy_slot s slot) = x2i_kept 0 r s"
    and "ch_active (chan (ctx_destroy_slot s slot) 0) = ch_active (chan s 0)"
    by (simp_all add: x2i_kept_def ctx_destroy_slot_def Let_def channel_reset_chan)
qed

interpretation keeps: message_closed
  "\<lambda>t. bounds_inv t \<and> ch_active (chan t k) \<and> x2i_kept k r t" "\<lambda>_. True" for k and r :: "'h xdna_npu"
  by unfold_locales
    (simp_all add: kept_send bounds_send kept_create bounds_create bounds_layout bounds_heap)

interpretation mgmt_keeps: handler_closed
  "\<lambda>t. bounds_inv t \<and> ch_active (chan t 0) \<and> x2i_kept 0 r t" "\<lambda>_. True" for r :: "'h xdna_npu"
  by unfold_locales (simp_all add: kept_destroy bounds_destroy bounds_layout)

lemma handle_keeps:
  assumes "bounds_inv s" and "k < 7" and "ch_active (chan s k)" and "msg_ok k (h, p)"
  shows "bounds_inv (xdna_mert_handle s k h p)" and "x2i_kept k s (xdna_mert_handle s k h p)"
proof -
  have "x2i_kept k s s" by (simp add: x2i_kept_def)
  then have "bounds_inv (xdna_mert_handle s k h p) \<and> ch_active (chan (xdna_mert_handle s k h p) k) \<and>
      x2i_kept k s (xdna_mert_handle s k h p)"
    using assms keeps.I_handle_other [of s k s h k p] mgmt_keeps.I_handle [of s s k h p]
    by (cases "k = 0") (simp_all add: msg_ok_def)
  then show "bounds_inv (xdna_mert_handle s k h p)" "x2i_kept k s (xdna_mert_handle s k h p)"
    by simp_all
qed

subsection \<open>One iteration of the loop\<close>

lemma sram_load_mark_id: "a + n \<le> 0x40000 \<Longrightarrow> sram_load_mark s a n = s"
  by (simp add: sram_load_mark_def xdna_consts)

lemma x2i_ring:
  assumes "layout_inv s" and "k < 7" and "ch_active (chan s k)"
  shows "unat (x2i_buf (chan s k)) = ring_base k" and "unat (x2i_size (chan s k)) = ring_len k"
    and "ring_base k + 2 * ring_len k \<le> 0x3C000" and "0x1000 \<le> ring_len k"
  using layout_chan [OF assms(1,2)] assms(3) ring_end [OF assms(2)] ring_len_bounds [of k]
  by (simp_all add: chan_ok_def)

lemma x2i_peek:
  assumes "layout_inv s" and "k < 7" and "ch_active (chan s k)"
    and "unat (x2i_head (chan s k)) \<le> ring_len k - 4"
  shows "unat (x2i_buf (chan s k) + x2i_head (chan s k)) = ring_base k + unat (x2i_head (chan s k))"
    and "xdna_sram_read32 s (x2i_buf (chan s k) + x2i_head (chan s k)) =
      (word_at (sram s) (ring_base k + unat (x2i_head (chan s k))), s)"
    and "\<not> x2i_head (chan s k) \<ge> x2i_size (chan s k)"
proof -
  note ring = x2i_ring [OF assms(1,2,3)]
  show at: "unat (x2i_buf (chan s k) + x2i_head (chan s k)) = ring_base k + unat (x2i_head (chan s k))"
    using assms(4) ring by (subst unat_add_small) simp_all
  show "xdna_sram_read32 s (x2i_buf (chan s k) + x2i_head (chan s k)) =
      (word_at (sram s) (ring_base k + unat (x2i_head (chan s k))), s)"
    using assms(4) ring at by (simp add: read32_in_bounds sram_load_mark_id word_at_def)
  show "\<not> x2i_head (chan s k) \<ge> x2i_size (chan s k)"
    using assms(4) ring by (simp add: word_le_nat_alt)
qed

lemma rx_rewinds:
  assumes "layout_inv s" and "k < 7" and "ch_active (chan s k)"
    and "unat (x2i_head (chan s k)) \<le> ring_len k - 4"
    and "word_at (sram s) (ring_base k + unat (x2i_head (chan s k))) = XDNA_MBOX_TOMBSTONE"
  shows "mbox_rx_one s k = Rx_again (set_x2i_head s k 0)"
  using assms x2i_peek [OF assms(1-4)] by (simp add: mbox_rx_one_def Let_def)

lemma rx_delivers:
  assumes s: "layout_inv s" "k < 7" "ch_active (chan s k)"
    and h: "hdr_of (mem_load (sram s) (ring_base k + unat (x2i_head (chan s k))) 16) = h"
    and p: "mem_load (sram s) (ring_base k + unat (x2i_head (chan s k)) + 16) (length p) = p"
    and size: "unat (total_size h) = length p"
    and fits: "unat (x2i_head (chan s k)) + 16 + length p \<le> ring_len k - 4" and ok: "msg_ok k (h, p)"
  obtains v where "unat v = unat (x2i_head (chan s k)) + 16 + length p"
    and "mbox_rx_one s k = Rx_again (xdna_mert_handle (count_msg_in (set_x2i_head s k v)) k h p)"
proof
  let ?H = "x2i_head (chan s k)" and ?n = "total_size h" and ?z = "x2i_size (chan s k)"
  have len: "ring_len k \<le> 0x2000" by (simp add: ring_len_def)
  note ring = x2i_ring [OF s]
  have word: "word_at (sram s) (ring_base k + unat ?H) = ?n"
    using h by (rule frame_size_word)
  have n: "unat ?n = length p" "unat ?n \<le> 0x2000"
    using size fits len by simp_all
  have not_mark: "?n \<noteq> XDNA_MBOX_TOMBSTONE" and nonzero: "?n \<noteq> 0"
    using n ok by (auto simp: msg_ok_def xdna_consts)
  have "unat (?n AND 3) = 0"
    unfolding unat_and_3 n(1) using ok by (simp add: msg_ok_def dvd_eq_mod_eq_0)
  then have aligned: "?n AND 3 = 0"
    by (simp add: unat_eq_0)
  have pkg: "unat (16 + ?n) = 16 + length p"
    using n by (subst unat_add_small) simp_all
  have "unat (?z - ?H) = ring_len k - unat ?H"
    using fits ring by (subst unat_sub) (simp_all add: word_le_nat_alt)
  then have room: "\<not> 16 + ?n > ?z - ?H"
    using fits pkg by (simp add: word_less_nat_alt)
  have small: "\<not> ?n > MBOX_PAYLOAD_MAX"
    using n by (simp add: word_less_nat_alt xdna_consts)
  show "unat (?H + (16 + ?n)) = unat ?H + 16 + length p"
    using fits pkg len by (subst unat_add_small) simp_all
  have head: "unat ?H \<le> ring_len k - 4" and inside: "ring_base k + unat ?H + 16 + length p \<le> 0x40000"
    using fits ring by simp_all
  show "mbox_rx_one s k = Rx_again (xdna_mert_handle
      (count_msg_in (set_x2i_head s k (?H + (16 + ?n)))) k h p)"
    using x2i_peek [OF s head] inside word not_mark nonzero aligned room small h p
    by (simp add: mbox_rx_one_def Let_def ring(1) sizeof_hdr_def n(1) sram_load_mark_id)
qed

subsection \<open>The loop\<close>

lemma set_head_ring:
  "x2i_holds k (set_x2i_head s k v) q =
    ring_holds (sram s) (ring_base k) (ring_len k - 4) (unat v) (unat (x2i_tail (chan s k))) q"
  by (simp add: x2i_holds_def set_x2i_head_def)

lemma kept_ring:
  assumes "x2i_holds k s q" and "x2i_kept k s t"
  shows "x2i_holds k t q"
  using assms ring_len_bounds [of k] unfolding x2i_holds_def x2i_kept_def
  by (auto elim!: ring_holds_cong)

lemma bounds_set_head:
  assumes s: "bounds_inv s" and k: "k < 7" "ch_active (chan s k)" and v: "unat v \<le> ring_len k"
  shows "bounds_inv (set_x2i_head s k v)"
proof -
  have "chan_ok k ((chan s k)\<lparr>x2i_head := v\<rparr>)"
    using layout_chan [OF bounds_layout [OF s] k(1)] k(2) v by (simp add: chan_ok_def)
  then show ?thesis
    using s k(1) unfolding set_x2i_head_def
    by (intro bounds_chan_update layout_chan_update bounds_layout) (simp_all add: bounds_inv_def)
qed

lemma rx_step:
  assumes s: "bounds_inv s" "k < 7" "ch_active (chan s k)" and ring: "x2i_holds k s ((h, p) # q)" and ok: "msg_ok k (h, p)"
    and no_wrap: "unat (x2i_head (chan s k)) \<le> unat (x2i_tail (chan s k)) \<or>
      word_at (sram s) (ring_base k + unat (x2i_head (chan s k))) \<noteq> XDNA_MBOX_TOMBSTONE"
  obtains v u where "u = xdna_mert_handle (count_msg_in (set_x2i_head s k v)) k h p"
    and "mbox_rx_one s k = Rx_again u" and "x2i_head (chan s k) \<noteq> x2i_tail (chan s k)"
    and "bounds_inv u" and "ch_active (chan u k)" and "x2i_holds k u q"
    and "x2i_tail (chan u k) = x2i_tail (chan s k)" and "x2i_head (chan u k) = v"
    and "unat v = unat (x2i_head (chan s k)) + 16 + length p" and "unat v \<le> ring_len k"
  using ring unfolding x2i_holds_def
proof (cases rule: ring_front [consumes 1, case_names here wrapped])
  case here
  obtain v where v: "unat v = unat (x2i_head (chan s k)) + 16 + length p"
    "mbox_rx_one s k = Rx_again (xdna_mert_handle (count_msg_in (set_x2i_head s k v)) k h p)"
    using rx_delivers [OF bounds_layout [OF s(1)] s(2,3) here(1,2,3,5) ok] by blast
  let ?s = "count_msg_in (set_x2i_head s k v)"
  let ?u = "xdna_mert_handle ?s k h p"
  have "bounds_inv (set_x2i_head s k v)"
    using here(5) v(1) by (intro bounds_set_head s) simp
  then have inv: "bounds_inv ?s"
    by (simp add: count_msg_in_def)
  have "x2i_holds k ?s q"
    using here(7) v(1) by (simp add: x2i_holds_def count_msg_in_def set_x2i_head_def)
  have active: "ch_active (chan ?s k)"
    using s(3) by (simp add: count_msg_in_def set_x2i_head_def)
  note keeps = handle_keeps [OF inv s(2) active ok]
  have "x2i_holds k ?u q"
    using \<open>x2i_holds k ?s q\<close> keeps(2) by (rule kept_ring)
  moreover have "ch_active (chan ?u k)" "x2i_tail (chan ?u k) = x2i_tail (chan s k)" "x2i_head (chan ?u k) = v"
    using keeps(2) s(3) by (simp_all add: x2i_kept_def count_msg_in_def set_x2i_head_def)
  moreover have "x2i_head (chan s k) \<noteq> x2i_tail (chan s k)"
    using here(6) by auto
  ultimately show thesis
    using v(1) here(5) keeps(1) by (intro that [OF refl v(2)]) simp_all
next
  case wrapped
  with no_wrap show thesis by simp
qed

lemma rx_loop_straight:
  assumes "bounds_inv s" and "k < 7" and "ch_active (chan s k)" and "x2i_holds k s q"
    and "list_all (msg_ok k) q" and "length q \<le> n"
    and "unat (x2i_head (chan s k)) \<le> unat (x2i_tail (chan s k))"
  shows "delivered k s q (mbox_rx_loop n s k) \<and>
    x2i_head (chan (mbox_rx_loop n s k) k) = x2i_tail (chan (mbox_rx_loop n s k) k)"
  using assms
proof (induction q arbitrary: s n)
  case Nil
  then have "x2i_head (chan s k) = x2i_tail (chan s k)"
    by (simp add: x2i_holds_def ring_holds_def word_unat_eq_iff)
  then have "mbox_rx_loop n s k = s"
    by (cases n) simp_all
  with \<open>x2i_head (chan s k) = x2i_tail (chan s k)\<close> show ?case
    by (simp add: delivered.nothing)
next
  case (Cons x q)
  obtain h p where x: "x = (h, p)" by (cases x)
  obtain m where n: "n = Suc m" using Cons.prems(6) by (cases n) simp_all
  have ok: "msg_ok k (h, p)" and straight: "unat (x2i_head (chan s k)) \<le> unat (x2i_tail (chan s k)) \<or>
      word_at (sram s) (ring_base k + unat (x2i_head (chan s k))) \<noteq> XDNA_MBOX_TOMBSTONE"
    using Cons.prems(5,7) by (simp_all add: x)
  obtain v u where u: "u = xdna_mert_handle (count_msg_in (set_x2i_head s k v)) k h p"
    "mbox_rx_one s k = Rx_again u" "x2i_head (chan s k) \<noteq> x2i_tail (chan s k)"
    "bounds_inv u" "ch_active (chan u k)" "x2i_holds k u q"
    "x2i_tail (chan u k) = x2i_tail (chan s k)" "x2i_head (chan u k) = v"
    "unat v = unat (x2i_head (chan s k)) + 16 + length p" "unat v \<le> ring_len k"
    by (rule rx_step [OF Cons.prems(1,2,3) Cons.prems(4) [unfolded x] ok straight])
  have "unat (x2i_head (chan u k)) \<le> unat (x2i_tail (chan u k))"
    using Cons.prems(4,7) u by (auto simp: x x2i_holds_def ring_holds_def dest: frames_le)
  with Cons.IH [OF u(4) Cons.prems(2) u(5,6)] Cons.prems n u(10) show ?case
    by (auto simp: u(1,2,3) x intro!: delivered.message [where v = v])
qed

text \<open>At the TOMBSTONE of a wrapped ring the loop goes back to the start of the ring.\<close>

lemma rx_loop_rewind:
  assumes s: "bounds_inv s" "k < 7" "ch_active (chan s k)"
    and ring: "ring_holds (sram s) (ring_base k) (ring_len k - 4) 0 (unat (x2i_tail (chan s k))) q"
    and mark: "word_at (sram s) (ring_base k + unat (x2i_head (chan s k))) = XDNA_MBOX_TOMBSTONE"
    and head: "unat (x2i_tail (chan s k)) < unat (x2i_head (chan s k))" "unat (x2i_head (chan s k)) \<le> (ring_len k - 4)"
    and ok: "list_all (msg_ok k) q" and fuel: "length q \<le> n"
  shows "delivered k s q (mbox_rx_loop (Suc n) s k) \<and>
    x2i_head (chan (mbox_rx_loop (Suc n) s k) k) = x2i_tail (chan (mbox_rx_loop (Suc n) s k) k)"
proof -
  let ?t = "set_x2i_head s k 0"
  have one: "mbox_rx_one s k = Rx_again ?t"
    by (rule rx_rewinds [OF bounds_layout [OF s(1)] s(2,3) head(2) mark])
  have "x2i_head (chan s k) \<noteq> x2i_tail (chan s k)"
    using head(1) by auto
  with one have loop: "mbox_rx_loop (Suc n) s k = mbox_rx_loop n ?t k"
    by simp
  have "x2i_holds k ?t q" "ch_active (chan ?t k)" "x2i_head (chan ?t k) = 0"
    using ring s(3) by (simp_all add: set_head_ring) (simp_all add: set_x2i_head_def)
  then show ?thesis
    using rx_loop_straight [OF bounds_set_head [OF s, of 0] s(2) _ _ ok fuel]
    unfolding loop by (auto intro: delivered.rewind)
qed

lemma ring_nil_wrapped:
  "ring_holds m B U H T [] \<Longrightarrow> T < H \<Longrightarrow> word_at m (B + H) = XDNA_MBOX_TOMBSTONE \<and> T = 0 \<and> H \<le> U"
  by (auto simp: ring_holds_def)

lemma rx_loop_wrapped:
  assumes "bounds_inv s" and "k < 7" and "ch_active (chan s k)" and "x2i_holds k s q"
    and "list_all (msg_ok k) q" and "length q \<le> n"
    and "unat (x2i_tail (chan s k)) < unat (x2i_head (chan s k))"
  shows "delivered k s q (mbox_rx_loop (Suc n) s k) \<and>
    x2i_head (chan (mbox_rx_loop (Suc n) s k) k) = x2i_tail (chan (mbox_rx_loop (Suc n) s k) k)"
  using assms
proof (induction q arbitrary: s n)
  case Nil
  note at_end = ring_nil_wrapped [OF Nil.prems(4) [unfolded x2i_holds_def] Nil.prems(7)]
  have "ring_holds (sram s) (ring_base k) (ring_len k - 4) 0 (unat (x2i_tail (chan s k))) []"
    using at_end by (simp add: ring_empty)
  then show ?case
    using at_end Nil.prems by (intro rx_loop_rewind) simp_all
next
  case (Cons x q)
  obtain h p where x: "x = (h, p)" by (cases x)
  note ring = Cons.prems(4) [unfolded x2i_holds_def x]
  have ok: "msg_ok k (h, p)" using Cons.prems(5) by (simp add: x)
  show ?case
  proof (cases "word_at (sram s) (ring_base k + unat (x2i_head (chan s k))) = XDNA_MBOX_TOMBSTONE")
    case True
    from ring show ?thesis
    proof (cases rule: ring_front [consumes 1, case_names here wrapped])
      case here
      with True have "length p = unat XDNA_MBOX_TOMBSTONE" by simp
      with here(5) show ?thesis using ring_len_bounds [of k] by (simp add: xdna_consts)
    next
      case wrapped
      then show ?thesis
        using True Cons.prems by (intro rx_loop_rewind) (simp_all add: x)
    qed
  next
    case False
    obtain m where n: "n = Suc m" using Cons.prems(6) by (cases n) simp_all
    obtain v u where u: "u = xdna_mert_handle (count_msg_in (set_x2i_head s k v)) k h p"
      "mbox_rx_one s k = Rx_again u" "x2i_head (chan s k) \<noteq> x2i_tail (chan s k)"
      "bounds_inv u" "ch_active (chan u k)" "x2i_holds k u q"
      "x2i_tail (chan u k) = x2i_tail (chan s k)" "x2i_head (chan u k) = v"
      "unat v = unat (x2i_head (chan s k)) + 16 + length p" "unat v \<le> ring_len k"
      by (rule rx_step [OF Cons.prems(1,2,3) Cons.prems(4) [unfolded x] ok disjI2 [OF False]])
    have "unat (x2i_tail (chan u k)) < unat (x2i_head (chan u k))"
      using Cons.prems(7) u by simp
    moreover have "mbox_rx_loop (Suc n) s k = mbox_rx_loop n u k"
      using u(2,3) by simp
    ultimately show ?thesis
      using Cons.IH [OF u(4) Cons.prems(2) u(5,6), of m] Cons.prems n u(10)
      by (auto simp: u(1) x simp del: mbox_rx_loop.simps intro!: delivered.message [where v = v])
  qed
qed

lemma process_delivers:
  assumes s: "bounds_inv s" "k < 7" "ch_active (chan s k)" and ring: "x2i_holds k s q"
    and ok: "list_all (msg_ok k) q" and few: "length q < 256"
  shows "delivered k s q (xdna_mbox_process s k) \<and>
    x2i_head (chan (xdna_mbox_process s k) k) = x2i_tail (chan (xdna_mbox_process s k) k)"
proof -
  have p: "xdna_mbox_process s k = mbox_rx_loop (Suc 255) s k"
    using s(2,3) by (simp add: xdna_mbox_process_def MBOX_MAX_MSG_PER_KICK_def max_channels flip: not_less
        del: mbox_rx_loop.simps)
  show ?thesis
    unfolding p using rx_loop_straight [OF s ring ok, of "Suc 255"] rx_loop_wrapped [OF s ring ok, of 255] few
    by (cases "unat (x2i_head (chan s k)) \<le> unat (x2i_tail (chan s k))") (simp_all del: mbox_rx_loop.simps)
qed

subsection \<open>The doorbell executes the queue\<close>

definition mert_run :: "msg list \<Rightarrow> mstate \<Rightarrow> mstate" where
  "mert_run q m = fold (\<lambda>(h, p) m. fst (mert_spec m None (mert_request_of h p))) q m"

lemma spec_dump_free: "fst (mert_spec m d r) = fst (mert_spec m None r)"
  by (cases r) (auto split: option.split)

lemma spec_next: "m_next (fst (mert_spec m d r)) = m_next m \<or> m_next (fst (mert_spec m d r)) = m_next m + 1"
  by (cases r) (auto split: option.split)

lemma answers_abs:
  "answers s k h r u \<Longrightarrow> mert_abs u = fst r \<and> ids_ok u \<and> fw_alive u = fw_alive s"
  by (auto simp: answers_def mgmt_kept_def split: option.splits)

lemma abs_next: "m_next (mert_abs s) = next_ctx_id s"
  by (simp add: mert_abs_def)

lemma delivered_refines:
  assumes "delivered k s q t" and "bounds_inv s" and "k < 7" and "ch_active (chan s k)"
    and "list_all (msg_ok k) q" and "fw_alive s" and "ids_ok s" and "unat (next_ctx_id s) + length q < 2 ^ 32"
  shows "mert_abs t = mert_run q (mert_abs s) \<and> ids_ok t"
  using assms
proof (induction rule: delivered.induct)
  case (nothing s)
  then show ?case by (simp add: mert_run_def)
next
  case (message v s h p q t)
  let ?s = "count_msg_in (set_x2i_head s k v)"
  let ?u = "xdna_mert_handle ?s k h p"
  have inv: "bounds_inv ?s"
    using bounds_set_head [OF message.prems(1-3) message.hyps(1)] by (simp add: count_msg_in_def)
  have same: "mert_abs ?s = mert_abs s" "ids_ok ?s" "fw_alive ?s" "next_ctx_id ?s = next_ctx_id s"
    using message.prems ctx_map_cong [of ?s s] ids_ok_cong [of ?s s]
    by (simp_all add: count_msg_in_def set_x2i_head_def mert_abs_def)
  have "unat (next_ctx_id s) < 2 ^ 32 - 1"
    using message.prems(7) by simp
  then have "next_ctx_id s \<noteq> -1"
    by (auto simp: unsigned_minus_1_eq_mask mask_eq_exp_minus_1)
  then have "answers ?s k h (mert_spec (mert_abs ?s) (dump_result ?s p) (mert_request_of h p)) ?u"
    using same by (intro handle_answers bounds_layout [OF inv]) simp_all
  note u = answers_abs [OF this]
  have next_u: "next_ctx_id ?u = next_ctx_id s \<or> next_ctx_id ?u = next_ctx_id s + 1"
    using u spec_next [of "mert_abs s" "dump_result ?s p" "mert_request_of h p"] same
    by (metis abs_next)
  then have "unat (next_ctx_id ?u) + length q < 2 ^ 32"
    using message.prems(7) next_id [OF \<open>next_ctx_id s \<noteq> -1\<close>] by auto
  moreover have active: "ch_active (chan ?s k)"
    using message.prems(3) by (simp add: count_msg_in_def set_x2i_head_def)
  note keeps = handle_keeps [OF inv message.prems(2) active, of h p]
  moreover have "ch_active (chan ?u k)"
    using keeps(2) active message.prems(4) by (simp add: x2i_kept_def)
  ultimately have "mert_abs t = mert_run q (mert_abs ?u) \<and> ids_ok t"
    using u same keeps(1) message.prems(2,4) by (intro message.IH) simp_all
  then show ?case
    using u same spec_dump_free [of "mert_abs s" "dump_result ?s p"] by (simp add: mert_run_def)
next
  case (rewind s q t)
  have "mert_abs (set_x2i_head s k 0) = mert_abs s" "ids_ok (set_x2i_head s k 0) = ids_ok s"
    using ctx_map_cong [of "set_x2i_head s k 0" s] ids_ok_cong [of "set_x2i_head s k 0" s]
    by (simp_all add: set_x2i_head_def mert_abs_def)
  then show ?case
    using rewind bounds_set_head [of s k 0] by (simp add: set_x2i_head_def)
qed

text \<open>The loop leaves the tail where the driver has put it.\<close>

lemma delivered_tail:
  assumes "delivered k s q t" and "bounds_inv s" and "k < 7" and "ch_active (chan s k)" and "list_all (msg_ok k) q"
  shows "x2i_tail (chan t k) = x2i_tail (chan s k)"
  using assms
proof (induction rule: delivered.induct)
  case (message v s h p q t)
  let ?s = "count_msg_in (set_x2i_head s k v)"
  have inv: "bounds_inv ?s"
    using bounds_set_head [OF message.prems(1-3) message.hyps(1)] by (simp add: count_msg_in_def)
  have same: "ch_active (chan ?s k)" "x2i_tail (chan ?s k) = x2i_tail (chan s k)"
    using message.prems(3) by (simp_all add: count_msg_in_def set_x2i_head_def)
  have "msg_ok k (h, p)"
    using message.prems(4) by simp
  then show ?case
    using handle_keeps [OF inv message.prems(2) same(1)] same message by (simp add: x2i_kept_def)
next
  case (rewind s q t)
  then show ?case
    using bounds_set_head [of s k 0] by (simp add: set_x2i_head_def [of s k 0])
qed simp

definition ring_tail :: "nat \<Rightarrow> 'h xdna_npu \<Rightarrow> u32 \<Rightarrow> 'h xdna_npu" where
  "ring_tail k s v = s\<lparr>chan := (chan s)(k := (chan s k)\<lparr>x2i_tail := v\<rparr>)\<rparr>"

text \<open>The register that holds the request tail of channel \<open>k\<close>.\<close>

definition x2i_tail_reg :: "nat \<Rightarrow> u32" where
  "x2i_tail_reg k = XDNA_MBOX_CHAN_BASE (word_of_nat k) + XDNA_MBOX_X2I_TAIL_OFF"

lemma chan_from_tail_reg: "k < 7 \<Longrightarrow> chan_from_off (x2i_tail_reg k) = Some (k, XDNA_MBOX_X2I_TAIL_OFF)"
proof -
  assume "k < 7"
  then have "k = 0 \<or> k = 1 \<or> k = 2 \<or> k = 3 \<or> k = 4 \<or> k = 5 \<or> k = 6" by auto
  then show ?thesis
    by (elim disjE) (simp_all add: chan_from_off_def x2i_tail_reg_def xdna_consts)
qed

lemma tail_write_processes:
  "k < 7 \<Longrightarrow> ch_index (chan s k) = k \<Longrightarrow>
    xdna_mbox_reg_write s (x2i_tail_reg k) v = xdna_mbox_process (ring_tail k s v) k"
  by (simp add: xdna_mbox_reg_write_def chan_from_tail_reg ring_tail_def)

lemma ring_tail_ready:
  assumes "dev_reach polite_guest s" and "k < XDNA_MAX_CHANNELS" and "ch_active (chan s k)" and "ids_ok s"
  shows "bounds_inv (ring_tail k s v)" and "ch_active (chan (ring_tail k s v) k)"
    and "fw_alive (ring_tail k s v)" and "ids_ok (ring_tail k s v)"
    and "mert_abs (ring_tail k s v) = mert_abs s" and "next_ctx_id (ring_tail k s v) = next_ctx_id s"
    and "ch_index (chan s k) = k"
proof -
  have k: "k < 7"
    using assms(2) by (simp add: max_channels)
  have inv: "bounds_inv s"
    using assms(1) by (rule bounds.I_reach)
  then show "bounds_inv (ring_tail k s v)"
    unfolding ring_tail_def using k by (rule bounds_driver_regs)
  have alive: "fw_alive s" and index: "ch_index (chan s k) = k"
    using bounds_layout [OF inv] assms(3) k
    by (cases k; auto simp: layout_inv_def chan_ok_def)+
  show "ch_index (chan s k) = k" by (rule index)
  show "ch_active (chan (ring_tail k s v) k)" "fw_alive (ring_tail k s v)" "ids_ok (ring_tail k s v)"
    "mert_abs (ring_tail k s v) = mert_abs s" "next_ctx_id (ring_tail k s v) = next_ctx_id s"
    using assms(3,4) alive ctx_map_cong [of "ring_tail k s v" s] ids_ok_cong [of "ring_tail k s v" s]
    by (simp_all add: ring_tail_def mert_abs_def)
qed

lemma doorbell_queue:
  assumes "dev_reach polite_guest s" and "k < XDNA_MAX_CHANNELS" and "ch_active (chan s k)"
    and "ids_ok s" and "unat (next_ctx_id s) + length q < 2 ^ 32"
    and "x2i_holds k (ring_tail k s v) q" and "list_all (msg_ok k) q" and "length q < 256"
  shows "let t = xdna_mbox_reg_write s (x2i_tail_reg k) v in
    mert_abs t = mert_run q (mert_abs s) \<and> x2i_head (chan t k) = x2i_tail (chan t k)"
    and "ids_ok (xdna_mbox_reg_write s (x2i_tail_reg k) v)"
    and "x2i_tail (chan (xdna_mbox_reg_write s (x2i_tail_reg k) v) k) = v"
proof -
  let ?t = "xdna_mbox_process (ring_tail k s v) k"
  have k: "k < 7"
    using assms(2) by (simp add: max_channels)
  note start = ring_tail_ready(1-6) [OF assms(1-4), of v] and index = ring_tail_ready(7) [OF assms(1-4)]
  have "delivered k (ring_tail k s v) q ?t" and empty: "x2i_head (chan ?t k) = x2i_tail (chan ?t k)"
    using process_delivers [OF start(1) k start(2) assms(6-8)] by simp_all
  note run = delivered_refines [OF this(1) start(1) k start(2) assms(7) start(3,4)]
    delivered_tail [OF this(1) start(1) k start(2) assms(7)]
  show "let t = xdna_mbox_reg_write s (x2i_tail_reg k) v in
      mert_abs t = mert_run q (mert_abs s) \<and> x2i_head (chan t k) = x2i_tail (chan t k)"
    "ids_ok (xdna_mbox_reg_write s (x2i_tail_reg k) v)"
    "x2i_tail (chan (xdna_mbox_reg_write s (x2i_tail_reg k) v) k) = v"
    using run empty start(5,6) assms(5) by (simp_all add: Let_def tail_write_processes [OF k index])
      (simp add: ring_tail_def)
qed

text \<open>C1: The doorbell executes the queue.  In every run of a polite driver whose context ids are
  distinct (and fewer than 2^32 in number), when with the new tail the x2i ring of an active
  channel, management or context, holds fewer than 256 well-formed messages, writing that
  tail executes exactly these messages, each once and in order: the firmware state moves by
  the specification of each in turn, and afterwards the ring is empty, its head at its tail.
  (A message on a context channel that destroys a context is left out.)\<close>

lemma doorbell_executes_queue:
  assumes "dev_reach polite_guest s" and "k < XDNA_MAX_CHANNELS" and "ch_active (chan s k)"
    and "ids_ok s" and "unat (next_ctx_id s) + length q < 2 ^ 32"
    and "x2i_holds k (ring_tail k s v) q" and "list_all (msg_ok k) q" and "length q < 256"
  shows "let t = xdna_mbox_reg_write s (x2i_tail_reg k) v in
    mert_abs t = mert_run q (mert_abs s) \<and> x2i_head (chan t k) = x2i_tail (chan t k)"
  using assms by (rule doorbell_queue(1))

text \<open>A freshly booted device with one request in its management ring.\<close>

definition request_npu :: "msg \<Rightarrow> Host xdna_npu" where
  "request_npu m = sram_store (sram_store booted_npu 0x21000 (hdr_bytes (fst m))) 0x21010 (snd m)"

lemma request_npu:
  assumes "unat (total_size (fst m)) = length (snd m)" and "length (snd m) \<le> 64"
  shows "dev_reach polite_guest (request_npu m)" and "ids_ok (request_npu m)"
    and "chan (request_npu m) 0 = mgmt_channel" and "next_ctx_id (request_npu m) = 1"
    and "ctx (request_npu m) = (\<lambda>_. zero_context)"
    and "x2i_holds 0 (ring_tail 0 (request_npu m) (word_of_nat (16 + length (snd m)))) [m]"
proof -
  show "dev_reach polite_guest (request_npu m)"
    unfolding request_npu_def using assms(2)
    by (intro dev_reach.step [OF _ dev_step.sram_write] booted_polite) simp_all
  show "ids_ok (request_npu m)"
    by (simp add: request_npu_def ids_ok_cong [of _ booted_npu] booted_ids)
  show "chan (request_npu m) 0 = mgmt_channel" "next_ctx_id (request_npu m) = 1"
    "ctx (request_npu m) = (\<lambda>_. zero_context)"
    by (simp_all add: request_npu_def)
  have "unat (word_of_nat (16 + length (snd m)) :: u32) = 16 + length (snd m)"
    using assms(2) by (simp add: unat_of_nat del: of_nat_add)
  moreover have "frames (sram (request_npu m)) 0x21000 (0x21000 + (16 + length (snd m))) [m]"
    using frame_written [of "fst m" "snd m" "0x21000 + (16 + length (snd m))" "0x21000" "sram booted_npu"] assms
    by (simp add: request_npu_def del: frames.simps)
  ultimately show "x2i_holds 0 (ring_tail 0 (request_npu m) (word_of_nat (16 + length (snd m)))) [m]"
    using assms(2)
    by (simp add: x2i_holds_def ring_base_def ring_len_def ring_tail_def ring_holds_def request_npu_def
        mgmt_channel_def zero_channel_def del: frames.simps of_nat_add)
qed

definition suspend_msg :: msg where
  "suspend_msg = (\<lparr>total_size = 4, sz_ver = 0x10004, msg_id = 1,
     opcode = opcode_val MSG_OP_SUSPEND\<rparr>, replicate 4 0)"

definition loaded_npu :: "Host xdna_npu" where
  "loaded_npu = request_npu suspend_msg"

lemma loaded_npu:
  "dev_reach polite_guest loaded_npu" "ids_ok loaded_npu" "chan loaded_npu 0 = mgmt_channel"
  "next_ctx_id loaded_npu = 1" "x2i_holds 0 (ring_tail 0 loaded_npu 20) [suspend_msg]"
  using request_npu [of suspend_msg]
  by (simp_all add: loaded_npu_def suspend_msg_def del: opcode_val.simps)

lemma doorbell_executes_queue_witness:
  "let t = xdna_mbox_reg_write loaded_npu (x2i_tail_reg 0) 20 in
    mert_abs t = (mert_abs loaded_npu)\<lparr>m_susp := True\<rparr> \<and> x2i_head (chan t 0) = x2i_tail (chan t 0)"
proof -
  have "mert_run [suspend_msg] m = m\<lparr>m_susp := True\<rparr>" for m
    by (simp add: mert_run_def suspend_msg_def mert_request_of_def del: opcode_val.simps)
  moreover have "list_all (msg_ok 0) [suspend_msg]" "ch_active mgmt_channel"
    by (simp_all add: suspend_msg_def msg_ok_def mgmt_channel_def)
  ultimately show ?thesis
    using doorbell_executes_queue [of loaded_npu 0 "[suspend_msg]" 20] loaded_npu by (simp add: max_channels)
qed

end
