(* ===== verification/Xdna_Driver.thy ===== *)
theory Xdna_Driver
  imports Xdna_Units "HOL-Library.Monad_Syntax"
begin

text \<open>
  The driver of the repository's boot test (\<open>tests/test_boot.c\<close>), which repeats what the
  kernel driver does on the other side of the device's BARs: PSP and SMU commands, the boot
  sequence, the discovery of the management channel, and a message call.  The driver sees the
  device only through the MMIO calls.  A function that may not return is in the option monad;
  the test's counters of checks and failures are fields of the driver, its printing is left out.
  The host of the driver is the one the device's callbacks see, so it is read and written
  through the device.
\<close>

record ChannRes =
  rb_start :: u32
  rb_size :: u32
  head_reg :: u32
  tail_reg :: u32

record Drv =
  drv_npu :: "Host xdna_npu"
  x2i_res :: ChannRes
  i2x_res :: ChannRes
  intr_reg :: u32
  msix_id :: u32
  prot_major :: u32
  prot_minor :: u32
  drv_x2i_tail :: u32
  drv_i2x_head :: u32
  next_msg_id :: u32
  g_failures :: nat
  g_checks :: nat

definition drv_check :: "bool \<Rightarrow> Drv \<Rightarrow> Drv" where
  "drv_check cond d =
     d\<lparr>g_checks := g_checks d + 1,
       g_failures := (if cond then g_failures d else g_failures d + 1)\<rparr>"

definition drv_fail :: "Drv \<Rightarrow> Drv" where
  "drv_fail d = d\<lparr>g_failures := g_failures d + 1\<rparr>"

subsection \<open>Register and block access\<close>

definition rd32 :: "Drv \<Rightarrow> int \<Rightarrow> u32 \<Rightarrow> (u32 \<times> Drv) option" where
  "rd32 d bar off = do {
     (v, s) \<leftarrow> xdna_npu_mmio_read (drv_npu d) bar off 4;
     Some (ucast v, d\<lparr>drv_npu := s\<rparr>)
   }"

definition wr32 :: "Drv \<Rightarrow> int \<Rightarrow> u32 \<Rightarrow> u32 \<Rightarrow> Drv option" where
  "wr32 d bar off val = do {
     s \<leftarrow> xdna_npu_mmio_write (drv_npu d) bar off (ucast val) 4;
     Some (d\<lparr>drv_npu := s\<rparr>)
   }"

definition rd_sram :: "Drv \<Rightarrow> u32 \<Rightarrow> u32 \<Rightarrow> (u8 list \<times> Drv) option" where
  "rd_sram d off len = do {
     (bs, s) \<leftarrow> xdna_npu_mmio_read_buf (drv_npu d) XDNA_BAR_SRAM off len;
     Some (bs, d\<lparr>drv_npu := s\<rparr>)
   }"

definition wr_sram :: "Drv \<Rightarrow> u32 \<Rightarrow> u8 list \<Rightarrow> u32 \<Rightarrow> Drv option" where
  "wr_sram d off bs len = do {
     s \<leftarrow> xdna_npu_mmio_write_buf (drv_npu d) XDNA_BAR_SRAM off bs len;
     Some (d\<lparr>drv_npu := s\<rparr>)
   }"

subsection \<open>PSP and SMU commands\<close>

definition psp_exec :: "Drv \<Rightarrow> u32 \<Rightarrow> u32 \<Rightarrow> u32 \<Rightarrow> u32 \<Rightarrow> (int \<times> Drv) option" where
  "psp_exec d0 cmd arg0 arg1 arg2 = do {
     (status, d) \<leftarrow> rd32 d0 XDNA_BAR_PSP XDNA_PSP_STATUS_REG;
     if status AND PSP_STATUS_READY = 0 then Some (-1, drv_fail d)
     else do {
       let arg2' = (arg2 OR push_bit PSP_ARG2_CMD_SHIFT cmd) AND PSP_ARG2_MASK;
       d \<leftarrow> wr32 d XDNA_BAR_PSP XDNA_PSP_CMD_REG cmd;
       d \<leftarrow> wr32 d XDNA_BAR_PSP XDNA_PSP_ARG0_REG arg0;
       d \<leftarrow> wr32 d XDNA_BAR_PSP XDNA_PSP_ARG1_REG arg1;
       d \<leftarrow> wr32 d XDNA_BAR_PSP XDNA_PSP_ARG2_REG arg2';
       d \<leftarrow> wr32 d XDNA_BAR_PSP XDNA_PSP_INTR_REG 0;
       d \<leftarrow> wr32 d XDNA_BAR_PSP XDNA_PSP_INTR_REG PSP_NOTIFY_VAL;
       (status, d) \<leftarrow> rd32 d XDNA_BAR_PSP XDNA_PSP_STATUS_REG;
       if status AND PSP_STATUS_READY = 0 then Some (-1, drv_fail d)
       else do {
         (resp, d) \<leftarrow> rd32 d XDNA_BAR_PSP XDNA_PSP_RESP_REG;
         Some (if resp \<noteq> 0 then -1 else 0, d)
       }
     }
   }"

text \<open>\<open>want_out\<close> says whether the caller passed a place for the result.\<close>

definition smu_exec ::
  "Drv \<Rightarrow> u32 \<Rightarrow> u32 \<Rightarrow> bool \<Rightarrow> (int \<times> u32 option \<times> Drv) option" where
  "smu_exec d cmd arg want_out = do {
     d \<leftarrow> wr32 d XDNA_BAR_SMU XDNA_SMU_RESP_REG 0;
     d \<leftarrow> wr32 d XDNA_BAR_SMU XDNA_SMU_ARG_REG arg;
     d \<leftarrow> wr32 d XDNA_BAR_SMU XDNA_SMU_CMD_REG cmd;
     d \<leftarrow> wr32 d XDNA_BAR_SMU XDNA_SMU_INTR_REG 0;
     d \<leftarrow> wr32 d XDNA_BAR_SMU XDNA_SMU_INTR_REG 1;
     (resp, d) \<leftarrow> rd32 d XDNA_BAR_SMU XDNA_SMU_RESP_REG;
     if resp = 0 then Some (-1, None, drv_fail d)
     else if want_out then do {
       (out, d) \<leftarrow> rd32 d XDNA_BAR_SMU XDNA_SMU_OUT_REG;
       Some (if resp = SMU_RESULT_OK then 0 else -1, Some out, d)
     }
     else Some (if resp = SMU_RESULT_OK then 0 else -1, None, d)
   }"

subsection \<open>Messages\<close>

text \<open>The search for the front of the i2x ring: the position of the next message, if there is one.\<close>

fun mbox_recv_head :: "nat \<Rightarrow> Drv \<Rightarrow> (u32 option \<times> Drv) option" where
  "mbox_recv_head 0 d = Some (None, drv_fail d)"
| "mbox_recv_head (Suc n) d = do {
     (tail, d) \<leftarrow> rd32 d XDNA_BAR_MBOX (tail_reg (i2x_res d));
     if drv_i2x_head d = tail then Some (None, drv_fail d)
     else do {
       let head = (if drv_i2x_head d = rb_size (i2x_res d) then 0 else drv_i2x_head d);
       (peek, d) \<leftarrow> rd_sram d (rb_start (i2x_res d) + head) 4;
       if le_word peek = XDNA_MBOX_TOMBSTONE
       then do {
         d \<leftarrow> wr32 (d\<lparr>drv_i2x_head := 0\<rparr>) XDNA_BAR_MBOX (head_reg (i2x_res d)) 0;
         mbox_recv_head n d
       }
       else Some (Some head, d)
     }
   }"

definition mbox_recv :: "Drv \<Rightarrow> u32 \<Rightarrow> u32 \<Rightarrow> (int \<times> u8 list option \<times> Drv) option" where
  "mbox_recv d want_id resp_size = do {
     d \<leftarrow> wr32 d XDNA_BAR_MBOX (intr_reg d) 0;
     (front, d) \<leftarrow> mbox_recv_head 64 d;
     case front of
       None \<Rightarrow> Some (-1, None, d)
     | Some head \<Rightarrow> do {
         (hbs, d) \<leftarrow> rd_sram d (rb_start (i2x_res d) + head) (word_of_nat sizeof_hdr);
         let hdr = hdr_of hbs;
         let msg_size = word_of_nat sizeof_hdr + total_size hdr;
         let d = drv_check (total_size hdr = resp_size) d;
         let d = drv_check (msg_id hdr = want_id) d;
         let d = drv_check (drop_bit XDNA_MSG_PROTO_VER_SHIFT (sz_ver hdr) AND 0xFF =
                            XDNA_MSG_PROTOCOL_VER) d;
         (resp, d) \<leftarrow> (if total_size hdr = resp_size \<and> resp_size \<noteq> 0
           then do {
             (bs, d) \<leftarrow> rd_sram d (rb_start (i2x_res d) + head + word_of_nat sizeof_hdr) resp_size;
             Some (Some bs, d)
           }
           else Some (None, d));
         d \<leftarrow> wr32 (d\<lparr>drv_i2x_head := head + msg_size\<rparr>) XDNA_BAR_MBOX
                (head_reg (i2x_res d)) (head + msg_size);
         Some (0, resp, d)
       }
   }"

definition clear_pending :: "Drv \<Rightarrow> Drv" where
  "clear_pending d =
     d\<lparr>drv_npu := (drv_npu d)\<lparr>opaque := (opaque (drv_npu d))
        \<lparr>irq_pending := (irq_pending (opaque (drv_npu d)))(unat (msix_id d) := False)\<rparr>\<rparr>\<rparr>"

definition request_header :: "u32 \<Rightarrow> u32 \<Rightarrow> u32 \<Rightarrow> xdna_msg_header" where
  "request_header mid opc req_size =
     \<lparr>total_size = req_size,
      sz_ver = (req_size AND XDNA_MSG_BODY_SZ_MASK) OR
               push_bit XDNA_MSG_PROTO_VER_SHIFT XDNA_MSG_PROTOCOL_VER,
      msg_id = mid, opcode = opc\<rparr>"

definition mbox_send_recv ::
  "Drv \<Rightarrow> u32 \<Rightarrow> u8 list \<Rightarrow> u32 \<Rightarrow> u32 \<Rightarrow> (int \<times> u8 list option \<times> Drv) option" where
  "mbox_send_recv d opc req req_size resp_size = do {
     let pkg_size = word_of_nat sizeof_hdr + req_size;
     (head, d) \<leftarrow> rd32 d XDNA_BAR_MBOX (head_reg (x2i_res d));
     let wraps = (drv_x2i_tail d \<ge> head \<and>
                  drv_x2i_tail d + pkg_size > rb_size (x2i_res d) - 4);
     let tail = (if wraps then 0 else drv_x2i_tail d);
     d \<leftarrow> (if wraps
           then wr_sram d (rb_start (x2i_res d) + drv_x2i_tail d)
                  (le_bytes 4 XDNA_MBOX_TOMBSTONE) 4
           else Some d);
     if tail < head \<and> tail + pkg_size \<ge> head then Some (-1, None, drv_fail d)
     else do {
       let mid = (next_msg_id d AND 0xFF) OR XDNA_MBOX_MAGIC_VAL;
       let d = d\<lparr>next_msg_id := next_msg_id d + 1\<rparr>;
       d \<leftarrow> wr_sram d (rb_start (x2i_res d) + tail) (hdr_bytes (request_header mid opc req_size))
              (word_of_nat sizeof_hdr);
       d \<leftarrow> (if req_size \<noteq> 0
             then wr_sram d (rb_start (x2i_res d) + tail + word_of_nat sizeof_hdr) req req_size
             else Some d);
       let d = clear_pending (d\<lparr>drv_x2i_tail := tail + pkg_size\<rparr>);
       d \<leftarrow> wr32 d XDNA_BAR_MBOX (tail_reg (x2i_res d)) (tail + pkg_size);
       let d = drv_check (irq_pending (opaque (drv_npu d)) (unat (msix_id d))) d;
       mbox_recv d mid resp_size
     }
   }"

subsection \<open>Boot\<close>

definition drv_get_mgmt_chann_info :: "Drv \<Rightarrow> (int \<times> Drv) option" where
  "drv_get_mgmt_chann_info d = do {
     (addr, d) \<leftarrow> rd32 d XDNA_BAR_SRAM XDNA_SRAM_FW_ALIVE_OFF;
     if addr = 0 then Some (-1, drv_fail d)
     else do {
       (bs, d) \<leftarrow> rd_sram d (addr - MPNPU_APERTURE1_BASE) (word_of_nat sizeof_mgmt_info);
       let info = mgmt_info_of bs;
       let d = drv_check (mi_magic info = XDNA_MGMT_MBOX_MAGIC) d;
       if mi_magic info \<noteq> XDNA_MGMT_MBOX_MAGIC then Some (-1, d)
       else do {
         let i2x = \<lparr>rb_start = mi_i2x_buf info - MPNPU_APERTURE1_BASE,
                    rb_size = mi_i2x_buf_sz info,
                    head_reg = mi_i2x_head info - MPNPU_APERTURE2_BASE,
                    tail_reg = mi_i2x_tail info - MPNPU_APERTURE2_BASE\<rparr>;
         let x2i = \<lparr>rb_start = mi_x2i_buf info - MPNPU_APERTURE1_BASE,
                    rb_size = mi_x2i_buf_sz info,
                    head_reg = mi_x2i_head info - MPNPU_APERTURE2_BASE,
                    tail_reg = mi_x2i_tail info - MPNPU_APERTURE2_BASE\<rparr>;
         d \<leftarrow> wr32 (d\<lparr>i2x_res := i2x, x2i_res := x2i, msix_id := mi_msi_id info,
                      prot_major := mi_prot_major info, prot_minor := mi_prot_minor info,
                      intr_reg := head_reg i2x + 4\<rparr>)
                XDNA_BAR_SRAM XDNA_SRAM_FW_ALIVE_OFF 0;
         Some (0, d)
       }
     }
   }"

definition drv_hw_start :: "Drv \<Rightarrow> (int \<times> Drv) option" where
  "drv_hw_start d = do {
     (rc, out, d) \<leftarrow> smu_exec d AIE_SMU_POWER_OFF 0 False;
     if rc \<noteq> 0 then Some (-1, d)
     else do {
       (rc, out, d) \<leftarrow> smu_exec d AIE_SMU_POWER_ON 0 False;
       if rc \<noteq> 0 then Some (-1, d)
       else do {
         (rc, d) \<leftarrow> psp_exec d PSP_CMD_VALIDATE (ucast FW_PADDR) (ucast (drop_bit 32 FW_PADDR)) FW_SIZE;
         if rc \<noteq> 0 then Some (-1, d)
         else do {
           (rc, d) \<leftarrow> psp_exec d PSP_CMD_START PSP_START_COPY_FW 0 0;
           if rc \<noteq> 0 then Some (-1, d) else drv_get_mgmt_chann_info d
         }
       }
     }
   }"

subsection \<open>What the accesses do\<close>

lemma le_word_cut: "length bs \<le> 4 \<Longrightarrow> (ucast (le_word bs :: u64) :: u32) = le_word bs"
proof -
  have gen: "(ucast (le_word bs :: u64) :: u32) = le_word bs" for bs :: "u8 list"
    by (induction bs) (auto intro!: bit_word_eqI simp: bit_simps bit_eq_iff)
  show ?thesis by (rule gen)
qed

lemma access_reg:
  "rd32 d XDNA_BAR_REG off =
    Some (fst (reg_bar_read (drv_npu d) off), d\<lparr>drv_npu := snd (reg_bar_read (drv_npu d) off)\<rparr>)"
  "wr32 d XDNA_BAR_REG off v = Some (d\<lparr>drv_npu := reg_bar_write (drv_npu d) off v\<rparr>)"
  by (simp_all add: rd32_def wr32_def mmio_read_word mmio_write_word bar_word_read_def
      bar_word_write_def XDNA_BAR_REG_def XDNA_BAR_SRAM_def)

lemma access_mbox:
  "rd32 d XDNA_BAR_MBOX off = Some (xdna_mbox_reg_read (drv_npu d) off, d)"
  "wr32 d XDNA_BAR_MBOX off v = Some (d\<lparr>drv_npu := xdna_mbox_reg_write (drv_npu d) off v\<rparr>)"
  by (simp_all add: rd32_def wr32_def mmio_read_word mmio_write_word bar_word_read_def
      bar_word_write_def XDNA_BAR_REG_def XDNA_BAR_SRAM_def XDNA_BAR_MBOX_def)

lemma access_sram:
  assumes "unat off + unat len \<le> 0x40000"
  shows "rd_sram d off len = Some (mem_load (sram (drv_npu d)) (unat off) (unat len), d)"
    and "wr_sram d off bs len =
      Some (d\<lparr>drv_npu := sram_store (drv_npu d) (unat off) (take (unat len) bs)\<rparr>)"
  using assms
  by (simp_all add: rd_sram_def wr_sram_def mmio_read_sram mmio_write_sram sram_load_mark_def XDNA_BAR_SRAM_SIZE_def)

lemma access_sram_word:
  assumes "unat off + 4 \<le> 0x40000"
  shows "rd32 d XDNA_BAR_SRAM off = Some (le_word (mem_load (sram (drv_npu d)) (unat off) 4), d)"
    and "wr32 d XDNA_BAR_SRAM off v =
      Some (d\<lparr>drv_npu := sram_store (drv_npu d) (unat off) (le_bytes 4 v)\<rparr>)"
proof -
  show "rd32 d XDNA_BAR_SRAM off = Some (le_word (mem_load (sram (drv_npu d)) (unat off) 4), d)"
    using assms
    by (simp add: rd32_def xdna_npu_mmio_read_def mmio_read_sram sram_load_mark_def le_word_cut
        mem.load_length XDNA_BAR_SRAM_SIZE_def)
  have "take 4 (le_bytes 8 (ucast v :: u64)) = le_bytes 4 v"
    by (simp add: byte_eval) (auto intro!: bit_word_eqI simp: bit_simps)
  then show "wr32 d XDNA_BAR_SRAM off v =
      Some (d\<lparr>drv_npu := sram_store (drv_npu d) (unat off) (le_bytes 4 v)\<rparr>)"
    using assms by (simp add: wr32_def xdna_npu_mmio_write_def mmio_write_sram)
qed

subsection \<open>Commands end to end\<close>

text \<open>The device after the register writes of a command.\<close>

definition smu_run :: "Host xdna_npu \<Rightarrow> u32 \<Rightarrow> u32 \<Rightarrow> Host xdna_npu" where
  "smu_run s cmd arg = xdna_smu_kick
     ((set_scratch (set_scratch (set_scratch s 6 0) 7 arg) 5 cmd)\<lparr>pwrmgmt_intr := 1\<rparr>)"

definition psp_run :: "Host xdna_npu \<Rightarrow> u32 \<Rightarrow> u32 \<Rightarrow> u32 \<Rightarrow> u32 \<Rightarrow> Host xdna_npu" where
  "psp_run s cmd arg0 arg1 arg2 = xdna_psp_kick
     ((set_scratch (set_scratch (set_scratch (set_scratch s 2 cmd) 3 arg0) 4 arg1) 9
        ((arg2 OR push_bit PSP_ARG2_CMD_SHIFT cmd) AND PSP_ARG2_MASK))\<lparr>sec_intr := PSP_NOTIFY_VAL\<rparr>)"

lemma set_scratch_intr [simp]:
  "set_scratch (s\<lparr>pwrmgmt_intr := w\<rparr>) i v = (set_scratch s i v)\<lparr>pwrmgmt_intr := w\<rparr>"
  "set_scratch (s\<lparr>sec_intr := w\<rparr>) i v = (set_scratch s i v)\<lparr>sec_intr := w\<rparr>"
  by (simp_all add: set_scratch_def)

lemmas unit_regs = XDNA_BAR_PSP_def XDNA_BAR_SMU_def XDNA_PSP_CMD_REG_def XDNA_PSP_ARG0_REG_def
  XDNA_PSP_ARG1_REG_def XDNA_PSP_ARG2_REG_def XDNA_PSP_INTR_REG_def XDNA_PSP_STATUS_REG_def
  XDNA_PSP_RESP_REG_def XDNA_SMU_CMD_REG_def XDNA_SMU_ARG_REG_def XDNA_SMU_INTR_REG_def
  XDNA_SMU_RESP_REG_def XDNA_SMU_OUT_REG_def

lemma smu_run_scratch:
  "scratch (smu_run s cmd arg) = (scratch s)
    (5 := cmd, 6 := fst (smu_answer cmd arg), 7 := snd (smu_answer cmd arg))"
  by (auto simp: smu_run_def smu_scratch)

text \<open>
  An SMU call of the driver always completes: it never runs into the driver's time-out, its
  result code is 0 exactly when the SMU accepts the command and its argument, and the value it
  returns is the SMU's output.
\<close>

lemma smu_exec_run:
  "smu_exec d cmd arg want_out =
    (let (result, val) = smu_answer cmd arg in
     Some (if result = SMU_RESULT_OK then 0 else -1, if want_out then Some val else None,
           d\<lparr>drv_npu := smu_run (drv_npu d) cmd arg\<rparr>))"
proof -
  have answered: "fst (smu_answer cmd arg) \<noteq> 0"
    using smu.kick_answers [of "set_scratch (set_scratch undefined 5 cmd) 7 arg"]
    by (simp add: smu_scratch)
  have final: "fst (reg_bar_read s XDNA_REG_SCRATCH6) = scratch s 6" for s :: "Host xdna_npu"
    by simp
  show ?thesis
    using answered smu_run_scratch [of "drv_npu d" cmd arg]
    by (simp add: smu_exec_def unit_regs access_reg split_beta Let_def smu_run_def fun_upd_twist)
qed

lemma arg2_mask: "(arg2 OR push_bit PSP_ARG2_CMD_SHIFT cmd) AND PSP_ARG2_MASK = arg2 AND PSP_ARG2_MASK"
proof -
  have mask: "PSP_ARG2_MASK = mask 24"
    by (simp add: xdna_consts mask_eq_exp_minus_1)
  show ?thesis
    unfolding mask by (rule bit_word_eqI) (auto simp: bit_simps PSP_ARG2_CMD_SHIFT_def)
qed

definition psp_call_image :: "Host xdna_npu \<Rightarrow> u32 \<Rightarrow> u32 \<Rightarrow> u32 \<Rightarrow> u32" where
  "psp_call_image s arg0 arg1 arg2 =
     psp_image_result s (push_bit 32 (ucast arg1) OR ucast arg0) (arg2 AND PSP_ARG2_MASK)"

lemma psp_run_state:
  "psp_state (psp_run s cmd a0 a1 a2) = fst (psp_next (psp_state s) cmd (psp_call_image s a0 a1 a2))"
  "scratch (psp_run s cmd a0 a1 a2) 2 = PSP_STATUS_READY"
  "scratch (psp_run s cmd a0 a1 a2) 3 = snd (psp_next (psp_state s) cmd (psp_call_image s a0 a1 a2))"
proof -
  have "psp_image_result (set_scratch t i v) = psp_image_result t" for t :: "Host xdna_npu" and i v
    by (rule image_result_cong) simp_all
  moreover have "psp_image_result (t\<lparr>sec_intr := v\<rparr>) = psp_image_result t" for t :: "Host xdna_npu" and v
    by (rule image_result_cong) simp_all
  ultimately show
    "psp_state (psp_run s cmd a0 a1 a2) = fst (psp_next (psp_state s) cmd (psp_call_image s a0 a1 a2))"
    "scratch (psp_run s cmd a0 a1 a2) 2 = PSP_STATUS_READY"
    "scratch (psp_run s cmd a0 a1 a2) 3 = snd (psp_next (psp_state s) cmd (psp_call_image s a0 a1 a2))"
    by (simp_all add: psp_run_def psp_kick_state psp_scratch psp_kick_image_def psp_call_image_def arg2_mask)
qed

lemma psp_exec_run:
  assumes "scratch (drv_npu d) 2 AND PSP_STATUS_READY \<noteq> 0"
  shows "let (st, resp) = psp_next (psp_state (drv_npu d)) cmd (psp_call_image (drv_npu d) arg0 arg1 arg2);
             t = psp_run (drv_npu d) cmd arg0 arg1 arg2
    in psp_exec d cmd arg0 arg1 arg2 = Some (if resp = 0 then 0 else -1, d\<lparr>drv_npu := t\<rparr>) \<and>
       psp_state t = st \<and> scratch t 2 AND PSP_STATUS_READY \<noteq> 0"
proof -
  have notify: "PSP_NOTIFY_VAL \<noteq> 0" "PSP_STATUS_READY AND PSP_STATUS_READY \<noteq> 0"
    by (simp_all add: xdna_consts)
  show ?thesis
    using assms notify psp_run_state [of "drv_npu d" cmd arg0 arg1 arg2]
    by (simp add: psp_exec_def unit_regs access_reg split_beta Let_def psp_run_def
        del: and.idem)
qed

text \<open>C32: A PSP call of the driver on a PSP that is ready always completes: neither of its polls
  fails, its result code is 0 exactly when the PSP's state machine accepts the command in its
  state, the PSP moves as the state machine says, and it is ready for the next call.\<close>

lemma psp_exec_completes:
  assumes "scratch (drv_npu d) 2 AND PSP_STATUS_READY \<noteq> 0"
  shows "let (st, resp) = psp_next (psp_state (drv_npu d)) cmd (psp_call_image (drv_npu d) arg0 arg1 arg2);
             t = psp_run (drv_npu d) cmd arg0 arg1 arg2
    in psp_exec d cmd arg0 arg1 arg2 = Some (if resp = 0 then 0 else -1, d\<lparr>drv_npu := t\<rparr>) \<and>
       psp_state t = st \<and> scratch t 2 AND PSP_STATUS_READY \<noteq> 0"
  using assms by (rule psp_exec_run)

definition test_drv :: Drv where
  "test_drv =
     (let none = \<lparr>rb_start = 0, rb_size = 0, head_reg = 0, tail_reg = 0\<rparr>
      in \<lparr>drv_npu = test_npu, x2i_res = none, i2x_res = none, intr_reg = 0, msix_id = 0,
          prot_major = 0, prot_minor = 0, drv_x2i_tail = 0, drv_i2x_head = 0, next_msg_id = 1,
          g_failures = 0, g_checks = 0\<rparr>)"

lemma test_drv_npu [simp]: "drv_npu test_drv = test_npu"
  by (simp add: test_drv_def Let_def)

lemma ready_bit [simp]: "PSP_STATUS_READY AND PSP_STATUS_READY \<noteq> 0"
  by (simp add: xdna_consts)

lemma psp_exec_completes_witness:
  "\<exists>t. psp_exec test_drv PSP_CMD_START PSP_START_COPY_FW 0 0 = Some (-1, test_drv\<lparr>drv_npu := t\<rparr>) \<and>
    psp_state t = XDNA_PSP_COLD"
proof -
  have "psp_next XDNA_PSP_COLD PSP_CMD_START img = (XDNA_PSP_COLD, PSP_ERROR_BAD_STATE)" for img
    by (simp add: psp_next_def xdna_consts)
  moreover have "PSP_ERROR_BAD_STATE \<noteq> 0"
    by (simp add: xdna_consts)
  ultimately show ?thesis
    using psp_exec_completes [of test_drv PSP_CMD_START PSP_START_COPY_FW 0 0]
    by (intro exI [of _ "psp_run test_npu PSP_CMD_START PSP_START_COPY_FW 0 0"])
      (simp add: Let_def del: and.idem)
qed

subsection \<open>The boot sequence\<close>

definition mgmt_x2i :: ChannRes where
  "mgmt_x2i = \<lparr>rb_start = 0x21000, rb_size = 0x1000,
     head_reg = XDNA_MBOX_X2I_HEAD_OFF, tail_reg = XDNA_MBOX_X2I_TAIL_OFF\<rparr>"

definition mgmt_i2x :: ChannRes where
  "mgmt_i2x = \<lparr>rb_start = 0x22000, rb_size = 0x1000,
     head_reg = XDNA_MBOX_I2X_HEAD_OFF, tail_reg = XDNA_MBOX_I2X_TAIL_OFF\<rparr>"

text \<open>The device after the boot sequence.\<close>

definition started :: "Host xdna_npu \<Rightarrow> Host xdna_npu" where
  "started s =
     (let s1 = smu_run (smu_run s AIE_SMU_POWER_OFF 0) AIE_SMU_POWER_ON 0;
          s2 = psp_run s1 PSP_CMD_VALIDATE (ucast FW_PADDR) (ucast (drop_bit 32 FW_PADDR)) FW_SIZE;
          s3 = psp_run s2 PSP_CMD_START PSP_START_COPY_FW 0 0
      in sram_store s3 0x3F000 (le_bytes 4 (0 :: u32)))"

lemma kick_ops: "ops (xdna_psp_kick s) = ops s"
  by (simp add: xdna_psp_kick_def psp_complete_def Let_def split_beta)

lemma run_frame [simp]:
  "ops (smu_run s cmd arg) = ops s"
  "psp_state (smu_run s cmd arg) = psp_state s"
  "scratch (smu_run s cmd arg) 2 = scratch s 2"
  "ops (psp_run s cmd a0 a1 a2) = ops s"
  by (simp_all add: smu_run_def psp_run_def kick_ops smu_scratch)

lemma image_readable:
  "ops s = test_ops \<Longrightarrow>
    psp_call_image s (ucast FW_PADDR) (ucast (drop_bit 32 FW_PADDR)) FW_SIZE = 0"
  by (simp add: psp_call_image_def psp_image_result_def test_ops_def host_dma_read_def xdna_consts)

lemma mgmt_info_values:
  "mi_x2i_tail (mgmt_chan_info mgmt_channel) = MPNPU_APERTURE2_BASE + XDNA_MBOX_X2I_TAIL_OFF"
  "mi_x2i_head (mgmt_chan_info mgmt_channel) = MPNPU_APERTURE2_BASE + XDNA_MBOX_X2I_HEAD_OFF"
  "mi_x2i_buf (mgmt_chan_info mgmt_channel) = MPNPU_APERTURE1_BASE + 0x21000"
  "mi_x2i_buf_sz (mgmt_chan_info mgmt_channel) = 0x1000"
  "mi_i2x_tail (mgmt_chan_info mgmt_channel) = MPNPU_APERTURE2_BASE + XDNA_MBOX_I2X_TAIL_OFF"
  "mi_i2x_head (mgmt_chan_info mgmt_channel) = MPNPU_APERTURE2_BASE + XDNA_MBOX_I2X_HEAD_OFF"
  "mi_i2x_buf (mgmt_chan_info mgmt_channel) = MPNPU_APERTURE1_BASE + 0x22000"
  "mi_i2x_buf_sz (mgmt_chan_info mgmt_channel) = 0x1000"
  "mi_magic (mgmt_chan_info mgmt_channel) = XDNA_MGMT_MBOX_MAGIC"
  "mi_msi_id (mgmt_chan_info mgmt_channel) = 0"
  "mi_prot_major (mgmt_chan_info mgmt_channel) = XDNA_MGMT_PROT_MAJOR"
  "mi_prot_minor (mgmt_chan_info mgmt_channel) = XDNA_MGMT_PROT_MINOR"
  by (simp_all add: mgmt_chan_info_def mgmt_channel_def zero_channel_def Let_def xdna_consts
      xdna_mbox_dev_addr_def xdna_sram_dev_addr_def)

lemma get_info:
  assumes "sram (drv_npu d) = sram (xdna_fw_boot s)"
  shows "drv_get_mgmt_chann_info d = Some (0, d
    \<lparr>drv_npu := sram_store (drv_npu d) 0x3F000 (le_bytes 4 (0 :: u32)),
     x2i_res := mgmt_x2i, i2x_res := mgmt_i2x, intr_reg := XDNA_MBOX_INTR_OFF, msix_id := 0,
     prot_major := XDNA_MGMT_PROT_MAJOR, prot_minor := XDNA_MGMT_PROT_MINOR,
     g_checks := g_checks d + 1\<rparr>)"
proof -
  have alive: "unat XDNA_SRAM_FW_ALIVE_OFF = 0x3F000"
    by (simp add: xdna_consts)
  have "le_word (mem_load (sram (drv_npu d)) 0x3F000 4) = xdna_sram_dev_addr XDNA_SRAM_MGMT_INFO_OFF"
    by (simp add: assms fw_boot_alive_word)
  then have word: "rd32 e XDNA_BAR_SRAM XDNA_SRAM_FW_ALIVE_OFF =
      Some (xdna_sram_dev_addr XDNA_SRAM_MGMT_INFO_OFF, e)" if "drv_npu e = drv_npu d" for e
    using that alive by (simp add: access_sram_word)
  have "xdna_sram_dev_addr XDNA_SRAM_MGMT_INFO_OFF \<noteq> 0"
    and "xdna_sram_dev_addr XDNA_SRAM_MGMT_INFO_OFF - MPNPU_APERTURE1_BASE = 0x20000"
    by (simp_all add: xdna_consts xdna_sram_dev_addr_def)
  moreover have "rd_sram d 0x20000 (word_of_nat sizeof_mgmt_info) =
      Some (mem_load (sram (xdna_fw_boot s)) 0x20000 64, d)"
    by (simp add: access_sram sizeof_mgmt_info_def assms)
  ultimately show ?thesis
    using word [of d] alive
    by (simp add: drv_get_mgmt_chann_info_def fw_boot_info access_sram_word drv_check_def
        mgmt_info_values Let_def mgmt_x2i_def mgmt_i2x_def XDNA_MBOX_I2X_HEAD_OFF_def
        XDNA_MBOX_INTR_OFF_def)
qed

definition connected :: "Drv \<Rightarrow> Host xdna_npu \<Rightarrow> Drv" where
  "connected d t = d\<lparr>drv_npu := t, x2i_res := mgmt_x2i, i2x_res := mgmt_i2x,
     intr_reg := XDNA_MBOX_INTR_OFF, msix_id := 0,
     prot_major := XDNA_MGMT_PROT_MAJOR, prot_minor := XDNA_MGMT_PROT_MINOR,
     g_checks := g_checks d + 1\<rparr>"

lemma start_states:
  assumes "ops s = test_ops"
  defines "s1 \<equiv> smu_run (smu_run s AIE_SMU_POWER_OFF 0) AIE_SMU_POWER_ON 0"
  defines "s2 \<equiv> psp_run s1 PSP_CMD_VALIDATE (ucast FW_PADDR) (ucast (drop_bit 32 FW_PADDR)) FW_SIZE"
  defines "s3 \<equiv> psp_run s2 PSP_CMD_START PSP_START_COPY_FW 0 0"
  shows "psp_state s2 = XDNA_PSP_VALIDATED" and "psp_state s3 = XDNA_PSP_RUNNING"
    and "psp_next (psp_state s1) PSP_CMD_VALIDATE (psp_call_image s1 (ucast FW_PADDR)
      (ucast (drop_bit 32 FW_PADDR)) FW_SIZE) = (XDNA_PSP_VALIDATED, 0)"
    and "psp_next (psp_state s2) PSP_CMD_START img = (XDNA_PSP_RUNNING, 0)"
    and "chan s3 0 = mgmt_channel" and "\<exists>b :: Host xdna_npu. sram s3 = sram (xdna_fw_boot b)"
    and "fw_alive s3"
proof -
  have img: "psp_call_image s1 (ucast FW_PADDR) (ucast (drop_bit 32 FW_PADDR)) FW_SIZE = 0"
    using assms(1) by (intro image_readable) (simp add: s1_def)
  have valid: "psp_next st PSP_CMD_VALIDATE 0 = (XDNA_PSP_VALIDATED, 0)" for st
    by (simp add: psp_next_def)
  show next1: "psp_next (psp_state s1) PSP_CMD_VALIDATE (psp_call_image s1 (ucast FW_PADDR)
      (ucast (drop_bit 32 FW_PADDR)) FW_SIZE) = (XDNA_PSP_VALIDATED, 0)"
    unfolding img by (rule valid)
  show s2: "psp_state s2 = XDNA_PSP_VALIDATED"
    unfolding s2_def psp_run_state next1 by simp
  show start: "psp_next (psp_state s2) PSP_CMD_START img = (XDNA_PSP_RUNNING, 0)" for img
    unfolding s2 by (simp add: psp_next_def xdna_consts)
  show "psp_state s3 = XDNA_PSP_RUNNING"
    unfolding s3_def psp_run_state start by simp
  define k where "k = (set_scratch (set_scratch (set_scratch (set_scratch s2 2 PSP_CMD_START) 3
      PSP_START_COPY_FW) 4 0) 9 ((0 OR push_bit PSP_ARG2_CMD_SHIFT PSP_CMD_START) AND PSP_ARG2_MASK))
      \<lparr>sec_intr := PSP_NOTIFY_VAL\<rparr>"
  have k: "s3 = xdna_psp_kick k" "scratch k 2 = PSP_CMD_START" "psp_state k = XDNA_PSP_VALIDATED"
    using s2 by (simp_all add: k_def s3_def psp_run_def)
  show "chan s3 0 = mgmt_channel" and "\<exists>b :: Host xdna_npu. sram s3 = sram (xdna_fw_boot b)"
    using psp_boot [OF k(2,3)] by (auto simp: k(1))
  have "PSP_CMD_START \<noteq> PSP_CMD_RELEASE_TMR"
    by (simp add: xdna_consts)
  then show "fw_alive s3"
    using k by (simp add: psp_kick_alive)
qed

lemma hw_start_run:
  assumes "ops (drv_npu d) = test_ops" and "scratch (drv_npu d) 2 AND PSP_STATUS_READY \<noteq> 0"
  shows "let t = started (drv_npu d) in drv_hw_start d = Some (0, connected d t) \<and>
    fw_alive t \<and> psp_state t = XDNA_PSP_RUNNING \<and> chan t 0 = mgmt_channel \<and>
    rb_start mgmt_x2i = x2i_buf (chan t 0) \<and> rb_size mgmt_x2i = x2i_size (chan t 0) \<and>
    rb_start mgmt_i2x = i2x_buf (chan t 0) \<and> rb_size mgmt_i2x = i2x_size (chan t 0)"
proof -
  let ?s = "drv_npu d"
  let ?s1 = "smu_run (smu_run ?s AIE_SMU_POWER_OFF 0) AIE_SMU_POWER_ON 0"
  let ?s2 = "psp_run ?s1 PSP_CMD_VALIDATE (ucast FW_PADDR) (ucast (drop_bit 32 FW_PADDR)) FW_SIZE"
  let ?s3 = "psp_run ?s2 PSP_CMD_START PSP_START_COPY_FW 0 0"
  note st = start_states [OF assms(1)]
  obtain b :: "Host xdna_npu" where b: "sram ?s3 = sram (xdna_fw_boot b)"
    using st(6) by auto
  have smu: "smu_answer AIE_SMU_POWER_OFF 0 = (SMU_RESULT_OK, 0)" "smu_answer AIE_SMU_POWER_ON 0 = (SMU_RESULT_OK, 0)"
    by (simp_all add: smu_answer_def)
  have psp: "psp_exec (d\<lparr>drv_npu := ?s1\<rparr>) PSP_CMD_VALIDATE (ucast FW_PADDR) (ucast (drop_bit 32 FW_PADDR)) FW_SIZE =
      Some (0, d\<lparr>drv_npu := ?s2\<rparr>)"
    using psp_exec_run [of "d\<lparr>drv_npu := ?s1\<rparr>" PSP_CMD_VALIDATE "ucast FW_PADDR"
        "ucast (drop_bit 32 FW_PADDR)" FW_SIZE] assms(2) st(3) by (simp add: Let_def)
  have start: "psp_exec (d\<lparr>drv_npu := ?s2\<rparr>) PSP_CMD_START PSP_START_COPY_FW 0 0 =
      Some (0, d\<lparr>drv_npu := ?s3\<rparr>)"
    using psp_exec_run [of "d\<lparr>drv_npu := ?s2\<rparr>" PSP_CMD_START PSP_START_COPY_FW 0 0] st(4)
    by (simp add: Let_def psp_run_state(2) del: and.idem)
  have "drv_hw_start d = Some (0, connected d (started ?s))"
    using get_info [of "d\<lparr>drv_npu := ?s3\<rparr>" b] b
    by (simp add: drv_hw_start_def smu_exec_run smu psp start connected_def started_def Let_def)
  moreover have "fw_alive (started ?s)" "psp_state (started ?s) = XDNA_PSP_RUNNING"
    "chan (started ?s) 0 = mgmt_channel"
    using st(2,5,7) by (simp_all add: started_def Let_def)
  ultimately show ?thesis
    by (simp add: Let_def mgmt_x2i_def mgmt_i2x_def mgmt_channel_def zero_channel_def xdna_consts)
qed

text \<open>C21: The driver's boot sequence works on every device.  Whatever state the device is in (running,
  released, misused by a guest), if the PSP reads ready and the host's memory holds the image,
  the sequence power off, power on, validate, start, read the channel description succeeds:
  every poll succeeds, no check of the driver fails, the firmware is up, and the driver has found the two rings and
  the registers of the management channel where the device keeps them.\<close>

lemma driver_boots:
  assumes "ops (drv_npu d) = test_ops" and "scratch (drv_npu d) 2 AND PSP_STATUS_READY \<noteq> 0"
  shows "let t = started (drv_npu d) in drv_hw_start d = Some (0, connected d t) \<and>
    fw_alive t \<and> psp_state t = XDNA_PSP_RUNNING \<and> chan t 0 = mgmt_channel \<and>
    rb_start mgmt_x2i = x2i_buf (chan t 0) \<and> rb_size mgmt_x2i = x2i_size (chan t 0) \<and>
    rb_start mgmt_i2x = i2x_buf (chan t 0) \<and> rb_size mgmt_i2x = i2x_size (chan t 0)"
  using assms by (rule hw_start_run)

lemma driver_boots_witness:
  "drv_hw_start test_drv = Some (0, connected test_drv (started test_npu)) \<and>
    fw_alive (started test_npu)"
  using driver_boots [of test_drv] by (simp add: Let_def del: and.idem)

end
