(* ===== verification/Xdna_Call.thy ===== *)
theory Xdna_Call
  imports Xdna_Recv Xdna_Driver
begin

text \<open>
  A message call of the driver, end to end.  Receiving takes the front of the reply queue;
  sending puts one message into an empty request ring and rings the doorbell; together a call
  of \<open>mbox_send_recv\<close> is a remote procedure call of the firmware's specification, and calls
  can be repeated for ever.
\<close>

subsection \<open>The registers of the management channel\<close>

lemma mgmt_offsets:
  "chan_from_off XDNA_MBOX_X2I_HEAD_OFF = Some (0, XDNA_MBOX_X2I_HEAD_OFF)"
  "chan_from_off XDNA_MBOX_X2I_TAIL_OFF = Some (0, XDNA_MBOX_X2I_TAIL_OFF)"
  "chan_from_off XDNA_MBOX_I2X_HEAD_OFF = Some (0, XDNA_MBOX_I2X_HEAD_OFF)"
  "chan_from_off XDNA_MBOX_I2X_TAIL_OFF = Some (0, XDNA_MBOX_I2X_TAIL_OFF)"
  "chan_from_off XDNA_MBOX_INTR_OFF = Some (0, XDNA_MBOX_INTR_OFF)"
  by (simp_all add: chan_from_off_def xdna_consts)

definition set_i2x_head :: "'h xdna_npu \<Rightarrow> u32 \<Rightarrow> 'h xdna_npu" where
  "set_i2x_head s v = s\<lparr>chan := (chan s)(0 := (chan s 0)\<lparr>i2x_head := v\<rparr>)\<rparr>"

definition ack_intr :: "'h xdna_npu \<Rightarrow> 'h xdna_npu" where
  "ack_intr s = s\<lparr>chan := (chan s)(0 := (chan s 0)\<lparr>intr := 0\<rparr>)\<rparr>"

lemma mgmt_regs:
  "xdna_mbox_reg_read s XDNA_MBOX_X2I_HEAD_OFF = x2i_head (chan s 0)"
  "xdna_mbox_reg_read s XDNA_MBOX_I2X_TAIL_OFF = i2x_tail (chan s 0)"
  "xdna_mbox_reg_write s XDNA_MBOX_I2X_HEAD_OFF v = set_i2x_head s v"
  "xdna_mbox_reg_write s XDNA_MBOX_INTR_OFF 0 = ack_intr s"
  "xdna_mbox_reg_write s XDNA_MBOX_X2I_TAIL_OFF v = xdna_mbox_process (ring_tail 0 s v) (ch_index (chan s 0))"
  by (simp_all add: xdna_mbox_reg_read_def xdna_mbox_reg_write_def mgmt_offsets set_i2x_head_def
      ack_intr_def ring_tail_def Let_def)
    (simp_all add: xdna_consts)

lemma register_frame [simp]:
  "sram (set_i2x_head s v) = sram s" "sram (ack_intr s) = sram s"
  "chan (set_i2x_head s v) 0 = (chan s 0)\<lparr>i2x_head := v\<rparr>"
  "chan (ack_intr s) 0 = (chan s 0)\<lparr>intr := 0\<rparr>"
  "opaque (set_i2x_head s v) = opaque s" "opaque (ack_intr s) = opaque s"
  "ops (set_i2x_head s v) = ops s" "ops (ack_intr s) = ops s"
  by (simp_all add: set_i2x_head_def ack_intr_def)

subsection \<open>The driver's view of the channel\<close>

definition linked :: "Drv \<Rightarrow> bool" where
  "linked d \<longleftrightarrow> x2i_res d = mgmt_x2i \<and> i2x_res d = mgmt_i2x \<and>
     intr_reg d = XDNA_MBOX_INTR_OFF \<and> msix_id d = 0"

definition replies :: "Drv \<Rightarrow> msg list \<Rightarrow> bool" where
  "replies d q \<longleftrightarrow> linked d \<and> ring_holds (sram (drv_npu d)) 0x22000 0xFFC
     (unat (drv_i2x_head d)) (unat (i2x_tail (chan (drv_npu d) 0))) q"

lemma sram_at:
  assumes "unat a \<le> 0x30000" and "unat b \<le> 0x2000"
  shows "unat (a + b :: u32) = unat a + unat b"
  using assms by (subst unat_add_small) simp_all

lemma peek_at:
  assumes "i2x_res d = mgmt_i2x" and "unat h \<le> 0xFFC"
  shows "rd_sram d (rb_start (i2x_res d) + h) 4 =
      Some (mem_load (sram (drv_npu d)) (0x22000 + unat h) 4, d)"
  using assms sram_at [of "0x22000" h] by (simp add: access_sram mgmt_i2x_def)

lemma recv_head_here:
  assumes "i2x_res d = mgmt_i2x" and "drv_i2x_head d \<noteq> i2x_tail (chan (drv_npu d) 0)"
    and "unat (drv_i2x_head d) \<le> 0xFFC"
    and "word_at (sram (drv_npu d)) (0x22000 + unat (drv_i2x_head d)) \<noteq> XDNA_MBOX_TOMBSTONE"
  shows "mbox_recv_head (Suc n) d = Some (Some (drv_i2x_head d), d)"
proof -
  have "drv_i2x_head d \<noteq> 0x1000"
    using assms(3) by auto
  then show ?thesis
    using assms peek_at [OF assms(1,3)]
    by (simp add: access_mbox mgmt_regs word_at_def Let_def mgmt_i2x_def)
qed

lemma recv_head_wrapped:
  assumes "i2x_res d = mgmt_i2x" and "drv_i2x_head d \<noteq> i2x_tail (chan (drv_npu d) 0)"
    and "unat (drv_i2x_head d) \<le> 0xFFC"
    and "word_at (sram (drv_npu d)) (0x22000 + unat (drv_i2x_head d)) = XDNA_MBOX_TOMBSTONE"
  shows "mbox_recv_head (Suc n) d =
    mbox_recv_head n (d\<lparr>drv_i2x_head := 0, drv_npu := set_i2x_head (drv_npu d) 0\<rparr>)"
proof -
  have "drv_i2x_head d \<noteq> 0x1000"
    using assms(3) by auto
  then show ?thesis
    using assms peek_at [OF assms(1,3)]
    by (simp add: access_mbox mgmt_regs word_at_def Let_def mgmt_i2x_def)
qed

subsection \<open>Receiving is a dequeue\<close>

lemma protocol_field:
  "drop_bit XDNA_MSG_PROTO_VER_SHIFT ((n AND XDNA_MSG_BODY_SZ_MASK) OR
     push_bit XDNA_MSG_PROTO_VER_SHIFT XDNA_MSG_PROTOCOL_VER) AND 0xFF = XDNA_MSG_PROTOCOL_VER"
proof -
  have masked: "drop_bit 16 (n AND XDNA_MSG_BODY_SZ_MASK) = 0"
    by (rule bit_word_eqI) (auto simp: bit_simps XDNA_MSG_BODY_SZ_MASK_def)
  then show ?thesis
    by (simp add: XDNA_MSG_PROTO_VER_SHIFT_def XDNA_MSG_PROTOCOL_VER_def)
qed

lemma reply_fields:
  "total_size (reply_header mid opc p) = word_of_nat (length p)"
  "msg_id (reply_header mid opc p) = mid"
  "drop_bit XDNA_MSG_PROTO_VER_SHIFT (sz_ver (reply_header mid opc p)) AND 0xFF = XDNA_MSG_PROTOCOL_VER"
  using protocol_field [of "word_of_nat (length p)"]
  by (simp_all only: reply_header_def xdna_msg_header.simps)

definition received :: "Drv \<Rightarrow> u32 \<Rightarrow> Drv" where
  "received d v = d\<lparr>drv_i2x_head := v, drv_npu := set_i2x_head (ack_intr (drv_npu d)) v,
     g_checks := g_checks d + 3\<rparr>"

lemma recv_at:
  assumes linked: "linked d" and s: "npu = drv_npu d"
    and front: "mbox_recv_head 64 (d\<lparr>drv_npu := ack_intr npu\<rparr>) = Some (Some H, e)"
    and e: "e = d\<lparr>drv_i2x_head := front_head, drv_npu := s'\<rparr>" "set_i2x_head s' = set_i2x_head (ack_intr npu)"
      "sram s' = sram npu"
    and hdr: "hdr_of (mem_load (sram npu) (0x22000 + unat H) 16) = reply_header mid opc p"
    and load: "mem_load (sram npu) (0x22000 + unat H + 16) (length p) = p"
    and fits: "unat H + 16 + length p \<le> 0xFFC" and p: "p \<noteq> []"
  shows "mbox_recv d mid (word_of_nat (length p)) =
    Some (0, Some p, received d (H + (16 + word_of_nat (length p))))"
proof -
  have small: "length p \<le> 0xFFC" "unat H \<le> 0xFFC"
    using fits by simp_all
  then have len: "unat (word_of_nat (length p) :: u32) = length p"
    by (simp add: unat_of_nat)
  then have nonzero: "(word_of_nat (length p) :: u32) \<noteq> 0"
    using p by (auto simp flip: unat_eq_0)
  have at: "unat (0x22000 + H) = 0x22000 + unat H" "unat (0x22000 + H + 16) = 0x22000 + unat H + 16"
    using small(2) sram_at [of "0x22000" H] sram_at [of "0x22000 + H" 16] by simp_all
  have res: "i2x_res d = mgmt_i2x" and intr: "intr_reg d = XDNA_MBOX_INTR_OFF"
    using linked by (simp_all add: linked_def)
  have regs: "rb_start mgmt_i2x = 0x22000" "head_reg mgmt_i2x = XDNA_MBOX_I2X_HEAD_OFF"
    by (simp_all add: mgmt_i2x_def)
  show ?thesis
    using front hdr load fits nonzero at len
    by (simp add: mbox_recv_def res intr regs access_mbox mgmt_regs e access_sram
        s sizeof_hdr_def reply_fields drv_check_def received_def Let_def)
qed

lemma replies_received:
  "replies (received d v) q \<longleftrightarrow> linked d \<and>
    ring_holds (sram (drv_npu d)) 0x22000 0xFFC (unat v) (unat (i2x_tail (chan (drv_npu d) 0))) q"
  by (simp add: replies_def received_def linked_def)

lemma advance_nat:
  "unat H + 16 + n \<le> 0xFFC \<Longrightarrow> unat (H + (16 + word_of_nat n) :: u32) = unat H + 16 + n"
  by (simp add: unat_word_ariths unat_of_nat)

lemma recv_dequeues:
  assumes q: "replies d ((reply_header mid opc p, p) # q)" and p: "p \<noteq> []"
  obtains v where "mbox_recv d mid (word_of_nat (length p)) = Some (0, Some p, received d v)"
    and "replies (received d v) q" and "unat v \<le> 0xFFC"
proof -
  let ?s = "drv_npu d" and ?H = "drv_i2x_head d"
  let ?T = "i2x_tail (chan ?s 0)" and ?d = "d\<lparr>drv_npu := ack_intr (drv_npu d)\<rparr>"
  have linked: "linked d"
    and ring: "ring_holds (sram ?s) 0x22000 0xFFC (unat ?H) (unat ?T) ((reply_header mid opc p, p) # q)"
    using q by (simp_all add: replies_def)
  have res: "i2x_res ?d = mgmt_i2x"
    using linked by (simp add: linked_def)
  have 64: "(64 :: nat) = Suc (Suc 62)"
    by simp
  have no_mark: "word_of_nat (length p) \<noteq> XDNA_MBOX_TOMBSTONE" if "length p \<le> 0xFFC"
  proof -
    from that have "unat (word_of_nat (length p) :: u32) \<le> 0xFFC"
      by (simp add: unat_of_nat)
    then show ?thesis by (auto simp: xdna_consts)
  qed
  note deliver = that
  show thesis
    using ring
  proof (cases rule: ring_front [consumes 1, case_names here wrapped])
    case here
    have "?H \<noteq> ?T"
      using here(6) by auto
    then have "mbox_recv_head 64 ?d = Some (Some ?H, ?d)"
      unfolding 64 using recv_head_here [of ?d "Suc 62"] here no_mark res
      by (auto simp: reply_fields simp del: mbox_recv_head.simps)
    then have "mbox_recv d mid (word_of_nat (length p)) =
        Some (0, Some p, received d (?H + (16 + word_of_nat (length p))))"
      using here by (intro recv_at [OF linked refl _ _ _ _ _ _ _ p, where front_head = ?H and e = ?d and s' = "ack_intr ?s"]) simp_all
    then show thesis
      using here linked advance_nat [OF here(5)]
      by (intro deliver [of "?H + (16 + word_of_nat (length p))"]) (simp_all add: replies_received)
  next
    case wrapped
    let ?e = "?d\<lparr>drv_i2x_head := 0, drv_npu := set_i2x_head (drv_npu ?d) 0\<rparr>"
    have "?H \<noteq> ?T"
      using wrapped(2) by auto
    then have rewound: "mbox_recv_head 64 ?d = mbox_recv_head (Suc 62) ?e"
      unfolding 64 using recv_head_wrapped [of ?d "Suc 62"] wrapped(1-3) res
      by (auto simp del: mbox_recv_head.simps)
    from wrapped(4) show thesis
    proof (cases rule: ring_front [consumes 1, case_names here wrapped])
      case front: here
      have "?T \<noteq> 0"
        using front(6) by auto
      then have found: "mbox_recv_head (Suc 62) ?e = Some (Some (drv_i2x_head ?e), ?e)"
        using recv_head_here [of ?e 62] front no_mark res
        by (auto simp: reply_fields simp del: mbox_recv_head.simps)
      have "set_i2x_head (set_i2x_head s 0) = set_i2x_head s" for s :: "Host xdna_npu"
        by (rule ext) (simp add: set_i2x_head_def)
      then have "mbox_recv d mid (word_of_nat (length p)) =
          Some (0, Some p, received d (0 + (16 + word_of_nat (length p))))"
        using front found rewound
        by (intro recv_at [OF linked refl _ _ _ _ _ _ _ p, where front_head = 0 and e = ?e and s' = "set_i2x_head (ack_intr ?s) 0"]) simp_all
      then show thesis
        using front linked advance_nat [of 0 "length p"]
        by (intro deliver [of "0 + (16 + word_of_nat (length p))"]) (simp_all add: replies_received)
    qed simp
  qed
qed

text \<open>C31: Receiving is a dequeue.  When the reply ring, from the driver's own read position to the
  device's tail, holds a message followed by \<open>q\<close>, a receive that waits for this message's id
  and size returns its payload with success and no failed check, and leaves the ring holding \<open>q\<close>;
  a TOMBSTONE in between is skipped.\<close>

lemma recv_is_dequeue:
  assumes "replies d ((reply_header mid opc bs, bs) # q)" and "bs \<noteq> []"
  shows "\<exists>d'. mbox_recv d mid (word_of_nat (length bs)) = Some (0, Some bs, d') \<and>
    replies d' q \<and> g_failures d' = g_failures d \<and> i2x_head (chan (drv_npu d') 0) = drv_i2x_head d'"
proof -
  obtain v where "mbox_recv d mid (word_of_nat (length bs)) = Some (0, Some bs, received d v)"
    "replies (received d v) q"
    by (rule recv_dequeues [OF assms])
  then show ?thesis
    by (intro exI [of _ "received d v"]) (simp add: received_def)
qed

subsection \<open>One message through the firmware\<close>

lemma delivered_none: "delivered 0 s [] t \<Longrightarrow> t = s \<or> t = set_x2i_head s 0 0"
  by (induction s "[] :: msg list" t rule: delivered.induct) (auto simp: set_x2i_head_def)

lemma delivered_one:
  "delivered 0 s [(h, p)] t \<Longrightarrow> \<exists>v. unat v \<le> ring_len 0 \<and>
    delivered 0 (xdna_mert_handle (count_msg_in (set_x2i_head s 0 v)) 0 h p) [] t"
proof (induction s "[(h, p)]" t rule: delivered.induct)
  case (rewind s t)
  moreover have "set_x2i_head (set_x2i_head s 0 0) 0 v = set_x2i_head s 0 v" for v
    by (simp add: set_x2i_head_def)
  ultimately show ?case by simp
qed auto

lemma process_one:
  assumes s: "bounds_inv s" "ch_active (chan s 0)" and ring: "x2i_holds 0 s [(h, p)]" and ok: "msg_ok 0 (h, p)"
    and tail: "x2i_tail (chan s 0) \<noteq> 0"
  obtains r where "r = count_msg_in (set_x2i_head s 0 (x2i_tail (chan s 0)))"
    and "xdna_mbox_process s 0 = xdna_mert_handle r 0 h p" and "bounds_inv r" and "ch_active (chan r 0)"
proof -
  have "delivered 0 s [(h, p)] (xdna_mbox_process s 0)"
    and empty: "x2i_head (chan (xdna_mbox_process s 0) 0) = x2i_tail (chan (xdna_mbox_process s 0) 0)"
    using process_delivers [OF s(1) _ s(2) ring] ok by simp_all
  then obtain v where v: "unat v \<le> ring_len 0"
    "delivered 0 (xdna_mert_handle (count_msg_in (set_x2i_head s 0 v)) 0 h p) [] (xdna_mbox_process s 0)"
    using delivered_one by blast
  let ?r = "count_msg_in (set_x2i_head s 0 v)"
  let ?u = "xdna_mert_handle ?r 0 h p"
  have r: "bounds_inv ?r"
    using bounds_set_head [OF s(1) _ s(2) v(1)] by (simp add: count_msg_in_def)
  have u: "x2i_tail (chan ?u 0) = x2i_tail (chan s 0)" "x2i_head (chan ?u 0) = v"
    using handle_keeps(2) [OF r _ _ ok] s(2) by (simp_all add: x2i_kept_def count_msg_in_def set_x2i_head_def)
  have "xdna_mbox_process s 0 = ?u"
    using delivered_none [OF v(2)] empty tail u by (auto simp: set_x2i_head_def)
  with empty u r s(2) show thesis
    by (intro that [of ?r]) (simp_all add: count_msg_in_def set_x2i_head_def)
qed

subsection \<open>The answer in the reply ring\<close>

text \<open>A reply always fits in an empty ring, and raises the test host's interrupt.\<close>

lemma commit_irq:
  "ops s = test_ops \<Longrightarrow> ch_index (chan s k) = 0 \<Longrightarrow>
    irq_pending (opaque (mbox_commit s k t i p bs)) 0"
  by (simp add: mbox_commit_def Let_def test_ops_def host_raise_irq_def XDNA_MSIX_VECTORS_def)

lemma send_to_empty:
  assumes s: "layout_inv s" "ch_active (chan s 0)" "i2x_ok 0 (chan s 0)" "ops s = test_ops"
    and empty: "i2x_head (chan s 0) = i2x_tail (chan s 0)" and len: "length bs \<le> 128"
    and u: "u = snd (xdna_mbox_send s 0 mid opc bs)"
  shows "i2x_holds u 0 [(reply_header mid opc bs, bs)]" and "irq_pending (opaque u) 0"
    and "i2x_tail (chan u 0) \<noteq> 0"
proof -
  have small: "length bs \<le> 0x2000" and index: "ch_index (chan s 0) = 0"
    using len layout_chan [OF s(1), of 0] by (simp_all add: chan_ok_def)
  have U: "unat (mbox_usable (chan s 0)) = 0xFFC"
    using usable_nat [OF layout_chan [OF s(1)] s(2)] by (simp add: ring_len_def)
  have T: "unat (i2x_tail (chan s 0)) \<le> 0xFFC"
    using s(2,3) by (simp add: i2x_ok_def ring_len_def)
  have "i2x_holds s 0 []"
    using empty T by (simp add: i2x_holds_def ring_holds_def U)
  note ring = send_refines_enqueue [OF s(1) _ s(2,3) small this, of mid opc]
  have "room_kept (chan s 0) bs"
    using ring_tests_nat(1) [OF layout_chan [OF s(1)] s(2,3), of "word_of_nat sizeof_hdr + word_of_nat (length bs)"]
      pkg_nat [OF small] len empty by (auto simp: room_kept_def ring_len_def)
  moreover have "fst (xdna_mbox_send s 0 mid opc bs) = 0 \<and> irq_pending (opaque u) 0 \<and>
      i2x_tail (chan u 0) \<noteq> 0"
  proof (cases rule: send_cases [OF s(1) _ s(2,3) small, of mid opc, case_names idx too_big full sent])
    case (too_big msg)
    with len show ?thesis by (simp add: ring_len_def)
  next
    case (full w msg)
    with len empty T show ?thesis by (auto simp: ring_len_def split: if_splits)
  next
    case (sent w t)
    from sent(5) have "t + (16 + word_of_nat (length bs)) \<noteq> 0"
      by (auto simp flip: unat_eq_0)
    with sent show ?thesis
      using s(4) index by (simp add: u commit_irq commit_chan)
  qed simp
  ultimately show "i2x_holds u 0 [(reply_header mid opc bs, bs)]" and "irq_pending (opaque u) 0"
    and "i2x_tail (chan u 0) \<noteq> 0"
    using ring by (simp_all add: u)
qed

subsection \<open>The request in the ring\<close>

definition call_id :: "Drv \<Rightarrow> u32" where
  "call_id d = (next_msg_id d AND 0xFF) OR XDNA_MBOX_MAGIC_VAL"

definition call_header :: "Drv \<Rightarrow> u32 \<Rightarrow> u8 list \<Rightarrow> xdna_msg_header" where
  "call_header d opc req = request_header (call_id d) opc (word_of_nat (length req))"

text \<open>Where the driver puts a request, and the device before and after the doorbell.\<close>

definition call_wraps :: "Drv \<Rightarrow> u8 list \<Rightarrow> bool" where
  "call_wraps d req \<longleftrightarrow> 0xFFC < unat (drv_x2i_tail d) + 16 + length req"

definition call_start :: "Drv \<Rightarrow> u8 list \<Rightarrow> u32" where
  "call_start d req = (if call_wraps d req then 0 else drv_x2i_tail d)"

definition call_ring :: "Drv \<Rightarrow> u32 \<Rightarrow> u8 list \<Rightarrow> Host xdna_npu" where
  "call_ring d opc req =
     (let s1 = (if call_wraps d req
                then sram_store (drv_npu d) (0x21000 + unat (drv_x2i_tail d)) (le_bytes 4 XDNA_MBOX_TOMBSTONE)
                else drv_npu d);
          a = 0x21000 + unat (call_start d req);
          s2 = sram_store (sram_store s1 a (hdr_bytes (call_header d opc req))) (a + 16) req
      in s2\<lparr>opaque := (opaque s2)\<lparr>irq_pending := (irq_pending (opaque s2))(0 := False)\<rparr>\<rparr>)"

definition call_tail :: "Drv \<Rightarrow> u8 list \<Rightarrow> u32" where
  "call_tail d req = call_start d req + (16 + word_of_nat (length req))"

definition rung :: "Drv \<Rightarrow> u32 \<Rightarrow> u8 list \<Rightarrow> Host xdna_npu" where
  "rung d opc req = xdna_mbox_process (ring_tail 0 (call_ring d opc req) (call_tail d req)) 0"

definition called :: "Drv \<Rightarrow> u32 \<Rightarrow> u8 list \<Rightarrow> Drv" where
  "called d opc req = d\<lparr>next_msg_id := next_msg_id d + 1, drv_x2i_tail := call_tail d req,
     drv_npu := rung d opc req\<rparr>"

lemma call_ring_frame [simp]:
  "chan (call_ring d opc req) = chan (drv_npu d)"
  "ops (call_ring d opc req) = ops (drv_npu d)"
  "fw_alive (call_ring d opc req) = fw_alive (drv_npu d)"
  "ctx (call_ring d opc req) = ctx (drv_npu d)"
  "next_ctx_id (call_ring d opc req) = next_ctx_id (drv_npu d)"
  by (simp_all add: call_ring_def Let_def)

lemma call_tail_nat:
  assumes "unat (drv_x2i_tail d) \<le> 0xFFC" and "length req \<le> 1024"
  shows "unat (call_tail d req) = unat (call_start d req) + 16 + length req"
    and "unat (call_tail d req) \<le> 0xFFC"
proof -
  have "unat (call_start d req) + 16 + length req \<le> 0xFFC"
    using assms by (simp add: call_start_def call_wraps_def)
  then show "unat (call_tail d req) = unat (call_start d req) + 16 + length req"
    and "unat (call_tail d req) \<le> 0xFFC"
    using advance_nat [of "call_start d req" "length req"] by (simp_all add: call_tail_def)
qed

lemma send_recv_steps:
  assumes linked: "linked d" and head: "x2i_head (chan (drv_npu d) 0) = drv_x2i_tail d"
    and tail: "unat (drv_x2i_tail d) \<le> 0xFFC" and index: "ch_index (chan (drv_npu d) 0) = 0"
    and req: "req \<noteq> []" "length req \<le> 1024"
  shows "mbox_send_recv d opc req (word_of_nat (length req)) rs =
    mbox_recv (drv_check (irq_pending (opaque (rung d opc req)) 0) (called d opc req)) (call_id d) rs"
proof -
  let ?T = "drv_x2i_tail d" and ?n = "word_of_nat (length req) :: u32"
  have n: "unat ?n = length req" "unat (16 + ?n) = 16 + length req"
    using req(2) by (simp_all add: unat_word_ariths unat_of_nat)
  then have nonzero: "?n \<noteq> 0"
    using req(1) by (auto simp flip: unat_eq_0)
  have sum: "unat (?T + (16 + ?n)) = unat ?T + 16 + length req"
    using tail req(2) n by (subst unat_add_small) simp_all
  have wraps: "?T + (16 + ?n) > 0x1000 - 4 \<longleftrightarrow> call_wraps d req"
    using sum by (simp add: word_less_nat_alt call_wraps_def)
  have room: "\<not> (call_start d req < ?T \<and> call_start d req + (16 + ?n) \<ge> ?T)"
    using n tail req(2)
    by (auto simp: call_start_def call_wraps_def word_le_nat_alt word_less_nat_alt)
  have start: "unat (call_start d req) \<le> 0xFFC"
    using tail by (simp add: call_start_def)
  have at: "unat (0x21000 + ?T) = 0x21000 + unat ?T"
    "unat (0x21000 + call_start d req) = 0x21000 + unat (call_start d req)"
    "unat (0x21000 + call_start d req + 16) = 0x21000 + unat (call_start d req) + 16"
    using tail start sram_at [of "0x21000" ?T] sram_at [of "0x21000" "call_start d req"]
      sram_at [of "0x21000 + call_start d req" 16] by simp_all
  have res: "x2i_res d = mgmt_x2i" and msix: "msix_id d = 0"
    using linked by (simp_all add: linked_def)
  have regs: "rb_start mgmt_x2i = 0x21000" "rb_size mgmt_x2i = 0x1000"
    "head_reg mgmt_x2i = XDNA_MBOX_X2I_HEAD_OFF" "tail_reg mgmt_x2i = XDNA_MBOX_X2I_TAIL_OFF"
    by (simp_all add: mgmt_x2i_def)
  note defs = mbox_send_recv_def sizeof_hdr_def access_mbox mgmt_regs access_sram call_id_def
    call_header_def clear_pending_def msix res regs call_tail_def called_def rung_def call_ring_def
    Let_def index head
  show ?thesis
  proof (cases "call_wraps d req")
    case True
    then have "call_start d req = 0"
      by (simp add: call_start_def)
    with True show ?thesis
      using at n nonzero req(2) tail room wraps by (auto simp: defs)
  next
    case False
    then have "call_start d req = ?T"
      by (simp add: call_start_def)
    with False show ?thesis
      using at n nonzero req(2) tail room wraps by (auto simp: defs)
  qed
qed

subsection \<open>A session\<close>

text \<open>
  Between two calls of a session the driver knows the rings, both rings are empty, and the
  driver's own positions in them are the device's.
\<close>

definition in_session :: "Drv \<Rightarrow> bool" where
  "in_session d \<longleftrightarrow> linked d \<and> bounds_inv (drv_npu d) \<and> ids_ok (drv_npu d) \<and>
     ops (drv_npu d) = test_ops \<and> ch_active (chan (drv_npu d) 0) \<and>
     x2i_head (chan (drv_npu d) 0) = drv_x2i_tail d \<and> unat (drv_x2i_tail d) \<le> 0xFFC \<and>
     i2x_head (chan (drv_npu d) 0) = drv_i2x_head d \<and> i2x_tail (chan (drv_npu d) 0) = drv_i2x_head d"

definition request_ok :: "u8 list \<Rightarrow> bool" where
  "request_ok req \<longleftrightarrow> req \<noteq> [] \<and> 4 dvd length req \<and> length req \<le> 1024"

lemma call_bounds:
  assumes "in_session d" and "request_ok req"
  shows "bounds_inv (call_ring d opc req)" and "bounds_inv (ring_tail 0 (call_ring d opc req) v)"
proof -
  have "unat (call_start d req) \<le> 0xFFC" "unat (drv_x2i_tail d) \<le> 0xFFC" "length req \<le> 1024"
    using assms by (auto simp: in_session_def request_ok_def call_start_def)
  then show inv: "bounds_inv (call_ring d opc req)"
    using assms(1) by (simp add: call_ring_def Let_def in_session_def bounds_store)
  then show "bounds_inv (ring_tail 0 (call_ring d opc req) v)"
    unfolding ring_tail_def by (rule bounds_driver_regs) simp
qed

lemma request_placed:
  assumes d: "in_session d" and req: "request_ok req"
  shows "x2i_holds 0 (ring_tail 0 (call_ring d opc req) (call_tail d req)) [(call_header d opc req, req)]"
proof -
  let ?m = "sram (drv_npu d)" and ?T = "unat (drv_x2i_tail d)" and ?h = "call_header d opc req"
  have T: "?T \<le> 0xFFC" and head: "x2i_head (chan (drv_npu d) 0) = drv_x2i_tail d"
    and len: "length req \<le> 1024"
    using d req by (simp_all add: in_session_def request_ok_def)
  then have size: "unat (total_size ?h) = length req"
    by (simp add: call_header_def request_header_def unat_of_nat)
  have tail: "unat (call_tail d req) = unat (call_start d req) + (16 + length req)"
    using call_tail_nat [OF T len] by simp
  have empty: "ring_holds ?m 0x21000 0xFFC ?T ?T []"
    using T by (simp add: ring_empty)
  show ?thesis
  proof (cases "call_wraps d req")
    case True
    let ?m1 = "mem_store ?m (0x21000 + ?T) (le_bytes 4 XDNA_MBOX_TOMBSTONE)"
    have start: "call_start d req = 0"
      using True by (simp add: call_start_def)
    have "ring_holds ?m1 0x21000 0xFFC ?T ?T []"
      using T by (simp add: ring_empty)
    from ring_holds_append(3) [OF this size refl] show ?thesis
      using True len T tail start
      by (simp add: x2i_holds_def ring_base_def ring_len_def ring_tail_def head call_ring_def Let_def call_wraps_def word_at_tombstone)
  next
    case False
    have start: "call_start d req = drv_x2i_tail d"
      using False by (simp add: call_start_def)
    from ring_holds_append(1) [OF empty size refl] show ?thesis
      using False tail start
      by (simp add: x2i_holds_def ring_base_def ring_len_def ring_tail_def head call_ring_def Let_def call_wraps_def)
  qed
qed

subsection \<open>The call\<close>

text \<open>How far a column dump gets depends on the addresses alone, not on the host's state.\<close>

lemma dump_any_host:
  "col_dump host_dma_write a len cnt h = (n, failed, h') \<Longrightarrow>
    \<exists>g'. col_dump host_dma_write a len cnt g = (n, failed, g')"
proof (induction "host_dma_write" a len cnt h arbitrary: g rule: col_dump.induct)
  case (1 a len cnt h)
  let ?n = "if len - cnt > 256 then 256 else len - cnt"
  let ?w = "\<lambda>h. host_dma_write h (a + ucast cnt) (replicate (unat ?n) 0)"
  have same: "fst (?w g) = fst (?w h)"
    by (simp add: host_dma_write_def)
  show ?case
  proof (cases "cnt < len \<and> fst (?w h) = 0")
    case True
    then have "col_dump host_dma_write a len (cnt + ?n) (snd (?w h)) = (n, failed, h')"
      using "1.prems" by (simp only: col_dump.simps [of _ _ _ cnt h] Let_def) (simp add: split_beta)
    then have "\<exists>g'. col_dump host_dma_write a len (cnt + ?n) (snd (?w g)) = (n, failed, g')"
      using True by (intro "1.hyps" [OF _ refl prod.collapse]) simp_all
    with True same show ?thesis
      by (simp only: col_dump.simps [of _ _ _ cnt g] Let_def) (simp add: split_beta)
  next
    case False
    with "1.prems" same show ?thesis
      by (simp only: col_dump.simps [of _ _ _ cnt] Let_def) (auto simp: split_beta)
  qed
qed

lemma dump_result_same:
  assumes "ops s = test_ops" and "ops r = test_ops"
  shows "dump_result r p = dump_result s p"
proof -
  obtain n failed h where s: "col_dump host_dma_write (field_at 0 8 p) (field_at 8 4 p) 0 (opaque s) = (n, failed, h)"
    by (metis prod_cases3)
  from dump_any_host [OF this, of "opaque r"] show ?thesis
    using assms s by (auto simp: dump_result_def test_ops_def)
qed

text \<open>What the specification says of a call: the abstract state after it and the answer.\<close>

definition call_spec :: "Drv \<Rightarrow> u32 \<Rightarrow> u8 list \<Rightarrow> mstate \<times> mert_answer" where
  "call_spec d opc req = mert_spec (mert_abs (drv_npu d)) (dump_result (drv_npu d) req)
     (mert_request_of (call_header d opc req) req)"

text \<open>The doorbell hands the one request to the firmware's handler.\<close>

lemma rung_handled:
  assumes d: "in_session d" and req: "request_ok req"
  obtains r where "r = count_msg_in (set_x2i_head (ring_tail 0 (call_ring d opc req) (call_tail d req)) 0 (call_tail d req))"
    and "rung d opc req = xdna_mert_handle r 0 (call_header d opc req) req" and "bounds_inv r" and "ch_active (chan r 0)"
proof -
  let ?c = "call_ring d opc req" and ?h = "call_header d opc req" and ?v = "call_tail d req"
  let ?s = "ring_tail 0 ?c ?v"
  have T: "unat (drv_x2i_tail d) \<le> 0xFFC" "length req \<le> 1024"
    using d req by (simp_all add: in_session_def request_ok_def)
  have "?v \<noteq> 0"
    using call_tail_nat(1) [OF T] by (auto simp flip: unat_eq_0)
  moreover have "msg_ok 0 (?h, req)"
    using req by (simp add: msg_ok_def request_ok_def)
  moreover have "ch_active (chan ?s 0)" "x2i_tail (chan ?s 0) = ?v"
    using d by (simp_all add: ring_tail_def in_session_def)
  ultimately show thesis
    using process_one [OF call_bounds(2) [OF d req, of opc ?v] _ request_placed [OF d req, of opc]] that
    by (metis rung_def)
qed

lemma rung_answers:
  assumes d: "in_session d" and req: "request_ok req" and "next_ctx_id (drv_npu d) \<noteq> -1"
  obtains r where "bounds_inv r" and "chan r 0 = (chan (drv_npu d) 0)
      \<lparr>x2i_tail := call_tail d req, x2i_head := call_tail d req\<rparr>" and "ops r = test_ops"
    and "answers r 0 (call_header d opc req) (call_spec d opc req) (rung d opc req)"
    and "x2i_kept 0 r (rung d opc req)" and "bounds_inv (rung d opc req)"
proof -
  let ?h = "call_header d opc req" and ?v = "call_tail d req"
  have ok: "msg_ok 0 (?h, req)"
    using req by (simp add: msg_ok_def request_ok_def)
  obtain r where r: "r = count_msg_in (set_x2i_head (ring_tail 0 (call_ring d opc req) ?v) 0 ?v)"
    and rung: "rung d opc req = xdna_mert_handle r 0 ?h req" and inv: "bounds_inv r" "ch_active (chan r 0)"
    by (rule rung_handled [OF d req])
  have alive: "fw_alive (drv_npu d)"
    using d by (auto simp: in_session_def bounds_inv_def layout_inv_def)
  have abs: "mert_abs r = mert_abs (drv_npu d)" and ids: "ids_ok r" and frame: "ops r = ops (drv_npu d)"
    "fw_alive r" "next_ctx_id r = next_ctx_id (drv_npu d)"
    using d alive ctx_map_cong [of r "drv_npu d"] ids_ok_cong [of r "drv_npu d"]
    by (simp_all add: r count_msg_in_def set_x2i_head_def ring_tail_def call_ring_def Let_def
        mert_abs_def in_session_def)
  have ops: "ops (drv_npu d) = test_ops"
    using d by (simp add: in_session_def)
  have "answers r 0 ?h (mert_spec (mert_abs r) (dump_result r req) (mert_request_of ?h req)) (rung d opc req)"
    unfolding rung using frame assms(3) by (intro handle_answers ids bounds_layout inv) simp_all
  then have "answers r 0 ?h (call_spec d opc req) (rung d opc req)"
    using dump_result_same [OF ops, of r req] frame(1) ops by (simp add: call_spec_def abs)
  moreover have "chan r 0 = (chan (drv_npu d) 0)\<lparr>x2i_tail := ?v, x2i_head := ?v\<rparr>"
    by (simp add: r count_msg_in_def set_x2i_head_def ring_tail_def)
  moreover have "x2i_kept 0 r (rung d opc req)" "bounds_inv (rung d opc req)"
    unfolding rung by (rule handle_keeps [OF inv(1) _ inv(2) ok], simp)+
  ultimately show thesis
    using inv(1) frame(1) ops by (intro that [of r]) simp_all
qed

lemma answer_exists:
  assumes "opcode_of opc \<noteq> Some MSG_OP_REGISTER_ASYNC_EVENT_MSG"
  obtains bs where "answer_bytes opc (snd (call_spec d opc req)) = Some bs"
    and "length bs = fst (resp_size_for opc)" and "bs \<noteq> []" and "length bs \<le> 128"
proof -
  have "opcode (call_header d opc req) = opc"
    by (simp add: call_header_def request_header_def)
  then obtain bs where "answer_bytes opc (snd (call_spec d opc req)) = Some bs"
    "length bs = fst (resp_size_for opc)"
    using answer_length [of "call_header d opc req" "mert_abs (drv_npu d)"
        "dump_result (drv_npu d) req" req] assms
    by (auto simp: call_spec_def split: option.splits)
  then show thesis
    using resp_size_bounds [of opc] by (intro that [of bs]) auto
qed

text \<open>After the doorbell: the device has moved as specified and the answer waits in the ring.\<close>

lemma rung_replies:
  assumes d: "in_session d" and req: "request_ok req" and next_id: "next_ctx_id (drv_npu d) \<noteq> -1"
    and bs: "answer_bytes opc (snd (call_spec d opc req)) = Some bs" and len: "length bs \<le> 128"
  defines "u \<equiv> rung d opc req"
  shows "bounds_inv u" and "ids_ok u" and "ops u = test_ops" and "mert_abs u = fst (call_spec d opc req)"
    and "ch_active (chan u 0)" and "x2i_head (chan u 0) = call_tail d req"
    and "irq_pending (opaque u) 0" and "i2x_tail (chan u 0) \<noteq> 0"
    and "replies (called d opc req) [(reply_header (call_id d) opc bs, bs)]"
proof -
  let ?h = "call_header d opc req"
  obtain r where r: "bounds_inv r" "chan r 0 = (chan (drv_npu d) 0)
      \<lparr>x2i_tail := call_tail d req, x2i_head := call_tail d req\<rparr>" "ops r = test_ops"
    "answers r 0 ?h (call_spec d opc req) u" "x2i_kept 0 r u" "bounds_inv u"
    using rung_answers [OF d req next_id] unfolding u_def by metis
  have h: "opcode ?h = opc" "msg_id ?h = call_id d"
    by (simp_all add: call_header_def request_header_def)
  obtain t where t: "mert_abs t = fst (call_spec d opc req)" "ids_ok t" "mgmt_kept r t"
    "u = snd (xdna_mbox_send t 0 (call_id d) opc bs)"
    using r(4) bs h by (auto simp: answers_def)
  have chan_t: "chan t 0 = chan r 0" and lay: "layout_inv t" and ops_t: "ops t = test_ops"
    using t(3) r(1,3) by (simp_all add: mgmt_kept_def bounds_layout)
  have active: "ch_active (chan t 0)" and i2x: "i2x_ok 0 (chan t 0)"
    using d r(1) by (simp_all add: chan_t) (simp_all add: r(2) in_session_def bounds_inv_def)
  have empty: "i2x_head (chan t 0) = i2x_tail (chan t 0)" "i2x_head (chan t 0) = drv_i2x_head d"
    using d by (simp_all add: chan_t r(2) in_session_def)
  note sent = send_to_empty [OF lay active i2x ops_t empty(1) len t(4)]
  show "ids_ok u" "ops u = test_ops" "mert_abs u = fst (call_spec d opc req)" "ch_active (chan u 0)"
    using t active ops_t by simp_all
  show "x2i_head (chan u 0) = call_tail d req"
    using t chan_t r(2) by simp
  show "irq_pending (opaque u) 0" "i2x_tail (chan u 0) \<noteq> 0"
    by (rule sent)+
  show "bounds_inv u"
    by (rule r(6))
  have "unat (i2x_buf (chan u 0)) = 0x22000" "unat (mbox_usable (chan u 0)) = 0xFFC"
    using active_chan(1) [OF lay _ active] usable_nat [OF layout_chan [OF lay] active] t(4)
    by (simp_all add: ring_base_def ring_len_def mbox_usable_def)
  moreover have "i2x_head (chan u 0) = drv_i2x_head d"
    using t(4) empty(2) by simp
  ultimately show "replies (called d opc req) [(reply_header (call_id d) opc bs, bs)]"
    using sent(1) d
    by (simp add: replies_def i2x_holds_def called_def linked_def in_session_def u_def)
qed

lemma after_receive:
  assumes u: "bounds_inv u" "ids_ok u" "ops u = test_ops" "ch_active (chan u 0)"
    and x2i: "x2i_head (chan u 0) = T" "unat T \<le> 0xFFC" and tail: "i2x_tail (chan u 0) \<noteq> 0"
    and d: "linked d" "drv_npu d = u" "drv_x2i_tail d = T"
    and empty: "replies (received d v) []" "unat v \<le> 0xFFC"
  shows "in_session (received d v)" and "mert_abs (drv_npu (received d v)) = mert_abs u"
proof -
  have "v = i2x_tail (chan u 0)"
    using empty(1) tail d(2)
    by (simp add: replies_received ring_holds_def frames_same word_unat_eq_iff)
  moreover have "bounds_inv (ack_intr u)"
    unfolding ack_intr_def by (rule bounds_driver_regs(2) [OF u(1)]) simp
  moreover have "polite_guest (ack_intr u) 0 v"
    using empty(2) usable_nat [OF layout_chan [OF bounds_layout [OF u(1)], of 0] u(4)]
    by (simp add: polite_guest_def word_le_nat_alt ring_len_def mbox_usable_def)
  ultimately have "bounds_inv (set_i2x_head (ack_intr u) v)"
    unfolding set_i2x_head_def by (intro bounds_head) simp_all
  moreover have "ids_ok (set_i2x_head (ack_intr u) v)" and same: "mert_abs (set_i2x_head (ack_intr u) v) = mert_abs u"
    using u(2) ids_ok_cong [of "set_i2x_head (ack_intr u) v" u] ctx_map_cong [of "set_i2x_head (ack_intr u) v" u]
    by (simp_all add: set_i2x_head_def ack_intr_def mert_abs_def)
  ultimately show "in_session (received d v)"
    using u x2i d \<open>v = i2x_tail (chan u 0)\<close>
    by (simp add: in_session_def received_def linked_def)
  show "mert_abs (drv_npu (received d v)) = mert_abs u"
    using same d(2) by (simp add: received_def)
qed

lemma call_step_frame:
  assumes d: "in_session d" and req: "request_ok req" and next_id: "next_ctx_id (drv_npu d) \<noteq> -1"
    and opc: "opcode_of opc \<noteq> Some MSG_OP_REGISTER_ASYNC_EVENT_MSG"
  obtains bs d' where "answer_bytes opc (snd (call_spec d opc req)) = Some bs"
    and "mbox_send_recv d opc req (word_of_nat (length req)) (word_of_nat (fst (resp_size_for opc))) =
      Some (0, Some bs, d')"
    and "in_session d'" and "mert_abs (drv_npu d') = fst (call_spec d opc req)"
    and "g_failures d' = g_failures d" and "\<forall>k > 0. chan (drv_npu d') k = chan (rung d opc req) k"
    and "ctx (drv_npu d') = ctx (rung d opc req)"
proof -
  obtain bs where bs: "answer_bytes opc (snd (call_spec d opc req)) = Some bs"
    "length bs = fst (resp_size_for opc)" "bs \<noteq> []" "length bs \<le> 128"
    by (rule answer_exists [OF opc])
  let ?u = "rung d opc req" and ?e = "drv_check True (called d opc req)"
  note u = rung_replies [OF d req next_id bs(1,4)]
  have replies: "replies ?e [(reply_header (call_id d) opc bs, bs)]"
    using u(9) by (simp add: replies_def linked_def drv_check_def)
  obtain v where v: "mbox_recv ?e (call_id d) (word_of_nat (length bs)) = Some (0, Some bs, received ?e v)"
    "replies (received ?e v) []" "unat v \<le> 0xFFC"
    by (rule recv_dequeues [OF replies bs(3)])
  have d': "linked d" "x2i_head (chan (drv_npu d) 0) = drv_x2i_tail d" "unat (drv_x2i_tail d) \<le> 0xFFC"
    "ch_index (chan (drv_npu d) 0) = 0" "req \<noteq> []" "length req \<le> 1024"
    using d req layout_chan [OF bounds_layout, of "drv_npu d" 0]
    by (simp_all add: in_session_def request_ok_def chan_ok_def)
  have "mbox_send_recv d opc req (word_of_nat (length req)) (word_of_nat (fst (resp_size_for opc))) =
      Some (0, Some bs, received ?e v)"
    using send_recv_steps [OF d', of opc "word_of_nat (fst (resp_size_for opc))"] u(7) v(1) bs(2) by simp
  moreover have "in_session (received ?e v)" "mert_abs (drv_npu (received ?e v)) = mert_abs ?u"
    using after_receive [OF u(1,2,3,5,6) call_tail_nat(2) [OF d'(3,6)] u(8) _ _ _ v(2,3)] d'(1)
    by (simp_all add: linked_def called_def drv_check_def)
  ultimately show thesis
    using bs(1) u(4) by (intro that [of bs "received ?e v"])
      (simp_all, simp_all add: received_def drv_check_def called_def set_i2x_head_def ack_intr_def)
qed

lemma call_step:
  assumes "in_session d" and "request_ok req" and "next_ctx_id (drv_npu d) \<noteq> -1"
    and "opcode_of opc \<noteq> Some MSG_OP_REGISTER_ASYNC_EVENT_MSG"
  obtains bs d' where "answer_bytes opc (snd (call_spec d opc req)) = Some bs"
    and "mbox_send_recv d opc req (word_of_nat (length req)) (word_of_nat (fst (resp_size_for opc))) =
      Some (0, Some bs, d')"
    and "in_session d'" and "mert_abs (drv_npu d') = fst (call_spec d opc req)"
    and "g_failures d' = g_failures d"
  by (rule call_step_frame [OF assms]) (rule that)

subsection \<open>From boot into a session\<close>

lemma run_bounds:
  "bounds_inv s \<Longrightarrow> bounds_inv (smu_run s cmd arg)"
  "bounds_inv s \<Longrightarrow> bounds_inv (psp_run s cmd a0 a1 a2)"
  by (simp_all add: smu_run_def psp_run_def set_scratch_def bounds.I_smu_kick bounds.I_psp_kick)

lemma run_contexts:
  "ctx (smu_run s cmd arg) = ctx s" "next_ctx_id (smu_run s cmd arg) = next_ctx_id s"
  "cmd \<noteq> PSP_CMD_RELEASE_TMR \<Longrightarrow> ctx (psp_run s cmd a0 a1 a2) = ctx s"
  "next_ctx_id (psp_run s cmd a0 a1 a2) = next_ctx_id s"
  by (simp_all add: smu_run_def psp_run_def psp_kick_contexts)
    (simp_all add: xdna_smu_kick_def smu_complete_def set_scratch_def Let_def)

lemma started_keeps:
  assumes "bounds_inv s" and "ops s = test_ops"
  shows "bounds_inv (started s)" and "ids_ok (started s) = ids_ok s" and "ops (started s) = test_ops"
    and "ctx_map (started s) = ctx_map s" and "next_ctx_id (started s) = next_ctx_id s"
proof -
  have cmds: "PSP_CMD_VALIDATE \<noteq> PSP_CMD_RELEASE_TMR" "PSP_CMD_START \<noteq> PSP_CMD_RELEASE_TMR"
    by (simp_all add: xdna_consts)
  show "bounds_inv (started s)" "ops (started s) = test_ops" "next_ctx_id (started s) = next_ctx_id s"
    using assms by (simp_all add: started_def Let_def run_bounds bounds_store run_contexts)
  have "ctx (started s) = ctx s" "next_ctx_id (started s) = next_ctx_id s"
    using cmds by (simp_all add: started_def Let_def run_contexts)
  then show "ids_ok (started s) = ids_ok s" "ctx_map (started s) = ctx_map s"
    using ids_ok_cong [of "started s" s] ctx_map_cong [of "started s" s] by simp_all
qed

text \<open>The boot sequence of a driver at the start of its rings leads into a session.\<close>

lemma boot_session:
  assumes "bounds_inv (drv_npu d)" and "ids_ok (drv_npu d)" and "ops (drv_npu d) = test_ops"
    and "drv_x2i_tail d = 0" and "drv_i2x_head d = 0"
  shows "in_session (connected d (started (drv_npu d)))"
proof -
  have "chan (started (drv_npu d)) 0 = mgmt_channel"
    using start_states(5) [OF assms(3)] by (simp add: started_def Let_def)
  then show ?thesis
    using assms started_keeps [OF assms(1,3)]
    by (simp add: in_session_def connected_def linked_def mgmt_channel_def zero_channel_def)
qed

lemma test_session: "in_session (connected test_drv (started test_npu))"
proof -
  have "ids_ok test_npu"
    by (simp add: ids_ok_def test_npu_def reset_fields zero_context_def)
  moreover have "bounds_inv test_npu"
    by (rule bounds_new [OF test_npu_new])
  ultimately show ?thesis
    using boot_session [of test_drv] by (simp add: test_drv_def Let_def)
qed

lemma test_session_next: "next_ctx_id (drv_npu (connected test_drv (started test_npu))) = 1"
  using started_keeps(5) [OF bounds_new [OF test_npu_new]]
  by (simp add: connected_def) (simp add: test_npu_def reset_fields)

text \<open>C2: A driver call is a remote call of the specification.  In a session with the firmware, a
  call of \<open>mbox_send_recv\<close> with a request of whole words, not empty and at most 1024 bytes, for
  any opcode but the async registration, and with the reply size of that opcode, returns: it
  reports success, no check of the driver fails (the interrupt came, the reply has the size, the
  id and the protocol version expected), the bytes it returns are the specification's answer, the
  firmware has moved as the specification says, and the next call can follow.\<close>

lemma driver_call:
  assumes "in_session d" and "request_ok req" and "next_ctx_id (drv_npu d) \<noteq> -1"
    and "opcode_of opc \<noteq> Some MSG_OP_REGISTER_ASYNC_EVENT_MSG"
  shows "\<exists>bs d'. answer_bytes opc (snd (call_spec d opc req)) = Some bs \<and>
    mbox_send_recv d opc req (word_of_nat (length req)) (word_of_nat (fst (resp_size_for opc))) =
      Some (0, Some bs, d') \<and>
    mert_abs (drv_npu d') = fst (call_spec d opc req) \<and> in_session d' \<and> g_failures d' = g_failures d"
  by (rule call_step [OF assms]) blast

text \<open>The inputs of the witnesses: a suspend request on the freshly booted test device.\<close>

definition booted_drv :: Drv where
  "booted_drv = connected test_drv (started test_npu)"

lemma suspend_call:
  "in_session booted_drv" "request_ok (replicate 4 0)" "next_ctx_id (drv_npu booted_drv) \<noteq> -1"
  "opcode_of (opcode_val MSG_OP_SUSPEND) \<noteq> Some MSG_OP_REGISTER_ASYNC_EVENT_MSG"
  "call_spec booted_drv (opcode_val MSG_OP_SUSPEND) (replicate 4 0) =
    ((mert_abs (drv_npu booted_drv))\<lparr>m_susp := True\<rparr>, Status AIE2_STATUS_SUCCESS)"
  "resp_size_for (opcode_val MSG_OP_SUSPEND) = (4, 0)"
  "answer_bytes (opcode_val MSG_OP_SUSPEND) (Status AIE2_STATUS_SUCCESS) = Some [0, 0, 0, 0]"
proof -
  show size: "resp_size_for (opcode_val MSG_OP_SUSPEND) = (4, 0)"
    by (simp add: resp_size_for_def sizeof_StatusOnlyResp_def del: opcode_val.simps)
  show "answer_bytes (opcode_val MSG_OP_SUSPEND) (Status AIE2_STATUS_SUCCESS) = Some [0, 0, 0, 0]"
    using size by (simp add: answer_bytes_def status_reply_bytes_def byte_eval del: opcode_val.simps)
  show "call_spec booted_drv (opcode_val MSG_OP_SUSPEND) (replicate 4 0) =
    ((mert_abs (drv_npu booted_drv))\<lparr>m_susp := True\<rparr>, Status AIE2_STATUS_SUCCESS)"
    by (simp add: call_spec_def mert_request_of_def call_header_def request_header_def del: opcode_val.simps)
qed (use test_session test_session_next in \<open>simp_all add: booted_drv_def request_ok_def del: opcode_val.simps\<close>)

lemma recv_is_dequeue_witness:
  "\<exists>d'. mbox_recv (called booted_drv (opcode_val MSG_OP_SUSPEND) (replicate 4 0)) (call_id booted_drv) 4 =
      Some (0, Some [0, 0, 0, 0], d') \<and> replies d' []"
proof -
  let ?e = "called booted_drv (opcode_val MSG_OP_SUSPEND) (replicate 4 0)"
  have "replies ?e [(reply_header (call_id booted_drv) (opcode_val MSG_OP_SUSPEND) [0, 0, 0, 0], [0, 0, 0, 0])]"
    using suspend_call by (intro rung_replies(9)) (simp_all del: opcode_val.simps)
  from recv_is_dequeue [OF this] show ?thesis
    by auto
qed

lemma driver_call_witness:
  "\<exists>d'. mbox_send_recv booted_drv (opcode_val MSG_OP_SUSPEND) (replicate 4 0) 4 4 =
      Some (0, Some [0, 0, 0, 0], d') \<and> fw_suspended (drv_npu d') \<and> in_session d'"
proof -
  let ?susp = "opcode_val MSG_OP_SUSPEND"
  obtain bs d' where "answer_bytes ?susp (snd (call_spec booted_drv ?susp (replicate 4 0))) = Some bs"
    and call: "mbox_send_recv booted_drv ?susp (replicate 4 0) 4 4 = Some (0, Some bs, d')"
    and d': "mert_abs (drv_npu d') = fst (call_spec booted_drv ?susp (replicate 4 0))" "in_session d'"
    using driver_call [OF suspend_call(1-4)] by (auto simp: suspend_call(6) simp del: opcode_val.simps)
  moreover have "fw_suspended (drv_npu d')"
    using arg_cong [OF d'(1) [unfolded suspend_call(5)], of m_susp] by (simp add: mert_abs_def)
  ultimately show ?thesis
    by (simp add: suspend_call(5,7) del: opcode_val.simps)
qed

end
