(* ===== verification/Xdna_Session.thy ===== *)
theory Xdna_Session
  imports Xdna_Call
begin

text \<open>
  Sessions: any number of driver calls in a row.  \<open>run_calls\<close> makes the calls one after the
  other as the boot test does, \<open>spec_calls\<close> is the same sequence on the abstract state of the
  firmware.  The rings wrap as often as they need to.
\<close>

type_synonym call = "u32 \<times> u8 list"

fun run_calls :: "call list \<Rightarrow> Drv \<Rightarrow> (u8 list option list \<times> Drv) option" where
  "run_calls [] d = Some ([], d)"
| "run_calls ((opc, req) # cs) d = do {
     (rc, resp, d) \<leftarrow> mbox_send_recv d opc req (word_of_nat (length req))
                       (word_of_nat (fst (resp_size_for opc)));
     (resps, d) \<leftarrow> run_calls cs d;
     Some ((if rc = 0 then resp else None) # resps, d)
   }"

definition request_of :: "call \<Rightarrow> mert_request" where
  "request_of c = mert_request_of (request_header 0 (fst c) (word_of_nat (length (snd c)))) (snd c)"

definition dump_of :: "call \<Rightarrow> (u32 \<times> bool) option" where
  "dump_of c = dump_result test_npu (snd c)"

definition spec_step :: "mstate \<Rightarrow> call \<Rightarrow> mstate" where
  "spec_step m c = fst (mert_spec m (dump_of c) (request_of c))"

definition spec_answer :: "mstate \<Rightarrow> call \<Rightarrow> u8 list option" where
  "spec_answer m c = answer_bytes (fst c) (snd (mert_spec m (dump_of c) (request_of c)))"

fun spec_calls :: "call list \<Rightarrow> mstate \<Rightarrow> u8 list option list \<times> mstate" where
  "spec_calls [] m = ([], m)"
| "spec_calls (c # cs) m =
     (spec_answer m c # fst (spec_calls cs (spec_step m c)), snd (spec_calls cs (spec_step m c)))"

lemma spec_calls_append:
  "spec_calls (cs @ ds) m =
    (fst (spec_calls cs m) @ fst (spec_calls ds (snd (spec_calls cs m))),
     snd (spec_calls ds (snd (spec_calls cs m))))"
  by (induction cs arbitrary: m) simp_all

definition call_ok :: "call \<Rightarrow> bool" where
  "call_ok c \<longleftrightarrow> request_ok (snd c) \<and>
     opcode_of (fst c) \<noteq> Some MSG_OP_REGISTER_ASYNC_EVENT_MSG"

lemma mert_request_cong:
  assumes "total_size h = total_size h'" and "opcode h = opcode h'"
  shows "mert_request_of h = mert_request_of h'"
proof -
  have sized: "sized h = sized h'"
    using assms(1) by (intro ext) (simp add: sized_def)
  show ?thesis
    unfolding mert_request_of_def [abs_def] assms(2) sized by (rule refl)
qed

lemma call_spec_step:
  assumes "ops (drv_npu d) = test_ops"
  shows "call_spec d opc req = mert_spec (mert_abs (drv_npu d)) (dump_of (opc, req)) (request_of (opc, req))"
proof -
  have "mert_request_of (call_header d opc req) req = request_of (opc, req)"
    using mert_request_cong [of "call_header d opc req" "request_header 0 opc (word_of_nat (length req))"]
    by (simp add: request_of_def call_header_def request_header_def)
  moreover have "dump_result (drv_npu d) req = dump_of (opc, req)"
    using dump_result_same [of test_npu "drv_npu d" req] assms by (simp add: dump_of_def)
  ultimately show ?thesis
    by (simp add: call_spec_def)
qed

lemma session_call:
  assumes d: "in_session d" and ok: "call_ok (opc, req)" and next_id: "next_ctx_id (drv_npu d) \<noteq> -1"
  obtains bs d' where "spec_answer (mert_abs (drv_npu d)) (opc, req) = Some bs"
    and "mbox_send_recv d opc req (word_of_nat (length req)) (word_of_nat (fst (resp_size_for opc))) =
      Some (0, Some bs, d')"
    and "in_session d'" and "mert_abs (drv_npu d') = spec_step (mert_abs (drv_npu d)) (opc, req)"
    and "g_failures d' = g_failures d"
proof -
  have "ops (drv_npu d) = test_ops"
    using d by (simp add: in_session_def)
  note spec = call_spec_step [OF this, of opc req]
  have "request_ok req" "opcode_of opc \<noteq> Some MSG_OP_REGISTER_ASYNC_EVENT_MSG"
    using ok by (simp_all add: call_ok_def)
  then obtain bs d' where "answer_bytes opc (snd (call_spec d opc req)) = Some bs"
    "mbox_send_recv d opc req (word_of_nat (length req)) (word_of_nat (fst (resp_size_for opc))) =
      Some (0, Some bs, d')"
    "in_session d'" "mert_abs (drv_npu d') = fst (call_spec d opc req)" "g_failures d' = g_failures d"
    by (rule call_step [OF d _ next_id])
  then show thesis
    by (intro that [of bs d']) (simp_all add: spec spec_answer_def spec_step_def)
qed

lemma step_next: "m_next (spec_step m c) = m_next m \<or> m_next (spec_step m c) = m_next m + 1"
  unfolding spec_step_def by (rule spec_next)

lemma session_run:
  assumes "in_session d" and "list_all call_ok cs"
    and "unat (next_ctx_id (drv_npu d)) + length cs < 2 ^ 32"
  shows "\<exists>d'. run_calls cs d = Some (fst (spec_calls cs (mert_abs (drv_npu d))), d') \<and>
    in_session d' \<and> mert_abs (drv_npu d') = snd (spec_calls cs (mert_abs (drv_npu d))) \<and>
    g_failures d' = g_failures d"
  using assms
proof (induction cs arbitrary: d)
  case (Cons c cs)
  obtain opc req where c: "c = (opc, req)" by (cases c)
  have room: "next_ctx_id (drv_npu d) \<noteq> -1"
    using Cons.prems(3) by (auto simp: unsigned_minus_1_eq_mask mask_eq_exp_minus_1)
  have ok: "call_ok (opc, req)" "list_all call_ok cs"
    using Cons.prems(2) by (simp_all add: c)
  obtain bs d' where d': "spec_answer (mert_abs (drv_npu d)) (opc, req) = Some bs"
    "mbox_send_recv d opc req (word_of_nat (length req)) (word_of_nat (fst (resp_size_for opc))) =
      Some (0, Some bs, d')"
    "in_session d'" "mert_abs (drv_npu d') = spec_step (mert_abs (drv_npu d)) (opc, req)"
    "g_failures d' = g_failures d"
    by (rule session_call [OF Cons.prems(1) ok(1) room])
  have "next_ctx_id (drv_npu d') = next_ctx_id (drv_npu d) \<or>
      next_ctx_id (drv_npu d') = next_ctx_id (drv_npu d) + 1"
    using step_next [of "mert_abs (drv_npu d)" "(opc, req)"] d'(4) by (metis abs_next)
  then have "unat (next_ctx_id (drv_npu d')) + length cs < 2 ^ 32"
    using Cons.prems(3) next_id [OF room] by auto
  from Cons.IH [OF d'(3) ok(2) this] d' show ?case
    by (auto simp: c)
qed simp

text \<open>C3: Sessions of any length.  From any point of a session, any list of calls (with requests of whole
  words, not empty and at most 1024 bytes, async registrations excepted, and fewer than 2^32
  contexts ever created) runs to its end: every call returns, succeeds with all of its checks,
  and gives the answer the specification gives at that point, however often the two rings wrap.\<close>

lemma session_runs:
  assumes "in_session d" and "list_all call_ok cs"
    and "unat (next_ctx_id (drv_npu d)) + length cs < 2 ^ 32"
  shows "\<exists>d'. run_calls cs d = Some (fst (spec_calls cs (mert_abs (drv_npu d))), d') \<and>
    in_session d' \<and> mert_abs (drv_npu d') = snd (spec_calls cs (mert_abs (drv_npu d))) \<and>
    g_failures d' = g_failures d"
  using assms by (rule session_run)

text \<open>The wrap test of \<open>tests/test_boot.c\<close>: 300 firmware version queries.\<close>

definition version_call :: call where
  "version_call = (opcode_val MSG_OP_GET_FIRMWARE_VERSION, replicate 4 0)"

lemma version_step:
  "spec_step m version_call = m"
  "spec_answer m version_call = Some (FirmwareVersionResp_bytes
    \<lparr>fvr_status = 0, fvr_major = XDNA_FW_VER_MAJOR, fvr_minor = XDNA_FW_VER_MINOR,
     fvr_sub = XDNA_FW_VER_SUB, fvr_build = XDNA_FW_VER_BUILD\<rparr>)"
  by (simp_all add: spec_step_def spec_answer_def request_of_def version_call_def
      mert_request_of_def request_header_def answer_bytes_def del: opcode_val.simps)

lemma version_calls:
  "spec_calls (replicate n version_call) m = (replicate n (spec_answer m version_call), m)"
  by (induction n) (simp_all add: version_step)

lemma session_runs_witness:
  "\<exists>d'. run_calls (replicate 300 version_call) (connected test_drv (started test_npu)) =
    Some (replicate 300 (Some (FirmwareVersionResp_bytes
      \<lparr>fvr_status = 0, fvr_major = XDNA_FW_VER_MAJOR, fvr_minor = XDNA_FW_VER_MINOR,
       fvr_sub = XDNA_FW_VER_SUB, fvr_build = XDNA_FW_VER_BUILD\<rparr>)), d') \<and> in_session d'"
proof -
  have "call_ok version_call"
    by (simp add: call_ok_def request_ok_def version_call_def del: opcode_val.simps)
  then have "list_all call_ok (replicate 300 version_call)"
    by (simp add: list_all_iff)
  with session_runs [OF test_session this] test_session_next show ?thesis
    unfolding version_calls version_step by auto
qed

end
