(* ===== verification/Xdna_Limit.thy ===== *)
theory Xdna_Limit
  imports Xdna_Session
begin

text \<open>
  The context limit, as the boot test exercises it, for any request and any session that has
  no context: six contexts can be created, the seventh creation is refused, and the six can be
  destroyed again.
\<close>

definition create_call :: "CreateCtxReq \<Rightarrow> call" where
  "create_call req = (opcode_val MSG_OP_CREATE_CONTEXT, CreateCtxReq_bytes req)"

definition destroy_call :: "u32 \<Rightarrow> call" where
  "destroy_call cid = (opcode_val MSG_OP_DESTROY_CONTEXT, DestroyCtxReq_bytes \<lparr>dcq_context_id = cid\<rparr>)"

lemma context_requests:
  "request_of (create_call req) = Rq_create req"
  "request_of (destroy_call cid) = Rq_destroy cid"
  by (simp_all add: request_of_def create_call_def destroy_call_def mert_request_of_def
      request_header_def sized_def ccq.dec_enc_alone DestroyCtxReq_bytes_def field_at_def
      le_word_le_bytes take_bit_word_eq_self del: opcode_val.simps)

lemma context_calls_ok: "call_ok (create_call req)" "call_ok (destroy_call cid)"
  by (simp_all add: call_ok_def request_ok_def create_call_def destroy_call_def
      DestroyCtxReq_bytes_def flip: length_0_conv del: opcode_val.simps)

subsection \<open>Sequences of calls\<close>

lemma spec_calls_snoc:
  assumes "spec_calls cs m = (as, m')"
  shows "spec_calls (cs @ [c]) m = (as @ [spec_answer m' c], spec_step m' c)"
  using assms by (simp add: spec_calls_append)

subsection \<open>The table of the first contexts\<close>

primrec first_ctxs :: "u32 \<Rightarrow> CreateCtxReq \<Rightarrow> nat \<Rightarrow> u32 \<rightharpoonup> xdna_context" where
  "first_ctxs n req 0 = Map.empty"
| "first_ctxs n req (Suc k) =
     (first_ctxs n req k)(n + word_of_nat k \<mapsto> new_context (n + word_of_nat k) (Suc k) req)"

lemma first_ids: "i < 7 \<Longrightarrow> j < 7 \<Longrightarrow> (word_of_nat i :: u32) = word_of_nat j \<longleftrightarrow> i = j"
  by (simp add: word_unat_eq_iff unat_of_nat)

lemma first_lookup:
  "k < 7 \<Longrightarrow> j < 7 \<Longrightarrow> first_ctxs n req k (n + word_of_nat j) =
    (if j < k then Some (new_context (n + word_of_nat j) (Suc j) req) else None)"
  by (induction k) (auto simp: first_ids less_Suc_eq)

lemma first_dom: "first_ctxs n req k c = Some x \<Longrightarrow> \<exists>j < k. c = n + word_of_nat j"
  by (induction k) (auto split: if_splits intro: less_SucI)

lemma first_ran: "k < 7 \<Longrightarrow> ctx_chan ` ran (first_ctxs n req k) = {1..k}"
proof (induction k)
  case (Suc k)
  then have "first_ctxs n req k (n + word_of_nat k) = None"
    by (simp add: first_lookup)
  from ran_map_upd [of "first_ctxs n req k", OF this] have "ctx_chan ` ran (first_ctxs n req (Suc k)) =
      insert (Suc k) (ctx_chan ` ran (first_ctxs n req k))"
    by (simp only: first_ctxs.simps image_insert) (simp add: new_context_def)
  also have "\<dots> = {1..Suc k}"
    using Suc by auto
  finally show ?case .
qed simp

lemma first_free:
  assumes "k < 7"
  shows "free_chan (first_ctxs n req k) = (if k < 6 then Some (Suc k) else None)"
proof -
  have "(\<forall>c \<in> ran (first_ctxs n req k). ctx_chan c \<noteq> j) \<longleftrightarrow> j \<notin> ctx_chan ` ran (first_ctxs n req k)" for j
    by blast
  then have "free_chan (first_ctxs n req k) = find (\<lambda>j. j \<notin> {1..k}) [1..<7]"
    unfolding free_chan_def first_ran [OF assms] by (simp add: XDNA_NPU1_HWCTX_LIMIT_def)
  also have "[1..<7] = [1, 2, 3, 4, 5, 6]"
    by (simp add: upt_conv_Cons)
  finally show ?thesis
    using assms by auto
qed

subsection \<open>Filling and emptying the table\<close>

definition columns_ok :: "CreateCtxReq \<Rightarrow> bool" where
  "columns_ok req \<longleftrightarrow> ccq_num_col req \<noteq> 0 \<and> ucast (ccq_num_col req) \<le> XDNA_AIE_COLS"

definition filled :: "mstate \<Rightarrow> CreateCtxReq \<Rightarrow> nat \<Rightarrow> mstate" where
  "filled m req k = m\<lparr>m_ctx := first_ctxs (m_next m) req k, m_next := m_next m + word_of_nat k\<rparr>"

lemma call_opcodes:
  "fst (create_call req) = opcode_val MSG_OP_CREATE_CONTEXT"
  "fst (destroy_call cid) = opcode_val MSG_OP_DESTROY_CONTEXT"
  by (simp_all add: create_call_def destroy_call_def del: opcode_val.simps)

lemma create_step:
  assumes "columns_ok req" and "k < 6"
  shows "spec_step (filled m req k) (create_call req) = filled m req (Suc k)"
    and "spec_answer (filled m req k) (create_call req) =
      Some (CreateCtxResp_bytes (ctx_announcement (m_next m + word_of_nat k) (Suc k)))"
proof -
  have "\<not> XDNA_AIE_COLS < ucast (ccq_num_col req)" "ccq_num_col req \<noteq> 0"
    using assms(1) by (simp_all add: columns_ok_def not_less)
  moreover have "free_chan (first_ctxs (m_next m) req k) = Some (Suc k)"
    using assms(2) by (simp add: first_free)
  ultimately show "spec_step (filled m req k) (create_call req) = filled m req (Suc k)"
    "spec_answer (filled m req k) (create_call req) =
      Some (CreateCtxResp_bytes (ctx_announcement (m_next m + word_of_nat k) (Suc k)))"
    by (simp_all add: spec_step_def spec_answer_def context_requests filled_def answer_bytes_def
        add.assoc add.commute)
qed

lemma create_refused:
  "spec_step (filled m req 6) (create_call req) = filled m req 6"
  "spec_answer (filled m req 6) (create_call req) =
    Some (status_reply_bytes (opcode_val MSG_OP_CREATE_CONTEXT) AIE2_STATUS_MGMT_ERT_NOAVAIL)"
  using first_free [of 6 "m_next m" req]
  by (simp_all add: spec_step_def spec_answer_def context_requests filled_def answer_bytes_def
      call_opcodes del: opcode_val.simps first_ctxs.simps)

definition creation_answers :: "u32 \<Rightarrow> nat \<Rightarrow> u8 list option list" where
  "creation_answers n k =
     map (\<lambda>i. Some (CreateCtxResp_bytes (ctx_announcement (n + word_of_nat i) (i + 1)))) [0..<k]"

lemma create_calls:
  assumes "columns_ok req" and "m_ctx m = Map.empty"
  shows "k \<le> 6 \<Longrightarrow> spec_calls (replicate k (create_call req)) m = (creation_answers (m_next m) k, filled m req k)"
proof (induction k)
  case 0
  then show ?case
    using assms(2) by (simp add: creation_answers_def filled_def)
next
  case (Suc k)
  then have k: "k < 6" "spec_calls (replicate k (create_call req)) m = (creation_answers (m_next m) k, filled m req k)"
    by simp_all
  then show ?case
    using spec_calls_snoc [OF k(2)] create_step [OF assms(1) k(1)]
    by (simp add: replicate_append_same flip: replicate_append_same) (simp add: creation_answers_def)
qed

definition emptied :: "mstate \<Rightarrow> CreateCtxReq \<Rightarrow> nat \<Rightarrow> mstate" where
  "emptied m req j = (filled m req 6)\<lparr>m_ctx :=
     (\<lambda>c. if \<exists>i < j. c = m_next m + word_of_nat i then None else first_ctxs (m_next m) req 6 c)\<rparr>"

lemma destroy_step:
  assumes "j < 6"
  shows "spec_step (emptied m req j) (destroy_call (m_next m + word_of_nat j)) = emptied m req (Suc j)"
    and "spec_answer (emptied m req j) (destroy_call (m_next m + word_of_nat j)) =
      Some (status_reply_bytes (opcode_val MSG_OP_DESTROY_CONTEXT) AIE2_STATUS_SUCCESS)"
proof -
  have "\<not> (\<exists>i < j. (word_of_nat j :: u32) = word_of_nat i)"
    using assms by (auto simp: first_ids)
  then have here: "m_ctx (emptied m req j) (m_next m + word_of_nat j) =
      Some (new_context (m_next m + word_of_nat j) (Suc j) req)"
    using assms first_lookup [of 6 j "m_next m" req] by (simp add: emptied_def del: first_ctxs.simps)
  have "(m_ctx (emptied m req j))(m_next m + word_of_nat j := None) = m_ctx (emptied m req (Suc j))"
    by (rule ext) (auto simp: emptied_def less_Suc_eq)
  then have "(emptied m req j)\<lparr>m_ctx := (m_ctx (emptied m req j))(m_next m + word_of_nat j := None)\<rparr> =
      emptied m req (Suc j)"
    by (simp add: emptied_def)
  with here show "spec_step (emptied m req j) (destroy_call (m_next m + word_of_nat j)) = emptied m req (Suc j)"
    "spec_answer (emptied m req j) (destroy_call (m_next m + word_of_nat j)) =
      Some (status_reply_bytes (opcode_val MSG_OP_DESTROY_CONTEXT) AIE2_STATUS_SUCCESS)"
    by (simp_all add: spec_step_def spec_answer_def context_requests answer_bytes_def call_opcodes
        del: opcode_val.simps)
qed

lemma destroy_calls:
  "j \<le> 6 \<Longrightarrow> spec_calls (map (\<lambda>i. destroy_call (m_next m + word_of_nat i)) [0..<j]) (filled m req 6) =
    (replicate j (Some (status_reply_bytes (opcode_val MSG_OP_DESTROY_CONTEXT) AIE2_STATUS_SUCCESS)),
     emptied m req j)"
proof (induction j)
  case 0
  then show ?case by (simp add: emptied_def filled_def)
next
  case (Suc j)
  then have j: "j < 6" "spec_calls (map (\<lambda>i. destroy_call (m_next m + word_of_nat i)) [0..<j]) (filled m req 6) =
    (replicate j (Some (status_reply_bytes (opcode_val MSG_OP_DESTROY_CONTEXT) AIE2_STATUS_SUCCESS)),
     emptied m req j)"
    by simp_all
  then show ?case
    using spec_calls_snoc [OF j(2), of "destroy_call (m_next m + word_of_nat j)"] destroy_step [OF j(1)]
    by (simp add: replicate_append_same)
qed

lemma emptied_all: "emptied m req 6 = m\<lparr>m_ctx := Map.empty, m_next := m_next m + 6\<rparr>"
proof -
  have "m_ctx (emptied m req 6) = Map.empty"
  proof (rule ext)
    fix c
    show "m_ctx (emptied m req 6) c = None"
      using first_dom [of "m_next m" req 6 c]
      by (cases "first_ctxs (m_next m) req 6 c") (auto simp: emptied_def simp del: first_ctxs.simps)
  qed
  then show ?thesis
    by (simp add: emptied_def filled_def)
qed

definition limit_calls :: "u32 \<Rightarrow> CreateCtxReq \<Rightarrow> call list" where
  "limit_calls n req = replicate 7 (create_call req) @
     map (\<lambda>i. destroy_call (n + word_of_nat i)) [0..<6]"

definition limit_answers :: "u32 \<Rightarrow> u8 list option list" where
  "limit_answers n = creation_answers n 6 @
     [Some (status_reply_bytes (opcode_val MSG_OP_CREATE_CONTEXT) AIE2_STATUS_MGMT_ERT_NOAVAIL)] @
     replicate 6 (Some (status_reply_bytes (opcode_val MSG_OP_DESTROY_CONTEXT) AIE2_STATUS_SUCCESS))"

lemma limit_spec:
  assumes "columns_ok req" and "m_ctx m = Map.empty"
  shows "spec_calls (limit_calls (m_next m) req) m =
    (limit_answers (m_next m), m\<lparr>m_ctx := Map.empty, m_next := m_next m + 6\<rparr>)"
proof -
  have "replicate 7 (create_call req) = replicate 6 (create_call req) @ [create_call req]"
    by (simp add: replicate_append_same flip: replicate_Suc)
  then show ?thesis
    by (simp add: limit_calls_def limit_answers_def spec_calls_append create_calls [OF assms]
        create_refused destroy_calls emptied_all del: replicate.simps)
qed

text \<open>C16: The context limit.  In any session of the driver with a firmware that has no context,
  creating a context with between one and five columns works six times, giving the next six ids
  and the rings and interrupt vectors of channels 1 to 6 in this order; the seventh creation is
  refused as not available; the six ids can then be destroyed, after which no context is left
  and the next id is six further.  All thirteen calls return and all of the driver's checks
  succeed.\<close>

lemma context_limit:
  assumes "in_session d" and "m_ctx (mert_abs (drv_npu d)) = Map.empty" and "columns_ok req"
    and "unat (next_ctx_id (drv_npu d)) + 13 < 2 ^ 32"
  shows "\<exists>d'. run_calls (limit_calls (next_ctx_id (drv_npu d)) req) d =
      Some (limit_answers (next_ctx_id (drv_npu d)), d') \<and>
    m_ctx (mert_abs (drv_npu d')) = Map.empty \<and>
    next_ctx_id (drv_npu d') = next_ctx_id (drv_npu d) + 6 \<and>
    in_session d' \<and> g_failures d' = g_failures d"
proof -
  let ?cs = "limit_calls (next_ctx_id (drv_npu d)) req"
  have "list_all call_ok ?cs" "length ?cs = 13"
    by (auto simp: limit_calls_def list_all_iff context_calls_ok)
  with session_run [OF assms(1) this(1)] limit_spec [OF assms(3,2)] assms(4)
  obtain d' where "run_calls ?cs d = Some (limit_answers (next_ctx_id (drv_npu d)), d')"
    "mert_abs (drv_npu d') = (mert_abs (drv_npu d))\<lparr>m_ctx := Map.empty, m_next := next_ctx_id (drv_npu d) + 6\<rparr>"
    "in_session d'" "g_failures d' = g_failures d"
    by (auto simp: abs_next)
  moreover from this(2) have "next_ctx_id (drv_npu d') = next_ctx_id (drv_npu d) + 6"
    by (metis abs_next mstate.select_convs(2) mstate.surjective mstate.update_convs(2))
  ultimately show ?thesis
    by auto
qed

definition test_ctx_req :: CreateCtxReq where
  "test_ctx_req = CreateCtxReq_of ([1, 0, 0, 0, 0, 1, 0, 0, 1] @ replicate 15 0 @ [3, 0, 0, 0])"

lemma test_context:
  "columns_ok test_ctx_req" "ctx_map (drv_npu booted_drv) = Map.empty" "next_ctx_id (drv_npu booted_drv) = 1"
proof -
  show "columns_ok test_ctx_req"
    by (simp add: columns_ok_def test_ctx_req_def CreateCtxReq_of_def field_at_def XDNA_AIE_COLS_def byte_eval)
  have "ctx_map test_npu = Map.empty"
    by (rule ext) (simp add: ctx_map_def ctx_by_id_def test_npu_def reset_fields zero_context_def find_None_iff)
  then show "ctx_map (drv_npu booted_drv) = Map.empty"
    using started_keeps(4) [OF bounds_new [OF test_npu_new]] by (simp add: booted_drv_def connected_def)
  show "next_ctx_id (drv_npu booted_drv) = 1"
    using test_session_next by (simp add: booted_drv_def)
qed

lemma context_limit_witness:
  "\<exists>d'. run_calls (limit_calls 1 test_ctx_req) booted_drv = Some (limit_answers 1, d') \<and> in_session d'"
  using context_limit [OF suspend_call(1), of test_ctx_req] test_context by (auto simp: mert_abs_def)

end
