(* ===== verification/Xdna_Scenario.thy ===== *)
theory Xdna_Scenario
  imports Xdna_Limit
begin

text \<open>
  The scenarios of the boot test (\<open>tests/test_boot.c\<close>): the boot path of the driver with its
  checks, the error paths and the second boot, and \<open>main\<close>, whose exit status says whether a
  check failed.  The steps of \<open>test_boot\<close> are one definition each, in the order of the C
  function.  The two counters of the test are fields of the driver (see \<open>Xdna_Driver\<close>), what
  it prints is left out.  Its structures have the layout of the device's (\<open>Xdna_Wire\<close>), so
  their readers are used for the responses.  A response variable of the C function holds
  whatever it held before when a call brings no reply; \<open>junk\<close> is what the uninitialised ones
  hold at the start.
\<close>

subsection \<open>A call with its check\<close>

definition response :: "u8 list \<Rightarrow> u8 list option \<Rightarrow> u8 list" where
  "response old resp = (case resp of None \<Rightarrow> old | Some bs \<Rightarrow> bs)"

text \<open>\<open>CHECK(mbox_send_recv(d, opc, &req, sizeof(req), &buf, sizeof(buf)) == 0, ...)\<close>.\<close>

definition send_check ::
  "u32 \<Rightarrow> u8 list \<Rightarrow> nat \<Rightarrow> u8 list \<Rightarrow> Drv \<Rightarrow> (u8 list \<times> Drv) option" where
  "send_check opc req sz buf d = do {
     (rc, resp, d) \<leftarrow> mbox_send_recv d opc req (word_of_nat (length req)) (word_of_nat sz);
     Some (response buf resp, drv_check (rc = 0) d)
   }"

text \<open>The same for a call whose reply is a status, followed by the check of the status.\<close>

definition status_of :: "u8 list \<Rightarrow> u32" where
  "status_of st = sor_status (StatusOnlyResp_of st)"

definition send_status ::
  "u32 \<Rightarrow> u8 list \<Rightarrow> u8 list \<Rightarrow> Drv \<Rightarrow> (u8 list \<times> Drv) option" where
  "send_status opc req st d = do {
     (st, d) \<leftarrow> send_check opc req sizeof_StatusOnlyResp st d;
     Some (st, drv_check (status_of st = 0) d)
   }"

text \<open>\<open>CHECK(smu_exec(d, cmd, arg, NULL) == 0, ...)\<close>, or \<open>!= 0\<close>.\<close>

definition smu_check :: "u32 \<Rightarrow> u32 \<Rightarrow> bool \<Rightarrow> Drv \<Rightarrow> Drv option" where
  "smu_check cmd arg good d = do {
     (rc, out, d) \<leftarrow> smu_exec d cmd arg False;
     Some (drv_check ((rc = 0) = good) d)
   }"

text \<open>\<open>CHECK(smu_exec(d, cmd, clk, &clk) == 0, ...)\<close> and the check that the clock reads back.\<close>

definition clock_check :: "u32 \<Rightarrow> u32 \<Rightarrow> Drv \<Rightarrow> Drv option" where
  "clock_check cmd clk d = do {
     (rc, out, d) \<leftarrow> smu_exec d cmd clk True;
     let read_back = (case out of None \<Rightarrow> clk | Some v \<Rightarrow> v);
     Some (drv_check (read_back = clk) (drv_check (rc = 0) d))
   }"

definition psp_check :: "u32 \<Rightarrow> u32 \<Rightarrow> u32 \<Rightarrow> u32 \<Rightarrow> bool \<Rightarrow> Drv \<Rightarrow> Drv option" where
  "psp_check cmd arg0 arg1 arg2 good d = do {
     (rc, d) \<leftarrow> psp_exec d cmd arg0 arg1 arg2;
     Some (drv_check ((rc = 0) = good) d)
   }"

text \<open>\<open>CHECK(drv_hw_start(d) == 0, ...)\<close>.\<close>

definition start_check :: "Drv \<Rightarrow> Drv option" where
  "start_check d = do { (rc, d) \<leftarrow> drv_hw_start d; Some (drv_check (rc = 0) d) }"

text \<open>\<open>CHECK_EQ(rd32(d, XDNA_BAR_SRAM, XDNA_SRAM_FW_ALIVE_OFF), 0, ...)\<close>.\<close>

definition alive_check :: "Drv \<Rightarrow> Drv option" where
  "alive_check d = do {
     (v, d) \<leftarrow> rd32 d XDNA_BAR_SRAM XDNA_SRAM_FW_ALIVE_OFF;
     Some (drv_check (v = 0) d)
   }"

subsection \<open>The steps of the boot scenario\<close>

definition step_channel :: "Drv \<Rightarrow> Drv option" where
  "step_channel d0 = do {
     let d = drv_check (prot_major d0 = XDNA_MGMT_PROT_MAJOR) d0;
     let d = drv_check (prot_minor d \<ge> 7) d;
     let d = drv_check (rb_size (x2i_res d) = XDNA_SRAM_MGMT_RB_SIZE) d;
     let d = drv_check (intr_reg d = head_reg (i2x_res d) + 4) d;
     (v, d) \<leftarrow> rd32 d XDNA_BAR_PSP XDNA_PSP_PWAITMODE_REG;
     Some (drv_check (v AND 1 = 1) d)
   }"

definition step_runtime_config :: "u8 list \<Rightarrow> Drv \<Rightarrow> (u8 list \<times> Drv) option" where
  "step_runtime_config st d = do {
     (st, d) \<leftarrow> send_status (opcode_val MSG_OP_SET_RUNTIME_CONFIG)
       (SetRuntimeCfgReq_bytes \<lparr>src_type = 2, src_value = 1\<rparr>) st d;
     send_status (opcode_val MSG_OP_SET_RUNTIME_CONFIG)
       (SetRuntimeCfgReq_bytes \<lparr>src_type = 4, src_value = 1\<rparr>) st d
   }"

definition step_pasid :: "u8 list \<Rightarrow> Drv \<Rightarrow> (u8 list \<times> Drv) option" where
  "step_pasid st d = send_status (opcode_val MSG_OP_ASSIGN_MGMT_PASID)
     (AssignPasidReq_bytes \<lparr>apr_pasid = 0, apr_reserved = 0\<rparr>) st d"

definition step_suspend :: "u8 list \<Rightarrow> Drv \<Rightarrow> (u8 list \<times> Drv) option" where
  "step_suspend st d = do {
     (st, d) \<leftarrow> send_status (opcode_val MSG_OP_SUSPEND) (le_bytes 4 (0 :: u32)) st d;
     send_status (opcode_val MSG_OP_RESUME) (le_bytes 4 (0 :: u32)) st d
   }"

text \<open>The response variables that later steps read again are results; the others end here.\<close>

definition step_query :: "u8 list \<Rightarrow> Drv \<Rightarrow> (u8 list \<times> Drv) option" where
  "step_query junk d = do {
     let rsv = le_bytes 4 (0 :: u32);
     (fw, d) \<leftarrow> send_check (opcode_val MSG_OP_GET_FIRMWARE_VERSION) rsv sizeof_FirmwareVersionResp junk d;
     let d = drv_check (fvr_status (FirmwareVersionResp_of fw) = 0) d;
     let d = drv_check (fvr_major (FirmwareVersionResp_of fw) = XDNA_FW_VER_MAJOR) d;
     (av, d) \<leftarrow> send_check (opcode_val MSG_OP_QUERY_AIE_VERSION) rsv sizeof_AieVersionResp junk d;
     let d = drv_check (avr_status (AieVersionResp_of av) = 0) d;
     (ti, d) \<leftarrow> send_check (opcode_val MSG_OP_QUERY_AIE_TILE_INFO) rsv sizeof_AieTileInfoResp junk d;
     let ti = AieTileInfoResp_of ti;
     let d = drv_check (atr_status ti = 0) d;
     let d = drv_check (ati_cols (atr_info ti) = ucast XDNA_AIE_COLS) d;
     let d = drv_check (ati_rows (atr_info ti) = ucast XDNA_AIE_ROWS) d;
     let d = drv_check (ati_core_rows (atr_info ti) = ucast XDNA_AIE_CORE_ROWS) d;
     Some (fw, d)
   }"

definition step_clocks :: "Drv \<Rightarrow> Drv option" where
  "step_clocks d = do {
     d \<leftarrow> clock_check AIE_SMU_SET_MPNPUCLK_FREQ 400 d;
     d \<leftarrow> clock_check AIE_SMU_SET_HCLK_FREQ 800 d;
     d \<leftarrow> smu_check AIE_SMU_SET_HARD_DPMLEVEL 7 True d;
     d \<leftarrow> smu_check AIE_SMU_SET_SOFT_DPMLEVEL 7 True d;
     smu_check AIE_SMU_SET_HARD_DPMLEVEL 99 False d
   }"

definition context_req :: CreateCtxReq where
  "context_req =
     \<lparr>ccq_aie_type = 1, ccq_start_col = 0, ccq_num_col = 4, ccq_num_unused_col = 0,
      ccq_reserved = 0, ccq_num_cq_pairs_requested = 1, ccq_reserved1 = 0, ccq_pasid = 13,
      ccq_pad0 = 0, ccq_pad1 = 0, ccq_sec_comm_target_type = 0, ccq_context_priority = 3\<rparr>"

definition step_context :: "u8 list \<Rightarrow> u8 list \<Rightarrow> Drv \<Rightarrow> (u8 list \<times> u8 list \<times> Drv) option" where
  "step_context cctx st d = do {
     (cctx, d) \<leftarrow> send_check (opcode_val MSG_OP_CREATE_CONTEXT) (CreateCtxReq_bytes context_req)
       sizeof_CreateCtxResp cctx d;
     let c = CreateCtxResp_of cctx;
     let d = drv_check (ccr_status c = 0) d;
     let d = drv_check (ccr_context_id c \<noteq> 0) d;
     let d = drv_check (ccr_num_cq_pairs_allocated c = 1) d;
     let d = drv_check (unat (ccr_msix_id c) \<noteq> XDNA_MGMT_MSIX_VECTOR) d;
     let d = drv_check (cqi_head_addr (cqp_i2x_q (ccr_cq_pair0 c)) + 4 =
       MPNPU_APERTURE2_BASE + XDNA_MBOX_CHAN_BASE (ucast (ccr_msix_id c)) + XDNA_MBOX_INTR_OFF) d;
     let d = drv_check (cqi_buf_addr (cqp_x2i_q (ccr_cq_pair0 c)) \<ge> MPNPU_APERTURE1_BASE) d;
     (st, d) \<leftarrow> send_status (opcode_val MSG_OP_MAP_HOST_BUFFER)
       (MapHostBufferReq_bytes \<lparr>mhb_context_id = ccr_context_id c,
          mhb_buf_addr = HOST_MEM_BASE + 0x200000, mhb_buf_size = 0x100000\<rparr>) st d;
     (st, d) \<leftarrow> send_status (opcode_val MSG_OP_DESTROY_CONTEXT)
       (DestroyCtxReq_bytes \<lparr>dcq_context_id = ccr_context_id c\<rparr>) st d;
     Some (cctx, st, d)
   }"

definition limit_req :: CreateCtxReq where
  "limit_req =
     \<lparr>ccq_aie_type = 1, ccq_start_col = 0, ccq_num_col = 1, ccq_num_unused_col = 0,
      ccq_reserved = 0, ccq_num_cq_pairs_requested = 1, ccq_reserved1 = 0, ccq_pasid = 0,
      ccq_pad0 = 0, ccq_pad1 = 0, ccq_sec_comm_target_type = 0, ccq_context_priority = 3\<rparr>"

text \<open>The two loops over the contexts: the ids collected by the first are destroyed by the second.\<close>

fun create_loop :: "nat \<Rightarrow> u8 list \<Rightarrow> Drv \<Rightarrow> (u32 list \<times> u8 list \<times> Drv) option" where
  "create_loop 0 cctx d = Some ([], cctx, d)"
| "create_loop (Suc n) cctx d = do {
     (cctx, d) \<leftarrow> send_check (opcode_val MSG_OP_CREATE_CONTEXT) (CreateCtxReq_bytes limit_req)
       sizeof_CreateCtxResp cctx d;
     let d = drv_check (ccr_status (CreateCtxResp_of cctx) = 0) d;
     (ids, cctx', d) \<leftarrow> create_loop n cctx d;
     Some (ccr_context_id (CreateCtxResp_of cctx) # ids, cctx', d)
   }"

fun destroy_loop :: "u32 list \<Rightarrow> u8 list \<Rightarrow> Drv \<Rightarrow> (u8 list \<times> Drv) option" where
  "destroy_loop [] st d = Some (st, d)"
| "destroy_loop (cid # ids) st d = do {
     (st, d) \<leftarrow> send_status (opcode_val MSG_OP_DESTROY_CONTEXT)
       (DestroyCtxReq_bytes \<lparr>dcq_context_id = cid\<rparr>) st d;
     destroy_loop ids st d
   }"

definition step_limit :: "u8 list \<Rightarrow> u8 list \<Rightarrow> Drv \<Rightarrow> (u8 list \<times> Drv) option" where
  "step_limit cctx st d = do {
     (ids, cctx, d) \<leftarrow> create_loop XDNA_NPU1_HWCTX_LIMIT cctx d;
     (cctx, d) \<leftarrow> send_check (opcode_val MSG_OP_CREATE_CONTEXT) (CreateCtxReq_bytes limit_req)
       sizeof_CreateCtxResp cctx d;
     let d = drv_check (ccr_status (CreateCtxResp_of cctx) \<noteq> 0) d;
     destroy_loop ids st d
   }"

text \<open>
  The loop that wraps the rings: how many messages were answered before it stopped.  A failed
  call only prints and leaves the loop, a failed status counts.
\<close>

fun wrap_loop :: "nat \<Rightarrow> u8 list \<Rightarrow> Drv \<Rightarrow> (nat \<times> Drv) option" where
  "wrap_loop 0 fw d = Some (0, d)"
| "wrap_loop (Suc n) fw d = do {
     (rc, resp, d) \<leftarrow> mbox_send_recv d (opcode_val MSG_OP_GET_FIRMWARE_VERSION) (le_bytes 4 (0 :: u32)) 4
       (word_of_nat sizeof_FirmwareVersionResp);
     let fw = response fw resp;
     if rc \<noteq> 0 then Some (0, d)
     else if fvr_status (FirmwareVersionResp_of fw) \<noteq> 0 then Some (0, drv_check False d)
     else do { (i, d) \<leftarrow> wrap_loop n fw d; Some (i + 1, d) }
   }"

definition step_wrap :: "u8 list \<Rightarrow> Drv \<Rightarrow> Drv option" where
  "step_wrap fw d = do { (i, d) \<leftarrow> wrap_loop 300 fw d; Some (drv_check (i = 300) d) }"

definition step_array :: "u8 list \<Rightarrow> Drv \<Rightarrow> Drv option" where
  "step_array st d = do {
     (st, d) \<leftarrow> send_check (opcode_val MSG_OP_EXECUTE_BUFFER_CF) (replicate 80 0) sizeof_StatusOnlyResp st d;
     Some (drv_check (status_of st \<noteq> 0) d)
   }"

definition step_dma :: "u8 list \<Rightarrow> Drv \<Rightarrow> Drv option" where
  "step_dma junk d = do {
     (resp, d) \<leftarrow> send_check (opcode_val MSG_OP_QUERY_COL_STATUS)
       (ColumnInfoReq_bytes \<lparr>ciq_dump_buff_addr = HOST_MEM_BASE + HOST_MEM_SIZE - 2,
          ciq_dump_buff_size = 64, ciq_num_cols = XDNA_AIE_COLS, ciq_aie_bitmap = 0\<rparr>)
       sizeof_ColumnInfoResp junk d;
     let r = ColumnInfoResp_of resp;
     let d = drv_check (cir_status r = status_val AIE2_STATUS_AIE_DMA_ERROR) d;
     Some (drv_check (cir_size r = 0) d)
   }"

subsection \<open>The scenarios and main\<close>

text \<open>A fresh driver of a device, with the counters of the test so far.\<close>

definition driver_on :: "Host xdna_npu \<Rightarrow> nat \<Rightarrow> nat \<Rightarrow> Drv" where
  "driver_on npu failures checks = test_drv\<lparr>drv_npu := npu, g_failures := failures, g_checks := checks\<rparr>"

definition test_boot :: "u8 list \<Rightarrow> Drv \<Rightarrow> Drv option" where
  "test_boot junk d = do {
     d \<leftarrow> start_check d;
     if g_failures d \<noteq> 0 then Some d
     else do {
       d \<leftarrow> step_channel d;
       (st, d) \<leftarrow> step_runtime_config junk d;
       (st, d) \<leftarrow> step_pasid st d;
       (st, d) \<leftarrow> step_suspend st d;
       (fw, d) \<leftarrow> step_query junk d;
       d \<leftarrow> step_clocks d;
       (cctx, st, d) \<leftarrow> step_context junk st d;
       (st, d) \<leftarrow> step_limit cctx st d;
       d \<leftarrow> step_wrap fw d;
       d \<leftarrow> step_array st d;
       step_dma junk d
     }
   }"

definition reset_device :: "Drv \<Rightarrow> Drv" where
  "reset_device d = d\<lparr>drv_npu := xdna_npu_reset (drv_npu d)\<rparr>"

definition test_error_paths :: "u8 list \<Rightarrow> Drv \<Rightarrow> Drv option" where
  "test_error_paths junk d = do {
     d \<leftarrow> psp_check PSP_CMD_START PSP_START_COPY_FW 0 0 False (reset_device d);
     d \<leftarrow> alive_check d;
     d \<leftarrow> psp_check PSP_CMD_VALIDATE 0xDEAD0000 0xFFFF 0x1000 False d;
     d \<leftarrow> start_check (reset_device d);
     d \<leftarrow> psp_check PSP_CMD_RELEASE_TMR 0 0 0 True d;
     d \<leftarrow> alive_check d;
     d \<leftarrow> smu_check AIE_SMU_POWER_OFF 0 True d;
     d \<leftarrow> start_check (d\<lparr>next_msg_id := 1\<rparr>);
     (fw, d) \<leftarrow> send_check (opcode_val MSG_OP_GET_FIRMWARE_VERSION) (le_bytes 4 (0 :: u32))
       sizeof_FirmwareVersionResp junk d;
     Some (drv_check (fvr_status (FirmwareVersionResp_of fw) = 0) d)
   }"

text \<open>
  The exit status of the program.  The three truth values say whether the allocations of the
  host memory, of the device and of its SRAM succeed; \<open>v\<close> is the option \<open>-v\<close>.
\<close>

definition test_main :: "bool \<Rightarrow> bool \<Rightarrow> bool \<Rightarrow> bool \<Rightarrow> u8 list \<Rightarrow> int option" where
  "test_main v mem_ok npu_ok sram_ok junk =
     (if \<not> mem_ok then Some 1
      else case xdna_npu_new test_ops (test_host v) npu_ok sram_ok of
        None \<Rightarrow> Some 1
      | Some npu \<Rightarrow> do {
          d \<leftarrow> test_boot junk (driver_on npu 0 0);
          d \<leftarrow> test_error_paths junk (driver_on (drv_npu d) (g_failures d) (g_checks d));
          Some (if g_failures d \<noteq> 0 then 1 else 0)
        })"

end
