(* ===== verification/Xdna_Settings.thy ===== *)
theory Xdna_Settings
  imports Xdna_Session
begin

text \<open>
  The runtime configuration through a whole session: what the driver sets it gets back, after
  any calls in between that do not set the same entry.
\<close>

definition set_call :: "u32 \<Rightarrow> u64 \<Rightarrow> call" where
  "set_call ty v = (opcode_val MSG_OP_SET_RUNTIME_CONFIG,
     SetRuntimeCfgReq_bytes \<lparr>src_type = ty, src_value = v\<rparr>)"

definition get_call :: "u32 \<Rightarrow> call" where
  "get_call ty = (opcode_val MSG_OP_GET_RUNTIME_CONFIG, GetRuntimeCfgReq_bytes \<lparr>grc_type = ty\<rparr>)"

text \<open>The calls that set an entry.\<close>

definition sets :: "u32 \<Rightarrow> call \<Rightarrow> bool" where
  "sets ty c = (case request_of c of Rq_set_rt ty' v \<Rightarrow> ty' = ty | _ \<Rightarrow> False)"

lemma setting_fields:
  "field_at 0 4 (SetRuntimeCfgReq_bytes r) = src_type r"
  "field_at 4 8 (SetRuntimeCfgReq_bytes r) = src_value r"
  "field_at 0 4 (GetRuntimeCfgReq_bytes r') = grc_type r'"
  using arg_cong [OF src.dec_enc_alone [of r], of src_type] arg_cong [OF src.dec_enc_alone [of r], of src_value]
    arg_cong [OF grc.dec_enc_alone [of r'], of grc_type]
  by (simp_all add: SetRuntimeCfgReq_of_def GetRuntimeCfgReq_of_def)

lemma setting_requests:
  "request_of (set_call ty v) = Rq_set_rt ty v"
  "request_of (get_call ty) = Rq_get_rt ty"
  by (simp_all add: request_of_def set_call_def get_call_def mert_request_of_def request_header_def
      sized_def setting_fields del: opcode_val.simps)

lemma set_call_opcode: "fst (set_call ty v) = opcode_val MSG_OP_SET_RUNTIME_CONFIG"
  by (simp add: set_call_def del: opcode_val.simps)

lemma setting_calls_ok: "call_ok (set_call ty v)" "call_ok (get_call ty)"
  by (simp_all add: call_ok_def request_ok_def set_call_def get_call_def flip: length_0_conv
      del: opcode_val.simps)

lemma setting_answers:
  assumes "unat ty < RT_CFG_LEN"
  shows "spec_step m (set_call ty v) = m\<lparr>m_rt := (m_rt m)(unat ty := v)\<rparr>"
    and "spec_answer m (set_call ty v) =
      Some (status_reply_bytes (opcode_val MSG_OP_SET_RUNTIME_CONFIG) AIE2_STATUS_SUCCESS)"
    and "spec_step m (get_call ty) = m"
    and "spec_answer m (get_call ty) =
      Some (GetRuntimeCfgResp_bytes \<lparr>grr_status = 0, grr_value = m_rt m (unat ty)\<rparr>)"
  using assms
  by (simp_all add: spec_step_def spec_answer_def setting_requests answer_bytes_def set_call_opcode
      del: opcode_val.simps)

lemma step_keeps_setting: "\<not> sets ty c \<Longrightarrow> m_rt (spec_step m c) (unat ty) = m_rt m (unat ty)"
  by (cases "request_of c") (auto simp: spec_step_def sets_def word_unat_eq_iff split: option.split)

lemma calls_keep_setting:
  "list_all (\<lambda>c. \<not> sets ty c) cs \<Longrightarrow> m_rt (snd (spec_calls cs m)) (unat ty) = m_rt m (unat ty)"
  by (induction cs arbitrary: m) (simp_all add: step_keeps_setting)

lemma setting_spec:
  assumes "unat ty < RT_CFG_LEN" and "list_all (\<lambda>c. \<not> sets ty c) cs"
  shows "fst (spec_calls (set_call ty v # cs @ [get_call ty]) m) =
    Some (status_reply_bytes (opcode_val MSG_OP_SET_RUNTIME_CONFIG) AIE2_STATUS_SUCCESS) #
    fst (spec_calls cs (spec_step m (set_call ty v))) @
    [Some (GetRuntimeCfgResp_bytes \<lparr>grr_status = 0, grr_value = v\<rparr>)]"
  using calls_keep_setting [OF assms(2), of "spec_step m (set_call ty v)"]
  by (simp add: spec_calls_append setting_answers [OF assms(1)] del: opcode_val.simps)

text \<open>C17: The driver gets back what it sets.  In any session, after the driver sets one of the
  runtime configuration entries, whatever it calls next (contexts created and destroyed,
  suspend and resume, failing requests, other entries set, the rings wrapping), getting the
  entry answers with success and the value set, as long as no call in between set it again.\<close>

lemma settings_persist:
  assumes "in_session d" and "unat ty < RT_CFG_LEN" and "list_all call_ok cs"
    and "list_all (\<lambda>c. \<not> sets ty c) cs" and "unat (next_ctx_id (drv_npu d)) + length cs + 2 < 2 ^ 32"
  shows "\<exists>answers d'. run_calls (set_call ty v # cs @ [get_call ty]) d =
      Some (Some (status_reply_bytes (opcode_val MSG_OP_SET_RUNTIME_CONFIG) AIE2_STATUS_SUCCESS) #
        answers @ [Some (GetRuntimeCfgResp_bytes \<lparr>grr_status = 0, grr_value = v\<rparr>)], d') \<and>
    length answers = length cs \<and> in_session d' \<and> g_failures d' = g_failures d"
proof -
  have "length (fst (spec_calls cs m)) = length cs" for m
    by (induction cs arbitrary: m) simp_all
  moreover have "list_all call_ok (set_call ty v # cs @ [get_call ty])"
    using assms(3) by (simp add: setting_calls_ok)
  ultimately show ?thesis
    using session_run [OF assms(1), of "set_call ty v # cs @ [get_call ty]"] assms(5)
    unfolding setting_spec [OF assms(2,4)] by (auto simp del: opcode_val.simps)
qed

text \<open>The entry the boot test sets first, with the firmware suspended before it is read.\<close>

lemma settings_persist_witness:
  "\<exists>answer d'. run_calls [set_call 2 1, (opcode_val MSG_OP_SUSPEND, replicate 4 0), get_call 2] booted_drv =
      Some ([Some [0, 0, 0, 0], answer, Some [0, 0, 0, 0, 1, 0, 0, 0, 0, 0, 0, 0]], d') \<and> in_session d'"
proof -
  let ?susp = "(opcode_val MSG_OP_SUSPEND, replicate 4 0) :: call"
  have "request_of ?susp = Rq_suspend True"
    by (simp add: request_of_def mert_request_of_def request_header_def del: opcode_val.simps)
  then have "list_all (\<lambda>c. \<not> sets 2 c) [?susp]"
    by (simp add: sets_def)
  moreover have "list_all call_ok [?susp]"
    using suspend_call(2,4) by (simp add: call_ok_def del: opcode_val.simps)
  moreover have "unat (2 :: u32) < RT_CFG_LEN"
    by (simp add: RT_CFG_LEN_def)
  moreover have "unat (next_ctx_id (drv_npu booted_drv)) + length [?susp] + 2 < 2 ^ 32"
    using test_session_next by (simp add: booted_drv_def)
  ultimately obtain as d' where run: "run_calls (set_call 2 1 # [?susp] @ [get_call 2]) booted_drv =
      Some (Some (status_reply_bytes (opcode_val MSG_OP_SET_RUNTIME_CONFIG) AIE2_STATUS_SUCCESS) #
        as @ [Some (GetRuntimeCfgResp_bytes \<lparr>grr_status = 0, grr_value = 1\<rparr>)], d')"
    "length as = length [?susp]" "in_session d'"
    using settings_persist [OF suspend_call(1)] by blast
  obtain a where "as = [a]"
    using run(2) by (cases as) auto
  moreover have "status_reply_bytes (opcode_val MSG_OP_SET_RUNTIME_CONFIG) AIE2_STATUS_SUCCESS = [0, 0, 0, 0]"
    by (simp add: status_reply_bytes_def resp_size_for_def sizeof_StatusOnlyResp_def byte_eval
        del: opcode_val.simps)
  moreover have "GetRuntimeCfgResp_bytes \<lparr>grr_status = 0, grr_value = 1\<rparr> = [0, 0, 0, 0, 1, 0, 0, 0, 0, 0, 0, 0]"
    by (simp add: GetRuntimeCfgResp_bytes_def byte_eval)
  ultimately show ?thesis
    using run(1,3) by (auto simp del: opcode_val.simps run_calls.simps)
qed

end
