(* ===== verification/Xdna_Boot_Test.thy ===== *)
theory Xdna_Boot_Test
  imports Xdna_Scenario Xdna_Settings
begin

text \<open>
  The boot test passes.  \<open>on_course m d\<close> says that the driver is between two calls of a
  session, that no check has failed, and what the abstract state of the firmware is; each
  step of the scenario keeps it, and its effect on the abstract state is the one
  \<open>mert_spec\<close> gives.
\<close>

definition on_course :: "mstate \<Rightarrow> Drv \<Rightarrow> bool" where
  "on_course m d \<longleftrightarrow> in_session d \<and> mert_abs (drv_npu d) = m \<and> g_failures d = 0"

text \<open>Between the steps of the scenario: no context, and the id of the next one.\<close>

definition idle :: "u32 \<Rightarrow> mstate \<Rightarrow> bool" where
  "idle n m \<longleftrightarrow> m_ctx m = Map.empty \<and> m_next m = n"

subsection \<open>Checks and calls\<close>

lemma check_fields [simp]:
  "drv_npu (drv_check c d) = drv_npu d" "x2i_res (drv_check c d) = x2i_res d"
  "i2x_res (drv_check c d) = i2x_res d" "intr_reg (drv_check c d) = intr_reg d"
  "prot_major (drv_check c d) = prot_major d" "prot_minor (drv_check c d) = prot_minor d"
  "drv_x2i_tail (drv_check c d) = drv_x2i_tail d" "drv_i2x_head (drv_check c d) = drv_i2x_head d"
  "g_failures (drv_check c d) = (if c then g_failures d else g_failures d + 1)"
  by (simp_all add: drv_check_def)

lemma in_session_check [simp]: "in_session (drv_check c d) = in_session d"
  by (simp add: in_session_def linked_def) (simp add: drv_check_def)

lemma check_course [simp]: "c \<Longrightarrow> on_course m (drv_check c d) = on_course m d"
  by (simp add: on_course_def)

lemma recv_course:
  assumes "on_course m d" and "call_ok (opc, req)" and "m_next m \<noteq> -1"
    and "sz = fst (resp_size_for opc)"
  obtains bs d' where "spec_answer m (opc, req) = Some bs"
    and "mbox_send_recv d opc req (word_of_nat (length req)) (word_of_nat sz) = Some (0, Some bs, d')"
    and "on_course (spec_step m (opc, req)) d'"
proof -
  have d: "in_session d" "mert_abs (drv_npu d) = m" "g_failures d = 0"
    using assms(1) by (simp_all add: on_course_def)
  moreover from this have "next_ctx_id (drv_npu d) \<noteq> -1"
    using assms(3) by (auto simp: mert_abs_def)
  ultimately obtain bs d' where
    "spec_answer m (opc, req) = Some bs"
    "mbox_send_recv d opc req (word_of_nat (length req)) (word_of_nat sz) = Some (0, Some bs, d')"
    "in_session d'" "mert_abs (drv_npu d') = spec_step m (opc, req)" "g_failures d' = 0"
    using session_call [OF d(1) assms(2)] unfolding assms(4) by metis
  then show thesis
    by (intro that) (simp_all add: on_course_def)
qed

lemma send_course:
  assumes "on_course m d" and "call_ok (opc, req)" and "m_next m \<noteq> -1"
    and "sz = fst (resp_size_for opc)" and "spec_answer m (opc, req) = Some bs"
  obtains d' where "send_check opc req sz buf d = Some (bs, d')" and "on_course (spec_step m (opc, req)) d'"
proof -
  obtain d' where "mbox_send_recv d opc req (word_of_nat (length req)) (word_of_nat sz) = Some (0, Some bs, d')"
    "on_course (spec_step m (opc, req)) d'"
    by (rule recv_course [OF assms(1-4)]) (use assms(5) in simp)
  then show thesis
    by (intro that [of "drv_check True d'"]) (simp_all add: send_check_def response_def)
qed

text \<open>Calls that are answered with a bare status, and leave the contexts alone.\<close>

lemma status_bytes:
  assumes "resp_size_for opc = (4, 0)"
  shows "status_of (status_reply_bytes opc st) = status_val st"
  using assms sor.dec_enc_alone [of "\<lparr>sor_status = status_val st\<rparr>"]
  by (simp add: status_of_def status_reply_bytes_def StatusOnlyResp_bytes_def)

lemma status_course:
  assumes "on_course m d" and "call_ok (opc, req)" and "m_next m \<noteq> -1"
    and "resp_size_for opc = (4, 0)"
    and "spec_answer m (opc, req) = Some (status_reply_bytes opc AIE2_STATUS_SUCCESS)"
  obtains st' d' where "send_status opc req st d = Some (st', d')" and "on_course (spec_step m (opc, req)) d'"
proof -
  have "sizeof_StatusOnlyResp = fst (resp_size_for opc)"
    using assms(4) by (simp add: sizeof_StatusOnlyResp_def)
  then obtain d' where "send_check opc req sizeof_StatusOnlyResp st d =
      Some (status_reply_bytes opc AIE2_STATUS_SUCCESS, d')" "on_course (spec_step m (opc, req)) d'"
    by (rule send_course [OF assms(1-3) _ assms(5)])
  then show thesis
    by (intro that [of _ "drv_check True d'"]) (simp_all add: send_status_def status_bytes [OF assms(4)])
qed

subsection \<open>Settings and queries\<close>

lemmas call_eval = request_of_def mert_request_of_def request_header_def sized_def

lemma plain_opcodes:
  "resp_size_for (opcode_val MSG_OP_SET_RUNTIME_CONFIG) = (4, 0)"
  "resp_size_for (opcode_val MSG_OP_ASSIGN_MGMT_PASID) = (4, 0)"
  "resp_size_for (opcode_val MSG_OP_SUSPEND) = (4, 0)"
  "resp_size_for (opcode_val MSG_OP_RESUME) = (4, 0)"
  "resp_size_for (opcode_val MSG_OP_MAP_HOST_BUFFER) = (4, 0)"
  "resp_size_for (opcode_val MSG_OP_DESTROY_CONTEXT) = (4, 0)"
  "resp_size_for (opcode_val MSG_OP_EXECUTE_BUFFER_CF) = (4, 0)"
  "fst (resp_size_for (opcode_val MSG_OP_GET_FIRMWARE_VERSION)) = sizeof_FirmwareVersionResp"
  "fst (resp_size_for (opcode_val MSG_OP_QUERY_AIE_VERSION)) = sizeof_AieVersionResp"
  "fst (resp_size_for (opcode_val MSG_OP_QUERY_AIE_TILE_INFO)) = sizeof_AieTileInfoResp"
  "fst (resp_size_for (opcode_val MSG_OP_CREATE_CONTEXT)) = sizeof_CreateCtxResp"
  "fst (resp_size_for (opcode_val MSG_OP_QUERY_COL_STATUS)) = sizeof_ColumnInfoResp"
  by (simp_all add: resp_size_for_def sizeof_StatusOnlyResp_def del: opcode_val.simps)

lemma test_calls_ok:
  "call_ok (opcode_val MSG_OP_SET_RUNTIME_CONFIG, SetRuntimeCfgReq_bytes r1)"
  "call_ok (opcode_val MSG_OP_ASSIGN_MGMT_PASID, AssignPasidReq_bytes r2)"
  "call_ok (opcode_val MSG_OP_MAP_HOST_BUFFER, MapHostBufferReq_bytes r3)"
  "call_ok (opcode_val MSG_OP_QUERY_COL_STATUS, ColumnInfoReq_bytes r4)"
  "opc \<noteq> MSG_OP_REGISTER_ASYNC_EVENT_MSG \<Longrightarrow> call_ok (opcode_val opc, le_bytes 4 w)"
  "call_ok (opcode_val MSG_OP_EXECUTE_BUFFER_CF, replicate 80 0)"
  by (simp_all add: call_ok_def request_ok_def flip: length_0_conv del: opcode_val.simps)

text \<open>The scenario between two of its steps.\<close>

definition at_ease :: "u32 \<Rightarrow> Drv \<Rightarrow> bool" where
  "at_ease n d \<longleftrightarrow> (\<exists>m. on_course m d \<and> idle n m)"

lemma at_ease_status:
  assumes "at_ease n d" and "call_ok (opc, req)" and "n \<noteq> -1" and "resp_size_for opc = (4, 0)"
    and "\<And>m. spec_answer m (opc, req) = Some (status_reply_bytes opc AIE2_STATUS_SUCCESS)"
    and "\<And>m. idle n m \<Longrightarrow> idle n (spec_step m (opc, req))"
  shows "\<exists>st' d'. send_status opc req st d = Some (st', d') \<and> at_ease n d'"
proof -
  obtain m where m: "on_course m d" "idle n m"
    using assms(1) by (auto simp: at_ease_def)
  then have "m_next m \<noteq> -1"
    using assms(3) by (simp add: idle_def)
  then obtain st' d' where "send_status opc req st d = Some (st', d')" "on_course (spec_step m (opc, req)) d'"
    by (rule status_course [OF m(1) assms(2) _ assms(4,5)])
  then show ?thesis
    using assms(6) [OF m(2)] by (auto simp: at_ease_def)
qed

lemma runtime_config_step:
  assumes "at_ease n d" and "n \<noteq> -1"
  shows "\<exists>st' d'. step_runtime_config st d = Some (st', d') \<and> at_ease n d'"
proof -
  have set_entry: "\<exists>st' d'. send_status (opcode_val MSG_OP_SET_RUNTIME_CONFIG)
      (SetRuntimeCfgReq_bytes \<lparr>src_type = ty, src_value = 1\<rparr>) st d = Some (st', d') \<and> at_ease n d'"
    if "at_ease n d" "unat ty < RT_CFG_LEN" for ty st d
    using that setting_answers(1,2) [OF that(2), of _ 1] assms(2)
    by (intro at_ease_status) (simp_all only: plain_opcodes flip: set_call_def,
        simp_all add: idle_def setting_calls_ok del: opcode_val.simps)
  obtain st1 d1 where one: "send_status (opcode_val MSG_OP_SET_RUNTIME_CONFIG)
      (SetRuntimeCfgReq_bytes \<lparr>src_type = 2, src_value = 1\<rparr>) st d = Some (st1, d1)" "at_ease n d1"
    using set_entry [OF assms(1), of 2 st] by (auto simp: RT_CFG_LEN_def)
  obtain st2 d2 where "send_status (opcode_val MSG_OP_SET_RUNTIME_CONFIG)
      (SetRuntimeCfgReq_bytes \<lparr>src_type = 4, src_value = 1\<rparr>) st1 d1 = Some (st2, d2)" "at_ease n d2"
    using set_entry [OF one(2), of 4 st1] by (auto simp: RT_CFG_LEN_def)
  with one show ?thesis
    by (simp add: step_runtime_config_def del: opcode_val.simps)
qed

lemma pasid_step:
  assumes "at_ease n d" and "n \<noteq> -1"
  shows "\<exists>st' d'. step_pasid st d = Some (st', d') \<and> at_ease n d'"
  unfolding step_pasid_def
  by (rule at_ease_status [OF assms(1) test_calls_ok(2) assms(2) plain_opcodes(2)])
    (simp_all add: spec_answer_def spec_step_def answer_bytes_def call_eval idle_def del: opcode_val.simps)

lemma suspend_step:
  assumes "at_ease n d" and "n \<noteq> -1"
  shows "\<exists>st' d'. step_suspend st d = Some (st', d') \<and> at_ease n d'"
proof -
  have power: "\<exists>st' d'. send_status (opcode_val opc) (le_bytes 4 (0 :: u32)) st d = Some (st', d') \<and> at_ease n d'"
    if "at_ease n d" "opc = MSG_OP_SUSPEND \<or> opc = MSG_OP_RESUME" for opc st d
    using that assms(2) by (intro at_ease_status test_calls_ok)
      (auto simp: plain_opcodes spec_answer_def spec_step_def answer_bytes_def call_eval idle_def
        simp del: opcode_val.simps)
  obtain st1 d1 where one: "send_status (opcode_val MSG_OP_SUSPEND) (le_bytes 4 (0 :: u32)) st d = Some (st1, d1)"
    "at_ease n d1"
    using power [OF assms(1), of MSG_OP_SUSPEND st] by auto
  obtain st2 d2 where "send_status (opcode_val MSG_OP_RESUME) (le_bytes 4 (0 :: u32)) st1 d1 = Some (st2, d2)"
    "at_ease n d2"
    using power [OF one(2), of MSG_OP_RESUME st1] by auto
  with one show ?thesis
    by (simp add: step_suspend_def del: opcode_val.simps)
qed

lemma at_ease_send:
  assumes "at_ease n d" and "call_ok (opc, req)" and "n \<noteq> -1" and "sz = fst (resp_size_for opc)"
    and "\<And>m. spec_answer m (opc, req) = Some bs"
    and "\<And>m. idle n m \<Longrightarrow> idle n (spec_step m (opc, req))"
  shows "\<exists>d'. send_check opc req sz buf d = Some (bs, d') \<and> at_ease n d'"
proof -
  obtain m where m: "on_course m d" "idle n m"
    using assms(1) by (auto simp: at_ease_def)
  then have "m_next m \<noteq> -1"
    using assms(3) by (simp add: idle_def)
  then obtain d' where "send_check opc req sz buf d = Some (bs, d')" "on_course (spec_step m (opc, req)) d'"
    by (rule send_course [OF m(1) assms(2) _ assms(4,5)])
  then show ?thesis
    using assms(6) [OF m(2)] by (auto simp: at_ease_def)
qed

lemma at_ease_check [simp]: "c \<Longrightarrow> at_ease n (drv_check c d) = at_ease n d"
  by (simp add: at_ease_def)

lemmas query_eval = spec_answer_def spec_step_def answer_bytes_def call_eval

lemma version_send:
  assumes "at_ease n d" and "n \<noteq> -1"
  shows "\<exists>fw d'. send_check (opcode_val MSG_OP_GET_FIRMWARE_VERSION) (le_bytes 4 (0 :: u32))
      sizeof_FirmwareVersionResp buf d = Some (fw, d') \<and>
    fvr_status (FirmwareVersionResp_of fw) = 0 \<and> fvr_major (FirmwareVersionResp_of fw) = XDNA_FW_VER_MAJOR \<and>
    at_ease n d'"
proof -
  let ?fw = "\<lparr>fvr_status = 0, fvr_major = XDNA_FW_VER_MAJOR, fvr_minor = XDNA_FW_VER_MINOR,
    fvr_sub = XDNA_FW_VER_SUB, fvr_build = XDNA_FW_VER_BUILD\<rparr>"
  obtain d1 where "send_check (opcode_val MSG_OP_GET_FIRMWARE_VERSION) (le_bytes 4 (0 :: u32))
      sizeof_FirmwareVersionResp buf d = Some (FirmwareVersionResp_bytes ?fw, d1)" "at_ease n d1"
    using at_ease_send [OF assms(1) test_calls_ok(5) assms(2) plain_opcodes(8) [symmetric],
        of 0 "FirmwareVersionResp_bytes ?fw" buf]
    by (auto simp: query_eval simp del: opcode_val.simps)
  then show ?thesis
    by (intro exI [of _ "FirmwareVersionResp_bytes ?fw"] exI [of _ d1]) (simp add: fvr.dec_enc_alone)
qed

lemma query_step:
  assumes "at_ease n d" and "n \<noteq> -1"
  shows "\<exists>fw d'. step_query junk d = Some (fw, d') \<and> at_ease n d'"
proof -
  let ?rsv = "le_bytes 4 (0 :: u32)"
  let ?av = "\<lparr>avr_status = 0, avr_major = ucast XDNA_AIE_VERSION_MAJOR, avr_minor = ucast XDNA_AIE_VERSION_MINOR\<rparr>"
  let ?ti = "\<lparr>atr_status = 0, atr_info = fill_tile_info\<rparr>"
  obtain fw d1 where d1: "send_check (opcode_val MSG_OP_GET_FIRMWARE_VERSION) ?rsv sizeof_FirmwareVersionResp junk d =
      Some (fw, d1)" "fvr_status (FirmwareVersionResp_of fw) = 0"
      "fvr_major (FirmwareVersionResp_of fw) = XDNA_FW_VER_MAJOR" "at_ease n d1"
    using version_send [OF assms, of junk] by auto
  let ?e1 = "drv_check True (drv_check True d1)"
  have "at_ease n ?e1"
    using d1(4) by simp
  then obtain d2 where d2: "send_check (opcode_val MSG_OP_QUERY_AIE_VERSION) ?rsv sizeof_AieVersionResp junk ?e1 =
      Some (AieVersionResp_bytes ?av, d2)" "at_ease n d2"
    using at_ease_send [OF _ test_calls_ok(5) assms(2) plain_opcodes(9) [symmetric],
        of ?e1 0 "AieVersionResp_bytes ?av" junk]
    by (auto simp: query_eval simp del: opcode_val.simps)
  have "at_ease n (drv_check True d2)"
    using d2(2) by simp
  then obtain d3 where d3: "send_check (opcode_val MSG_OP_QUERY_AIE_TILE_INFO) ?rsv sizeof_AieTileInfoResp junk (drv_check True d2) =
      Some (AieTileInfoResp_bytes ?ti, d3)" "at_ease n d3"
    using at_ease_send [OF _ test_calls_ok(5) assms(2) plain_opcodes(10) [symmetric],
        of "drv_check True d2" 0 "AieTileInfoResp_bytes ?ti" junk]
    by (auto simp: query_eval simp del: opcode_val.simps)
  show ?thesis
    using d1(1-3) d2(1) d3
    by (simp add: step_query_def avr.dec_enc_alone atr.dec_enc_alone fill_tile_info_def
        Let_def del: opcode_val.simps)
qed

subsection \<open>Clocks\<close>

lemma smu_run_course:
  assumes "at_ease n d"
  shows "at_ease n (d\<lparr>drv_npu := smu_run (drv_npu d) cmd arg\<rparr>)"
proof -
  let ?s = "drv_npu d" and ?t = "smu_run (drv_npu d) cmd arg"
  have chan: "chan ?t = chan ?s"
    by (simp add: smu_run_def)
  have abs: "ctx_map ?t = ctx_map ?s" "ids_ok ?t = ids_ok ?s" "next_ctx_id ?t = next_ctx_id ?s"
    using ctx_map_cong [of ?t ?s] ids_ok_cong [of ?t ?s] by (simp_all add: run_contexts)
  have "in_session (d\<lparr>drv_npu := ?t\<rparr>)"
    using assms chan abs run_bounds(1)
    by (auto simp: at_ease_def on_course_def in_session_def linked_def)
  moreover have "idle n (mert_abs ?t)"
    using assms abs by (auto simp: at_ease_def on_course_def idle_def mert_abs_def)
  ultimately show ?thesis
    using assms by (auto simp: at_ease_def on_course_def)
qed

lemma clock_check_run:
  assumes "at_ease n d" and "smu_answer cmd clk = (SMU_RESULT_OK, clk)"
  shows "\<exists>d'. clock_check cmd clk d = Some d' \<and> at_ease n d'"
  using assms by (simp add: clock_check_def smu_exec_run smu_run_course)

lemma smu_check_run:
  assumes "at_ease n d" and "(fst (smu_answer cmd arg) = SMU_RESULT_OK) = good"
  shows "\<exists>d'. smu_check cmd arg good d = Some d' \<and> at_ease n d'"
  using assms by (auto simp: smu_check_def smu_exec_run smu_run_course split_beta Let_def)

lemma clocks_step:
  assumes "at_ease n d"
  shows "\<exists>d'. step_clocks d = Some d' \<and> at_ease n d'"
proof -
  have cmds: "smu_answer AIE_SMU_SET_MPNPUCLK_FREQ w = (SMU_RESULT_OK, w)"
    "smu_answer AIE_SMU_SET_HCLK_FREQ w = (SMU_RESULT_OK, w)"
    "fst (smu_answer AIE_SMU_SET_HARD_DPMLEVEL 7) = SMU_RESULT_OK"
    "fst (smu_answer AIE_SMU_SET_SOFT_DPMLEVEL 7) = SMU_RESULT_OK"
    "fst (smu_answer AIE_SMU_SET_HARD_DPMLEVEL 99) \<noteq> SMU_RESULT_OK" for w
    by (simp_all add: smu_answer_def xdna_consts)
  obtain d1 where d1: "clock_check AIE_SMU_SET_MPNPUCLK_FREQ 400 d = Some d1" "at_ease n d1"
    using clock_check_run [OF assms cmds(1)] by blast
  obtain d2 where d2: "clock_check AIE_SMU_SET_HCLK_FREQ 800 d1 = Some d2" "at_ease n d2"
    using clock_check_run [OF d1(2) cmds(2)] by blast
  obtain d3 where d3: "smu_check AIE_SMU_SET_HARD_DPMLEVEL 7 True d2 = Some d3" "at_ease n d3"
    using smu_check_run [OF d2(2), of AIE_SMU_SET_HARD_DPMLEVEL 7 True] cmds(3) by blast
  obtain d4 where d4: "smu_check AIE_SMU_SET_SOFT_DPMLEVEL 7 True d3 = Some d4" "at_ease n d4"
    using smu_check_run [OF d3(2), of AIE_SMU_SET_SOFT_DPMLEVEL 7 True] cmds(4) by blast
  obtain d5 where "smu_check AIE_SMU_SET_HARD_DPMLEVEL 99 False d4 = Some d5" "at_ease n d5"
    using smu_check_run [OF d4(2), of AIE_SMU_SET_HARD_DPMLEVEL 99 False] cmds(5) by blast
  with d1(1) d2(1) d3(1) d4(1) show ?thesis
    by (simp add: step_clocks_def)
qed

subsection \<open>Contexts\<close>

lemma context_columns: "columns_ok context_req" "columns_ok limit_req"
  by (simp_all add: columns_ok_def context_req_def limit_req_def XDNA_AIE_COLS_def)

lemma idle_filled: "idle n m \<Longrightarrow> filled m req 0 = m"
  by (simp add: idle_def filled_def)

lemma create_course:
  assumes "on_course (filled m req k) d" and "columns_ok req" and "k < 6" and "m_next m + word_of_nat k \<noteq> -1"
  obtains d' where "send_check (opcode_val MSG_OP_CREATE_CONTEXT) (CreateCtxReq_bytes req) sizeof_CreateCtxResp buf d =
      Some (CreateCtxResp_bytes (ctx_announcement (m_next m + word_of_nat k) (Suc k)), d')"
    and "on_course (filled m req (Suc k)) d'"
proof -
  have "m_next (filled m req k) \<noteq> -1"
    using assms(4) by (simp add: filled_def)
  from send_course [OF assms(1) context_calls_ok(1) [unfolded create_call_def] this
      plain_opcodes(11) [symmetric] create_step(2) [OF assms(2,3), unfolded create_call_def]]
  show thesis
    using create_step(1) [OF assms(2,3), unfolded create_call_def] that by metis
qed

lemma map_fields:
  "field_at 0 4 (MapHostBufferReq_bytes r) = mhb_context_id r"
  "field_at 4 8 (MapHostBufferReq_bytes r) = mhb_buf_addr r"
  "field_at 12 8 (MapHostBufferReq_bytes r) = mhb_buf_size r"
  using arg_cong [OF mhb.dec_enc_alone [of r], of mhb_context_id]
    arg_cong [OF mhb.dec_enc_alone [of r], of mhb_buf_addr]
    arg_cong [OF mhb.dec_enc_alone [of r], of mhb_buf_size]
  by (simp_all add: MapHostBufferReq_of_def)

text \<open>Map and destroy, on a firmware that has the context.\<close>

lemma map_course:
  assumes "on_course m d" and "m_next m \<noteq> -1" and "m_ctx m cid = Some c"
  obtains st' d' where "send_status (opcode_val MSG_OP_MAP_HOST_BUFFER)
      (MapHostBufferReq_bytes \<lparr>mhb_context_id = cid, mhb_buf_addr = a, mhb_buf_size = n\<rparr>) st d = Some (st', d')"
    and "on_course (m\<lparr>m_ctx := (m_ctx m)(cid \<mapsto> heap_ctx c a n)\<rparr>) d'"
proof -
  let ?c = "(opcode_val MSG_OP_MAP_HOST_BUFFER,
    MapHostBufferReq_bytes \<lparr>mhb_context_id = cid, mhb_buf_addr = a, mhb_buf_size = n\<rparr>)"
  have "request_of ?c = Rq_map cid a n"
    by (simp add: call_eval map_fields del: opcode_val.simps)
  then have "spec_answer m ?c = Some (status_reply_bytes (opcode_val MSG_OP_MAP_HOST_BUFFER) AIE2_STATUS_SUCCESS)"
    "spec_step m ?c = m\<lparr>m_ctx := (m_ctx m)(cid \<mapsto> heap_ctx c a n)\<rparr>"
    using assms(3) by (simp_all add: spec_answer_def spec_step_def answer_bytes_def del: opcode_val.simps)
  from status_course [OF assms(1) test_calls_ok(3) assms(2) plain_opcodes(5) this(1)] this(2)
  show thesis
    using that by metis
qed

lemma destroy_course:
  assumes "on_course m d" and "m_next m \<noteq> -1" and "m_ctx m cid = Some c"
  obtains st' d' where "send_status (opcode_val MSG_OP_DESTROY_CONTEXT)
      (DestroyCtxReq_bytes \<lparr>dcq_context_id = cid\<rparr>) st d = Some (st', d')"
    and "on_course (m\<lparr>m_ctx := (m_ctx m)(cid := None)\<rparr>) d'"
proof -
  have "spec_answer m (destroy_call cid) =
      Some (status_reply_bytes (opcode_val MSG_OP_DESTROY_CONTEXT) AIE2_STATUS_SUCCESS)"
    "spec_step m (destroy_call cid) = m\<lparr>m_ctx := (m_ctx m)(cid := None)\<rparr>"
    using assms(3) by (simp_all add: spec_answer_def spec_step_def answer_bytes_def context_requests
        call_opcodes del: opcode_val.simps)
  from status_course [OF assms(1) context_calls_ok(2) [unfolded destroy_call_def] assms(2) plain_opcodes(6)
      this(1) [unfolded destroy_call_def]] this(2)
  show thesis
    using that by (metis destroy_call_def)
qed

lemma announcement_checks:
  "ccr_status (ctx_announcement n k) = 0" "ccr_context_id (ctx_announcement n k) = n"
  "ccr_num_cq_pairs_allocated (ctx_announcement n k) = 1"
  "unat (ccr_msix_id (ctx_announcement n (Suc 0))) \<noteq> XDNA_MGMT_MSIX_VECTOR"
  "cqi_head_addr (cqp_i2x_q (ccr_cq_pair0 (ctx_announcement n (Suc 0)))) + 4 =
    MPNPU_APERTURE2_BASE + XDNA_MBOX_CHAN_BASE (ucast (ccr_msix_id (ctx_announcement n (Suc 0)))) + XDNA_MBOX_INTR_OFF"
  "cqi_buf_addr (cqp_x2i_q (ccr_cq_pair0 (ctx_announcement n (Suc 0)))) \<ge> MPNPU_APERTURE1_BASE"
  by (simp_all add: ctx_announcement_def queue_info_def xdna_mbox_dev_addr_def xdna_sram_dev_addr_def
      ring_base_def xdna_consts)

lemma context_step:
  assumes "at_ease n d" and "n \<noteq> -1" and "n + 1 \<noteq> -1" and "n \<noteq> 0"
  shows "\<exists>cctx' st' d'. step_context cctx st d = Some (cctx', st', d') \<and> at_ease (n + 1) d'"
proof -
  let ?c = "ctx_announcement n 1"
  obtain m where m: "on_course m d" "idle n m"
    using assms(1) by (auto simp: at_ease_def)
  have next_id: "m_next m = n" "m_ctx m = Map.empty"
    using m(2) by (simp_all add: idle_def)
  obtain d1 where d1: "send_check (opcode_val MSG_OP_CREATE_CONTEXT) (CreateCtxReq_bytes context_req)
      sizeof_CreateCtxResp cctx d = Some (CreateCtxResp_bytes ?c, d1)" "on_course (filled m context_req 1) d1"
    using create_course [of m context_req 0 d cctx] m assms(2) context_columns(1) next_id
    by (auto simp: idle_filled)
  let ?e1 = "drv_check True (drv_check True (drv_check True (drv_check True (drv_check True (drv_check True d1)))))"
  have e1: "on_course (filled m context_req 1) ?e1"
    using d1(2) by simp
  have filled: "m_ctx (filled m context_req 1) n = Some (new_context n 1 context_req)"
    "m_next (filled m context_req 1) = n + 1"
    using next_id by (simp_all add: filled_def)
  obtain st2 d2 where d2: "send_status (opcode_val MSG_OP_MAP_HOST_BUFFER)
      (MapHostBufferReq_bytes \<lparr>mhb_context_id = n, mhb_buf_addr = HOST_MEM_BASE + 0x200000,
         mhb_buf_size = 0x100000\<rparr>) st ?e1 = Some (st2, d2)"
    and m2: "on_course ((filled m context_req 1)\<lparr>m_ctx := (m_ctx (filled m context_req 1))
      (n \<mapsto> heap_ctx (new_context n 1 context_req) (HOST_MEM_BASE + 0x200000) 0x100000)\<rparr>) d2"
    using map_course [OF e1 _ filled(1)] assms(3) filled(2) by metis
  obtain st3 d3 where d3: "send_status (opcode_val MSG_OP_DESTROY_CONTEXT)
      (DestroyCtxReq_bytes \<lparr>dcq_context_id = n\<rparr>) st2 d2 = Some (st3, d3)"
    and m3: "on_course (filled m context_req 1\<lparr>m_ctx := (m_ctx (filled m context_req 1))(n := None)\<rparr>) d3"
    using destroy_course [OF m2, of n _ st2] assms(3) filled(2) by auto
  have "(m_ctx (filled m context_req 1))(n := None) = Map.empty"
    using next_id by (simp add: filled_def)
  then have "at_ease (n + 1) d3"
    using m3 filled(2) by (auto simp: at_ease_def idle_def)
  then show ?thesis
    using d1(1) d2 d3 assms(4)
    by (simp add: step_context_def ccr.dec_enc_alone announcement_checks Let_def del: opcode_val.simps)
qed

subsection \<open>The context limit\<close>

lemma below_max: "unat n + k + 1 < 2 ^ 32 \<Longrightarrow> (n :: u32) + word_of_nat k \<noteq> -1"
proof
  assume "unat n + k + 1 < 2 ^ 32" "n + word_of_nat k = -1"
  moreover from this(1) have "unat (n + word_of_nat k) = unat n + k"
    by (subst unat_add_small) (simp_all add: unat_of_nat)
  ultimately show False
    by (simp add: unsigned_minus_1_eq_mask mask_eq_exp_minus_1)
qed

lemma create_loop_run:
  assumes "unat (m_next m) + 8 < 2 ^ 32"
  shows "on_course (filled m limit_req k) d \<Longrightarrow> k + j \<le> 6 \<Longrightarrow>
    \<exists>cctx' d'. create_loop j cctx d = Some (map (\<lambda>i. m_next m + word_of_nat i) [k..<k + j], cctx', d') \<and>
      on_course (filled m limit_req (k + j)) d'"
proof (induction j arbitrary: k cctx d)
  case (Suc j)
  have "m_next m + word_of_nat k \<noteq> -1"
    using assms Suc.prems(2) by (intro below_max) simp
  then obtain d1 where d1: "send_check (opcode_val MSG_OP_CREATE_CONTEXT) (CreateCtxReq_bytes limit_req)
      sizeof_CreateCtxResp cctx d =
      Some (CreateCtxResp_bytes (ctx_announcement (m_next m + word_of_nat k) (Suc k)), d1)"
    "on_course (filled m limit_req (Suc k)) d1"
    using create_course [OF Suc.prems(1) context_columns(2)] Suc.prems(2) by auto
  then have "on_course (filled m limit_req (Suc k)) (drv_check True d1)"
    by simp
  from Suc.IH [OF this, of "CreateCtxResp_bytes (ctx_announcement (m_next m + word_of_nat k) (Suc k))"]
  obtain c2 d2 where "create_loop j (CreateCtxResp_bytes (ctx_announcement (m_next m + word_of_nat k) (Suc k)))
      (drv_check True d1) = Some (map (\<lambda>i. m_next m + word_of_nat i) [Suc k..<Suc k + j], c2, d2)"
    "on_course (filled m limit_req (Suc k + j)) d2"
    using Suc.prems(2) by auto
  with d1(1) show ?case
    by (simp add: ccr.dec_enc_alone announcement_checks Let_def upt_conv_Cons del: opcode_val.simps upt_Suc)
qed simp

lemma destroy_loop_run:
  assumes "unat (m_next m) + 8 < 2 ^ 32"
  shows "on_course (emptied m limit_req k) d \<Longrightarrow> k + j = 6 \<Longrightarrow>
    \<exists>st' d'. destroy_loop (map (\<lambda>i. m_next m + word_of_nat i) [k..<6]) st d = Some (st', d') \<and>
      on_course (emptied m limit_req 6) d'"
proof (induction j arbitrary: k st d)
  case 0
  then show ?case by simp
next
  case (Suc j)
  let ?cid = "m_next m + word_of_nat k"
  have k: "k < 6"
    using Suc.prems(2) by simp
  have "m_next (emptied m limit_req k) \<noteq> -1"
    using assms below_max [of "m_next m" 6] by (simp add: emptied_def filled_def)
  from status_course [OF Suc.prems(1) context_calls_ok(2) [unfolded destroy_call_def] this plain_opcodes(6)
      destroy_step(2) [OF k, unfolded destroy_call_def], of st]
  obtain st1 d1 where d1: "send_status (opcode_val MSG_OP_DESTROY_CONTEXT)
      (DestroyCtxReq_bytes \<lparr>dcq_context_id = ?cid\<rparr>) st d = Some (st1, d1)"
    "on_course (emptied m limit_req (Suc k)) d1"
    using destroy_step(1) [OF k, of m limit_req, unfolded destroy_call_def] by metis
  then show ?case
    using Suc.IH [OF d1(2), of st1] Suc.prems(2) k
    by (simp add: upt_conv_Cons del: opcode_val.simps)
qed

lemma refused_status:
  "ccr_status (CreateCtxResp_of (status_reply_bytes (opcode_val MSG_OP_CREATE_CONTEXT) st)) = status_val st"
  by (simp add: status_reply_bytes_def resp_size_for_def CreateCtxResp_of_def field_at_def
      le_word_le_bytes take_bit_word_eq_self sizeof_CreateCtxResp_def del: opcode_val.simps)

lemma limit_step:
  assumes "at_ease n d" and "unat n + 8 < 2 ^ 32"
  shows "\<exists>st' d'. step_limit cctx st d = Some (st', d') \<and> at_ease (n + 6) d'"
proof -
  obtain m where m: "on_course m d" "idle n m"
    using assms(1) by (auto simp: at_ease_def)
  have n: "m_next m = n"
    using m(2) by (simp add: idle_def)
  obtain c1 d1 where d1: "create_loop 6 cctx d = Some (map (\<lambda>i. n + word_of_nat i) [0..<6], c1, d1)"
    "on_course (filled m limit_req 6) d1"
    using create_loop_run [of m 0 d 6 cctx] m assms(2) n by (auto simp: idle_filled)
  have "m_next (filled m limit_req 6) \<noteq> -1"
    using below_max [of n 6] assms(2) n by (simp add: filled_def)
  from send_course [OF d1(2) context_calls_ok(1) [unfolded create_call_def] this plain_opcodes(11) [symmetric]
      create_refused(2) [unfolded create_call_def], of c1]
  obtain d2 where d2: "send_check (opcode_val MSG_OP_CREATE_CONTEXT) (CreateCtxReq_bytes limit_req)
      sizeof_CreateCtxResp c1 d1 =
      Some (status_reply_bytes (opcode_val MSG_OP_CREATE_CONTEXT) AIE2_STATUS_MGMT_ERT_NOAVAIL, d2)"
    "on_course (filled m limit_req 6) d2"
    using create_refused(1) [of m limit_req, unfolded create_call_def] by metis
  have "filled m limit_req 6 = emptied m limit_req 0"
    by (simp add: emptied_def filled_def)
  with d2(2) have "on_course (emptied m limit_req 0) (drv_check True d2)"
    by simp
  then obtain st3 d3 where d3: "destroy_loop (map (\<lambda>i. n + word_of_nat i) [0..<6]) st (drv_check True d2) = Some (st3, d3)"
    "on_course (emptied m limit_req 6) d3"
    using destroy_loop_run [of m 0 "drv_check True d2" 6 st] assms(2) n by auto
  have "at_ease (n + 6) d3"
    using d3(2) n by (auto simp: emptied_all at_ease_def idle_def)
  moreover have "status_val AIE2_STATUS_MGMT_ERT_NOAVAIL \<noteq> 0"
    by simp
  ultimately show ?thesis
    using d1(1) d2(1) d3(1)
    by (simp add: step_limit_def XDNA_NPU1_HWCTX_LIMIT_def refused_status Let_def
        del: opcode_val.simps create_loop.simps destroy_loop.simps status_val.simps)
qed

subsection \<open>Wrapping, refusals, a DMA error\<close>

lemma at_ease_recv:
  assumes "at_ease n d" and "call_ok (opc, req)" and "n \<noteq> -1" and "sz = fst (resp_size_for opc)"
    and "\<And>m. spec_answer m (opc, req) = Some bs" and "\<And>m. idle n m \<Longrightarrow> idle n (spec_step m (opc, req))"
  shows "\<exists>d'. mbox_send_recv d opc req (word_of_nat (length req)) (word_of_nat sz) = Some (0, Some bs, d') \<and>
    at_ease n d'"
proof -
  obtain m where m: "on_course m d" "idle n m"
    using assms(1) by (auto simp: at_ease_def)
  then have "m_next m \<noteq> -1"
    using assms(3) by (simp add: idle_def)
  from recv_course [OF m(1) assms(2) this assms(4)]
  show ?thesis
    using assms(5,6) m(2) unfolding at_ease_def by (metis option.inject)
qed

lemma wrap_loop_run:
  "at_ease n d \<Longrightarrow> n \<noteq> -1 \<Longrightarrow> \<exists>d'. wrap_loop k fw d = Some (k, d') \<and> at_ease n d'"
proof (induction k arbitrary: fw d)
  case (Suc k)
  let ?fw = "FirmwareVersionResp_bytes \<lparr>fvr_status = 0, fvr_major = XDNA_FW_VER_MAJOR,
    fvr_minor = XDNA_FW_VER_MINOR, fvr_sub = XDNA_FW_VER_SUB, fvr_build = XDNA_FW_VER_BUILD\<rparr>"
  obtain d1 where d1: "mbox_send_recv d (opcode_val MSG_OP_GET_FIRMWARE_VERSION) (le_bytes 4 (0 :: u32)) 4
      (word_of_nat sizeof_FirmwareVersionResp) = Some (0, Some ?fw, d1)" "at_ease n d1"
    using at_ease_recv [OF Suc.prems(1) test_calls_ok(5) Suc.prems(2) plain_opcodes(8) [symmetric], of 0 ?fw]
    by (auto simp: query_eval simp del: opcode_val.simps)
  obtain d2 where "wrap_loop k ?fw d1 = Some (k, d2)" "at_ease n d2"
    using Suc.IH [OF d1(2) Suc.prems(2)] by blast
  with d1(1) show ?case
    by (simp add: response_def fvr.dec_enc_alone del: opcode_val.simps)
qed simp

lemma wrap_step:
  assumes "at_ease n d" and "n \<noteq> -1"
  shows "\<exists>d'. step_wrap fw d = Some d' \<and> at_ease n d'"
  using wrap_loop_run [OF assms, of 300 fw] by (auto simp: step_wrap_def simp del: wrap_loop.simps)

lemma array_step:
  assumes "at_ease n d" and "n \<noteq> -1"
  shows "\<exists>d'. step_array st d = Some d' \<and> at_ease n d'"
proof -
  let ?opc = "opcode_val MSG_OP_EXECUTE_BUFFER_CF"
  have "sizeof_StatusOnlyResp = fst (resp_size_for ?opc)"
    by (simp add: plain_opcodes sizeof_StatusOnlyResp_def del: opcode_val.simps)
  then obtain d' where "send_check ?opc (replicate 80 0) sizeof_StatusOnlyResp st d =
      Some (status_reply_bytes ?opc AIE2_STATUS_INVALID_OPERATION, d')" "at_ease n d'"
    using at_ease_send [OF assms(1) test_calls_ok(6) assms(2), of sizeof_StatusOnlyResp
        "status_reply_bytes ?opc AIE2_STATUS_INVALID_OPERATION" st]
    by (auto simp: query_eval simp del: opcode_val.simps)
  then show ?thesis
    by (simp add: step_array_def status_bytes [OF plain_opcodes(7)] del: opcode_val.simps)
qed

lemma column_fields:
  "field_at 0 8 (ColumnInfoReq_bytes r) = ciq_dump_buff_addr r"
  "field_at 8 4 (ColumnInfoReq_bytes r) = ciq_dump_buff_size r"
  using arg_cong [OF ciq.dec_enc_alone [of r], of ciq_dump_buff_addr]
    arg_cong [OF ciq.dec_enc_alone [of r], of ciq_dump_buff_size]
  by (simp_all add: ColumnInfoReq_of_def)

lemma dma_step:
  assumes "at_ease n d" and "n \<noteq> -1"
  shows "\<exists>d'. step_dma junk d = Some d' \<and> at_ease n d'"
proof -
  let ?req = "\<lparr>ciq_dump_buff_addr = HOST_MEM_BASE + HOST_MEM_SIZE - 2, ciq_dump_buff_size = 64,
    ciq_num_cols = XDNA_AIE_COLS, ciq_aie_bitmap = 0\<rparr>"
  let ?c = "(opcode_val MSG_OP_QUERY_COL_STATUS, ColumnInfoReq_bytes ?req)"
  let ?r = "\<lparr>cir_status = status_val AIE2_STATUS_AIE_DMA_ERROR, cir_size = 0\<rparr>"
  have fields: "field_at 0 8 (ColumnInfoReq_bytes ?req) = HOST_MEM_BASE + HOST_MEM_SIZE - 2"
    "field_at 8 4 (ColumnInfoReq_bytes ?req) = (64 :: u32)"
    by (simp_all add: column_fields)
  have req: "request_of ?c = Rq_col (HOST_MEM_BASE + HOST_MEM_SIZE - 2) 64"
    by (simp add: call_eval fields del: opcode_val.simps)
  have "fst (host_dma_write h (HOST_MEM_BASE + HOST_MEM_SIZE - 2) (replicate 64 0)) = -1" for h
    by (simp add: host_dma_write_def HOST_MEM_BASE_def HOST_MEM_SIZE_def)
  then have "\<exists>h'. col_dump host_dma_write (HOST_MEM_BASE + HOST_MEM_SIZE - 2) 64 0 h = (0, True, h')" for h
    by (simp add: col_dump.simps [of _ _ _ 0] split_beta)
  then obtain h' where "col_dump host_dma_write (HOST_MEM_BASE + HOST_MEM_SIZE - 2) 64 0 (opaque test_npu) =
      (0, True, h')"
    by blast
  moreover have "dma_write (ops test_npu) = Some host_dma_write"
    by (simp add: test_ops_def)
  ultimately have "dump_of ?c = Some (0, True)"
    by (simp only: dump_of_def dump_result_def snd_conv fields option.case prod.case Let_def)
  moreover have "HOST_MEM_BASE + HOST_MEM_SIZE - 2 \<noteq> 0"
    by (simp add: HOST_MEM_BASE_def HOST_MEM_SIZE_def)
  ultimately have "spec_answer m ?c = Some (ColumnInfoResp_bytes ?r)" "spec_step m ?c = m" for m
    by (simp_all add: spec_answer_def spec_step_def req answer_bytes_def del: opcode_val.simps status_val.simps)
  then obtain d' where "send_check (opcode_val MSG_OP_QUERY_COL_STATUS) (ColumnInfoReq_bytes ?req)
      sizeof_ColumnInfoResp junk d = Some (ColumnInfoResp_bytes ?r, d')" "at_ease n d'"
    using at_ease_send [OF assms(1) test_calls_ok(4) assms(2) plain_opcodes(12) [symmetric],
        of ?req "ColumnInfoResp_bytes ?r" junk]
    by (auto simp del: opcode_val.simps status_val.simps)
  then show ?thesis
    by (simp add: step_dma_def cir.dec_enc_alone Let_def del: opcode_val.simps status_val.simps)
qed

subsection \<open>Starting the hardware\<close>

text \<open>A driver that has sent no message, on a device that has no context.\<close>

definition fresh :: "Drv \<Rightarrow> bool" where
  "fresh d \<longleftrightarrow> bounds_inv (drv_npu d) \<and> ids_ok (drv_npu d) \<and> ctx_map (drv_npu d) = Map.empty \<and>
     next_ctx_id (drv_npu d) = 1 \<and> ops (drv_npu d) = test_ops \<and>
     scratch (drv_npu d) 2 = PSP_STATUS_READY \<and> drv_x2i_tail d = 0 \<and> drv_i2x_head d = 0 \<and> g_failures d = 0"

definition up :: "Drv \<Rightarrow> Drv" where
  "up d = drv_check True (connected d (started (drv_npu d)))"

lemma start_run:
  assumes "fresh d"
  shows "start_check d = Some (up d)" and "at_ease 1 (up d)"
proof -
  have d: "ops (drv_npu d) = test_ops" "scratch (drv_npu d) 2 = PSP_STATUS_READY"
    "bounds_inv (drv_npu d)" "ids_ok (drv_npu d)" "drv_x2i_tail d = 0" "drv_i2x_head d = 0"
    using assms by (simp_all add: fresh_def)
  have "scratch (drv_npu d) 2 AND PSP_STATUS_READY \<noteq> 0"
    unfolding d(2) by (rule ready_bit)
  then show "start_check d = Some (up d)"
    using hw_start_run [OF d(1)] by (simp add: start_check_def up_def Let_def)
  have "in_session (connected d (started (drv_npu d)))"
    by (rule boot_session [OF d(3,4,1,5,6)])
  moreover have "idle 1 (mert_abs (started (drv_npu d)))"
    using started_keeps(4,5) [OF d(3,1)] assms by (simp add: idle_def mert_abs_def fresh_def)
  ultimately have "on_course (mert_abs (started (drv_npu d))) (connected d (started (drv_npu d)))"
    using assms by (simp add: on_course_def) (simp add: connected_def fresh_def)
  with \<open>idle 1 (mert_abs (started (drv_npu d)))\<close> show "at_ease 1 (up d)"
    by (auto simp: up_def at_ease_def)
qed

lemma started_kick:
  assumes "ops s = test_ops"
  obtains k where "started s = sram_store (xdna_psp_kick k) 0x3F000 (le_bytes 4 (0 :: u32))"
    and "scratch k 2 = PSP_CMD_START" and "psp_state k = XDNA_PSP_VALIDATED"
proof -
  obtain s2 :: "Host xdna_npu" where s2: "psp_state s2 = XDNA_PSP_VALIDATED"
    "started s = sram_store (psp_run s2 PSP_CMD_START PSP_START_COPY_FW 0 0) 0x3F000 (le_bytes 4 (0 :: u32))"
    by (rule that [OF start_states(1) [OF assms]]) (simp add: started_def Let_def)
  show thesis
    by (rule that [OF s2(2) [unfolded psp_run_def]]) (simp_all add: s2(1))
qed

lemma started_unit:
  assumes "ops s = test_ops"
  shows "pwaitmode (started s) AND 1 = 1" and "scratch (started s) 2 = PSP_STATUS_READY"
proof -
  obtain k where k: "started s = sram_store (xdna_psp_kick k) 0x3F000 (le_bytes 4 (0 :: u32))"
    "scratch k 2 = PSP_CMD_START" "psp_state k = XDNA_PSP_VALIDATED"
    by (rule started_kick [OF assms])
  have "(w OR 1) AND 1 = 1" for w :: u32
    by (rule bit_word_eqI) (auto simp: bit_simps)
  then show "pwaitmode (started s) AND 1 = 1" "scratch (started s) 2 = PSP_STATUS_READY"
    using psp_boot(3) [OF k(2,3)] by (simp_all add: k(1) psp_scratch)
qed

lemma channel_step:
  assumes "fresh d"
  shows "\<exists>d'. step_channel (up d) = Some d' \<and> at_ease 1 d'"
proof -
  have ops: "ops (drv_npu d) = test_ops"
    using assms by (simp add: fresh_def)
  have "rd32 e XDNA_BAR_PSP XDNA_PSP_PWAITMODE_REG = Some (pwaitmode (drv_npu e), e)" for e
    by (simp add: XDNA_BAR_PSP_def XDNA_PSP_PWAITMODE_REG_def access_reg)
  moreover have "prot_major (up d) = XDNA_MGMT_PROT_MAJOR" "7 \<le> prot_minor (up d)"
    "rb_size (x2i_res (up d)) = XDNA_SRAM_MGMT_RB_SIZE" "intr_reg (up d) = head_reg (i2x_res (up d)) + 4"
    "drv_npu (up d) = started (drv_npu d)"
    by (simp_all add: up_def connected_def mgmt_x2i_def mgmt_i2x_def xdna_consts)
  ultimately show ?thesis
    using start_run(2) [OF assms] started_unit(1) [OF ops] by (simp add: step_channel_def Let_def)
qed

subsection \<open>The scenarios\<close>

lemma boot_run:
  assumes "fresh d"
  shows "\<exists>d'. test_boot junk d = Some d' \<and> at_ease 8 d'"
proof -
  have ids: "(1 :: u32) \<noteq> -1" "(2 :: u32) \<noteq> -1" "(8 :: u32) \<noteq> -1"
    by simp_all
  note start = start_run [OF assms]
  obtain d1 where d1: "step_channel (up d) = Some d1" "at_ease 1 d1"
    using channel_step [OF assms] by blast
  obtain st2 d2 where d2: "step_runtime_config junk d1 = Some (st2, d2)" "at_ease 1 d2"
    using runtime_config_step [OF d1(2) ids(1)] by blast
  obtain st3 d3 where d3: "step_pasid st2 d2 = Some (st3, d3)" "at_ease 1 d3"
    using pasid_step [OF d2(2) ids(1)] by blast
  obtain st4 d4 where d4: "step_suspend st3 d3 = Some (st4, d4)" "at_ease 1 d4"
    using suspend_step [OF d3(2) ids(1)] by blast
  obtain fw d5 where d5: "step_query junk d4 = Some (fw, d5)" "at_ease 1 d5"
    using query_step [OF d4(2) ids(1)] by blast
  obtain d6 where d6: "step_clocks d5 = Some d6" "at_ease 1 d6"
    using clocks_step [OF d5(2)] by blast
  obtain cctx st7 d7 where d7: "step_context junk st4 d6 = Some (cctx, st7, d7)" "at_ease 2 d7"
    using context_step [OF d6(2) ids(1), of junk st4] by auto
  obtain st8 d8 where d8: "step_limit cctx st7 d7 = Some (st8, d8)" "at_ease 8 d8"
    using limit_step [OF d7(2), of cctx st7] by auto
  obtain d9 where d9: "step_wrap fw d8 = Some d9" "at_ease 8 d9"
    using wrap_step [OF d8(2) ids(3)] by blast
  obtain d10 where d10: "step_array st8 d9 = Some d10" "at_ease 8 d10"
    using array_step [OF d9(2) ids(3)] by blast
  obtain d11 where d11: "step_dma junk d10 = Some d11" "at_ease 8 d11"
    using dma_step [OF d10(2) ids(3)] by blast
  have "g_failures (up d) = 0"
    using start(2) by (auto simp: at_ease_def on_course_def)
  then show ?thesis
    using d11(2) by (simp add: test_boot_def start(1) d1(1) d2(1) d3(1) d4(1) d5(1) d6(1) d7(1) d8(1)
        d9(1) d10(1) d11(1))
qed

lemma reset_abs:
  "ctx_map (xdna_npu_reset s) = Map.empty" "ids_ok (xdna_npu_reset s)"
proof -
  show "ctx_map (xdna_npu_reset s) = Map.empty"
    by (rule ext) (simp add: ctx_map_def ctx_by_id_def reset_fields zero_context_def find_None_iff)
  show "ids_ok (xdna_npu_reset s)"
    by (simp add: ids_ok_def reset_fields zero_context_def)
qed

lemma reset_fresh:
  assumes "bounds_inv (drv_npu d)" and "ops (drv_npu d) = test_ops"
    and "drv_x2i_tail d = 0" and "drv_i2x_head d = 0" and "g_failures d = 0"
  shows "fresh (reset_device d)"
  using assms bounds_reset by (simp add: fresh_def reset_device_def reset_fields reset_abs)

lemma kick_start_refused:
  assumes "scratch s 2 = PSP_CMD_START" and "psp_state s \<noteq> XDNA_PSP_VALIDATED"
  shows "sram (xdna_psp_kick s) = sram s"
  using assms by (simp add: xdna_psp_kick_def psp_complete_def Let_def cong: if_cong)
    (simp add: xdna_consts)

lemma start_refused:
  assumes "psp_state s \<noteq> XDNA_PSP_VALIDATED"
  shows "sram (psp_run s PSP_CMD_START a0 a1 a2) = sram s"
  unfolding psp_run_def by (subst kick_start_refused) (simp_all add: assms set_scratch_def)

lemma psp_check_run:
  assumes "scratch (drv_npu d) 2 = PSP_STATUS_READY"
    and "(snd (psp_next (psp_state (drv_npu d)) cmd (psp_call_image (drv_npu d) a0 a1 a2)) = 0) = good"
  shows "psp_check cmd a0 a1 a2 good d = Some (drv_check True (d\<lparr>drv_npu := psp_run (drv_npu d) cmd a0 a1 a2\<rparr>))"
proof -
  have "scratch (drv_npu d) 2 AND PSP_STATUS_READY \<noteq> 0"
    unfolding assms(1) by (rule ready_bit)
  from psp_exec_run [OF this, of cmd a0 a1 a2] assms(2) show ?thesis
    by (auto simp: psp_check_def split_beta Let_def)
qed

lemma alive_check_run:
  assumes "mem_load (sram (drv_npu d)) 0x3F000 4 = [0, 0, 0, 0]"
  shows "alive_check d = Some (drv_check True d)"
proof -
  have "unat XDNA_SRAM_FW_ALIVE_OFF = 0x3F000"
    by (simp add: xdna_consts)
  then show ?thesis
    using assms by (simp add: alive_check_def access_sram_word byte_eval)
qed

lemma released:
  assumes "bounds_inv s"
  defines "t \<equiv> psp_run s PSP_CMD_RELEASE_TMR 0 0 0"
  shows "mem_load (sram t) 0x3F000 4 = [0, 0, 0, 0]" and "ctx_map t = Map.empty"
    and "0 < next_ctx_id s \<Longrightarrow> ids_ok t"
proof -
  obtain k where k: "t = xdna_psp_kick k" "scratch k 2 = PSP_CMD_RELEASE_TMR" "next_ctx_id k = next_ctx_id s"
    by (simp add: t_def psp_run_def set_scratch_def)
  note off = psp_release [OF k(2)]
  have four: "4 = length [0, 0, 0, 0 :: u8]"
    by simp
  show "mem_load (sram t) 0x3F000 4 = [0, 0, 0, 0]"
    unfolding four by (simp only: k(1) off(3) fw_shutdown_state mem_load_store_same)
  have ctx: "\<not> ctx_valid (ctx t i)" if "i < 6" for i
    using that by (simp add: k(1) off(2) fw_shutdown_state XDNA_NPU1_HWCTX_LIMIT_def)
  then show "ctx_map t = Map.empty"
    by (intro ext) (force simp: ctx_map_def ctx_by_id_def find_None_iff XDNA_NPU1_HWCTX_LIMIT_def)
  show "ids_ok t" if "0 < next_ctx_id s"
    using that ctx psp_kick_contexts(1) [of k] k(3) by (simp add: ids_ok_def k(1))
qed

text \<open>The device after its unit has run: what the error paths look at.\<close>

lemma psp_run_fields:
  "drv_npu (d\<lparr>drv_npu := t\<rparr>) = t"
  "drv_x2i_tail (d\<lparr>drv_npu := t\<rparr>) = drv_x2i_tail d" "drv_i2x_head (d\<lparr>drv_npu := t\<rparr>) = drv_i2x_head d"
  "g_failures (d\<lparr>drv_npu := t\<rparr>) = g_failures d"
  by simp_all

lemma zeroed_load: "a + n \<le> z \<Longrightarrow> mem_load (mem_store m 0 (replicate z 0)) a n = replicate n 0"
  by (rule nth_equalityI) (simp_all add: mem_load_def mem_store_def)

lemma reset_alive_word: "mem_load (sram (xdna_npu_reset s)) 0x3F000 4 = [0, 0, 0, 0]"
proof -
  have "(0x3F000 :: nat) + 4 \<le> 0x40000" "replicate 4 (0 :: u8) = [0, 0, 0, 0]"
    by (simp, simp add: numeral_eq_Suc)
  from zeroed_load [OF this(1)] this(2) show ?thesis
    unfolding reset_fields by simp
qed

text \<open>The first two: a start without an image, and an image that cannot be read.\<close>

lemma refusals_run:
  assumes "bounds_inv (drv_npu d)" and "ops (drv_npu d) = test_ops"
    and "drv_x2i_tail d = 0" and "drv_i2x_head d = 0" and "g_failures d = 0"
  obtains d1 d2 where "psp_check PSP_CMD_START PSP_START_COPY_FW 0 0 False (reset_device d) = Some d1"
    and "alive_check d1 = Some (drv_check True d1)"
    and "psp_check PSP_CMD_VALIDATE 0xDEAD0000 0xFFFF 0x1000 False (drv_check True d1) = Some d2"
    and "fresh (reset_device d2)"
proof -
  let ?r = "xdna_npu_reset (drv_npu d)"
  let ?t = "psp_run ?r PSP_CMD_START PSP_START_COPY_FW 0 0"
  let ?u = "psp_run ?t PSP_CMD_VALIDATE 0xDEAD0000 0xFFFF 0x1000"
  let ?d1 = "drv_check True (reset_device d\<lparr>drv_npu := ?t\<rparr>)"
  let ?d2 = "drv_check True (drv_check True ?d1\<lparr>drv_npu := ?u\<rparr>)"
  have bad: "PSP_ERROR_BAD_STATE \<noteq> 0" "PSP_ERROR_CANCEL \<noteq> 0"
    "psp_next XDNA_PSP_COLD PSP_CMD_START img = (XDNA_PSP_COLD, PSP_ERROR_BAD_STATE)" for img
    by (simp_all add: psp_next_def xdna_consts)
  have one: "psp_check PSP_CMD_START PSP_START_COPY_FW 0 0 False (reset_device d) = Some ?d1"
    using psp_check_run [of "reset_device d" PSP_CMD_START PSP_START_COPY_FW 0 0 False] bad
    by (simp add: reset_device_def reset_fields)
  have "sram ?t = sram ?r"
    by (rule start_refused) (simp add: reset_fields)
  then have "mem_load (sram ?t) 0x3F000 4 = [0, 0, 0, 0]"
    using reset_alive_word by metis
  then have two: "alive_check ?d1 = Some (drv_check True ?d1)"
    by (intro alive_check_run) simp
  have ops: "ops ?t = test_ops"
    using assms(2) by (simp add: reset_fields)
  have image: "psp_call_image ?t 0xDEAD0000 0xFFFF 0x1000 = PSP_ERROR_CANCEL"
    using ops by (simp add: psp_call_image_def psp_image_result_def test_ops_def host_dma_read_def xdna_consts)
  have three: "psp_check PSP_CMD_VALIDATE 0xDEAD0000 0xFFFF 0x1000 False (drv_check True ?d1) = Some ?d2"
    using psp_check_run [of "drv_check True ?d1" PSP_CMD_VALIDATE "0xDEAD0000" "0xFFFF" "0x1000" False]
      bad(2) by (simp add: image psp_next_def psp_run_state(2))
  have "bounds_inv ?u" "ops ?u = test_ops"
    using ops assms(1) by (simp_all add: run_bounds bounds_reset)
  then have "fresh (reset_device ?d2)"
    using assms(3-5) by (intro reset_fresh) (simp_all add: reset_device_def)
  from that [OF one two three this] show thesis .
qed

text \<open>A shutdown of a firmware without contexts, and the device ready to boot again.\<close>

lemma shutdown_run:
  assumes "fresh d"
  obtains d1 d2 where "psp_check PSP_CMD_RELEASE_TMR 0 0 0 True (up d) = Some d1"
    and "alive_check d1 = Some (drv_check True d1)"
    and "smu_check AIE_SMU_POWER_OFF 0 True (drv_check True d1) = Some d2"
    and "fresh (d2\<lparr>next_msg_id := 1\<rparr>)"
proof -
  let ?s = "started (drv_npu d)"
  let ?t = "psp_run ?s PSP_CMD_RELEASE_TMR 0 0 0" and ?u = "smu_run (psp_run ?s PSP_CMD_RELEASE_TMR 0 0 0) AIE_SMU_POWER_OFF 0"
  let ?d1 = "drv_check True (up d\<lparr>drv_npu := ?t\<rparr>)"
  let ?d2 = "drv_check True (drv_check True ?d1\<lparr>drv_npu := ?u\<rparr>)"
  have d: "ops (drv_npu d) = test_ops" "bounds_inv (drv_npu d)" "next_ctx_id (drv_npu d) = 1"
    "drv_x2i_tail d = 0" "drv_i2x_head d = 0" "g_failures d = 0"
    using assms by (simp_all add: fresh_def)
  note s = started_keeps [OF d(2,1)] and off = released [OF started_keeps(1) [OF d(2,1)]]
  have up: "drv_npu (up d) = ?s" "drv_x2i_tail (up d) = 0" "drv_i2x_head (up d) = 0" "g_failures (up d) = 0"
    using d(4-6) by (simp_all add: up_def connected_def)
  have "psp_next st PSP_CMD_RELEASE_TMR img = (XDNA_PSP_COLD, 0)" for st img
    by (simp add: psp_next_def xdna_consts)
  then have one: "psp_check PSP_CMD_RELEASE_TMR 0 0 0 True (up d) = Some ?d1"
    using psp_check_run [of "up d" PSP_CMD_RELEASE_TMR 0 0 0 True] started_unit(2) [OF d(1)] by (simp add: up(1))
  have two: "alive_check ?d1 = Some (drv_check True ?d1)"
    using off(1) by (intro alive_check_run) simp
  have "fst (smu_answer AIE_SMU_POWER_OFF 0) = SMU_RESULT_OK"
    by (simp add: smu_answer_def xdna_consts)
  then have three: "smu_check AIE_SMU_POWER_OFF 0 True (drv_check True ?d1) = Some ?d2"
    by (simp add: smu_check_def smu_exec_run split_beta Let_def)
  have keep: "ctx ?u = ctx ?t" "next_ctx_id ?u = 1" "next_ctx_id ?t = 1"
    using s(5) d(3) by (simp_all add: run_contexts)
  then have "ctx_map ?u = Map.empty" "ids_ok ?u"
    using off(2,3) ctx_map_cong [of ?u ?t] ids_ok_cong [of ?u ?t] s(5) d(3) by simp_all
  moreover have "bounds_inv ?u" "ops ?u = test_ops" "scratch ?u 2 = PSP_STATUS_READY"
    using s(1,3) by (simp_all add: run_bounds psp_run_state(2))
  ultimately have "fresh (?d2\<lparr>next_msg_id := 1\<rparr>)"
    using up(2-4) keep(2) by (simp add: fresh_def drv_check_def)
  from that [OF one two three this] show thesis .
qed

lemma error_paths_run:
  assumes "bounds_inv (drv_npu d)" and "ops (drv_npu d) = test_ops"
    and "drv_x2i_tail d = 0" and "drv_i2x_head d = 0" and "g_failures d = 0"
  shows "\<exists>d'. test_error_paths junk d = Some d' \<and> g_failures d' = 0"
proof -
  obtain d1 d2 where d1: "psp_check PSP_CMD_START PSP_START_COPY_FW 0 0 False (reset_device d) = Some d1"
      "alive_check d1 = Some (drv_check True d1)"
    and d2: "psp_check PSP_CMD_VALIDATE 0xDEAD0000 0xFFFF 0x1000 False (drv_check True d1) = Some d2"
      "fresh (reset_device d2)"
    by (rule refusals_run [OF assms])
  obtain d3 d4 where d3: "psp_check PSP_CMD_RELEASE_TMR 0 0 0 True (up (reset_device d2)) = Some d3"
      "alive_check d3 = Some (drv_check True d3)"
    and d4: "smu_check AIE_SMU_POWER_OFF 0 True (drv_check True d3) = Some d4" "fresh (d4\<lparr>next_msg_id := 1\<rparr>)"
    by (rule shutdown_run [OF d2(2)])
  obtain d5 where d5: "start_check (d4\<lparr>next_msg_id := 1\<rparr>) = Some d5" "at_ease 1 d5"
    using start_run [OF d4(2)] by blast
  obtain fw d6 where d6: "send_check (opcode_val MSG_OP_GET_FIRMWARE_VERSION) (le_bytes 4 (0 :: u32))
      sizeof_FirmwareVersionResp junk d5 = Some (fw, d6)" "fvr_status (FirmwareVersionResp_of fw) = 0"
      "at_ease 1 d6"
    using version_send [OF d5(2), of junk] by auto
  have "g_failures d6 = 0"
    using d6(3) by (auto simp: at_ease_def on_course_def)
  then show ?thesis
    using d1 d2(1) d3 d4(1) d5(1) d6(1,2) start_run(1) [OF d2(2)]
    by (simp add: test_error_paths_def del: opcode_val.simps)
qed

subsection \<open>The program\<close>

lemma test_main_run:
  "test_main v mem_ok npu_ok sram_ok junk = Some (if mem_ok \<and> npu_ok \<and> sram_ok then 0 else 1)"
proof (cases "mem_ok \<and> npu_ok \<and> sram_ok")
  case True
  let ?s = "xdna_npu_reset (zero_npu test_ops (test_host v) (\<lambda>_. 0) False False)"
  have new: "xdna_npu_new test_ops (test_host v) True True = Some ?s"
    by (simp add: xdna_npu_new_def)
  have s: "bounds_inv ?s" "ops ?s = test_ops"
    by (rule bounds_new [OF new]) (simp add: reset_fields zero_npu_def)
  have on: "drv_npu (driver_on t n k) = t" "drv_x2i_tail (driver_on t n k) = 0"
    "drv_i2x_head (driver_on t n k) = 0" "g_failures (driver_on t n k) = n" for t n k
    by (simp_all add: driver_on_def test_drv_def Let_def)
  have "reset_device (driver_on (zero_npu test_ops (test_host v) (\<lambda>_. 0) False False) 0 0) = driver_on ?s 0 0"
    by (simp add: reset_device_def driver_on_def)
  have "ctx_map ?s = Map.empty" "ids_ok ?s"
    by (simp_all add: reset_abs)
  then have "fresh (driver_on ?s 0 0)"
    using s by (simp add: fresh_def on reset_fields)
  then obtain d where d: "test_boot junk (driver_on ?s 0 0) = Some d" "at_ease 8 d"
    using boot_run by blast
  then have "bounds_inv (drv_npu d)" "ops (drv_npu d) = test_ops" "g_failures d = 0"
    by (auto simp: at_ease_def on_course_def in_session_def)
  then obtain d' where "test_error_paths junk (driver_on (drv_npu d) (g_failures d) (g_checks d)) = Some d'"
    "g_failures d' = 0"
    using error_paths_run [of "driver_on (drv_npu d) (g_failures d) (g_checks d)" junk] on by auto
  with True d(1) new show ?thesis
    by (simp add: test_main_def)
qed (auto simp: test_main_def xdna_npu_new_def)

text \<open>C5: The boot test of the repository passes.  Its program sets up its host memory (zeros and the
  image of the firmware), creates the device, boots it, sets it up, queries it, fills it with
  contexts and empties it, wraps both rings with 300 messages, provokes each refusal, releases
  the device and boots it again; every call of the driver returns, not one of its checks fails,
  whatever the uninitialised responses hold, and the exit status is 0.  It is 1 exactly when an
  allocation fails.\<close>

theorem boot_test_passes:
  "test_main v mem_ok npu_ok sram_ok junk = Some (if mem_ok \<and> npu_ok \<and> sram_ok then 0 else 1)"
  by (rule test_main_run)

end
