(* ===== verification/Xdna_Announce.thy ===== *)
theory Xdna_Announce
  imports Xdna_Limit
begin

text \<open>
  What the answer to a creation is worth: the addresses it announces are those of the channel
  the device has opened, and the channel is empty.  \<open>opens_clean i r t\<close> says that the context
  in slot \<open>i\<close> is either old, as in \<open>r\<close>, or its channel stands at the start of both rings; every
  message of the management channel keeps it.
\<close>

definition at_start :: "xdna_channel \<Rightarrow> bool" where
  "at_start c \<longleftrightarrow> x2i_head c = 0 \<and> x2i_tail c = 0 \<and> i2x_head c = 0 \<and> i2x_tail c = 0 \<and> intr c = 0"

definition opens_clean :: "nat \<Rightarrow> 'h xdna_npu \<Rightarrow> 'h xdna_npu \<Rightarrow> bool" where
  "opens_clean i r t \<longleftrightarrow> (ctx_valid (ctx t i) \<longrightarrow> ctx_valid (ctx r i) \<or> at_start (chan t (Suc i)))"

lemma clean_unread [simp]:
  "opens_clean i r (xdna_log s l m) = opens_clean i r s"
  "opens_clean i r (s\<lparr>opaque := h\<rparr>) = opens_clean i r s"
  "opens_clean i r (s\<lparr>rt_cfg := rc\<rparr>) = opens_clean i r s"
  "opens_clean i r (s\<lparr>mgmt_pasid := w\<rparr>) = opens_clean i r s"
  "opens_clean i r (s\<lparr>fw_suspended := b\<rparr>) = opens_clean i r s"
  "opens_clean i r (s\<lparr>async_buf_addr := ad, async_buf_size := z, async_registered := b\<rparr>) = opens_clean i r s"
  "opens_clean i r (s\<lparr>ctx := (ctx s)(slot := (ctx s slot)\<lparr>heap_addr := a, heap_size := n\<rparr>)\<rparr>) = opens_clean i r s"
  "opens_clean i r (snd (xdna_mbox_send s 0 j p bs)) = opens_clean i r s"
  by (simp_all add: opens_clean_def)

lemma clean_create:
  assumes "opens_clean i r s" and "slot < 6"
  shows "opens_clean i r (ctx_fill_slot (ctx_open_channel s slot) slot req)"
proof (cases "slot = i")
  case True
  then show ?thesis
    using assms(2) by (simp add: opens_clean_def open_channel_chan at_start_def zero_channel_def)
next
  case False
  moreover from this have "chan (ctx_fill_slot (ctx_open_channel s slot) slot req) (Suc i) = chan s (Suc i)"
    by (simp add: ctx_fill_slot_def ctx_open_channel_def Let_def channel_reset_chan)
  ultimately show ?thesis
    using assms(1) by (simp add: opens_clean_def fill_slot_ctx)
qed

interpretation clean: message_closed "opens_clean i r" "\<lambda>k. k = 0" for i and r :: "'h xdna_npu"
  by unfold_locales (auto simp: clean_create)

lemma creation_clean:
  assumes d: "in_session d" and req: "request_ok req" and i: "i < 6"
    and old: "\<not> ctx_valid (ctx (drv_npu d) i)" and new: "ctx_valid (ctx (rung d opc req) i)"
    and opc: "opcode_of opc \<noteq> Some MSG_OP_DESTROY_CONTEXT"
  shows "at_start (chan (rung d opc req) (Suc i))"
proof -
  obtain r where r: "r = count_msg_in (set_x2i_head (ring_tail 0 (call_ring d opc req) (call_tail d req)) 0 (call_tail d req))"
    "rung d opc req = xdna_mert_handle r 0 (call_header d opc req) req"
    by (rule rung_handled [OF d req])
  have "ctx r = ctx (drv_npu d)"
    by (simp add: r(1) count_msg_in_def set_x2i_head_def ring_tail_def call_ring_def Let_def)
  moreover have "opens_clean i r r"
    by (simp add: opens_clean_def)
  moreover have "opcode (call_header d opc req) = opc"
    by (simp add: call_header_def request_header_def)
  ultimately have "opens_clean i (drv_npu d) (rung d opc req)"
    using clean.I_handle_other [of i r r 0 "call_header d opc req" req] opc by (simp add: r(2) opens_clean_def)
  then show ?thesis
    using old new by (simp add: opens_clean_def)
qed

subsection \<open>The announced addresses\<close>

text \<open>
  A queue as a driver uses its announcement: device addresses become offsets in the BARs, the
  registers' that of the MBOX BAR, the buffer's that of the SRAM BAR.
\<close>

definition queue_at :: "CqInfo \<Rightarrow> nat \<Rightarrow> u32 \<Rightarrow> u32 \<Rightarrow> u32 \<Rightarrow> u32 \<Rightarrow> bool" where
  "queue_at q k head tail buf sz \<longleftrightarrow>
     chan_from_off (cqi_head_addr q - MPNPU_APERTURE2_BASE) = Some (k, head) \<and>
     chan_from_off (cqi_tail_addr q - MPNPU_APERTURE2_BASE) = Some (k, tail) \<and>
     cqi_buf_addr q - MPNPU_APERTURE1_BASE = buf \<and> cqi_buf_size q = sz"

definition announces :: "CreateCtxResp \<Rightarrow> nat \<Rightarrow> xdna_channel \<Rightarrow> bool" where
  "announces c k ch \<longleftrightarrow> ccr_status c = 0 \<and> ccr_msix_id c = word_of_nat k \<and> ccr_num_cq_pairs_allocated c = 1 \<and>
     queue_at (cqp_x2i_q (ccr_cq_pair0 c)) k XDNA_MBOX_X2I_HEAD_OFF XDNA_MBOX_X2I_TAIL_OFF (x2i_buf ch) (x2i_size ch) \<and>
     queue_at (cqp_i2x_q (ccr_cq_pair0 c)) k XDNA_MBOX_I2X_HEAD_OFF XDNA_MBOX_I2X_TAIL_OFF (i2x_buf ch) (i2x_size ch)"

lemma channel_registers:
  assumes "k < 7"
  shows "chan_from_off (XDNA_MBOX_CHAN_BASE (word_of_nat k) + XDNA_MBOX_X2I_HEAD_OFF) = Some (k, XDNA_MBOX_X2I_HEAD_OFF)"
    and "chan_from_off (XDNA_MBOX_CHAN_BASE (word_of_nat k) + XDNA_MBOX_X2I_TAIL_OFF) = Some (k, XDNA_MBOX_X2I_TAIL_OFF)"
    and "chan_from_off (XDNA_MBOX_CHAN_BASE (word_of_nat k) + XDNA_MBOX_I2X_HEAD_OFF) = Some (k, XDNA_MBOX_I2X_HEAD_OFF)"
    and "chan_from_off (XDNA_MBOX_CHAN_BASE (word_of_nat k) + XDNA_MBOX_I2X_TAIL_OFF) = Some (k, XDNA_MBOX_I2X_TAIL_OFF)"
proof -
  have "k = 0 \<or> k = 1 \<or> k = 2 \<or> k = 3 \<or> k = 4 \<or> k = 5 \<or> k = 6"
    using assms by auto
  then show
    "chan_from_off (XDNA_MBOX_CHAN_BASE (word_of_nat k) + XDNA_MBOX_X2I_HEAD_OFF) = Some (k, XDNA_MBOX_X2I_HEAD_OFF)"
    "chan_from_off (XDNA_MBOX_CHAN_BASE (word_of_nat k) + XDNA_MBOX_X2I_TAIL_OFF) = Some (k, XDNA_MBOX_X2I_TAIL_OFF)"
    "chan_from_off (XDNA_MBOX_CHAN_BASE (word_of_nat k) + XDNA_MBOX_I2X_HEAD_OFF) = Some (k, XDNA_MBOX_I2X_HEAD_OFF)"
    "chan_from_off (XDNA_MBOX_CHAN_BASE (word_of_nat k) + XDNA_MBOX_I2X_TAIL_OFF) = Some (k, XDNA_MBOX_I2X_TAIL_OFF)"
    by (elim disjE; simp add: chan_from_off_def xdna_consts)+
qed

lemma announcement_true:
  assumes "layout_inv s" and "k < 7" and "ch_active (chan s k)"
  shows "announces (ctx_announcement cid k) k (chan s k)"
proof -
  have nat: "w = word_of_nat n" if "unat w = n" for w :: u32 and n
    using that by auto
  have "x2i_buf (chan s k) = word_of_nat (ring_base k)" "x2i_size (chan s k) = word_of_nat (ring_len k)"
    "i2x_buf (chan s k) = word_of_nat (ring_base k + ring_len k)" "i2x_size (chan s k) = word_of_nat (ring_len k)"
    using layout_chan [OF assms(1,2)] assms(3) by (auto simp: chan_ok_def intro!: nat simp del: of_nat_add)
  then show ?thesis
    using channel_registers [OF assms(2)]
    by (simp add: announces_def queue_at_def ctx_announcement_def queue_info_def xdna_sram_dev_addr_def
        xdna_mbox_dev_addr_def)
qed

text \<open>C9: An announced channel is the channel.  When in a session a context is created, the
  answer names a context the firmware now has, with the columns asked for, and its channel: the
  registers and rings at the announced addresses are exactly those of the channel the device
  has opened for it, which was free, is active, and stands at the start of both rings.  So a
  driver that follows the announcement talks to its own, empty channel.\<close>

lemma created_context_announced:
  assumes "in_session d" and "next_ctx_id (drv_npu d) \<noteq> -1" and "columns_ok req"
    and "free_chan (ctx_map (drv_npu d)) = Some k"
  shows "\<exists>bs d'. mbox_send_recv d (opcode_val MSG_OP_CREATE_CONTEXT) (CreateCtxReq_bytes req)
      (word_of_nat sizeof_CreateCtxReq) (word_of_nat sizeof_CreateCtxResp) = Some (0, Some bs, d') \<and>
    in_session d' \<and>
    (let c = CreateCtxResp_of bs; ch = chan (drv_npu d') k
     in announces c k ch \<and> ch_active ch \<and> at_start ch \<and> \<not> ch_active (chan (drv_npu d) k) \<and>
        ctx_map (drv_npu d') (ccr_context_id c) = Some (new_context (ccr_context_id c) k req))"
proof -
  let ?s = "drv_npu d" and ?opc = "opcode_val MSG_OP_CREATE_CONTEXT" and ?req = "CreateCtxReq_bytes req"
  let ?c = "ctx_announcement (next_ctx_id ?s) k"
  have ok: "request_ok ?req" "opcode_of ?opc \<noteq> Some MSG_OP_REGISTER_ASYNC_EVENT_MSG"
    "opcode_of ?opc \<noteq> Some MSG_OP_DESTROY_CONTEXT"
    using context_calls_ok(1) [of req] by (simp_all add: call_ok_def create_call_def del: opcode_val.simps)
  have sizes: "length ?req = sizeof_CreateCtxReq" "fst (resp_size_for ?opc) = sizeof_CreateCtxResp"
    by (simp_all add: resp_size_for_def sizeof_CreateCtxReq_def del: opcode_val.simps)
  have "ops ?s = test_ops"
    using assms(1) by (simp add: in_session_def)
  note spec = call_spec_step [OF this, of ?opc ?req]
  have request: "request_of (?opc, ?req) = Rq_create req"
    using context_requests(1) [of req] by (simp add: create_call_def del: opcode_val.simps)
  have cols: "\<not> XDNA_AIE_COLS < ucast (ccq_num_col req)" "ccq_num_col req \<noteq> 0"
    using assms(3) by (simp_all add: columns_ok_def not_less)
  obtain bs d' where call: "answer_bytes ?opc (snd (call_spec d ?opc ?req)) = Some bs"
    "mbox_send_recv d ?opc ?req (word_of_nat (length ?req)) (word_of_nat (fst (resp_size_for ?opc))) =
      Some (0, Some bs, d')"
    and d': "in_session d'" "mert_abs (drv_npu d') = fst (call_spec d ?opc ?req)" "g_failures d' = g_failures d"
    and frame: "\<forall>j > 0. chan (drv_npu d') j = chan (rung d ?opc ?req) j"
      "ctx (drv_npu d') = ctx (rung d ?opc ?req)"
    by (rule call_step_frame [OF assms(1) ok(1) assms(2) ok(2)])
  have "m_ctx (mert_abs ?s) = ctx_map ?s" "m_next (mert_abs ?s) = next_ctx_id ?s"
    by (simp_all add: mert_abs_def)
  then have step: "bs = CreateCtxResp_bytes ?c" "ctx_map (drv_npu d') (next_ctx_id ?s) = Some (new_context (next_ctx_id ?s) k req)"
    using call(1) d'(2) spec request cols assms(4)
      arg_cong [OF d'(2), of m_ctx] by (simp_all add: answer_bytes_def mert_abs_def)
  have inv: "layout_inv ?s" "layout_inv (drv_npu d')" "ids_ok ?s"
    using assms(1) d'(1) by (simp_all add: in_session_def bounds_layout)
  obtain i where i: "i < 6" "ctx_valid (ctx (drv_npu d') i)" "ctx (drv_npu d') i = new_context (next_ctx_id ?s) k req"
    using step(2) by (auto simp: ctx_map_def dest: ctx_by_id_Some)
  then have k: "k = Suc i"
    using inv(2) by (auto simp: layout_inv_def new_context_def)
  have "\<forall>c \<in> ran (ctx_map ?s). ctx_chan c \<noteq> k"
    using assms(4) by (auto simp: free_chan_def find_Some_iff)
  then have old: "\<not> ctx_valid (ctx ?s i)"
    using inv(1) i(1) by (auto simp: ctx_map_ran [OF inv(3)] layout_inv_def k)
  then have "at_start (chan (drv_npu d') k)"
    using creation_clean [OF assms(1) ok(1) i(1) old _ ok(3)] i(2) frame by (simp add: k)
  moreover have "ch_active (chan (drv_npu d') k)" "\<not> ch_active (chan ?s k)"
    using inv(1,2) i(1,2) old by (auto simp: layout_inv_def k)
  moreover from this have "announces ?c k (chan (drv_npu d') k)"
    using announcement_true [OF inv(2)] i(1) by (simp add: k)
  moreover have "CreateCtxResp_of bs = ?c" "ccr_context_id ?c = next_ctx_id ?s"
    using step(1) by (simp_all add: ccr.dec_enc_alone) (simp add: ctx_announcement_def)
  ultimately show ?thesis
    using call(2) [unfolded sizes] d'(1) step(2)
    by (intro exI [of _ bs] exI [of _ d']) (simp add: Let_def del: opcode_val.simps)
qed

lemma created_context_announced_witness:
  "\<exists>bs d'. mbox_send_recv booted_drv (opcode_val MSG_OP_CREATE_CONTEXT) (CreateCtxReq_bytes test_ctx_req)
      (word_of_nat sizeof_CreateCtxReq) (word_of_nat sizeof_CreateCtxResp) = Some (0, Some bs, d') \<and>
    ch_active (chan (drv_npu d') 1) \<and> announces (CreateCtxResp_of bs) 1 (chan (drv_npu d') 1)"
proof -
  have "free_chan (ctx_map (drv_npu booted_drv)) = Some 1"
    using first_free [of 0 0 test_ctx_req] by (simp add: test_context(2))
  from created_context_announced [OF suspend_call(1) _ test_context(1) this] show ?thesis
    by (auto simp: test_context(3) Let_def simp del: opcode_val.simps)
qed

end
