(* ===== verification/Xdna_Overflow.thy ===== *)
theory Xdna_Overflow
  imports Xdna_Bounds
begin

text \<open>
  Why the discipline of \<open>Xdna_Bounds\<close> is needed.  \<open>xdna_mbox_send\<close> compares the tail with the
  head register the driver wrote and never with the size of the ring unless the tail is at or
  past that head.  A driver that writes 0xFFFFFFFF to the head register therefore disables
  both tests, and each further reply moves the tail on, past the ring and past the SRAM.
  The run below boots the firmware, puts one firmware version request and a TOMBSTONE in the
  x2i ring, and rings the doorbell 27 times.
\<close>

definition request_bytes :: "u8 list" where
  "request_bytes = hdr_bytes \<lparr>total_size = 4, sz_ver = 0, msg_id = 0,
     opcode = opcode_val MSG_OP_GET_FIRMWARE_VERSION\<rparr> @ le_bytes 4 (0 :: u32) @
     le_bytes 4 XDNA_MBOX_TOMBSTONE"

definition primed :: "'h xdna_npu \<Rightarrow> u32 \<Rightarrow> bool" where
  "primed s T \<longleftrightarrow> fw_alive s \<and>
     (\<exists>iv. chan s 0 =
        mgmt_channel\<lparr>x2i_tail := 4, i2x_head := - 1, i2x_tail := T, intr := iv\<rparr>) \<and>
     mem_load (sram s) 0x21000 24 = request_bytes \<and>
     (oob_write s \<longleftrightarrow> 0x1E000 < unat T)"

lemma length_request [simp]: "length request_bytes = 24"
  by (simp add: request_bytes_def)

lemma primed_words:
  assumes "primed s T"
  shows "(le_word (mem_load (sram s) 0x21000 4) :: u32) = 4"
    and "hdr_of (mem_load (sram s) 0x21000 16) = \<lparr>total_size = 4, sz_ver = 0, msg_id = 0,
      opcode = opcode_val MSG_OP_GET_FIRMWARE_VERSION\<rparr>"
    and "(le_word (mem_load (sram s) 0x21014 4) :: u32) = XDNA_MBOX_TOMBSTONE"
proof -
  have m: "mem_load (sram s) 0x21000 24 = request_bytes"
    using assms by (simp add: primed_def)
  have part: "mem_load (sram s) (0x21000 + i) n = take n (drop i request_bytes)" if "i + n \<le> 24" for i n
    using that by (simp add: mem.drop_load mem.take_load flip: m)
  show "(le_word (mem_load (sram s) 0x21000 4) :: u32) = 4"
    using part [of 0 4] by (simp add: request_bytes_def hdr_bytes_def)
  show "hdr_of (mem_load (sram s) 0x21000 16) = \<lparr>total_size = 4, sz_ver = 0, msg_id = 0,
      opcode = opcode_val MSG_OP_GET_FIRMWARE_VERSION\<rparr>"
    using part [of 0 16] by (simp add: request_bytes_def hdr.dec_enc_alone)
  show "(le_word (mem_load (sram s) 0x21014 4) :: u32) = XDNA_MBOX_TOMBSTONE"
    using part [of 20 4] by (simp add: request_bytes_def)
qed

subsection \<open>One round: the request, then the tombstone\<close>

lemma primed_read_request:
  assumes "primed s T"
  shows "xdna_sram_read32 s (x2i_buf (chan s 0) + x2i_head (chan s 0)) =
    (4, sram_load_mark s 0x21000 4)"
  using assms primed_words(1) [OF assms]
  by (auto simp: primed_def mgmt_channel_def zero_channel_def read32_in_bounds xdna_consts)

text \<open>The reply goes out at the tail, whatever the tail is.\<close>

definition version_reply :: "u8 list" where
  "version_reply = FirmwareVersionResp_bytes
     \<lparr>fvr_status = status_val AIE2_STATUS_SUCCESS, fvr_major = XDNA_FW_VER_MAJOR,
      fvr_minor = XDNA_FW_VER_MINOR, fvr_sub = XDNA_FW_VER_SUB, fvr_build = XDNA_FW_VER_BUILD\<rparr>"

definition after_request :: "'h xdna_npu \<Rightarrow> 'h xdna_npu" where
  "after_request s = count_msg_in (set_x2i_head
     (sram_load_mark (sram_load_mark (sram_load_mark s 0x21000 4) 0x21000 16) 0x21010 4) 0 20)"

lemma after_request_oob: "oob_write (after_request s) = oob_write s"
  by (simp add: after_request_def count_msg_in_def set_x2i_head_def)

lemma primed_rx_request:
  assumes "primed s T"
  shows "mbox_rx_one s 0 = Rx_again (xdna_mert_handle (after_request s) 0
    \<lparr>total_size = 4, sz_ver = 0, msg_id = 0, opcode = opcode_val MSG_OP_GET_FIRMWARE_VERSION\<rparr>
    (mem_load (sram s) 0x21010 4))"
proof -
  have c: "x2i_head (chan s 0) = 0" "x2i_size (chan s 0) = 0x1000" "x2i_buf (chan s 0) = 0x21000"
    using assms by (auto simp: primed_def mgmt_channel_def zero_channel_def xdna_consts)
  show ?thesis
    using primed_read_request [OF assms] primed_words(2) [OF assms]
    by (simp add: mbox_rx_one_def Let_def c xdna_consts after_request_def)
qed

lemma unat_minus_one: "unat (- 1 :: u32) = 0xFFFFFFFF"
  by (simp add: unsigned_minus_1_eq_mask mask_eq_exp_minus_1)

lemma primed_reply:
  fixes T :: u32 and p :: "u8 list"
  assumes "primed s T" and "unat T < 0x20000"
  defines "u \<equiv> xdna_mert_handle (after_request s) 0
    \<lparr>total_size = 4, sz_ver = 0, msg_id = 0, opcode = opcode_val MSG_OP_GET_FIRMWARE_VERSION\<rparr> p"
  shows "fw_alive u"
    and "chan u 0 = mgmt_channel\<lparr>x2i_head := 20, x2i_tail := 4, i2x_head := - 1,
      i2x_tail := T + 36, intr := 1\<rparr>"
    and "mem_load (sram u) 0x21000 24 = request_bytes"
    and "oob_write u \<longleftrightarrow> 0x1E000 < unat (T + 36)"
    and "xdna_mbox_send (after_request s) 0 0 (opcode_val MSG_OP_GET_FIRMWARE_VERSION) version_reply = (0, u)"
proof -
  let ?a = "after_request s"
  obtain iv where chan_s: "chan s 0 =
      mgmt_channel\<lparr>x2i_tail := 4, i2x_head := - 1, i2x_tail := T, intr := iv\<rparr>"
    using assms(1) by (auto simp: primed_def)
  have c: "chan ?a 0 = mgmt_channel\<lparr>x2i_head := 20, x2i_tail := 4, i2x_head := - 1, i2x_tail := T,
      intr := iv\<rparr>" and alive: "fw_alive ?a" and mem: "sram ?a = sram s"
    and oob: "oob_write ?a = oob_write s"
    using assms(1)
    by (simp_all add: after_request_def count_msg_in_def set_x2i_head_def primed_def chan_s
        mgmt_channel_def zero_channel_def)
  have T: "unat (T + 36) = unat T + 36"
    using assms(2) by (subst unat_add_small) simp_all
  have no_wrap: "\<not> T \<ge> - 1" "\<not> T + 36 \<ge> - 1" "T < - 1"
    using assms(2) T by (simp_all add: word_le_nat_alt word_less_nat_alt unat_minus_one)
  let ?send = "xdna_mbox_send ?a 0 0 (opcode_val MSG_OP_GET_FIRMWARE_VERSION) version_reply"
  have len: "length version_reply = 20"
    by (simp add: version_reply_def)
  have snd: "u = snd ?send"
    using alive
    by (simp add: u_def xdna_mert_handle_def handle_get_firmware_version_def mert_reply_def
        version_reply_def del: opcode_val.simps)
  have "?send = (0, mbox_commit ?a 0 T 0 (opcode_val MSG_OP_GET_FIRMWARE_VERSION) version_reply)"
    using c no_wrap len
    by (simp add: xdna_mbox_send_def Let_def mbox_usable_def mbox_wraps_def mbox_no_room_def
        mgmt_channel_def xdna_consts del: opcode_val.simps)
  with snd have u: "u = mbox_commit ?a 0 T 0 (opcode_val MSG_OP_GET_FIRMWARE_VERSION) version_reply"
    and send: "?send = (0, u)"
    by simp_all
  show "?send = (0, u)"
    by (rule send)
  show "fw_alive u"
    using alive by (simp add: u)
  show "chan u 0 = mgmt_channel\<lparr>x2i_head := 20, x2i_tail := 4, i2x_head := - 1,
      i2x_tail := T + 36, intr := 1\<rparr>"
    by (simp add: u commit_chan c len)
  have buf: "unat (i2x_buf (chan ?a 0)) = 0x22000"
    by (simp add: c mgmt_channel_def xdna_consts)
  show "mem_load (sram u) 0x21000 24 = request_bytes"
    using assms(1) by (simp add: u commit_sram buf mem mem.load_store_apart primed_def)
  have "oob_write s \<longleftrightarrow> 0x1E000 < unat T"
    using assms(1) by (simp add: primed_def)
  then show "oob_write u \<longleftrightarrow> 0x1E000 < unat (T + 36)"
    using T buf len oob
    by (auto simp add: u mbox_commit_def Let_def sram_store_def xdna_consts split: option.split)
qed

lemma primed_round:
  assumes "primed s T" and "unat T < 0x20000"
  shows "\<exists>t. primed t (T + 36) \<and> mbox_rx_loop (Suc (Suc n)) s 0 = mbox_rx_loop n t 0"
proof -
  define u where "u = xdna_mert_handle (after_request s) 0
    \<lparr>total_size = 4, sz_ver = 0, msg_id = 0, opcode = opcode_val MSG_OP_GET_FIRMWARE_VERSION\<rparr>
    (mem_load (sram s) 0x21010 4)"
  note reply = primed_reply [OF assms, where p = "mem_load (sram s) 0x21010 4", folded u_def]
  define t where "t = set_x2i_head (sram_load_mark u 0x21014 4) 0 0"
  have t: "primed t (T + 36)"
    using reply by (auto simp: t_def primed_def set_x2i_head_def mgmt_channel_def zero_channel_def)
  have "(le_word (mem_load (sram u) 0x21014 4) :: u32) = XDNA_MBOX_TOMBSTONE"
    using primed_words(3) [OF t] by (simp add: t_def set_x2i_head_def)
  then have read: "xdna_sram_read32 u (x2i_buf (chan u 0) + x2i_head (chan u 0)) =
      (XDNA_MBOX_TOMBSTONE, sram_load_mark u 0x21014 4)"
    by (simp add: reply(2) mgmt_channel_def read32_in_bounds xdna_consts)
  have one: "mbox_rx_one u 0 = Rx_again t"
    using read by (simp add: mbox_rx_one_def Let_def t_def)
      (simp add: reply(2) mgmt_channel_def zero_channel_def xdna_consts)
  have "x2i_head (chan s 0) \<noteq> x2i_tail (chan s 0)" "x2i_head (chan u 0) \<noteq> x2i_tail (chan u 0)"
    using assms(1) reply(2) by (auto simp: primed_def mgmt_channel_def zero_channel_def)
  then have "mbox_rx_loop (Suc (Suc n)) s 0 = mbox_rx_loop n t 0"
    using primed_rx_request [OF assms(1), folded u_def] one by simp
  with t show ?thesis by blast
qed

lemma primed_rounds:
  assumes "primed s T" and "unat T + 36 * n \<le> 0x1F000"
  shows "\<exists>t. primed t (T + word_of_nat (36 * n)) \<and> mbox_rx_loop (2 * n + r) s 0 = mbox_rx_loop r t 0"
  using assms
proof (induction n arbitrary: s T)
  case 0
  then show ?case by auto
next
  case (Suc n)
  then have T: "unat T < 0x20000" by simp
  obtain u where u: "primed u (T + 36)" "mbox_rx_loop (Suc (Suc (2 * n + r))) s 0 = mbox_rx_loop (2 * n + r) u 0"
    using primed_round [OF Suc.prems(1) T, of "2 * n + r"] by blast
  have "unat (T + 36) = unat T + 36"
    using T by (subst unat_add_small) simp_all
  then have "unat (T + 36) + 36 * n \<le> 0x1F000"
    using Suc.prems(2) by simp
  from Suc.IH [OF u(1) this] u(2) show ?case
    by (auto simp: algebra_simps)
qed

text \<open>A doorbell runs 128 rounds before the loop gives up.\<close>

definition with_tail :: "'h xdna_npu \<Rightarrow> 'h xdna_npu" where
  "with_tail s = s\<lparr>chan := (chan s)(0 := (chan s 0)\<lparr>x2i_tail := 4\<rparr>)\<rparr>"

lemma primed_with_tail: "primed s T \<Longrightarrow> with_tail s = s"
  by (auto simp: primed_def with_tail_def fun_upd_idem_iff)

lemma primed_doorbell:
  assumes primed: "primed (with_tail s) T" and index: "ch_index (chan s 0) = 0"
  shows "xdna_mbox_reg_write s XDNA_MBOX_X2I_TAIL_OFF 4 = mbox_rx_loop 256 (with_tail s) 0"
proof -
  have active: "ch_active (chan (with_tail s) 0)"
    using primed by (auto simp: primed_def mgmt_channel_def)
  have "chan_from_off XDNA_MBOX_X2I_TAIL_OFF = Some (0, XDNA_MBOX_X2I_TAIL_OFF)"
    by (simp add: chan_from_off_def xdna_consts)
  then have "xdna_mbox_reg_write s XDNA_MBOX_X2I_TAIL_OFF 4 = xdna_mbox_process (with_tail s) 0"
    by (simp add: xdna_mbox_reg_write_def with_tail_def index)
  also have "\<dots> = mbox_rx_loop 256 (with_tail s) 0"
    using active by (simp add: xdna_mbox_process_def MBOX_MAX_MSG_PER_KICK_def)
      (simp add: xdna_consts)
  finally show ?thesis .
qed

lemma primed_kick:
  assumes primed: "primed (with_tail s) T" and index: "ch_index (chan s 0) = 0"
    and room: "unat T + 4608 \<le> 0x1F000"
  shows "primed (xdna_mbox_reg_write s XDNA_MBOX_X2I_TAIL_OFF 4) (T + 4608)"
proof -
  obtain t where "primed t (T + word_of_nat (36 * 128))"
    "mbox_rx_loop (2 * 128 + 0) (with_tail s) 0 = mbox_rx_loop 0 t 0"
    using primed_rounds [OF primed, of 128 0] room by auto
  then show ?thesis
    by (simp add: primed_doorbell [OF primed index] primed_def)
qed

subsection \<open>The run\<close>

lemma mbox_write_reach: "api_reach s \<Longrightarrow> api_reach (xdna_mbox_reg_write s off v)"
  using mmio_write_word [of XDNA_BAR_MBOX s off "ucast v"] api_write [of s XDNA_BAR_MBOX off "ucast v" 4]
  by (simp add: bar_word_write_def xdna_consts)

lemma sram_write_reach:
  assumes "api_reach s" and "a + length bs \<le> 0x40000"
  shows "api_reach (sram_store s a bs)"
proof (rule api_reach.step [OF assms(1)])
  have "unat (word_of_nat a :: u32) = a" "unat (word_of_nat (length bs) :: u32) = length bs"
    using assms(2) by (simp_all add: unat_of_nat)
  then have "xdna_npu_mmio_write_buf s XDNA_BAR_SRAM (word_of_nat a) bs (word_of_nat (length bs)) =
      Some (sram_store s a bs)"
    using assms(2) by (simp add: mmio_write_sram)
  then show "api_step s (sram_store s a bs)"
    by (rule api_step.mmio_write_buf)
qed

definition hostile_npu :: "Host xdna_npu" where
  "hostile_npu = xdna_mbox_reg_write (sram_store booted_npu 0x21000 request_bytes)
     XDNA_MBOX_I2X_HEAD_OFF (- 1)"

lemma hostile_reach: "api_reach hostile_npu"
  unfolding hostile_npu_def by (intro mbox_write_reach sram_write_reach booted_reach) simp

lemma hostile_primed: "primed (with_tail hostile_npu) 0" "ch_index (chan hostile_npu 0) = 0"
proof -
  have "chan_from_off XDNA_MBOX_I2X_HEAD_OFF = Some (0, XDNA_MBOX_I2X_HEAD_OFF)"
    "XDNA_MBOX_I2X_HEAD_OFF \<noteq> XDNA_MBOX_X2I_TAIL_OFF"
    by (simp_all add: chan_from_off_def xdna_consts)
  then have h: "hostile_npu = (let s = sram_store booted_npu 0x21000 request_bytes
      in s\<lparr>chan := (chan s)(0 := mgmt_channel\<lparr>i2x_head := - 1\<rparr>)\<rparr>)"
    by (simp add: hostile_npu_def xdna_mbox_reg_write_def Let_def)
  have "\<not> oob_write booted_npu"
    using bounds.I_reach [OF booted_polite] by (simp add: bounds_inv_def)
  then show "primed (with_tail hostile_npu) 0"
    using mem.load_store_same [of "sram booted_npu" "0x21000" request_bytes]
    by (auto simp: h Let_def with_tail_def primed_def mgmt_channel_def zero_channel_def)
  show "ch_index (chan hostile_npu 0) = 0"
    by (simp add: h Let_def mgmt_channel_def)
qed

text \<open>The doorbell of the management channel, and the device after \<open>m\<close> of them.\<close>

abbreviation mgmt_doorbell :: "'h xdna_npu \<Rightarrow> 'h xdna_npu" where
  "mgmt_doorbell s \<equiv> xdna_mbox_reg_write s XDNA_MBOX_X2I_TAIL_OFF 4"

lemma hostile_run:
  "m \<le> 27 \<Longrightarrow> api_reach ((mgmt_doorbell ^^ m) hostile_npu) \<and>
    primed (with_tail ((mgmt_doorbell ^^ m) hostile_npu)) (word_of_nat (4608 * m)) \<and>
    ch_index (chan ((mgmt_doorbell ^^ m) hostile_npu) 0) = 0"
proof (induction m)
  case 0
  then show ?case
    using hostile_reach hostile_primed by simp
next
  case (Suc m)
  let ?s = "(mgmt_doorbell ^^ m) hostile_npu"
  have s: "api_reach ?s" "primed (with_tail ?s) (word_of_nat (4608 * m))" "ch_index (chan ?s 0) = 0"
    using Suc by simp_all
  have "unat (word_of_nat (4608 * m) :: u32) = 4608 * m"
    using Suc.prems by (simp add: unat_of_nat del: of_nat_mult)
  then have "primed (mgmt_doorbell ?s) (word_of_nat (4608 * m) + 4608)"
    using Suc.prems by (intro primed_kick s(2,3)) simp
  moreover have "word_of_nat (4608 * m) + 4608 = (word_of_nat (4608 * Suc m) :: u32)"
    by (simp add: algebra_simps)
  ultimately have kicked: "primed (mgmt_doorbell ?s) (word_of_nat (4608 * Suc m))"
    by (simp only:)
  moreover from this have "ch_index (chan (mgmt_doorbell ?s) 0) = 0"
    by (auto simp: primed_def mgmt_channel_def)
  ultimately show ?case
    using mbox_write_reach [OF s(1)] primed_with_tail [OF kicked]
    by (simp del: of_nat_mult mult_Suc_right)
qed

text \<open>The 27th doorbell, cut at its 86th reply, which is the first one past the allocation.\<close>

lemma last_doorbell:
  defines "s \<equiv> (mgmt_doorbell ^^ 26) hostile_npu"
  obtains t where "\<not> oob_write t" and "fst (xdna_mbox_send t 0 0 (opcode_val MSG_OP_GET_FIRMWARE_VERSION) version_reply) = 0"
    and "oob_write (snd (xdna_mbox_send t 0 0 (opcode_val MSG_OP_GET_FIRMWARE_VERSION) version_reply))"
    and "mgmt_doorbell s =
      mbox_rx_loop 85 (snd (xdna_mbox_send t 0 0 (opcode_val MSG_OP_GET_FIRMWARE_VERSION) version_reply)) 0"
proof -
  have s: "primed (with_tail s) 119808" "ch_index (chan s 0) = 0"
    using hostile_run [of 26] by (simp_all add: s_def)
  obtain t where t: "primed t (119808 + word_of_nat (36 * 85))"
    "mbox_rx_loop (2 * 85 + 86) (with_tail s) 0 = mbox_rx_loop 86 t 0"
    using primed_rounds [OF s(1), of 85 86] by auto
  then have T: "primed t 122868" by simp
  let ?u = "xdna_mert_handle (after_request t) 0
    \<lparr>total_size = 4, sz_ver = 0, msg_id = 0, opcode = opcode_val MSG_OP_GET_FIRMWARE_VERSION\<rparr>
    (mem_load (sram t) 0x21010 4)"
  note reply = primed_reply [OF T, of "mem_load (sram t) 0x21010 4"]
  have "x2i_head (chan t 0) \<noteq> x2i_tail (chan t 0)"
    using T by (auto simp: primed_def mgmt_channel_def zero_channel_def)
  then have "mbox_rx_loop (Suc 85) t 0 = mbox_rx_loop 85 ?u 0"
    unfolding mbox_rx_loop.simps primed_rx_request [OF T] by (simp del: opcode_val.simps)
  then have "mgmt_doorbell s = mbox_rx_loop 85 ?u 0"
    using primed_doorbell [OF s] t(2) by simp
  moreover have "\<not> oob_write t"
    using T by (simp add: primed_def)
  ultimately show thesis
    using reply by (intro that [of "after_request t"]) (simp_all add: after_request_oob del: opcode_val.simps)
qed

text \<open>C12: The i2x ring can be driven out of the SRAM.  On a device whose firmware has booted, with one
  request and a TOMBSTONE in the management ring, the driver writes 0xFFFFFFFF to the i2x head
  register, an offset beyond the ring, and rings the doorbell 26 times; no write has left the
  SRAM allocation yet, and the head register is where the driver put it.  The next doorbell writes
  past the end of the allocation: on its way a firmware version reply is sent, which
  \<open>xdna_mbox_send\<close> accepts and which is the first write out of bounds.  Neither test of
  \<open>xdna_mbox_send\<close> bounds the tail when the head register holds an offset outside the ring.\<close>

lemma send_leaves_the_sram:
  "let ring = (\<lambda>s. xdna_mbox_reg_write s XDNA_MBOX_X2I_TAIL_OFF 4);
       hostile = xdna_mbox_reg_write (sram_store booted_npu 0x21000 request_bytes)
                   XDNA_MBOX_I2X_HEAD_OFF 0xFFFFFFFF;
       s = (ring ^^ 26) hostile;
       reply = (\<lambda>t. xdna_mbox_send t 0 0 (opcode_val MSG_OP_GET_FIRMWARE_VERSION) version_reply)
   in api_reach s \<and> i2x_size (chan s 0) < i2x_head (chan s 0) \<and> \<not> oob_write s \<and>
      oob_write (ring s) \<and>
      (\<exists>t n. \<not> oob_write t \<and> fst (reply t) = 0 \<and> oob_write (snd (reply t)) \<and>
         ring s = mbox_rx_loop n (snd (reply t)) 0)"
proof -
  have hostile: "xdna_mbox_reg_write (sram_store booted_npu 0x21000 request_bytes)
      XDNA_MBOX_I2X_HEAD_OFF 0xFFFFFFFF = hostile_npu"
  proof -
    have "(0xFFFFFFFF :: u32) = - 1" by simp
    then show ?thesis by (simp only: hostile_npu_def)
  qed
  let ?s = "(mgmt_doorbell ^^ 26) hostile_npu"
  have reach: "api_reach ?s" and primed: "primed (with_tail ?s) 119808" and index: "ch_index (chan ?s 0) = 0"
    using hostile_run [of 26] by simp_all
  have "i2x_size (chan (with_tail ?s) 0) < i2x_head (chan (with_tail ?s) 0)" and inside: "\<not> oob_write (with_tail ?s)"
    using primed by (auto simp: primed_def mgmt_channel_def zero_channel_def word_less_nat_alt unat_minus_one xdna_consts)
  then have chan: "i2x_size (chan ?s 0) < i2x_head (chan ?s 0)" and inside: "\<not> oob_write ?s"
    by (simp_all add: with_tail_def)
  have "primed (mgmt_doorbell ?s) 124416"
    using primed_kick [OF primed index] by simp
  then have outside: "oob_write (mgmt_doorbell ?s)"
    by (simp add: primed_def)
  obtain t where "\<not> oob_write t" "fst (xdna_mbox_send t 0 0 (opcode_val MSG_OP_GET_FIRMWARE_VERSION) version_reply) = 0"
    "oob_write (snd (xdna_mbox_send t 0 0 (opcode_val MSG_OP_GET_FIRMWARE_VERSION) version_reply))"
    "mgmt_doorbell ?s =
      mbox_rx_loop 85 (snd (xdna_mbox_send t 0 0 (opcode_val MSG_OP_GET_FIRMWARE_VERSION) version_reply)) 0"
    by (rule last_doorbell)
  with reach chan inside outside show ?thesis
    unfolding Let_def hostile by blast
qed

end
