(* ===== verification/Xdna_Isolation.thy ===== *)
theory Xdna_Isolation
  imports Xdna_Recv
begin

text \<open>
  What the holders of context channels can do to the management channel: nothing.  A tenant
  reads and writes the registers of the context channels and the SRAM outside the management
  rings; \<open>mgmt_same\<close> says that the management channel and both of its rings are as they were.
  It is an interpretation of \<open>rx_closed\<close> for messages on the channels other than 0.
\<close>

definition mgmt_same :: "'h xdna_npu \<Rightarrow> 'h xdna_npu \<Rightarrow> bool" where
  "mgmt_same s t \<longleftrightarrow> chan t 0 = chan s 0 \<and>
     (\<forall>a. ring_base 0 \<le> a \<longrightarrow> a < ring_base 0 + 2 * ring_len 0 \<longrightarrow> sram t a = sram s a)"

lemma mgmt_unread [simp]:
  "mgmt_same r (xdna_log s l m) = mgmt_same r s"
  "mgmt_same r (s\<lparr>opaque := h\<rparr>) = mgmt_same r s"
  "mgmt_same r (s\<lparr>rt_cfg := rc\<rparr>) = mgmt_same r s"
  "mgmt_same r (s\<lparr>mgmt_pasid := w\<rparr>) = mgmt_same r s"
  "mgmt_same r (s\<lparr>fw_suspended := b\<rparr>) = mgmt_same r s"
  "mgmt_same r (s\<lparr>async_buf_addr := ad, async_buf_size := z, async_registered := b\<rparr>) = mgmt_same r s"
  "mgmt_same r (s\<lparr>ctx := x\<rparr>) = mgmt_same r s"
  "mgmt_same r (sram_load_mark s a n) = mgmt_same r s"
  "mgmt_same r (snd (xdna_sram_read32 s off)) = mgmt_same r s"
  "mgmt_same r (count_msg_in s) = mgmt_same r s"
  "0 < k \<Longrightarrow> mgmt_same r (set_x2i_head s k v) = mgmt_same r s"
  "0 < k \<Longrightarrow> mgmt_same r (s\<lparr>chan := (chan s)(k := c)\<rparr>) = mgmt_same r s"
  by (simp_all add: mgmt_same_def count_msg_in_def set_x2i_head_def)

lemma mgmt_outside:
  "0 < j \<Longrightarrow> ring_base 0 \<le> a \<Longrightarrow> a < ring_base 0 + 2 * ring_len 0 \<Longrightarrow> a < ring_base j"
  by (cases j) (simp_all add: ring_base_def ring_len_def)

lemma mgmt_send:
  assumes "bounds_inv s" and "0 < k" and "length bs \<le> 76"
  shows "mgmt_same r (snd (xdna_mbox_send s k i p bs)) = mgmt_same r s"
proof -
  have "sram (snd (xdna_mbox_send s k i p bs)) a = sram s a"
    if "ring_base 0 \<le> a" "a < ring_base 0 + 2 * ring_len 0" for a
    using mgmt_outside [OF assms(2) that] by (intro send_outside assms) simp
  then show ?thesis
    using assms(2) by (simp add: mgmt_same_def)
qed

lemma mgmt_create:
  assumes "slot < 6"
  shows "mgmt_same r (ctx_fill_slot (ctx_open_channel s slot) slot req) = mgmt_same r s"
proof -
  have "sram (ctx_fill_slot (ctx_open_channel s slot) slot req) a = sram s a"
    if "ring_base 0 \<le> a" "a < ring_base 0 + 2 * ring_len 0" for a
    using mgmt_outside [of "Suc slot", OF _ that] assms
    by (simp add: ctx_fill_slot_def ctx_open_channel_def Let_def unat_ctx_rb_base ring_base_def
        mem_store_outside)
  then show ?thesis
    by (simp add: mgmt_same_def)
      (simp add: ctx_fill_slot_def ctx_open_channel_def Let_def channel_reset_chan)
qed

lemma mgmt_destroy:
  assumes "layout_inv s" and "slot < 6" and "ctx_valid (ctx s slot)"
  shows "mgmt_same r (ctx_destroy_slot s slot) = mgmt_same r s"
proof -
  have "ctx_chan (ctx s slot) = Suc slot"
    using assms by (auto simp: layout_inv_def)
  then show ?thesis
    by (simp add: mgmt_same_def ctx_destroy_slot_def Let_def channel_reset_chan)
qed

interpretation tenants: rx_closed "\<lambda>t. bounds_inv t \<and> mgmt_same r t" "\<lambda>k. 0 < k"
  for r :: "'h xdna_npu"
  by unfold_locales
    (simp_all add: max_channels bounds_layout mgmt_send bounds_send mgmt_create bounds_create
      mgmt_destroy bounds_destroy bounds_heap bounds_rewind bounds_peek bounds_consume)

subsection \<open>Runs of tenants\<close>

inductive tenant_step :: "'h xdna_npu \<Rightarrow> 'h xdna_npu \<Rightarrow> bool" where
  register: "chan_from_off off = Some (k, reg) \<Longrightarrow> 0 < k \<Longrightarrow>
    head_guard polite_guest s XDNA_BAR_MBOX off v \<Longrightarrow> tenant_step s (bar_word_write s XDNA_BAR_MBOX off v)"
| memory: "off + length bs \<le> 0x40000 \<Longrightarrow>
    off + length bs \<le> ring_base 0 \<or> ring_base 0 + 2 * ring_len 0 \<le> off \<Longrightarrow>
    tenant_step s (sram_store s off bs)"
| register_read: "tenant_step s (snd (bar_word_read s XDNA_BAR_MBOX off))"
| memory_read: "off + n \<le> 0x40000 \<Longrightarrow> tenant_step s (sram_load_mark s off n)"

abbreviation tenant_run :: "'h xdna_npu \<Rightarrow> 'h xdna_npu \<Rightarrow> bool" where
  "tenant_run \<equiv> tenant_step\<^sup>*\<^sup>*"

lemma mbox_word_write: "bar_word_write s XDNA_BAR_MBOX off v = xdna_mbox_reg_write s off v"
  by (simp add: bar_word_write_def xdna_consts)

lemma tenant_register:
  assumes "bounds_inv s" and "mgmt_same r s" and off: "chan_from_off off = Some (k, reg)" and k: "0 < k"
    and guard: "head_guard polite_guest s XDNA_BAR_MBOX off v"
  shows "bounds_inv (xdna_mbox_reg_write s off v) \<and> mgmt_same r (xdna_mbox_reg_write s off v)"
proof -
  have "k < XDNA_MAX_CHANNELS"
    using off by (rule chan_from_off_bound)
  then have k7: "k < 7" and index: "ch_index (chan s k) = k"
    using layout_chan [OF bounds_layout [OF assms(1)], of k] by (simp_all add: max_channels chan_ok_def)
  have polite: "reg = XDNA_MBOX_I2X_HEAD_OFF \<Longrightarrow> polite_guest s k v"
    using guard off by (simp add: head_guard_def)
  note regs = bounds_driver_regs [OF assms(1) k7]
  show ?thesis
    using assms(1,2) k k7 index off regs bounds_head [OF assms(1) k7 polite]
      tenants.I_process [of "s\<lparr>chan := (chan s)(k := (chan s k)\<lparr>x2i_tail := v\<rparr>)\<rparr>" r k]
    by (simp add: xdna_mbox_reg_write_def Let_def)
qed

lemma tenant_step_same:
  "tenant_step s t \<Longrightarrow> bounds_inv s \<and> mgmt_same r s \<Longrightarrow> bounds_inv t \<and> mgmt_same r t"
proof (induction rule: tenant_step.induct)
  case (register off k reg s v)
  then show ?case
    using tenant_register [of s r off k reg v] by (simp add: mbox_word_write)
next
  case (memory off bs s)
  then show ?case
    by (auto simp: mgmt_same_def bounds_store mem_store_outside)
qed (simp_all add: bar_word_read_def xdna_consts bounds_read)

lemma tenant_run_same:
  "tenant_run s t \<Longrightarrow> bounds_inv s \<Longrightarrow> bounds_inv t \<and> mgmt_same s t"
  by (induction rule: rtranclp_induct) (auto simp: mgmt_same_def dest: tenant_step_same)

text \<open>C7: Tenants cannot touch the management channel.  Let a tenant write the registers of the
  context channels, I2X_HEAD only with offsets inside the ring, but everything else, messages and
  tails included, with any value, and the SRAM outside the management rings: the management
  channel keeps its registers and both of its rings their contents: the same requests wait in
  the one, the same replies in the other.\<close>

lemma tenants_leave_management:
  assumes "dev_reach polite_guest s" and "tenant_run s t"
  shows "chan t 0 = chan s 0 \<and>
    (\<forall>a. ring_base 0 \<le> a \<longrightarrow> a < ring_base 0 + 2 * ring_len 0 \<longrightarrow> sram t a = sram s a) \<and>
    (\<forall>q. x2i_holds 0 t q \<longleftrightarrow> x2i_holds 0 s q)"
proof -
  have "mgmt_same s t"
    using tenant_run_same [OF assms(2)] bounds.I_reach [OF assms(1)] by simp
  then have same: "chan t 0 = chan s 0"
    "\<And>a. ring_base 0 \<le> a \<Longrightarrow> a < ring_base 0 + 2 * ring_len 0 \<Longrightarrow> sram t a = sram s a"
    by (simp_all add: mgmt_same_def)
  then have "x2i_kept 0 s t" "x2i_kept 0 t s"
    by (simp_all add: x2i_kept_def)
  then have "x2i_holds 0 t q \<longleftrightarrow> x2i_holds 0 s q" for q
    using kept_ring by blast
  with same show ?thesis by simp
qed

text \<open>
  A tenant with a context of its own, who puts a truncated message in its ring and rings with
  a tail that is outside it.
\<close>

definition create_msg :: msg where
  "create_msg = (\<lparr>total_size = 28, sz_ver = 0x1001C, msg_id = 1,
     opcode = opcode_val MSG_OP_CREATE_CONTEXT\<rparr>, [1, 0, 0, 0, 0, 1, 0, 0, 1] @ replicate 19 0)"

definition tenant_npu :: "Host xdna_npu" where
  "tenant_npu = xdna_mbox_reg_write (request_npu create_msg) (x2i_tail_reg 0) 44"

lemma tenant_npu:
  "dev_reach polite_guest tenant_npu" "ch_active (chan tenant_npu 1)"
  "ids_ok tenant_npu" "x2i_head (chan tenant_npu 0) = 44" "x2i_tail (chan tenant_npu 0) = 44"
proof -
  have size: "unat (total_size (fst create_msg)) = length (snd create_msg)" "length (snd create_msg) \<le> 64"
    by (simp_all add: create_msg_def)
  note start = request_npu [OF size]
  have "dev_step polite_guest (request_npu create_msg)
      (bar_word_write (request_npu create_msg) XDNA_BAR_MBOX (x2i_tail_reg 0) 44)"
    by (intro dev_step.word_write) (simp add: head_guard_def chan_from_tail_reg, simp add: xdna_consts)
  then have step: "dev_step polite_guest (request_npu create_msg) tenant_npu"
    by (simp add: tenant_npu_def mbox_word_write)
  with start(1) show reach: "dev_reach polite_guest tenant_npu"
    by (rule dev_reach.step)
  have "ctx_map (request_npu create_msg) = Map.empty"
    by (rule ext) (simp add: ctx_map_def ctx_by_id_def start(5) zero_context_def find_None_iff)
  moreover have bell: "mert_abs tenant_npu = mert_run [create_msg] (mert_abs (request_npu create_msg))"
    "ids_ok tenant_npu" "x2i_head (chan tenant_npu 0) = 44" "x2i_tail (chan tenant_npu 0) = 44"
    using doorbell_queue [of "request_npu create_msg" 0 "[create_msg]" 44] start
    by (simp_all add: Let_def tenant_npu_def max_channels create_msg_def msg_ok_def mgmt_channel_def
        del: opcode_val.simps)
  moreover have "mert_request_of (fst create_msg) (snd create_msg) = Rq_create (CreateCtxReq_of (snd create_msg))"
    by (simp add: mert_request_of_def create_msg_def sized_def del: opcode_val.simps)
  moreover have "ccq_num_col (CreateCtxReq_of (snd create_msg)) = 1"
    by (simp add: create_msg_def CreateCtxReq_of_def field_at_def byte_eval)
  moreover have "free_chan Map.empty = Some 1"
    by (simp add: free_chan_def xdna_consts upt_rec)
  ultimately have "m_ctx (mert_abs tenant_npu) = [1 \<mapsto> new_context 1 1 (CreateCtxReq_of (snd create_msg))]"
    using start(4) by (simp add: mert_run_def split_beta mert_abs_def [of "request_npu create_msg"]
        XDNA_AIE_COLS_def)
  then have "\<exists>c. ctx_map tenant_npu 1 = Some c \<and> ctx_chan c = 1"
    by (simp add: mert_abs_def new_context_def)
  then obtain c where c: "ctx_map tenant_npu 1 = Some c" "ctx_chan c = 1"
    by auto
  then obtain i where "i < 6" "ctx_valid (ctx tenant_npu i)" "ctx tenant_npu i = c"
    by (auto simp: ctx_map_def dest: ctx_by_id_Some)
  then show "ch_active (chan tenant_npu 1)"
    using c(2) bounds_layout [OF bounds.I_reach [OF reach]] by (auto simp: layout_inv_def)
  show "ids_ok tenant_npu" "x2i_head (chan tenant_npu 0) = 44" "x2i_tail (chan tenant_npu 0) = 44"
    by (fact bell(2-4))+
qed

lemma tenants_leave_management_witness:
  "ch_active (chan tenant_npu 1) \<and>
    chan (xdna_mbox_reg_write (sram_store tenant_npu 0x24000 [4, 0, 0, 0]) (x2i_tail_reg 1) 0xFFFF) 0 =
      chan tenant_npu 0"
proof -
  let ?s = "sram_store tenant_npu 0x24000 [4, 0, 0, 0]"
  have "tenant_step tenant_npu ?s"
    by (rule tenant_step.memory) (simp_all add: ring_base_def ring_len_def)
  moreover have "tenant_step ?s (bar_word_write ?s XDNA_BAR_MBOX (x2i_tail_reg 1) 0xFFFF)"
    by (rule tenant_step.register [of _ 1 XDNA_MBOX_X2I_TAIL_OFF])
      (simp_all add: head_guard_def chan_from_tail_reg, simp add: xdna_consts)
  ultimately have run: "tenant_run tenant_npu (bar_word_write ?s XDNA_BAR_MBOX (x2i_tail_reg 1) 0xFFFF)"
    by (rule rtranclp.rtrancl_into_rtrancl [OF r_into_rtranclp])
  note same = conjunct1 [OF tenants_leave_management [OF tenant_npu(1) run]]
  show ?thesis
    using tenant_npu(2) same by (simp only: mbox_word_write)
qed

end
