(* ===== verification/Xdna_Backlog.thy ===== *)
theory Xdna_Backlog
  imports Xdna_Isolation Xdna_Call
begin

text \<open>
  A doorbell with more messages waiting than one pass of the receive loop takes.  The ring of a
  context has room for 409 of the shortest messages; the loop takes 256 of them, reports
  the channel as stuck, and leaves the others in the ring, in order, for the next doorbell.
\<close>

lemma log_keeps_ring [simp]: "x2i_holds k (xdna_log s l m) q = x2i_holds k s q"
  by (simp add: x2i_holds_def)

lemma log_keeps_abs [simp]: "mert_abs (xdna_log s l m) = mert_abs s"
  using ctx_map_cong [of "xdna_log s l m" s] by (simp add: mert_abs_def)

lemma rx_loop_cut:
  assumes "bounds_inv s" and "k < 7" and "ch_active (chan s k)" and "x2i_holds k s q"
    and "list_all (msg_ok k) q" and "n < length q"
    and "unat (x2i_head (chan s k)) \<le> unat (x2i_tail (chan s k))"
  shows "\<exists>t. delivered k s (take n q) t \<and> x2i_holds k t (drop n q) \<and>
    mbox_rx_loop n s k = xdna_log t XDNA_LOG_ERROR (Log_mbox_stuck k)"
  using assms
proof (induction n arbitrary: s q)
  case 0
  then have "x2i_head (chan s k) \<noteq> x2i_tail (chan s k)"
    by (auto simp: x2i_holds_def dest: ring_nonempty)
  with 0 show ?case
    by (auto intro: delivered.nothing)
next
  case (Suc n)
  from Suc.prems(6) obtain h p r where q: "q = (h, p) # r"
    by (cases q) auto
  have ok: "msg_ok k (h, p)" and straight: "unat (x2i_head (chan s k)) \<le> unat (x2i_tail (chan s k)) \<or>
      word_at (sram s) (ring_base k + unat (x2i_head (chan s k))) \<noteq> XDNA_MBOX_TOMBSTONE"
    using Suc.prems(5,7) by (simp_all add: q)
  obtain v u where u: "u = xdna_mert_handle (count_msg_in (set_x2i_head s k v)) k h p"
    "mbox_rx_one s k = Rx_again u" "x2i_head (chan s k) \<noteq> x2i_tail (chan s k)"
    "bounds_inv u" "ch_active (chan u k)" "x2i_holds k u r"
    "x2i_tail (chan u k) = x2i_tail (chan s k)" "x2i_head (chan u k) = v"
    "unat v = unat (x2i_head (chan s k)) + 16 + length p" "unat v \<le> ring_len k"
    by (rule rx_step [OF Suc.prems(1,2,3) Suc.prems(4) [unfolded q] ok straight])
  have "unat (x2i_head (chan u k)) \<le> unat (x2i_tail (chan u k))"
    using Suc.prems(4,7) u by (auto simp: q x2i_holds_def ring_holds_def dest: frames_le)
  with Suc.IH [OF u(4) Suc.prems(2) u(5,6)] Suc.prems(5,6) obtain t where
    "delivered k u (take n r) t" "x2i_holds k t (drop n r)"
    "mbox_rx_loop n u k = xdna_log t XDNA_LOG_ERROR (Log_mbox_stuck k)"
    by (auto simp: q)
  then show ?case
    using u(2,3) delivered.message [OF u(10), of s h p "take n r" t] by (auto simp: q u(1))
qed

lemma process_cut:
  assumes "bounds_inv s" and "k < 7" and "ch_active (chan s k)" and "x2i_holds k s q"
    and "list_all (msg_ok k) q" and "MBOX_MAX_MSG_PER_KICK < length q"
    and "unat (x2i_head (chan s k)) \<le> unat (x2i_tail (chan s k))"
  shows "\<exists>t. delivered k s (take MBOX_MAX_MSG_PER_KICK q) t \<and> x2i_holds k t (drop MBOX_MAX_MSG_PER_KICK q) \<and>
    xdna_mbox_process s k = xdna_log t XDNA_LOG_ERROR (Log_mbox_stuck k)"
  using rx_loop_cut [OF assms] assms(2,3)
  by (simp add: xdna_mbox_process_def max_channels flip: not_less del: mbox_rx_loop.simps)

text \<open>C14: A backlog is cut at 256 messages.  When the ring, not wrapped, holds more well-formed
  messages than one pass takes, a doorbell executes the first 256, each once and in order, and
  nothing else; the others stay in the ring unharmed, until the driver rings again.\<close>

lemma backlog_is_cut:
  assumes "dev_reach polite_guest s" and "k < XDNA_MAX_CHANNELS" and "ch_active (chan s k)"
    and "ids_ok s" and "unat (next_ctx_id s) + length q < 2 ^ 32"
    and "x2i_holds k (ring_tail k s v) q" and "list_all (msg_ok k) q"
    and "MBOX_MAX_MSG_PER_KICK < length q" and "x2i_head (chan s k) \<le> v"
  shows "let t = xdna_mbox_reg_write s (x2i_tail_reg k) v in
    mert_abs t = mert_run (take MBOX_MAX_MSG_PER_KICK q) (mert_abs s) \<and>
    x2i_holds k t (drop MBOX_MAX_MSG_PER_KICK q)"
proof -
  let ?s = "ring_tail k s v" and ?n = MBOX_MAX_MSG_PER_KICK
  have k: "k < 7"
    using assms(2) by (simp add: max_channels)
  note start = ring_tail_ready(1-6) [OF assms(1-4), of v] and index = ring_tail_ready(7) [OF assms(1-4)]
  have "unat (x2i_head (chan ?s k)) \<le> unat (x2i_tail (chan ?s k))"
    using assms(9) by (simp add: ring_tail_def word_le_nat_alt)
  then obtain t where t: "delivered k ?s (take ?n q) t" "x2i_holds k t (drop ?n q)"
    "xdna_mbox_process ?s k = xdna_log t XDNA_LOG_ERROR (Log_mbox_stuck k)"
    using process_cut [OF start(1) k start(2) assms(6,7,8)] by blast
  have "list_all (msg_ok k) (take ?n q)"
    using assms(7) by (auto simp: list_all_iff dest: in_set_takeD)
  then have "mert_abs t = mert_run (take ?n q) (mert_abs s)"
    using delivered_refines [OF t(1) start(1) k start(2) _ start(3,4)] start(5,6) assms(5) by simp
  with t show ?thesis
    by (simp add: Let_def tail_write_processes [OF k index])
qed

subsection \<open>A ring full of requests\<close>

text \<open>The tenant of \<open>Xdna_Isolation\<close> fills its ring with 300 requests.\<close>

lemma store_append: "mem_store m a (xs @ ys) = mem_store (mem_store m a xs) (a + length xs) ys"
  by (rule ext) (auto simp: mem_store_def nth_append)

lemma frames_stored:
  assumes "list_all (\<lambda>(h, p). unat (total_size h) = length p) q"
    and "b = a + length (concat (map (\<lambda>(h, p). hdr_bytes h @ p) q))"
  shows "frames (mem_store m a (concat (map (\<lambda>(h, p). hdr_bytes h @ p) q))) a b q"
  using assms
proof (induction q arbitrary: a m)
  case Nil
  then show ?case by simp
next
  case (Cons x q)
  obtain h p where x: "x = (h, p)" by (cases x)
  let ?m = "mem_store (mem_store m a (hdr_bytes h)) (a + 16) p" and ?c = "a + 16 + length p"
  let ?rest = "concat (map (\<lambda>(h, p). hdr_bytes h @ p) q)"
  have here: "frames ?m a ?c [(h, p)]"
    using Cons.prems(1) by (intro frame_written) (simp_all add: x)
  have "frames (mem_store ?m ?c ?rest) a ?c [(h, p)]"
    by (rule frames_store [OF here]) simp
  moreover have "frames (mem_store ?m ?c ?rest) ?c b q"
    using Cons.prems by (intro Cons.IH) (simp_all add: x)
  ultimately show ?case
    using frames_append by (fastforce simp: x store_append)
qed

definition many_requests :: "msg list" where
  "many_requests = replicate 300 suspend_msg"

lemma requests_length:
  "length (concat (map (\<lambda>(h, p). hdr_bytes h @ p) (replicate n suspend_msg))) = n * 20"
  by (induction n) (simp_all add: suspend_msg_def del: opcode_val.simps)

definition busy_npu :: "Host xdna_npu" where
  "busy_npu = sram_store tenant_npu 0x24000 (concat (map (\<lambda>(h, p). hdr_bytes h @ p) many_requests))"

lemma tenant_created:
  "ids_ok tenant_npu" "next_ctx_id tenant_npu = 2" "x2i_head (chan tenant_npu 1) = 0"
proof -
  have size: "unat (total_size (fst create_msg)) = length (snd create_msg)" "length (snd create_msg) \<le> 64"
    by (simp_all add: create_msg_def)
  let ?s = "ring_tail 0 (request_npu create_msg) 44" and ?h = "fst create_msg" and ?p = "snd create_msg"
  note start = request_npu [OF size]
  have active: "ch_active (chan (request_npu create_msg) 0)"
    by (simp add: start(3) mgmt_channel_def)
  note ready = ring_tail_ready(1-6) [OF start(1) _ active start(2), of 44]
    and index = ring_tail_ready(7) [OF start(1) _ active start(2)]
  have req: "mert_request_of ?h ?p = Rq_create (CreateCtxReq_of ?p)"
    by (simp add: mert_request_of_def create_msg_def sized_def del: opcode_val.simps)
  have col: "ccq_num_col (CreateCtxReq_of ?p) = 1"
    by (simp add: create_msg_def CreateCtxReq_of_def field_at_def byte_eval)
  obtain r where r: "r = count_msg_in (set_x2i_head ?s 0 (x2i_tail (chan ?s 0)))"
    "xdna_mbox_process ?s 0 = xdna_mert_handle r 0 ?h ?p" "bounds_inv r"
    using process_one [of ?s ?h ?p] ready start(6)
    by (auto simp: max_channels create_msg_def msg_ok_def ring_tail_def simp del: opcode_val.simps)
  have tenant: "tenant_npu = xdna_mert_handle r 0 ?h ?p"
    using index by (simp add: tenant_npu_def tail_write_processes max_channels r(2))
  have same: "ctx r = (\<lambda>_. zero_context)" "next_ctx_id r = 1" "fw_alive r"
    using start(4,5) ready(3) by (simp_all add: r(1) count_msg_in_def set_x2i_head_def ring_tail_def max_channels)
  have map: "ctx_map r = Map.empty"
    by (rule ext) (simp add: ctx_map_def ctx_by_id_def same zero_context_def find_None_iff)
  have "ids_ok r"
    by (simp add: ids_ok_def same zero_context_def)
  then have "answers r 0 ?h (mert_spec (mert_abs r) (dump_result r ?p) (mert_request_of ?h ?p))
      (xdna_mert_handle r 0 ?h ?p)"
    using same r(3) by (intro handle_answers bounds_layout) simp_all
  note u = answers_abs [OF this]
  show "ids_ok tenant_npu"
    using u same by (simp add: tenant)
  have "free_chan Map.empty = Some 1"
    by (simp add: free_chan_def xdna_consts upt_rec)
  then have "m_next (mert_abs tenant_npu) = 2"
    using u same by (simp add: tenant req mert_abs_def [of r] map col XDNA_AIE_COLS_def)
  then show "next_ctx_id tenant_npu = 2"
    by (simp add: mert_abs_def)
  have "free_slot r = Some 0"
    by (simp add: free_slot_def same zero_context_def xdna_consts upt_rec)
  moreover have "xdna_mert_handle r 0 ?h ?p = handle_create_context r 0 ?h ?p"
    by (simp add: xdna_mert_handle_def same create_msg_def del: opcode_val.simps)
  moreover have "chan (ctx_fill_slot (ctx_open_channel r 0) 0 req) 1 = (zero_channel
      \<lparr>ch_active := True, ch_index := 1, x2i_buf := ctx_rb_base 0, x2i_size := XDNA_SRAM_CTX_RB_SIZE,
       i2x_buf := ctx_rb_base 0 + XDNA_SRAM_CTX_RB_SIZE, i2x_size := XDNA_SRAM_CTX_RB_SIZE\<rparr>)" for req
    by (simp add: ctx_fill_slot_def ctx_open_channel_def Let_def channel_reset_chan xdna_consts)
  ultimately show "x2i_head (chan tenant_npu 1) = 0"
    using col by (simp add: tenant handle_create_context_def Let_def mert_reply_def XDNA_AIE_COLS_def
        zero_channel_def) (simp add: create_msg_def sizeof_CreateCtxReq_def)
qed

lemma busy_npu:
  "dev_reach polite_guest busy_npu" "ids_ok busy_npu" "next_ctx_id busy_npu = 2"
  "ch_active (chan busy_npu 1)" "x2i_head (chan busy_npu 1) = 0"
  "x2i_holds 1 (ring_tail 1 busy_npu 6000) many_requests"
proof -
  let ?bs = "concat (map (\<lambda>(h, p). hdr_bytes h @ p) many_requests)"
  have len: "length ?bs = 6000"
    unfolding many_requests_def requests_length by simp
  show "dev_reach polite_guest busy_npu"
    unfolding busy_npu_def using len
    by (intro dev_reach.step [OF tenant_npu(1)] dev_step.sram_write) simp
  show "ids_ok busy_npu" "next_ctx_id busy_npu = 2" "ch_active (chan busy_npu 1)"
    "x2i_head (chan busy_npu 1) = 0"
    using tenant_created tenant_npu(2) ids_ok_cong [of busy_npu tenant_npu]
    by (simp_all add: busy_npu_def)
  have "list_all (\<lambda>(h, p). unat (total_size h) = length p) many_requests"
    by (simp add: many_requests_def list_all_iff suspend_msg_def)
  then have "frames (sram busy_npu) 0x24000 (0x24000 + 6000) many_requests"
    using frames_stored [of many_requests "0x24000 + 6000" "0x24000" "sram tenant_npu"] len
    by (simp add: busy_npu_def)
  then show "x2i_holds 1 (ring_tail 1 busy_npu 6000) many_requests"
    using tenant_created(3)
    by (simp add: x2i_holds_def ring_tail_def ring_base_def ring_len_def ring_holds_def busy_npu_def)
qed

lemma suspends: "mert_run (replicate (Suc n) suspend_msg) m = m\<lparr>m_susp := True\<rparr>"
  by (induction n arbitrary: m)
    (simp_all add: mert_run_def suspend_msg_def mert_request_of_def del: opcode_val.simps)

lemma backlog_is_cut_witness:
  "let t = xdna_mbox_reg_write busy_npu (x2i_tail_reg 1) 6000 in
    m_susp (mert_abs t) \<and> x2i_holds 1 t (replicate 44 suspend_msg)"
proof -
  have "list_all (msg_ok 1) many_requests"
    by (simp add: many_requests_def list_all_iff msg_ok_def suspend_msg_def del: opcode_val.simps)
  moreover have "length many_requests = 300" "take 256 many_requests = replicate (Suc 255) suspend_msg"
    "drop 256 many_requests = replicate 44 suspend_msg"
    by (simp_all add: many_requests_def del: replicate.simps)
  moreover have "m_susp (mert_run (replicate 256 suspend_msg) m)" for m
    using suspends [of 255 m] by (simp del: replicate.simps)
  ultimately show ?thesis
    using backlog_is_cut [of busy_npu 1 many_requests 6000] busy_npu
    by (simp add: max_channels MBOX_MAX_MSG_PER_KICK_def Let_def del: replicate.simps)
qed

end
