(* ===== verification/Xdna_Bystander.thy ===== *)
theory Xdna_Bystander
  imports Xdna_Isolation
begin

text \<open>
  What the messages on one channel can do to the context of another: map its host buffer, and
  destroy it by its id; nothing else.  \<open>stands_by i r H t\<close> says that the context in slot
  \<open>i\<close>, its channel and both its rings are in \<open>t\<close> what they were in \<open>r\<close>, but for the address and
  the size of its buffer, which are one of \<open>H\<close>; every message on another channel keeps it that
  maps the buffer, if it does, as \<open>H\<close> allows, and so does the destruction of another context.
\<close>

definition stands_by :: "nat \<Rightarrow> 'h xdna_npu \<Rightarrow> (u64 \<times> u64) set \<Rightarrow> 'h xdna_npu \<Rightarrow> bool" where
  "stands_by i r H t \<longleftrightarrow> ctx_valid (ctx r i) \<and>
     (\<exists>(a, n) \<in> H. ctx t i = (ctx r i)\<lparr>heap_addr := a, heap_size := n\<rparr>) \<and>
     chan t (Suc i) = chan r (Suc i) \<and>
     (\<forall>a. ring_base (Suc i) \<le> a \<longrightarrow> a < ring_base (Suc i) + 2 * ring_len (Suc i) \<longrightarrow> sram t a = sram r a)"

lemma stands_by_ctx:
  assumes "stands_by i r H s"
  shows "ctx_valid (ctx s i)" and "ctx_id (ctx s i) = ctx_id (ctx r i)"
  using assms by (auto simp: stands_by_def)

lemma stands_by_unread [simp]:
  "stands_by i r H (xdna_log s l m) = stands_by i r H s"
  "stands_by i r H (s\<lparr>opaque := h\<rparr>) = stands_by i r H s"
  "stands_by i r H (s\<lparr>rt_cfg := rc\<rparr>) = stands_by i r H s"
  "stands_by i r H (s\<lparr>mgmt_pasid := w\<rparr>) = stands_by i r H s"
  "stands_by i r H (s\<lparr>fw_suspended := b\<rparr>) = stands_by i r H s"
  "stands_by i r H (s\<lparr>async_buf_addr := ad, async_buf_size := z, async_registered := b\<rparr>) = stands_by i r H s"
  "stands_by i r H (count_msg_in s) = stands_by i r H s"
  "k \<noteq> Suc i \<Longrightarrow> stands_by i r H (set_x2i_head s k v) = stands_by i r H s"
  "k \<noteq> Suc i \<Longrightarrow> stands_by i r H (s\<lparr>chan := (chan s)(k := c)\<rparr>) = stands_by i r H s"
  by (simp_all add: stands_by_def count_msg_in_def set_x2i_head_def)

lemma stands_by_heap:
  "stands_by i r H s \<Longrightarrow> slot = i \<Longrightarrow> (a, n) \<in> H \<Longrightarrow>
    stands_by i r H (s\<lparr>ctx := (ctx s)(slot := (ctx s slot)\<lparr>heap_addr := a, heap_size := n\<rparr>)\<rparr>)"
  "stands_by i r H s \<Longrightarrow> slot \<noteq> i \<Longrightarrow> stands_by i r H (s\<lparr>ctx := (ctx s)(slot := c)\<rparr>)"
  by (auto simp: stands_by_def intro!: bexI [of _ "(a, n)"])

lemma stands_by_send:
  assumes "bounds_inv s" and "k \<noteq> Suc i" and "length bs \<le> 76"
  shows "stands_by i r H (snd (xdna_mbox_send s k j p bs)) = stands_by i r H s"
proof -
  have "sram (snd (xdna_mbox_send s k j p bs)) a = sram s a"
    if "ring_base (Suc i) \<le> a" "a < ring_base (Suc i) + 2 * ring_len (Suc i)" for a
    using rings_disjoint [OF assms(2)] that by (intro send_outside assms) auto
  then show ?thesis
    using assms(2) by (simp add: stands_by_def)
qed

lemma stands_by_create:
  assumes "stands_by i r H s" and "slot < 6" and "\<not> ctx_valid (ctx s slot)"
  shows "stands_by i r H (ctx_fill_slot (ctx_open_channel s slot) slot req)"
proof -
  have other: "Suc slot \<noteq> Suc i"
    using assms stands_by_ctx(1) [OF assms(1)] by auto
  have "sram (ctx_fill_slot (ctx_open_channel s slot) slot req) a = sram s a"
    if "ring_base (Suc i) \<le> a" "a < ring_base (Suc i) + 2 * ring_len (Suc i)" for a
  proof -
    have "a < 0x24000 + slot * 0x4000 \<or> 0x28000 + slot * 0x4000 \<le> a"
      using rings_disjoint [OF other] that by (auto simp: ring_base_def ring_len_def)
    then show ?thesis
      using assms(2) by (auto simp: ctx_fill_slot_def ctx_open_channel_def Let_def unat_ctx_rb_base
          XDNA_SRAM_CTX_RB_STRIDE_def XDNA_SRAM_CTX_RB_SIZE_def intro!: mem_store_outside)
  qed
  moreover have "chan (ctx_fill_slot (ctx_open_channel s slot) slot req) (Suc i) = chan s (Suc i)"
    using other by (simp add: ctx_fill_slot_def ctx_open_channel_def Let_def channel_reset_chan)
  ultimately show ?thesis
    using assms(1) other by (simp add: stands_by_def fill_slot_ctx)
qed

lemma stands_by_destroy:
  assumes "layout_inv s" and "stands_by i r H s" and "slot < 6" and "ctx_valid (ctx s slot)" and "slot \<noteq> i"
  shows "stands_by i r H (ctx_destroy_slot s slot)"
proof -
  have "ctx_chan (ctx s slot) = Suc slot"
    using assms by (auto simp: layout_inv_def)
  then show ?thesis
    using assms(2,5) by (simp add: stands_by_def destroy_ctx)
      (simp add: ctx_destroy_slot_def Let_def channel_reset_chan)
qed

interpretation bystander: plain_closed "\<lambda>t. bounds_inv t \<and> stands_by i r H t" "\<lambda>k. k \<noteq> Suc i"
  for i and r :: "'h xdna_npu" and H
  by unfold_locales
    (simp_all add: stands_by_send bounds_send stands_by_create bounds_create)

subsection \<open>Messages and doorbells\<close>

text \<open>
  A message that destroys the context with a given id, and the addresses and sizes a queue of
  messages maps the host buffer of this context to.
\<close>

definition destroys :: "u32 \<Rightarrow> msg \<Rightarrow> bool" where
  "destroys cid x \<longleftrightarrow> mert_request_of (fst x) (snd x) = Rq_destroy cid"

definition heaps_mapped :: "u32 \<Rightarrow> msg list \<Rightarrow> (u64 \<times> u64) list" where
  "heaps_mapped cid q = List.map_filter
     (\<lambda>x. case mert_request_of (fst x) (snd x) of
        Rq_map c a n \<Rightarrow> if c = cid then Some (a, n) else None
      | _ \<Rightarrow> None) q"

lemma heaps_mapped_simps [simp]:
  "heaps_mapped cid [] = []"
  "set (heaps_mapped cid (x # q)) = set (heaps_mapped cid [x]) \<union> set (heaps_mapped cid q)"
  by (auto simp: heaps_mapped_def List.map_filter_def)

lemma handle_destroy_stands_by:
  assumes s: "bounds_inv s" "stands_by i r H s" and k: "k \<noteq> Suc i"
    and spared: "4 \<le> unat (total_size h) \<Longrightarrow> field_at 0 4 p \<noteq> ctx_id (ctx r i)"
  shows "bounds_inv (handle_destroy_context s k h p) \<and> stands_by i r H (handle_destroy_context s k h p)"
proof -
  have "slot \<noteq> i" if "ctx_by_id s (field_at 0 4 p) = Some slot" "4 \<le> unat (total_size h)" for slot
    using ctx_by_id_Some [OF that(1)] spared [OF that(2)] stands_by_ctx(2) [OF s(2)] by auto
  then show ?thesis
    using s k by (auto simp: handle_destroy_context_def Let_def sizeof_DestroyCtxReq_def DestroyCtxReq_of_def
        intro!: bystander.I_reply_status [THEN conjunct1] bystander.I_reply_status [THEN conjunct2]
          bounds_destroy stands_by_destroy bounds_layout dest: ctx_by_id_Some split: option.split)
qed

lemma handle_map_stands_by:
  assumes s: "bounds_inv s" "stands_by i r H s" and k: "k \<noteq> Suc i"
    and allowed: "20 \<le> unat (total_size h) \<Longrightarrow> field_at 0 4 p = ctx_id (ctx r i) \<Longrightarrow>
      (field_at 4 8 p, field_at 12 8 p) \<in> H"
  shows "bounds_inv (handle_map_host_buffer s k h p) \<and> stands_by i r H (handle_map_host_buffer s k h p)"
proof -
  have "stands_by i r H (s\<lparr>ctx := (ctx s)(slot := (ctx s slot)\<lparr>heap_addr := field_at 4 8 p, heap_size := field_at 12 8 p\<rparr>)\<rparr>)"
    if "ctx_by_id s (field_at 0 4 p) = Some slot" "20 \<le> unat (total_size h)" for slot
  proof (cases "slot = i")
    case True
    then have "field_at 0 4 p = ctx_id (ctx r i)"
      using ctx_by_id_Some [OF that(1)] stands_by_ctx(2) [OF s(2)] by simp
    with True that(2) show ?thesis
      by (intro stands_by_heap(1) s allowed)
  qed (rule stands_by_heap(2) [OF s(2)])
  then show ?thesis
    using s k by (auto simp: handle_map_host_buffer_def Let_def sizeof_MapHostBufferReq_def MapHostBufferReq_of_def
        intro!: bystander.I_reply_status [THEN conjunct1] bystander.I_reply_status [THEN conjunct2]
          bounds_heap dest: ctx_by_id_Some split: option.split)
qed

lemma handle_stands_by:
  assumes s: "bounds_inv s" "stands_by i r H s" and k: "k \<noteq> Suc i"
    and spared: "\<not> destroys (ctx_id (ctx r i)) (h, p)"
    and allowed: "set (heaps_mapped (ctx_id (ctx r i)) [(h, p)]) \<subseteq> H"
  shows "bounds_inv (xdna_mert_handle s k h p) \<and> stands_by i r H (xdna_mert_handle s k h p)"
proof (cases "names_context (opcode h)")
  case False
  with bystander.I_handle_plain [OF _ k this, of s r H p] s show ?thesis
    by simp
next
  case True
  then consider "opcode_of (opcode h) = Some MSG_OP_DESTROY_CONTEXT"
    | "opcode_of (opcode h) = Some MSG_OP_MAP_HOST_BUFFER \<or> opcode_of (opcode h) = Some MSG_OP_ADD_HOST_BUFFER"
    by (auto simp: names_context_def)
  then show ?thesis
  proof cases
    case 1
    with spared have "bounds_inv (handle_destroy_context s k h p) \<and> stands_by i r H (handle_destroy_context s k h p)"
      by (intro handle_destroy_stands_by s k) (auto simp: destroys_def mert_request_of_def sized_def)
    with 1 s show ?thesis
      by (simp add: xdna_mert_handle_def)
  next
    case 2
    with allowed have "bounds_inv (handle_map_host_buffer s k h p) \<and> stands_by i r H (handle_map_host_buffer s k h p)"
      by (intro handle_map_stands_by s k)
        (auto simp: heaps_mapped_def List.map_filter_def mert_request_of_def sized_def)
    with 2 s show ?thesis
      by (auto simp: xdna_mert_handle_def)
  qed
qed

lemma delivered_stands_by:
  assumes "delivered k s q t" and "bounds_inv s" and "k < 7" and "ch_active (chan s k)" and "list_all (msg_ok k) q"
    and "stands_by i r H s" and "k \<noteq> Suc i" and "list_all (\<lambda>x. \<not> destroys (ctx_id (ctx r i)) x) q"
    and "set (heaps_mapped (ctx_id (ctx r i)) q) \<subseteq> H"
  shows "stands_by i r H t"
  using assms
proof (induction rule: delivered.induct)
  case (message v s h p q t)
  let ?s = "count_msg_in (set_x2i_head s k v)"
  have inv: "bounds_inv ?s"
    using bounds_set_head [OF message.prems(1-3) message.hyps(1)] by (simp add: count_msg_in_def)
  have active: "ch_active (chan ?s k)" "x2i_tail (chan ?s k) = x2i_tail (chan s k)"
    using message.prems(3) by (simp_all add: count_msg_in_def set_x2i_head_def)
  have "msg_ok k (h, p)" "\<not> destroys (ctx_id (ctx r i)) (h, p)" "stands_by i r H ?s"
    and heaps: "set (heaps_mapped (ctx_id (ctx r i)) [(h, p)]) \<subseteq> H" "set (heaps_mapped (ctx_id (ctx r i)) q) \<subseteq> H"
    using message.prems heaps_mapped_simps(2) [of "ctx_id (ctx r i)" "(h, p)" q] by (simp_all del: heaps_mapped_simps(2))
  moreover from this have "x2i_kept k ?s (xdna_mert_handle ?s k h p)"
    by (intro handle_keeps inv active message.prems)
  ultimately show ?case
    using handle_stands_by [OF inv, of i r H k h p] message active by (simp add: x2i_kept_def del: heaps_mapped_simps(2))
next
  case (rewind s q t)
  then show ?case
    using bounds_set_head [of s k 0] by (simp add: set_x2i_head_def [of s k 0])
qed simp

text \<open>C8: A context is out of reach of the messages on other channels.  When a doorbell executes
  a queue of messages on the management channel, or on the channel of another context, none of
  which destroys the context in slot \<open>i\<close> by its id, then this context, its channel and the
  contents of both its rings stay as they were; except that the address and the size of its host
  buffer may be those that one of the messages maps for exactly this context's id.  If no
  message does, they are unchanged too.  Creating, using up and destroying other contexts
  does not show.\<close>

lemma bystander_untouched:
  assumes "dev_reach polite_guest s" and "k < XDNA_MAX_CHANNELS" and "ch_active (chan s k)" and "ids_ok s"
    and "x2i_holds k (ring_tail k s v) q" and "list_all (msg_ok k) q" and "length q < 256"
    and "k \<noteq> Suc i" and "ctx_valid (ctx s i)" and "list_all (\<lambda>x. \<not> destroys (ctx_id (ctx s i)) x) q"
  shows "let t = xdna_mbox_reg_write s (x2i_tail_reg k) v;
      heaps = (heap_addr (ctx s i), heap_size (ctx s i)) # heaps_mapped (ctx_id (ctx s i)) q in
    (\<exists>(a, n) \<in> set heaps. ctx t i = (ctx s i)\<lparr>heap_addr := a, heap_size := n\<rparr>) \<and>
    chan t (Suc i) = chan s (Suc i) \<and>
    (\<forall>a. ring_base (Suc i) \<le> a \<longrightarrow> a < ring_base (Suc i) + 2 * ring_len (Suc i) \<longrightarrow> sram t a = sram s a)"
proof -
  let ?H = "set ((heap_addr (ctx s i), heap_size (ctx s i)) # heaps_mapped (ctx_id (ctx s i)) q)"
  have k: "k < 7"
    using assms(2) by (simp add: max_channels)
  note start = ring_tail_ready(1,2) [OF assms(1-4), of v] and index = ring_tail_ready(7) [OF assms(1-4)]
  have "stands_by i s ?H s"
    using assms(9) by (auto simp: stands_by_def)
  then have "stands_by i s ?H (ring_tail k s v)"
    using assms(8) by (simp add: ring_tail_def)
  from delivered_stands_by [OF _ start(1) k start(2) assms(6) this assms(8,10)]
    process_delivers [OF start(1) k start(2) assms(5-7)]
  have "stands_by i s ?H (xdna_mbox_reg_write s (x2i_tail_reg k) v)"
    by (auto simp: tail_write_processes [OF k index])
  then show ?thesis
    by (simp add: stands_by_def Let_def)
qed

text \<open>A second context, created while the first one stands by.\<close>

definition second_npu :: "Host xdna_npu" where
  "second_npu = sram_store (sram_store tenant_npu 0x2102C (hdr_bytes (fst create_msg))) 0x2103C (snd create_msg)"

lemma second_npu:
  "dev_reach polite_guest second_npu" "ids_ok second_npu" "chan second_npu = chan tenant_npu"
  "ctx second_npu = ctx tenant_npu" "x2i_holds 0 (ring_tail 0 second_npu 88) [create_msg]"
proof -
  have size: "unat (total_size (fst create_msg)) = length (snd create_msg)" "length (snd create_msg) = 28"
    by (simp_all add: create_msg_def)
  show "dev_reach polite_guest second_npu"
    unfolding second_npu_def by (intro dev_reach.step [OF _ dev_step.sram_write] tenant_npu(1)) (simp_all add: size(2))
  show ctx: "ctx second_npu = ctx tenant_npu" and "chan second_npu = chan tenant_npu"
    by (simp_all add: second_npu_def)
  then show "ids_ok second_npu"
    using tenant_npu(3) ids_ok_cong [of second_npu tenant_npu] by (simp add: second_npu_def)
  have "frames (sram second_npu) 0x2102C 0x21058 [create_msg]"
    using frame_written [of "fst create_msg" "snd create_msg" "0x21058" "0x2102C" "sram tenant_npu"] size
    by (simp add: second_npu_def del: frames.simps)
  then show "x2i_holds 0 (ring_tail 0 second_npu 88) [create_msg]"
    using tenant_npu(4) \<open>chan second_npu = chan tenant_npu\<close>
    by (simp add: x2i_holds_def ring_base_def ring_len_def ring_tail_def ring_holds_def del: frames.simps)
qed

lemma bystander_untouched_witness:
  "ch_active (chan second_npu 1) \<and>
    ctx (xdna_mbox_reg_write second_npu (x2i_tail_reg 0) 88) 0 = ctx second_npu 0 \<and>
    chan (xdna_mbox_reg_write second_npu (x2i_tail_reg 0) 88) 1 = chan second_npu 1"
proof -
  have ok: "list_all (msg_ok 0) [create_msg]" "\<not> destroys c create_msg" "heaps_mapped c [create_msg] = []" for c
    by (simp_all add: create_msg_def msg_ok_def destroys_def heaps_mapped_def List.map_filter_def
        mert_request_of_def sized_def del: opcode_val.simps)
  have inv: "layout_inv second_npu"
    by (rule bounds_layout [OF bounds.I_reach [OF second_npu(1)]])
  have active: "ch_active (chan second_npu 1)" "ch_active (chan second_npu 0)"
    using tenant_npu(2) inv second_npu(3) by (auto simp: layout_inv_def)
  then have "ctx_valid (ctx second_npu 0)"
    using inv by (auto simp: layout_inv_def)
  from bystander_untouched [OF second_npu(1) _ active(2) second_npu(2,5) ok(1) _ _ this] ok(2) active(1)
  show ?thesis
    by (simp add: Let_def max_channels ok(3))
qed

end
