(* ===== verification/Xdna_Confined.thy ===== *)
theory Xdna_Confined
  imports Xdna_Layout Xdna_Units
begin

text \<open>
  What the device may do to its host.  \<open>host_inv\<close> says that the host of a state is the host
  of an earlier moment changed by callbacks alone (\<open>host_step\<close> of \<open>Xdna_Closure\<close>); it is
  closed under every access, so a client of the library reasons about its own callbacks and
  nothing else.
\<close>

definition host_inv :: "'h host_ops \<Rightarrow> 'h \<Rightarrow> 'h xdna_npu \<Rightarrow> bool" where
  "host_inv hops h s \<longleftrightarrow> ops s = hops \<and> (\<forall>k < 7. ch_index (chan s k) < XDNA_MAX_CHANNELS) \<and>
     host_run hops h (opaque s)"

lemma host_more: "host_inv hops h s \<Longrightarrow> host_step hops (opaque s) h' \<Longrightarrow> host_inv hops h (s\<lparr>opaque := h'\<rparr>)"
  by (auto simp: host_inv_def intro: rtranclp.rtrancl_into_rtrancl)

lemma host_log: "host_inv hops h s \<Longrightarrow> host_inv hops h (xdna_log s l m)"
  using host_more [of hops h s] host_step.log [of hops]
  by (auto simp: xdna_log_def host_inv_def split: option.split)

lemma host_chan:
  "host_inv hops h s \<Longrightarrow> ch_index c = ch_index (chan s k) \<Longrightarrow> host_inv hops h (s\<lparr>chan := (chan s)(k := c)\<rparr>)"
  by (auto simp: host_inv_def)

lemma host_commit:
  assumes "host_inv hops h s" and "k < 7"
  shows "host_inv hops h (mbox_commit s k t mid opc bs)"
proof (cases "raise_irq hops")
  case None
  with assms show ?thesis
    by (auto simp: mbox_commit_def host_inv_def Let_def)
next
  case (Some f)
  then have "host_step hops (opaque s) (f (opaque s) (ch_index (chan s k)))"
    using assms by (intro host_step.irq) (simp_all add: host_inv_def)
  with assms Some show ?thesis
    by (auto simp: mbox_commit_def host_inv_def Let_def intro: rtranclp.rtrancl_into_rtrancl)
qed

lemma host_send: "host_inv hops h s \<Longrightarrow> host_inv hops h (snd (xdna_mbox_send s k mid opc bs))"
  by (auto simp: xdna_mbox_send_def Let_def max_channels not_le
      intro!: host_log host_commit) (simp_all add: host_inv_def)

lemma host_contexts:
  assumes "host_inv hops h s" and "slot < 6"
  shows "host_inv hops h (ctx_fill_slot (ctx_open_channel s slot) slot req)"
    and "host_inv hops h (ctx_destroy_slot s slot)"
  using assms
  by (auto simp: host_inv_def ctx_fill_slot_def ctx_open_channel_def ctx_destroy_slot_def Let_def
      channel_reset_chan xdna_consts)

lemma host_boot: "host_inv hops h s \<Longrightarrow> host_inv hops h (xdna_fw_boot (s\<lparr>psp_state := p\<rparr>))"
  unfolding xdna_fw_boot_def Let_def
  by (rule host_log) (simp add: host_inv_def channel_reset_chan zero_channel_def xdna_consts)

lemma host_release: "host_inv hops h s \<Longrightarrow> host_inv hops h ((xdna_fw_shutdown s)\<lparr>psp_state := p\<rparr>)"
proof -
  assume "host_inv hops h s"
  then have "host_inv hops h (xdna_fw_shutdown s)"
    unfolding xdna_fw_shutdown_def Let_def
    by (intro host_log) (simp add: host_inv_def mbox_reset_eq zero_channel_def xdna_consts)
  then show ?thesis
    by (simp add: host_inv_def)
qed

lemma host_reset: "host_inv hops h s \<Longrightarrow> host_inv hops h (xdna_npu_reset s)"
  by (simp add: host_inv_def reset_fields zero_channel_def xdna_consts)

interpretation confined: access_closed "host_inv hops h" any_guest for hops :: "'h host_ops" and h
proof unfold_locales
  fix s :: "'h xdna_npu" and h'
  assume "host_inv hops h s" and "host_step (ops s) (opaque s) h'"
  then show "host_inv hops h (s\<lparr>opaque := h'\<rparr>)"
    using host_more [of hops h s h'] by (simp add: host_inv_def)
qed (simp_all add: host_log host_send host_contexts host_boot host_release host_reset host_chan
    set_x2i_head_def count_msg_in_def, simp_all add: host_inv_def)

text \<open>C19: The device is confined to its host callbacks.  Whatever a caller does with a device whose
  channels carry their own vectors (as in every state a caller can bring it to), the callbacks
  stay the same and the host only changes by calls of them: reads of the firmware image through
  the physical read when the host has one, dump writes, log messages, and interrupts of vectors
  below the number of channels.\<close>

lemma device_confined:
  assumes "layout_inv s" and "api_step s t"
  shows "ops t = ops s \<and> host_run (ops s) (opaque s) (opaque t)"
proof -
  have "host_inv (ops s) (opaque s) s"
    using assms(1) by (auto simp: host_inv_def layout_inv_def chan_ok_def xdna_consts)
  then have "host_inv (ops s) (opaque s) t"
    by (rule confined.I_run [OF api_step_run [OF assms(2)]])
  then show ?thesis
    by (simp add: host_inv_def)
qed

lemma device_confined_witness:
  "\<exists>t. xdna_npu_mmio_write test_npu XDNA_BAR_REG XDNA_REG_PUB_SEC_INTR 1 4 = Some t \<and>
    ops t = test_ops \<and> host_run test_ops (test_host False) (opaque t)"
proof -
  have "layout_inv test_npu"
    by (rule layout.I_reach [OF api_reach_run [OF test_npu_reach]])
  moreover obtain t where t: "xdna_npu_mmio_write test_npu XDNA_BAR_REG XDNA_REG_PUB_SEC_INTR 1 4 = Some t"
    by (simp add: mmio_write_word XDNA_BAR_REG_def XDNA_BAR_SRAM_def)
  ultimately show ?thesis
    using device_confined [OF _ api_step.mmio_write [OF t]] by auto
qed

end
