(* ===== verification/Xdna_Qemu.thy ===== *)
theory Xdna_Qemu
  imports Xdna_Confined Xdna_Contexts
begin

text \<open>
  The QEMU device (\<open>qemu/hw/misc/xdna_npu.c\<close>): the five host callbacks it gives the library,
  the MMIO entry points of its three memory regions, and its life from realize through resets
  to exit.

  QEMU itself is the parameter \<open>q\<close>: a machine of type \<open>'w\<close> (the PCI device object with its
  configuration space, interrupt line and memory regions, and everything a DMA can reach) and
  the functions of QEMU the file calls on it.  A call whose result the file does not use is a
  value of \<open>qemu_call\<close>, performed by \<open>effect q\<close>; the calls that answer are functions of their
  own.  Texts of log messages are constructors with the arguments of their format.

  In C the library's \<open>opaque\<close> pointer is the device object.  Here the object's part that the
  callbacks reach is \<open>parent_obj\<close>; it is put into the emulator before a call of the library
  and taken out of it afterwards (\<open>emu_load\<close>, \<open>emu_store\<close>).
\<close>

subsection \<open>QEMU\<close>

datatype mem_region = bar_reg | bar_sram | bar_mbox

datatype bar_flag = PCI_BASE_ADDRESS_SPACE_MEMORY | PCI_BASE_ADDRESS_MEM_TYPE_64

datatype qemu_mask = LOG_GUEST_ERROR | LOG_TRACE

datatype qemu_text =
    Dma_read_failed u64 nat u32
  | Phys_read_failed u64 nat u32
  | Dma_write_failed u64 nat u32
  | Emu_text log_msg

datatype qemu_call =
    Trace_dma_read u64 nat u32
  | Trace_dma_phys_read u64 nat u32
  | Trace_dma_write u64 nat u32
  | Trace_irq nat nat
  | Trace_reset
  | Trace_realize
  | Qemu_log_mask qemu_mask qemu_text
  | Error_setg string
  | Msix_notify nat
  | Msix_reset
  | Msix_uninit mem_region mem_region
  | Msix_vector_use nat
  | Pci_set_irq nat
  | Pci_config_set_interrupt_pin nat
  | Memory_region_init_io mem_region nat string u32
  | Pci_register_bar int "bar_flag list" mem_region
  | Pcie_ats_init u16 bool
  | Pcie_pasid_init u16 nat bool bool
  | Pcie_pri_init u16 nat bool

record 'w qemu =
  MEMTX_OK :: u32
  pci_dma_read :: "'w \<Rightarrow> u64 \<Rightarrow> nat \<Rightarrow> u32 \<times> u8 list \<times> 'w"
  dma_memory_read :: "'w \<Rightarrow> u64 \<Rightarrow> nat \<Rightarrow> u32 \<times> u8 list \<times> 'w"
  pci_dma_write :: "'w \<Rightarrow> u64 \<Rightarrow> u8 list \<Rightarrow> u32 \<times> 'w"
  msix_enabled :: "'w \<Rightarrow> bool"
  msix_present :: "'w \<Rightarrow> bool"
  msix_init :: "'w \<Rightarrow> nat \<Rightarrow> mem_region \<Rightarrow> int \<Rightarrow> u32 \<Rightarrow> mem_region \<Rightarrow> int \<Rightarrow> u32 \<Rightarrow> u8 \<Rightarrow> int \<times> 'w"
  pcie_endpoint_cap_init :: "'w \<Rightarrow> u8 \<Rightarrow> int \<times> 'w"
  effect :: "qemu_call \<Rightarrow> 'w \<Rightarrow> 'w"

definition XDNA_MSIX_TABLE_OFFSET :: u32 where
  "XDNA_MSIX_TABLE_OFFSET = 0x40000"

definition XDNA_MSIX_PBA_OFFSET :: u32 where
  "XDNA_MSIX_PBA_OFFSET = 0x50000"

definition XDNA_ATS_CAP_OFFSET :: u16 where
  "XDNA_ATS_CAP_OFFSET = 0x100"

definition XDNA_PASID_CAP_OFFSET :: u16 where
  "XDNA_PASID_CAP_OFFSET = 0x110"

definition XDNA_PRI_CAP_OFFSET :: u16 where
  "XDNA_PRI_CAP_OFFSET = 0x120"

subsection \<open>Host callbacks\<close>

definition xdna_host_dma_read :: "'w qemu \<Rightarrow> 'w \<Rightarrow> u64 \<Rightarrow> nat \<Rightarrow> int \<times> u8 list \<times> 'w" where
  "xdna_host_dma_read q w addr len =
     (let (result, buf, w1) = pci_dma_read q w addr len;
          w2 = effect q (Trace_dma_read addr len result) w1
      in if result \<noteq> MEMTX_OK q
         then (-1, buf, effect q (Qemu_log_mask LOG_GUEST_ERROR (Dma_read_failed addr len result)) w2)
         else (0, buf, w2))"

definition xdna_host_dma_read_phys :: "'w qemu \<Rightarrow> 'w \<Rightarrow> u64 \<Rightarrow> nat \<Rightarrow> int \<times> u8 list \<times> 'w" where
  "xdna_host_dma_read_phys q w addr len =
     (let (result, buf, w1) = dma_memory_read q w addr len;
          w2 = effect q (Trace_dma_phys_read addr len result) w1
      in if result \<noteq> MEMTX_OK q
         then (-1, buf, effect q (Qemu_log_mask LOG_GUEST_ERROR (Phys_read_failed addr len result)) w2)
         else (0, buf, w2))"

definition xdna_host_dma_write :: "'w qemu \<Rightarrow> 'w \<Rightarrow> u64 \<Rightarrow> u8 list \<Rightarrow> int \<times> 'w" where
  "xdna_host_dma_write q w addr buf =
     (let (result, w1) = pci_dma_write q w addr buf;
          w2 = effect q (Trace_dma_write addr (length buf) result) w1
      in if result \<noteq> MEMTX_OK q
         then (-1, effect q (Qemu_log_mask LOG_GUEST_ERROR
                     (Dma_write_failed addr (length buf) result)) w2)
         else (0, w2))"

definition xdna_host_raise_irq :: "'w qemu \<Rightarrow> 'w \<Rightarrow> nat \<Rightarrow> 'w" where
  "xdna_host_raise_irq q w vector =
     (if vector \<ge> XDNA_MSIX_VECTORS then w
      else if msix_enabled q w
      then effect q (Msix_notify vector) (effect q (Trace_irq vector 1) w)
      else effect q (Pci_set_irq 1) (effect q (Trace_irq vector 0) w))"

definition xdna_host_log :: "'w qemu \<Rightarrow> 'w \<Rightarrow> xdna_log_level \<Rightarrow> log_msg \<Rightarrow> 'w" where
  "xdna_host_log q w level m =
     (if level \<le> XDNA_LOG_WARN then effect q (Qemu_log_mask LOG_GUEST_ERROR (Emu_text m)) w
      else effect q (Qemu_log_mask LOG_TRACE (Emu_text m)) w)"

definition xdna_host_ops :: "'w qemu \<Rightarrow> 'w host_ops" where
  "xdna_host_ops q =
     \<lparr>dma_read = Some (xdna_host_dma_read q), dma_read_phys = Some (xdna_host_dma_read_phys q),
      dma_write = Some (xdna_host_dma_write q), raise_irq = Some (xdna_host_raise_irq q),
      log_cb = Some (xdna_host_log q)\<rparr>"

subsection \<open>The device object\<close>

text \<open>
  \<open>bc_s\<close>: the back pointer is set (it always points to the device the context is part of).
  \<open>blocks\<close> is a ghost: the number of memory blocks the library has allocated for the device and
  not freed.  Nothing reads it.
\<close>

record XdnaBarCtx =
  bc_s :: bool
  bc_bar :: int

record 'w XdnaNpuState =
  parent_obj :: 'w
  bar_ctx :: "nat \<Rightarrow> XdnaBarCtx"
  emu :: "'w xdna_npu option"
  msix_initialized :: bool
  blocks :: int

text \<open>A device object as QEMU allocates it: zeroed.\<close>

definition instance_zero :: "'w \<Rightarrow> 'w XdnaNpuState" where
  "instance_zero w = \<lparr>parent_obj = w, bar_ctx = (\<lambda>_. \<lparr>bc_s = False, bc_bar = 0\<rparr>),
     emu = None, msix_initialized = False, blocks = 0\<rparr>"

definition qemu_do :: "'w qemu \<Rightarrow> qemu_call \<Rightarrow> 'w XdnaNpuState \<Rightarrow> 'w XdnaNpuState" where
  "qemu_do q c s = s\<lparr>parent_obj := effect q c (parent_obj s)\<rparr>"

definition emu_load :: "'w XdnaNpuState \<Rightarrow> 'w xdna_npu \<Rightarrow> 'w xdna_npu" where
  "emu_load s e = e\<lparr>opaque := parent_obj s\<rparr>"

definition emu_store :: "'w XdnaNpuState \<Rightarrow> 'w xdna_npu \<Rightarrow> 'w XdnaNpuState" where
  "emu_store s e = s\<lparr>parent_obj := opaque e, emu := Some e\<rparr>"

text \<open>
  The blocks after the two allocations of \<open>xdna_npu_new\<close>, the second of which frees the first
  when it fails, and after \<open>xdna_npu_free\<close>.
\<close>

definition xdna_npu_new_blocks :: "bool \<Rightarrow> bool \<Rightarrow> int \<Rightarrow> int" where
  "xdna_npu_new_blocks npu_alloc sram_alloc n =
     (if \<not> npu_alloc then n else if \<not> sram_alloc then n + 1 - 1 else n + 1 + 1)"

definition xdna_npu_free :: "'h xdna_npu option \<Rightarrow> int \<Rightarrow> int" where
  "xdna_npu_free npu n = (case npu of None \<Rightarrow> n | Some e \<Rightarrow> n - 1 - 1)"

definition emu_free :: "'w XdnaNpuState \<Rightarrow> 'w XdnaNpuState" where
  "emu_free s = s\<lparr>blocks := xdna_npu_free (emu s) (blocks s), emu := None\<rparr>"

subsection \<open>MMIO\<close>

text \<open>
  \<open>No_return\<close> stands for a call of the library that does not return.
\<close>

datatype access_error = Null_pointer | No_return

definition xdna_bar_read ::
  "'w XdnaNpuState \<Rightarrow> nat \<Rightarrow> u64 \<Rightarrow> u32 \<Rightarrow> access_error + (u64 \<times> 'w XdnaNpuState)" where
  "xdna_bar_read s i addr sz =
     (let c = bar_ctx s i in
      if \<not> bc_s c then Inl Null_pointer
      else case emu s of
        None \<Rightarrow> Inl Null_pointer
      | Some e \<Rightarrow>
          (case xdna_npu_mmio_read (emu_load s e) (bc_bar c) (ucast addr) sz of
             None \<Rightarrow> Inl No_return
           | Some (v, e') \<Rightarrow> Inr (v, emu_store s e')))"

definition xdna_bar_write ::
  "'w XdnaNpuState \<Rightarrow> nat \<Rightarrow> u64 \<Rightarrow> u64 \<Rightarrow> u32 \<Rightarrow> access_error + 'w XdnaNpuState" where
  "xdna_bar_write s i addr val sz =
     (let c = bar_ctx s i in
      if \<not> bc_s c then Inl Null_pointer
      else case emu s of
        None \<Rightarrow> Inl Null_pointer
      | Some e \<Rightarrow>
          (case xdna_npu_mmio_write (emu_load s e) (bc_bar c) (ucast addr) val sz of
             None \<Rightarrow> Inl No_return
           | Some e' \<Rightarrow> Inr (emu_store s e')))"

text \<open>QEMU dispatches accesses of the sizes the record allows, and cuts none of them.\<close>

record 'w region_ops =
  mr_read :: "'w XdnaNpuState \<Rightarrow> nat \<Rightarrow> u64 \<Rightarrow> u32 \<Rightarrow> access_error + (u64 \<times> 'w XdnaNpuState)"
  mr_write :: "'w XdnaNpuState \<Rightarrow> nat \<Rightarrow> u64 \<Rightarrow> u64 \<Rightarrow> u32 \<Rightarrow> access_error + 'w XdnaNpuState"
  min_access_size :: u32
  max_access_size :: u32

definition xdna_bar_ops :: "'w region_ops" where
  "xdna_bar_ops = \<lparr>mr_read = xdna_bar_read, mr_write = xdna_bar_write,
     min_access_size = 1, max_access_size = 8\<rparr>"

definition size_ok :: "'w region_ops \<Rightarrow> u32 \<Rightarrow> bool" where
  "size_ok r sz \<longleftrightarrow> min_access_size r \<le> sz \<and> sz \<le> max_access_size r"

subsection \<open>Life of the device\<close>

definition xdna_npu_reset_hold :: "'w qemu \<Rightarrow> 'w XdnaNpuState \<Rightarrow> 'w XdnaNpuState" where
  "xdna_npu_reset_hold q s =
     (let s1 = qemu_do q Trace_reset s;
          s2 = (case emu s1 of
                  None \<Rightarrow> s1
                | Some e \<Rightarrow> emu_store s1 (xdna_npu_reset (emu_load s1 e)));
          s3 = (if msix_initialized s2 then qemu_do q Msix_reset s2 else s2)
      in qemu_do q (Pci_set_irq 0) s3)"

text \<open>The memory regions and their registration as BARs, and the two undo paths of realize.\<close>

definition bar_flags :: "bar_flag list" where
  "bar_flags = [PCI_BASE_ADDRESS_SPACE_MEMORY, PCI_BASE_ADDRESS_MEM_TYPE_64]"

definition realize_bars :: "'w qemu \<Rightarrow> 'w XdnaNpuState \<Rightarrow> 'w XdnaNpuState" where
  "realize_bars q s =
     fold (qemu_do q)
       [Memory_region_init_io bar_reg 0 ''xdna-npu-reg'' XDNA_BAR_REG_SIZE,
        Memory_region_init_io bar_sram 1 ''xdna-npu-sram'' XDNA_BAR_SRAM_SIZE,
        Memory_region_init_io bar_mbox 2 ''xdna-npu-mbox'' XDNA_BAR_MBOX_SIZE,
        Pci_register_bar XDNA_BAR_REG bar_flags bar_reg,
        Pci_register_bar XDNA_BAR_SRAM bar_flags bar_sram,
        Pci_register_bar XDNA_BAR_MBOX bar_flags bar_mbox]
       (s\<lparr>bar_ctx := (bar_ctx s)(0 := \<lparr>bc_s = True, bc_bar = XDNA_BAR_REG\<rparr>,
                                 1 := \<lparr>bc_s = True, bc_bar = XDNA_BAR_SRAM\<rparr>,
                                 2 := \<lparr>bc_s = True, bc_bar = XDNA_BAR_MBOX\<rparr>)\<rparr>)"

definition realize_caps :: "'w qemu \<Rightarrow> 'w XdnaNpuState \<Rightarrow> 'w XdnaNpuState" where
  "realize_caps q s =
     (let (ret, w) = pcie_endpoint_cap_init q (parent_obj s) 0;
          s1 = s\<lparr>parent_obj := w\<rparr>
      in if ret < 0
         then let s2 = qemu_do q (Error_setg ''xdna-npu: PCIe endpoint capability init failed'') s1;
                  s3 = qemu_do q (Msix_uninit bar_reg bar_reg) s2
              in emu_free (s3\<lparr>msix_initialized := False\<rparr>)
         else fold (qemu_do q)
                [Pcie_ats_init XDNA_ATS_CAP_OFFSET True,
                 Pcie_pasid_init XDNA_PASID_CAP_OFFSET 20 False False,
                 Pcie_pri_init XDNA_PRI_CAP_OFFSET 32 True] s1)"

definition realize_msix :: "'w qemu \<Rightarrow> 'w XdnaNpuState \<Rightarrow> 'w XdnaNpuState" where
  "realize_msix q s =
     (let (ret, w) = msix_init q (parent_obj s) XDNA_MSIX_VECTORS
                       bar_reg XDNA_BAR_REG XDNA_MSIX_TABLE_OFFSET
                       bar_reg XDNA_BAR_REG XDNA_MSIX_PBA_OFFSET 0;
          s1 = s\<lparr>parent_obj := w\<rparr>
      in if ret < 0
         then let s2 = (if msix_present q (parent_obj s1)
                        then qemu_do q (Msix_uninit bar_reg bar_reg) s1 else s1)
              in emu_free s2
         else let s2 = s1\<lparr>msix_initialized := True\<rparr>;
                  s3 = fold (\<lambda>i. qemu_do q (Msix_vector_use i)) [0..<XDNA_MSIX_VECTORS] s2
              in realize_caps q s3)"

text \<open>The flags \<open>a\<close> and \<open>b\<close> say whether the two allocations of \<open>xdna_npu_new\<close> succeed.\<close>

definition xdna_npu_realize ::
  "'w qemu \<Rightarrow> bool \<Rightarrow> bool \<Rightarrow> 'w XdnaNpuState \<Rightarrow> 'w XdnaNpuState" where
  "xdna_npu_realize q a b s =
     (let s1 = qemu_do q (Pci_config_set_interrupt_pin 1)
                 (qemu_do q Trace_realize (s\<lparr>blocks := xdna_npu_new_blocks a b (blocks s)\<rparr>))
      in case xdna_npu_new (xdna_host_ops q) (parent_obj s1) a b of
           None \<Rightarrow> qemu_do q (Error_setg ''xdna-npu: emulator cekirdegi olusturulamadi'')
                     (s1\<lparr>emu := None\<rparr>)
         | Some e \<Rightarrow> realize_msix q (realize_bars q (emu_store s1 e)))"

definition xdna_npu_exit :: "'w qemu \<Rightarrow> 'w XdnaNpuState \<Rightarrow> 'w XdnaNpuState" where
  "xdna_npu_exit q s =
     (let s1 = (if msix_initialized s
                then (qemu_do q (Msix_uninit bar_reg bar_reg) s)\<lparr>msix_initialized := False\<rparr>
                else s);
          s2 = qemu_do q (Pci_set_irq 0) s1
      in emu_free s2)"

subsection \<open>The class\<close>

definition XDNA_PCI_VENDOR_ID :: u16 where
  "XDNA_PCI_VENDOR_ID = 0x1022"

definition XDNA_PCI_DEVICE_ID_NPU1 :: u16 where
  "XDNA_PCI_DEVICE_ID_NPU1 = 0x1502"

definition XDNA_PCI_REVISION_NPU1 :: u8 where
  "XDNA_PCI_REVISION_NPU1 = 0x00"

text \<open>The fields of QEMU's class objects that the file sets.\<close>

record 'w npu_class =
  cls_realize :: "bool \<Rightarrow> bool \<Rightarrow> 'w XdnaNpuState \<Rightarrow> 'w XdnaNpuState"
  cls_exit :: "'w XdnaNpuState \<Rightarrow> 'w XdnaNpuState"
  vendor_id :: u16
  device_id :: u16
  revision :: u8
  class_id :: u16
  phases_hold :: "'w XdnaNpuState \<Rightarrow> 'w XdnaNpuState"
  desc :: string
  category_misc :: bool

definition xdna_npu_class_init :: "'w qemu \<Rightarrow> 'w npu_class \<Rightarrow> 'w npu_class" where
  "xdna_npu_class_init q klass =
     klass\<lparr>cls_realize := xdna_npu_realize q, cls_exit := xdna_npu_exit q,
       vendor_id := XDNA_PCI_VENDOR_ID, device_id := XDNA_PCI_DEVICE_ID_NPU1,
       revision := XDNA_PCI_REVISION_NPU1, class_id := 0x1200,
       phases_hold := xdna_npu_reset_hold q,
       desc := ''AMD XDNA1 NPU (Phoenix / Hawk Point) fonksiyonel emulator'',
       category_misc := True\<rparr>"

end
