(* ===== verification/Xdna_Machine.thy ===== *)
theory Xdna_Machine
  imports Xdna_Qemu
begin

text \<open>
  The QEMU device in a running machine.  A step is a call QEMU makes on the device object
  (realize, exit, reset, a read or a write of one of its regions) or anything the rest of the
  machine does to its own state in between.  The invariants of the library hold of the embedded
  emulator at every moment, whatever QEMU's functions return, and interrupts reach the guest as
  the channel says.
\<close>

subsection \<open>Fields\<close>

lemma qemu_do_fields [simp]:
  "emu (qemu_do q c s) = emu s" "msix_initialized (qemu_do q c s) = msix_initialized s"
  "bar_ctx (qemu_do q c s) = bar_ctx s" "parent_obj (qemu_do q c s) = effect q c (parent_obj s)"
  "blocks (qemu_do q c s) = blocks s"
  by (simp_all add: qemu_do_def)

lemma emu_free_fields [simp]:
  "emu (emu_free s) = None" "msix_initialized (emu_free s) = msix_initialized s"
  "parent_obj (emu_free s) = parent_obj s" "bar_ctx (emu_free s) = bar_ctx s"
  "blocks (emu_free s) = (if emu s = None then blocks s else blocks s - 2)"
  by (simp_all add: emu_free_def xdna_npu_free_def split: option.split)

lemma region_dispatch [simp]:
  "mr_read xdna_bar_ops = xdna_bar_read" "mr_write xdna_bar_ops = xdna_bar_write"
  by (simp_all add: xdna_bar_ops_def)

lemma fold_do_fields [simp]:
  "emu (fold (\<lambda>x. qemu_do q (f x)) cs s) = emu s"
  "msix_initialized (fold (\<lambda>x. qemu_do q (f x)) cs s) = msix_initialized s"
  "bar_ctx (fold (\<lambda>x. qemu_do q (f x)) cs s) = bar_ctx s"
  "blocks (fold (\<lambda>x. qemu_do q (f x)) cs s) = blocks s"
  by (induction cs arbitrary: s) simp_all

lemma emu_store_fields [simp]:
  "emu (emu_store s e) = Some e" "parent_obj (emu_store s e) = opaque e"
  "msix_initialized (emu_store s e) = msix_initialized s" "bar_ctx (emu_store s e) = bar_ctx s"
  "blocks (emu_store s e) = blocks s"
  by (simp_all add: emu_store_def)

subsection \<open>Runs of the machine\<close>

inductive qemu_step :: "'w qemu \<Rightarrow> 'w XdnaNpuState \<Rightarrow> 'w XdnaNpuState \<Rightarrow> bool"
  for q :: "'w qemu" where
  realize: "emu s = None \<Longrightarrow> qemu_step q s (xdna_npu_realize q a b s)"
| exit: "qemu_step q s (xdna_npu_exit q s)"
| reset: "qemu_step q s (xdna_npu_reset_hold q s)"
| bar_read: "size_ok (xdna_bar_ops :: 'w region_ops) sz \<Longrightarrow> mr_read xdna_bar_ops s i addr sz = Inr (v, t) \<Longrightarrow>
    qemu_step q s t"
| bar_write: "size_ok (xdna_bar_ops :: 'w region_ops) sz \<Longrightarrow> mr_write xdna_bar_ops s i addr v sz = Inr t \<Longrightarrow>
    qemu_step q s t"
| machine: "qemu_step q s (s\<lparr>parent_obj := w\<rparr>)"

inductive qemu_reach :: "'w qemu \<Rightarrow> 'w XdnaNpuState \<Rightarrow> bool" for q where
  init: "qemu_reach q (instance_zero w)"
| step: "qemu_reach q s \<Longrightarrow> qemu_step q s t \<Longrightarrow> qemu_reach q t"

text \<open>What holds of the emulator inside the device object.\<close>

definition emu_ok :: "'w qemu \<Rightarrow> 'w xdna_npu \<Rightarrow> bool" where
  "emu_ok q e \<longleftrightarrow> ops e = xdna_host_ops q \<and> layout_inv e \<and> power_inv e \<and> count_inv e"

definition bars_set :: "'w XdnaNpuState \<Rightarrow> bool" where
  "bars_set s \<longleftrightarrow> map (bar_ctx s) [0, 1, 2] =
     [\<lparr>bc_s = True, bc_bar = XDNA_BAR_REG\<rparr>, \<lparr>bc_s = True, bc_bar = XDNA_BAR_SRAM\<rparr>,
      \<lparr>bc_s = True, bc_bar = XDNA_BAR_MBOX\<rparr>]"

definition qemu_inv :: "'w qemu \<Rightarrow> 'w XdnaNpuState \<Rightarrow> bool" where
  "qemu_inv q s \<longleftrightarrow> (emu s = None \<longleftrightarrow> \<not> msix_initialized s) \<and>
     blocks s = (if emu s = None then 0 else 2) \<and>
     (case emu s of None \<Rightarrow> True | Some e \<Rightarrow> emu_ok q e \<and> bars_set s)"

lemma layout_index: "layout_inv s \<Longrightarrow> k < 7 \<Longrightarrow> ch_index (chan s k) = k"
  by (simp add: layout_inv_def chan_ok_def)

lemma emu_ok_load [simp]: "emu_ok q (emu_load s e) = emu_ok q e"
  by (simp add: emu_ok_def emu_load_def layout_inv_def count_inv_def live_slots_def)

lemma emu_ok_run:
  assumes "emu_ok q e" and "dev_run any_guest e t"
  shows "emu_ok q t" and "host_run (xdna_host_ops q) (opaque e) (opaque t)"
proof -
  have "host_inv (xdna_host_ops q) (opaque e) e"
    using assms(1) layout_index [of e] by (auto simp: emu_ok_def host_inv_def xdna_consts)
  then have t: "host_inv (xdna_host_ops q) (opaque e) t"
    by (rule confined.I_run [OF assms(2)])
  then show "host_run (xdna_host_ops q) (opaque e) (opaque t)"
    by (simp add: host_inv_def)
  show "emu_ok q t"
    using t assms(1) layout.I_run [OF assms(2)] power.I_run [OF assms(2)] count.I_run [OF assms(2)]
    by (simp add: emu_ok_def host_inv_def)
qed

lemma emu_ok_reset: "emu_ok q e \<Longrightarrow> emu_ok q (xdna_npu_reset e)"
  by (erule emu_ok_run(1)) (rule r_into_rtranclp, rule dev_step.reset)

lemma emu_ok_new: "xdna_npu_new (xdna_host_ops q) w a b = Some e \<Longrightarrow> emu_ok q e"
proof -
  assume e: "xdna_npu_new (xdna_host_ops q) w a b = Some e"
  then have "a" "b" "ops e = xdna_host_ops q"
    by (auto simp: xdna_npu_new_def reset_fields zero_npu_def split: if_splits)
  with e layout.I_new power.I_new count.I_new show ?thesis
    by (auto simp: emu_ok_def)
qed

subsection \<open>The invariant\<close>

lemma inv_caps:
  "emu s = Some e \<Longrightarrow> emu_ok q e \<Longrightarrow> bars_set s \<Longrightarrow> msix_initialized s \<Longrightarrow> blocks s = 2 \<Longrightarrow>
    qemu_inv q (realize_caps q s)"
  by (auto simp: realize_caps_def Let_def qemu_inv_def bars_set_def split: prod.split)

lemma inv_msix:
  assumes "emu s = Some e" and "emu_ok q e" and "bars_set s" and "\<not> msix_initialized s"
    and "blocks s = 2"
  shows "qemu_inv q (realize_msix q s)"
  using assms by (auto simp: realize_msix_def Let_def split: prod.split intro!: inv_caps)
    (auto simp: qemu_inv_def bars_set_def)

lemma inv_realize:
  assumes "qemu_inv q s" and "emu s = None"
  shows "qemu_inv q (xdna_npu_realize q a b s)"
proof -
  have off: "\<not> msix_initialized s" "blocks s = 0"
    using assms by (simp_all add: qemu_inv_def)
  let ?w = "effect q (Pci_config_set_interrupt_pin 1) (effect q Trace_realize (parent_obj s))"
  show ?thesis
  proof (cases "xdna_npu_new (xdna_host_ops q) ?w a b")
    case None
    then have "\<not> (a \<and> b)"
      by (auto simp: xdna_npu_new_def)
    with None off show ?thesis
      by (auto simp: xdna_npu_realize_def Let_def qemu_inv_def xdna_npu_new_blocks_def)
  next
    case (Some e)
    then have "a" "b"
      by (auto simp: xdna_npu_new_def split: if_splits)
    with Some off emu_ok_new [OF Some] show ?thesis
      by (auto simp: xdna_npu_realize_def Let_def bars_set_def realize_bars_def
          xdna_npu_new_blocks_def intro!: inv_msix)
  qed
qed

lemma access_run:
  "xdna_bar_read s i addr sz = Inr (v, t) \<Longrightarrow>
    \<exists>e e'. emu s = Some e \<and> t = emu_store s e' \<and> dev_run any_guest (emu_load s e) e'"
  "xdna_bar_write s i addr v sz = Inr t \<Longrightarrow>
    \<exists>e e'. emu s = Some e \<and> t = emu_store s e' \<and> dev_run any_guest (emu_load s e) e'"
  by (auto simp: xdna_bar_read_def xdna_bar_write_def Let_def
      dest: mmio_read_run mmio_write_run split: if_splits option.splits prod.splits)

lemma inv_access:
  assumes "qemu_inv q s" and "emu s = Some e" and "dev_run any_guest (emu_load s e) e'"
  shows "qemu_inv q (emu_store s e')" and "host_run (xdna_host_ops q) (parent_obj s) (opaque e')"
proof -
  have "emu_ok q (emu_load s e)" "bars_set s" "msix_initialized s" "blocks s = 2"
    using assms(1,2) by (simp_all add: qemu_inv_def)
  with emu_ok_run [OF _ assms(3)]
  show "qemu_inv q (emu_store s e')" "host_run (xdna_host_ops q) (parent_obj s) (opaque e')"
    by (simp_all add: qemu_inv_def bars_set_def) (simp add: emu_load_def)
qed

lemma inv_step: "qemu_step q s t \<Longrightarrow> qemu_inv q s \<Longrightarrow> qemu_inv q t"
proof (induction rule: qemu_step.induct)
  case (reset s)
  then show ?case
    by (auto simp: xdna_npu_reset_hold_def Let_def qemu_inv_def bars_set_def emu_ok_reset
        split: option.split)
next
  case (bar_read sz s i addr v t)
  then show ?case
    using access_run(1) [of s i addr sz v t] inv_access(1) by auto
next
  case (bar_write sz s i addr v t)
  then show ?case
    using access_run(2) [of s i addr v sz t] inv_access(1) by auto
next
  case (machine s w)
  then show ?case
    by (auto simp: qemu_inv_def bars_set_def split: option.splits)
qed (simp_all add: inv_realize, simp add: xdna_npu_exit_def Let_def qemu_inv_def)

lemma inv_reach: "qemu_reach q s \<Longrightarrow> qemu_inv q s"
proof (induction rule: qemu_reach.induct)
  case (init w)
  then show ?case by (simp add: instance_zero_def qemu_inv_def)
qed (rule inv_step)

text \<open>
  The interrupt line of the machine, as the documentation of \<open>pci_set_irq\<close> has it: the call sets
  the level, and neither the other calls nor DMA to memory touch it.
\<close>

definition intx_line :: "'w qemu \<Rightarrow> ('w \<Rightarrow> nat) \<Rightarrow> bool" where
  "intx_line q lvl \<longleftrightarrow>
     (\<forall>w a n. lvl (snd (snd (dma_memory_read q w a n))) = lvl w) \<and>
     (\<forall>w a bs. lvl (snd (pci_dma_write q w a bs)) = lvl w) \<and>
     (\<forall>c w. lvl (effect q c w) = (case c of Pci_set_irq n \<Rightarrow> n | _ \<Rightarrow> lvl w))"

subsection \<open>A machine for the witnesses\<close>

text \<open>It records the calls made on it and the level of its interrupt line; MSI-X is off.\<close>

definition test_qemu :: "(qemu_call list \<times> nat) qemu" where
  "test_qemu = \<lparr>MEMTX_OK = 0,
     pci_dma_read = (\<lambda>w a n. (0, replicate n 0, w)), dma_memory_read = (\<lambda>w a n. (0, replicate n 0, w)),
     pci_dma_write = (\<lambda>w a bs. (0, w)), msix_enabled = (\<lambda>w. False), msix_present = (\<lambda>w. True),
     msix_init = (\<lambda>w n r1 b1 o1 r2 b2 o2 p. (0, w)), pcie_endpoint_cap_init = (\<lambda>w p. (0, w)),
     effect = (\<lambda>c (cs, l). (cs @ [c], case c of Pci_set_irq n \<Rightarrow> n | _ \<Rightarrow> l))\<rparr>"

definition test_machine :: "(qemu_call list \<times> nat) XdnaNpuState" where
  "test_machine = xdna_npu_realize test_qemu True True (instance_zero ([], 0))"

lemma test_machine_reach: "qemu_reach test_qemu test_machine"
  unfolding test_machine_def
  by (rule qemu_reach.step [OF qemu_reach.init qemu_step.realize]) (simp add: instance_zero_def)

lemma test_machine_realized: "emu test_machine \<noteq> None"
  by (simp add: test_machine_def xdna_npu_realize_def realize_bars_def realize_msix_def
      realize_caps_def xdna_npu_new_def Let_def test_qemu_def)

lemma test_size: "size_ok xdna_bar_ops 4"
  by (simp add: size_ok_def xdna_bar_ops_def)

lemma test_line: "intx_line test_qemu snd"
  by (auto simp: intx_line_def test_qemu_def split: qemu_call.split)

text \<open>Its emulator with the firmware up.\<close>

definition test_emu :: "(qemu_call list \<times> nat) xdna_npu" where
  "test_emu = xdna_fw_boot ((xdna_npu_reset (zero_npu (xdna_host_ops test_qemu) ([], 0) (\<lambda>_. 0) False False))
     \<lparr>fw_paddr := 0, fw_size := 0, psp_state := XDNA_PSP_VALIDATED, psp_state := XDNA_PSP_RUNNING\<rparr>)"

lemma test_emu_ok: "ops test_emu = xdna_host_ops test_qemu" "layout_inv test_emu"
proof -
  show "ops test_emu = xdna_host_ops test_qemu"
    by (simp add: test_emu_def reset_fields zero_npu_def)
  have "layout_inv (xdna_npu_reset (zero_npu (xdna_host_ops test_qemu) ([], 0) (\<lambda>_. 0) False False))"
    by (rule layout.I_new) (simp add: xdna_npu_new_def)
  then have "layout_inv ((xdna_npu_reset (zero_npu (xdna_host_ops test_qemu) ([], 0) (\<lambda>_. 0) False False))
      \<lparr>fw_paddr := 0, fw_size := 0, psp_state := XDNA_PSP_VALIDATED\<rparr>)"
    by (rule layout.I_validate)
  from layout.I_boot [OF this] show "layout_inv test_emu"
    unfolding test_emu_def by simp
qed

subsection \<open>Properties\<close>

text \<open>C18: The life of the QEMU device.  In every state of a machine with the device, whatever QEMU's
  functions return and whatever the guest and the rest of the machine do: the emulator exists
  exactly when MSI-X is initialised, and the library holds its two memory blocks exactly then,
  so every failing path of realize, and exit, have undone and freed everything, once; an existing emulator has this file's callbacks and is reached through three regions set
  to the REG, SRAM and MBOX BARs; and it satisfies the library's invariants: no read left the
  SRAM, the channels, contexts, statistics and the firmware state agree.\<close>

lemma qemu_lifecycle:
  assumes "qemu_reach q s"
  shows "(emu s = None \<longleftrightarrow> \<not> msix_initialized s) \<and> blocks s = (if emu s = None then 0 else 2) \<and>
    (case emu s of None \<Rightarrow> True | Some e \<Rightarrow>
       ops e = xdna_host_ops q \<and> \<not> oob_read e \<and> (ch_active (chan e 0) \<longleftrightarrow> fw_alive e) \<and>
       (psp_state e = XDNA_PSP_RUNNING \<longrightarrow> fw_alive e) \<and>
       unat (active_contexts (stats e)) =
         length (filter (\<lambda>i. ctx_valid (ctx e i)) [0..<XDNA_NPU1_HWCTX_LIMIT]) \<and>
       list_all (\<lambda>i. ctx_valid (ctx e i) \<longleftrightarrow> ch_active (chan e (i + 1))) [0..<XDNA_NPU1_HWCTX_LIMIT] \<and>
       map (bar_ctx s) [0, 1, 2] =
         [\<lparr>bc_s = True, bc_bar = XDNA_BAR_REG\<rparr>, \<lparr>bc_s = True, bc_bar = XDNA_BAR_SRAM\<rparr>,
          \<lparr>bc_s = True, bc_bar = XDNA_BAR_MBOX\<rparr>])"
proof (cases "emu s")
  case None
  then show ?thesis
    using inv_reach [OF assms] by (simp add: qemu_inv_def)
next
  case (Some e)
  then have s: "msix_initialized s" "bars_set s" "ops e = xdna_host_ops q" "layout_inv e"
    "power_inv e" "count_inv e"
    using inv_reach [OF assms] by (simp_all add: qemu_inv_def emu_ok_def)
  then have "psp_state e = XDNA_PSP_RUNNING \<longrightarrow> fw_alive e" "\<not> oob_read e"
    "ch_active (chan e 0) \<longleftrightarrow> fw_alive e" "\<forall>i < 6. ctx_valid (ctx e i) = ch_active (chan e (Suc i))"
    by (simp_all add: power_inv_def layout_inv_def)
  with s Some count_length [OF s(6)] inv_reach [OF assms] show ?thesis
    by (simp add: qemu_inv_def bars_set_def list_all_iff XDNA_NPU1_HWCTX_LIMIT_def)
qed

lemma qemu_lifecycle_witness:
  "msix_initialized test_machine \<and> bc_bar (bar_ctx test_machine 2) = XDNA_BAR_MBOX"
  using qemu_lifecycle [OF test_machine_reach] test_machine_realized by auto

text \<open>C28: Accesses of the guest return.  Once the device is realized, a read or a write of any size
  QEMU lets through, at any address of any of the three regions, returns a value, never follows
  a NULL pointer and leaves the device realized, in a state of the machine again.\<close>

lemma qemu_accesses_return:
  fixes s :: "'w XdnaNpuState"
  assumes "qemu_reach q s" and "emu s \<noteq> None" and "i < 3" and "size_ok (xdna_bar_ops :: 'w region_ops) sz"
  shows "(\<exists>v t. mr_read xdna_bar_ops s i addr sz = Inr (v, t) \<and> qemu_reach q t \<and> emu t \<noteq> None) \<and>
    (\<exists>t. mr_write xdna_bar_ops s i addr val sz = Inr t \<and> qemu_reach q t \<and> emu t \<noteq> None)"
proof -
  obtain e where e: "emu s = Some e"
    using assms(2) by blast
  then have "bars_set s"
    using inv_reach [OF assms(1)] by (simp add: qemu_inv_def)
  moreover have "i = 0 \<or> i = 1 \<or> i = 2"
    using assms(3) by auto
  ultimately have bar: "bc_s (bar_ctx s i)"
    by (auto simp: bars_set_def)
  have "xdna_npu_mmio_read (emu_load s e) (bc_bar (bar_ctx s i)) (ucast addr) sz \<noteq> None"
    "xdna_npu_mmio_write (emu_load s e) (bc_bar (bar_ctx s i)) (ucast addr) val sz \<noteq> None"
    by (simp_all add: mmio_returns del: not_None_eq)
  with e bar have "\<exists>v t. xdna_bar_read s i addr sz = Inr (v, t) \<and> emu t \<noteq> None"
    "\<exists>t. xdna_bar_write s i addr val sz = Inr t \<and> emu t \<noteq> None"
    by (auto simp: xdna_bar_read_def xdna_bar_write_def Let_def)
  then show ?thesis
    using assms(1) qemu_step.bar_read [OF assms(4), of s i addr _ _ q]
      qemu_step.bar_write [OF assms(4), of s i addr val _ q]
    by (simp only: region_dispatch) (blast intro: qemu_reach.step)
qed

lemma qemu_accesses_return_witness:
  "\<exists>v t. mr_read xdna_bar_ops test_machine 2 0x10 4 = Inr (v, t) \<and> emu t \<noteq> None"
  using qemu_accesses_return [OF test_machine_reach test_machine_realized _ test_size, of 2 "0x10" 0] by auto

subsection \<open>Interrupts\<close>

text \<open>C29: How a reply interrupts the guest.  When the emulator of the device sends a reply on
  channel \<open>k\<close>, the only thing that happens to the machine is one interrupt: MSI-X vector \<open>k\<close> is
  notified when the guest has enabled MSI-X, and otherwise the INTx line is raised; the vector
  check of the callback never drops one.  A reply that is refused interrupts nobody.\<close>

lemma reply_interrupts:
  assumes "ops e = xdna_host_ops q" and "layout_inv e"
  shows "let (rc, t) = xdna_mbox_send e k mid opc bs; w = opaque e in
    if rc = 0
    then opaque t = (if msix_enabled q w then effect q (Msix_notify k) (effect q (Trace_irq k 1) w)
                     else effect q (Pci_set_irq 1) (effect q (Trace_irq k 0) w))
    else opaque t = w \<or> (\<exists>m. opaque t = effect q (Qemu_log_mask LOG_GUEST_ERROR (Emu_text m)) w)"
proof (cases "k < 7")
  case True
  have err: "XDNA_LOG_ERROR \<le> XDNA_LOG_WARN"
    by (simp add: less_eq_xdna_log_level_def)
  show ?thesis
    using assms layout_index [OF assms(2) True] True
    by (auto simp: xdna_mbox_send_def mbox_commit_def Let_def xdna_host_ops_def xdna_log_def
        xdna_host_log_def xdna_host_raise_irq_def err max_channels XDNA_MSIX_VECTORS_def)
next
  case False
  then have "XDNA_MAX_CHANNELS \<le> k"
    by (simp add: xdna_consts)
  then show ?thesis
    by (simp add: xdna_mbox_send_def)
qed

lemma intx_callbacks:
  assumes "intx_line q lvl"
  shows "lvl (snd (snd (xdna_host_dma_read_phys q w a n))) = lvl w"
    and "lvl (snd (xdna_host_dma_write q w a bs)) = lvl w"
    and "lvl (xdna_host_raise_irq q w v) = lvl w \<or> lvl (xdna_host_raise_irq q w v) = 1"
    and "lvl (xdna_host_log q w l m) = lvl w"
  using assms
  by (simp_all add: intx_line_def xdna_host_dma_read_phys_def xdna_host_dma_write_def
      xdna_host_raise_irq_def xdna_host_log_def Let_def split_beta)

lemma intx_step:
  assumes "intx_line q lvl" and "host_step (xdna_host_ops q) w w'"
  shows "lvl w' = lvl w \<or> lvl w' = 1"
  using assms(2)
proof (cases rule: host_step.cases)
  case (peek_phys f a n rc bs)
  then show ?thesis
    using intx_callbacks(1) [OF assms(1), of w a n] by (simp add: xdna_host_ops_def)
next
  case (dump f a bs rc)
  then show ?thesis
    using intx_callbacks(2) [OF assms(1), of w a bs] by (simp add: xdna_host_ops_def)
next
  case (irq f v)
  then show ?thesis
    using intx_callbacks(3) [OF assms(1), of w v] by (auto simp add: xdna_host_ops_def)
next
  case (log f l m)
  then show ?thesis
    using intx_callbacks(4) [OF assms(1), of w l m] by (auto simp add: xdna_host_ops_def)
qed (simp add: xdna_host_ops_def)

lemma intx_run:
  assumes "intx_line q lvl" and "host_run (xdna_host_ops q) w w'"
  shows "lvl w' = lvl w \<or> lvl w' = 1"
  using assms(2) by (induction rule: rtranclp_induct) (auto dest: intx_step [OF assms(1)])

lemma reply_interrupts_witness:
  "let (rc, t) = xdna_mbox_send test_emu 0 7 1 [0, 0, 0, 0] in
    rc = 0 \<and> last (fst (opaque t)) = Pci_set_irq 1 \<and> snd (opaque t) = 1"
proof -
  have "chan test_emu 0 = mgmt_channel"
    by (simp add: test_emu_def fw_boot_chan)
  then have "fst (xdna_mbox_send test_emu 0 7 1 [0, 0, 0, 0]) = 0"
    by (simp add: xdna_mbox_send_def mgmt_channel_def zero_channel_def mbox_wraps_def mbox_no_room_def
        mbox_usable_def Let_def xdna_consts)
  then show ?thesis
    using reply_interrupts [OF test_emu_ok, of 0 7 1 "[0, 0, 0, 0]"]
    by (simp add: Let_def split_beta test_qemu_def)
qed

text \<open>C30: The INTx line stays up.  In a machine whose line is set by \<open>pci_set_irq\<close> alone, an access
  of the guest to the device, acknowledging the interrupt register included, never lowers a
  raised line; only a reset of the device and its exit do.\<close>

lemma intx_stays_up:
  assumes "intx_line q lvl" and "qemu_reach q s"
  shows "(\<forall>v t. xdna_bar_read s i addr sz = Inr (v, t) \<longrightarrow>
        lvl (parent_obj t) = lvl (parent_obj s) \<or> lvl (parent_obj t) = 1) \<and>
    (\<forall>t. xdna_bar_write s i addr val sz = Inr t \<longrightarrow>
        lvl (parent_obj t) = lvl (parent_obj s) \<or> lvl (parent_obj t) = 1) \<and>
    lvl (parent_obj (xdna_npu_reset_hold q s)) = 0 \<and> lvl (parent_obj (xdna_npu_exit q s)) = 0"
proof -
  have line: "lvl (opaque e') = lvl (parent_obj s) \<or> lvl (opaque e') = 1"
    if "emu s = Some e" "dev_run any_guest (emu_load s e) e'" for e e'
    using intx_run [OF assms(1) inv_access(2) [OF inv_reach [OF assms(2)] that]] .
  have "lvl (parent_obj t) = lvl (parent_obj s) \<or> lvl (parent_obj t) = 1"
    if "xdna_bar_read s i addr sz = Inr (v, t)" for v t
    using access_run(1) [OF that] by (auto dest: line)
  moreover have "lvl (parent_obj t) = lvl (parent_obj s) \<or> lvl (parent_obj t) = 1"
    if "xdna_bar_write s i addr val sz = Inr t" for t
    using access_run(2) [OF that] by (auto dest: line)
  ultimately show ?thesis
    using assms(1) by (simp add: intx_line_def xdna_npu_reset_hold_def xdna_npu_exit_def Let_def)
qed

lemma intx_stays_up_witness:
  "\<exists>t. xdna_bar_write test_machine 0 0 0 4 = Inr t \<and> snd (parent_obj t) \<in> {snd (parent_obj test_machine), 1} \<and>
    snd (parent_obj (xdna_npu_reset_hold test_qemu t)) = 0"
proof -
  obtain t where t: "xdna_bar_write test_machine 0 0 0 4 = Inr t"
    using test_machine_realized inv_reach [OF test_machine_reach]
    by (auto simp: xdna_bar_write_def Let_def qemu_inv_def bars_set_def mmio_write_word
        XDNA_BAR_REG_def XDNA_BAR_SRAM_def)
  have "qemu_reach test_qemu t"
    using test_machine_reach qemu_step.bar_write [OF test_size, of test_machine 0 0 0 t] t
    by (auto intro: qemu_reach.step)
  with t show ?thesis
    using intx_stays_up [OF test_line test_machine_reach, of 0 0 4 0] intx_stays_up [OF test_line, of t]
    by auto
qed

text \<open>C40: The MSI-X structures share the REG BAR with the registers without meeting them.  Every
  register is below 0x11000: above, a write of the library only logs and a read gives zero.  The
  MSI-X table of eight 16-byte entries begins above, ends below the pending bits, and those end
  inside the BAR.\<close>

lemma msix_above_registers:
  assumes "0x11000 \<le> off"
  shows "0x11000 \<le> XDNA_MSIX_TABLE_OFFSET \<and>
    unat XDNA_MSIX_TABLE_OFFSET + 16 * XDNA_MSIX_VECTORS \<le> unat XDNA_MSIX_PBA_OFFSET \<and>
    unat XDNA_MSIX_PBA_OFFSET + 8 \<le> unat XDNA_BAR_REG_SIZE \<and>
    reg_bar_write s off v = xdna_log s XDNA_LOG_DEBUG (Log_reg_unwritten off v) \<and>
    reg_bar_read s off = (0, xdna_log s XDNA_LOG_DEBUG (Log_reg_unread off))"
proof -
  have "off \<noteq> r" if "r < 0x11000" for r :: u32
    using assms that by auto
  then show ?thesis
    by (simp add: reg_bar_write_def reg_bar_read_def XDNA_MSIX_TABLE_OFFSET_def
        XDNA_MSIX_PBA_OFFSET_def xdna_consts)
qed

lemma msix_above_registers_witness:
  "reg_bar_read test_npu 0x40000 = (0, xdna_log test_npu XDNA_LOG_DEBUG (Log_reg_unread 0x40000))"
  using msix_above_registers [of "0x40000" test_npu 0] by simp

end
