(* ===== verification/Xdna_Words.thy ===== *)
theory Xdna_Words
  imports Xdna_Host
begin

text \<open>
  Buffer accesses to the register BARs against a reference: the C loops run over a 32-bit byte
  index and cut the last word short, the reference goes through the bytes in groups of four.
\<close>

function word_writes :: "'h xdna_npu \<Rightarrow> int \<Rightarrow> u32 \<Rightarrow> u8 list \<Rightarrow> 'h xdna_npu" where
  "word_writes s bar off bs =
     (if bs = [] then s
      else word_writes (bar_word_write s bar off (le_word (take 4 bs))) bar (off + 4) (drop 4 bs))"
  by pat_completeness auto
termination
  by (relation "measure (\<lambda>(s, bar, off, bs). length bs)") auto

function word_reads :: "'h xdna_npu \<Rightarrow> int \<Rightarrow> u32 \<Rightarrow> nat \<Rightarrow> u8 list \<times> 'h xdna_npu" where
  "word_reads s bar off n =
     (if n = 0 then ([], s)
      else let (v, s1) = bar_word_read s bar off;
               (bs, s2) = word_reads s1 bar (off + 4) (n - 4)
           in (take n (le_bytes 4 v) @ bs, s2))"
  by pat_completeness auto
termination
  by (relation "measure (\<lambda>(s, bar, off, n). n)") auto

declare word_writes.simps [simp del] word_reads.simps [simp del]

text \<open>What one iteration takes: the index in natural numbers.\<close>

lemma loop_nat:
  fixes i len :: u32
  assumes "i < len" and "len \<le> 0xFFFFFFFC"
  shows "unat (len - i) = unat len - unat i" and "unat (i + 4) = unat i + 4"
proof -
  show "unat (len - i) = unat len - unat i"
    using assms(1) by (simp add: unat_sub)
  have "unat i < unat len" "unat len \<le> 0xFFFFFFFC"
    using assms by (simp_all add: word_less_nat_alt word_le_nat_alt)
  then show "unat (i + 4) = unat i + 4"
    by (subst unat_add_small) simp_all
qed

lemma word_count:
  "i < len \<Longrightarrow> len \<le> 0xFFFFFFFC \<Longrightarrow>
    unat (if len - i < 4 then len - i else 4) = min 4 (unat len - unat (i :: u32))"
  using loop_nat(1) [of i len] by (simp add: word_less_nat_alt min_def)

lemma write_loop_words:
  assumes "len \<le> 0xFFFFFFFC" and "length src = unat len"
  shows "mmio_write_loop s bar off src len i = Some (word_writes s bar (off + i) (drop (unat i) src))"
proof (induction "unat len - unat i" arbitrary: s i rule: less_induct)
  case less
  show ?case
  proof (cases "i < len")
    case True
    note nat = loop_nat [OF True assms(1)] word_count [OF True assms(1)]
    have "unat i < unat len"
      using True by (simp add: word_less_nat_alt)
    then have "take (min 4 (unat len - unat i)) (drop (unat i) src) = take 4 (drop (unat i) src)"
      "drop (unat i) src \<noteq> []"
      using assms(2) by (simp_all add: min_def)
    moreover note less.hyps [OF loop_index_step [OF True assms(1)]]
    ultimately show ?thesis
      unfolding mmio_write_loop.simps [of _ _ _ _ _ i] word_writes.simps [of s bar "off + i"]
      by (simp only: True if_True Let_def nat if_False) (simp add: nat ac_simps)
  next
    case False
    then show ?thesis
      using assms(2) by (simp add: write_loop_done word_writes.simps not_less word_le_nat_alt)
  qed
qed

lemma read_loop_words:
  assumes "len \<le> 0xFFFFFFFC"
  shows "mmio_read_loop s bar off len i dst =
    Some (dst @ fst (word_reads s bar (off + i) (unat len - unat i)),
          snd (word_reads s bar (off + i) (unat len - unat i)))"
proof (induction "unat len - unat i" arbitrary: s i dst rule: less_induct)
  case less
  show ?case
  proof (cases "i < len")
    case True
    note nat = loop_nat [OF True assms(1)] word_count [OF True assms(1)]
    have pos: "unat len - unat i \<noteq> 0"
      using True by (simp add: word_less_nat_alt)
    have "take (min 4 n) (le_bytes 4 w) = take n (le_bytes 4 w)" for n and w :: u32
      by (simp add: min_def)
    moreover note less.hyps [OF loop_index_step [OF True assms(1)]]
    ultimately show ?thesis
      unfolding mmio_read_loop.simps [of _ _ _ _ i] word_reads.simps [of s bar "off + i"]
      by (simp only: True if_True Let_def nat pos if_False split_beta fst_conv snd_conv)
        (simp add: nat ac_simps)
  next
    case False
    then show ?thesis
      by (simp add: read_loop_done word_reads.simps not_less word_le_nat_alt)
  qed
qed

lemma drop_le_bytes_u64: "drop 4 (le_bytes 8 (v :: u64)) = le_bytes 4 (drop_bit 32 v)"
  by (simp add: byte_eval eval_nat_numeral)

lemma le_bytes_empty: "le_bytes n v = [] \<longleftrightarrow> n = 0"
  by (simp flip: length_0_conv)

lemma mmio_write_double:
  assumes "bar \<noteq> XDNA_BAR_SRAM"
  shows "xdna_npu_mmio_write s bar off v 8 =
    Some (bar_word_write (bar_word_write s bar off (ucast v)) bar (off + 4) (ucast (drop_bit 32 v)))"
proof -
  have "mmio_write_loop s bar off (le_bytes 8 v) 8 0 = Some (word_writes s bar off (le_bytes 8 v))"
    using write_loop_words [of 8 "le_bytes 8 v" s bar off 0] by simp
  moreover have "word_writes s bar off (le_bytes 8 v) =
      bar_word_write (bar_word_write s bar off (ucast v)) bar (off + 4) (ucast (drop_bit 32 v))"
    by (simp add: word_writes.simps [of _ _ off] word_writes.simps [of _ _ "off + 4"]
        word_writes.simps [of _ _ _ "[]"] drop_le_bytes_u64 le_bytes_empty)
  ultimately show ?thesis
    using assms by (simp add: xdna_npu_mmio_write_def xdna_npu_mmio_write_buf_def)
qed

text \<open>C33: A buffer access is a sequence of word accesses.  On a register BAR, for every length up to
  2^32 - 4, writing a buffer is writing its bytes in groups of four at consecutive offsets, a
  short last group padded with zeros, and reading one is reading the words and keeping as many
  bytes as asked for.  In particular an 8-byte access is two 4-byte accesses, low half first.\<close>

lemma buffer_is_words:
  assumes "bar \<noteq> XDNA_BAR_SRAM" and "len \<le> 0xFFFFFFFC" and "length src = unat len"
  shows "xdna_npu_mmio_write_buf s bar off src len = Some (word_writes s bar off src) \<and>
    xdna_npu_mmio_read_buf s bar off len = Some (word_reads s bar off (unat len)) \<and>
    xdna_npu_mmio_write s bar off v 8 =
      Option.bind (xdna_npu_mmio_write s bar off v 4)
        (\<lambda>t. xdna_npu_mmio_write t bar (off + 4) (drop_bit 32 v) 4)"
proof (intro conjI)
  show "xdna_npu_mmio_write_buf s bar off src len = Some (word_writes s bar off src)"
    using assms write_loop_words [OF assms(2,3), of s bar off 0]
    by (simp add: xdna_npu_mmio_write_buf_def)
  show "xdna_npu_mmio_read_buf s bar off len = Some (word_reads s bar off (unat len))"
    using assms read_loop_words [OF assms(2), of s bar off 0 "[]"]
    by (simp add: xdna_npu_mmio_read_buf_def)
  show "xdna_npu_mmio_write s bar off v 8 =
      Option.bind (xdna_npu_mmio_write s bar off v 4)
        (\<lambda>t. xdna_npu_mmio_write t bar (off + 4) (drop_bit 32 v) 4)"
    using assms(1) by (simp add: mmio_write_word mmio_write_double)
qed

lemma buffer_is_words_witness:
  "xdna_npu_mmio_write_buf test_npu XDNA_BAR_REG XDNA_REG_SCRATCH6 [1, 0, 0, 0, 2] 5 =
    Some (set_scratch (set_scratch test_npu 6 1) 7 2)"
proof -
  have "word_writes test_npu XDNA_BAR_REG XDNA_REG_SCRATCH6 [1, 0, 0, 0, 2] =
      set_scratch (set_scratch test_npu 6 1) 7 2"
    by (simp add: word_writes.simps bar_word_write_def reg_bar_write_def xdna_consts)
  then show ?thesis
    using buffer_is_words [of XDNA_BAR_REG 5 "[1, 0, 0, 0, 2]" test_npu XDNA_REG_SCRATCH6 0]
    by (simp add: XDNA_BAR_REG_def XDNA_BAR_SRAM_def)
qed

end
