(* ===== verification/Xdna_Replies.thy ===== *)
theory Xdna_Replies
  imports Xdna_Contract
begin

text \<open>
  Error replies as the driver reads them.  The firmware builds a status reply from a table of
  sizes and status offsets alone; the driver decodes every reply by the structure of the
  opcode it sent.  The two views agree.
\<close>

named_theorems reply_types

definition zero_tile_info :: AieTileInfo where
  "zero_tile_info =
     \<lparr>ati_size = 0, ati_major = 0, ati_minor = 0, ati_cols = 0, ati_rows = 0, ati_core_rows = 0,
      ati_mem_rows = 0, ati_shim_rows = 0, ati_core_row_start = 0, ati_mem_row_start = 0,
      ati_shim_row_start = 0, ati_core_dma_channels = 0, ati_mem_dma_channels = 0,
      ati_shim_dma_channels = 0, ati_core_locks = 0, ati_mem_locks = 0, ati_shim_locks = 0,
      ati_core_events = 0, ati_mem_events = 0, ati_shim_events = 0, ati_reserved = 0\<rparr>"

text \<open>
  The reply structures of the driver with a given status and zero in every other field.  Three
  kinds of reply have no structure in the sources, only a size: the application health (36
  bytes), the device revision and the execution of a chain (12 bytes each), with the status in
  front.
\<close>

definition error_reply :: "u32 \<Rightarrow> u32 \<Rightarrow> u8 list" where
  "error_reply opc st =
     (case opcode_of opc of
        Some MSG_OP_GET_PROTOCOL_VERSION \<Rightarrow>
          ProtocolVersionResp_bytes \<lparr>pvr_status = st, pvr_major = 0, pvr_minor = 0\<rparr>
      | Some MSG_OP_GET_FIRMWARE_VERSION \<Rightarrow>
          FirmwareVersionResp_bytes
            \<lparr>fvr_status = st, fvr_major = 0, fvr_minor = 0, fvr_sub = 0, fvr_build = 0\<rparr>
      | Some MSG_OP_QUERY_AIE_VERSION \<Rightarrow>
          AieVersionResp_bytes \<lparr>avr_status = st, avr_major = 0, avr_minor = 0\<rparr>
      | Some MSG_OP_QUERY_AIE_TILE_INFO \<Rightarrow>
          AieTileInfoResp_bytes \<lparr>atr_status = st, atr_info = zero_tile_info\<rparr>
      | Some MSG_OP_QUERY_COL_STATUS \<Rightarrow> ColumnInfoResp_bytes \<lparr>cir_status = st, cir_size = 0\<rparr>
      | Some MSG_OP_GET_RUNTIME_CONFIG \<Rightarrow> GetRuntimeCfgResp_bytes \<lparr>grr_status = st, grr_value = 0\<rparr>
      | Some MSG_OP_GET_TELEMETRY \<Rightarrow>
          TelemetryResp_bytes \<lparr>tlr_major = 0, tlr_minor = 0, tlr_size = 0, tlr_status = st\<rparr>
      | Some MSG_OP_CREATE_CONTEXT \<Rightarrow>
          CreateCtxResp_bytes
            \<lparr>ccr_status = st, ccr_context_id = 0, ccr_msix_id = 0, ccr_num_cq_pairs_allocated = 0,
             ccr_reserved = 0, ccr_cq_pair0 = zero_cq_pair, ccr_cq_pair1 = zero_cq_pair\<rparr>
      | Some MSG_OP_REGISTER_ASYNC_EVENT_MSG \<Rightarrow>
          AsyncEventResp_bytes \<lparr>aer_status = st, aer_type = 0\<rparr>
      | Some MSG_OP_GET_APP_HEALTH \<Rightarrow> le_bytes 4 st @ replicate 32 0
      | Some MSG_OP_GET_DEV_REVISION \<Rightarrow> le_bytes 4 st @ replicate 8 0
      | Some MSG_OP_CHAIN_EXEC_BUFFER_CF \<Rightarrow> le_bytes 4 st @ replicate 8 0
      | Some MSG_OP_CHAIN_EXEC_DPU \<Rightarrow> le_bytes 4 st @ replicate 8 0
      | Some MSG_OP_CHAIN_EXEC_NPU \<Rightarrow> le_bytes 4 st @ replicate 8 0
      | _ \<Rightarrow> StatusOnlyResp_bytes \<lparr>sor_status = st\<rparr>)"

lemma le_bytes_zero [reply_types]: "le_bytes n 0 = replicate n 0"
  by (induction n) (simp_all add: le_bytes.simps(2))

lemma replicate_append [reply_types]:
  "replicate m x @ replicate n x = replicate (m + n) x"
  "replicate m x @ replicate n x @ ys = replicate (m + n) x @ ys"
  by (simp_all add: replicate_add)

lemmas struct_bytes [reply_types] =
  ProtocolVersionResp_bytes_def FirmwareVersionResp_bytes_def AieVersionResp_bytes_def AieTileInfoResp_bytes_def
  AieTileInfo_bytes_def GetRuntimeCfgResp_bytes_def CreateCtxResp_bytes_def CqPair_bytes_def CqInfo_bytes_def
  AsyncEventResp_bytes_def ColumnInfoResp_bytes_def StatusOnlyResp_bytes_def TelemetryResp_bytes_def

lemma error_reply_bytes: "status_reply_bytes opc st = error_reply opc (status_val st)"
  by (cases "opcode_of opc")
    (simp_all add: status_reply_bytes_def resp_size_for_def error_reply_def xdna_consts reply_types
      zero_tile_info_def zero_cq_pair_def del: opcode_val.simps split: xdna_msg_opcode.split,
      simp add: numeral_eq_Suc)

text \<open>C35: Error replies have the type of their opcode.  Whatever status the firmware reports for an
  opcode, known or not, the reply is byte for byte the structure the driver expects for this
  opcode, in its full length, with the status in the status field (the last one for telemetry, the
  first for the others) and zero everywhere else; for an opcode without a structure of its own
  it is the status alone; and this reply is what the firmware sends.  The structure the driver decodes from it has that status and zeros.\<close>

lemma error_reply_typed:
  "mert_reply_status s k h st =
     snd (xdna_mbox_send s k (msg_id h) (opcode h) (error_reply (opcode h) (status_val st))) \<and>
   status_reply_bytes opc st = error_reply opc (status_val st) \<and>
   ProtocolVersionResp_of (status_reply_bytes (opcode_val MSG_OP_GET_PROTOCOL_VERSION) st) =
     \<lparr>pvr_status = status_val st, pvr_major = 0, pvr_minor = 0\<rparr> \<and>
   FirmwareVersionResp_of (status_reply_bytes (opcode_val MSG_OP_GET_FIRMWARE_VERSION) st) =
     \<lparr>fvr_status = status_val st, fvr_major = 0, fvr_minor = 0, fvr_sub = 0, fvr_build = 0\<rparr> \<and>
   AieVersionResp_of (status_reply_bytes (opcode_val MSG_OP_QUERY_AIE_VERSION) st) =
     \<lparr>avr_status = status_val st, avr_major = 0, avr_minor = 0\<rparr> \<and>
   AieTileInfoResp_of (status_reply_bytes (opcode_val MSG_OP_QUERY_AIE_TILE_INFO) st) =
     \<lparr>atr_status = status_val st, atr_info = zero_tile_info\<rparr> \<and>
   GetRuntimeCfgResp_of (status_reply_bytes (opcode_val MSG_OP_GET_RUNTIME_CONFIG) st) =
     \<lparr>grr_status = status_val st, grr_value = 0\<rparr> \<and>
   CreateCtxResp_of (status_reply_bytes (opcode_val MSG_OP_CREATE_CONTEXT) st) =
     \<lparr>ccr_status = status_val st, ccr_context_id = 0, ccr_msix_id = 0,
      ccr_num_cq_pairs_allocated = 0, ccr_reserved = 0, ccr_cq_pair0 = zero_cq_pair,
      ccr_cq_pair1 = zero_cq_pair\<rparr> \<and>
   AsyncEventResp_of (status_reply_bytes (opcode_val MSG_OP_REGISTER_ASYNC_EVENT_MSG) st) =
     \<lparr>aer_status = status_val st, aer_type = 0\<rparr> \<and>
   ColumnInfoResp_of (status_reply_bytes (opcode_val MSG_OP_QUERY_COL_STATUS) st) =
     \<lparr>cir_status = status_val st, cir_size = 0\<rparr> \<and>
   TelemetryResp_of (status_reply_bytes (opcode_val MSG_OP_GET_TELEMETRY) st) =
     \<lparr>tlr_major = 0, tlr_minor = 0, tlr_size = 0, tlr_status = status_val st\<rparr> \<and>
   list_all (\<lambda>op. StatusOnlyResp_of (status_reply_bytes (opcode_val op) st) = \<lparr>sor_status = status_val st\<rparr>)
     [MSG_OP_SET_RUNTIME_CONFIG, MSG_OP_ASSIGN_MGMT_PASID, MSG_OP_SUSPEND, MSG_OP_RESUME,
      MSG_OP_INVOKE_SELF_TEST, MSG_OP_DESTROY_CONTEXT, MSG_OP_MAP_HOST_BUFFER, MSG_OP_ADD_HOST_BUFFER,
      MSG_OP_CONFIG_CU, MSG_OP_EXECUTE_BUFFER_CF, MSG_OP_EXEC_DPU, MSG_OP_SYNC_BO,
      MSG_OP_CONFIG_DEBUG_BO, MSG_OP_UPDATE_PROPERTY]"
  using resp_size_bounds [of "opcode h"] unfolding mert_reply_status_def mert_reply_def error_reply_bytes
  by (simp add: error_reply_def pvr.dec_enc_alone fvr.dec_enc_alone avr.dec_enc_alone atr.dec_enc_alone
      grr.dec_enc_alone ccr.dec_enc_alone aer.dec_enc_alone cir.dec_enc_alone tlr.dec_enc_alone
      sor.dec_enc_alone del: opcode_val.simps)

end
