(* ===== verification/Xdna_Probe.thy ===== *)
theory Xdna_Probe
  imports Xdna_Prelude
begin

text \<open>
  The guest-side context probe (\<open>tests/xrt_context_probe.c\<close>): it opens and closes the device
  through XRT, then creates and destroys a hardware context over the DRM interface, and cleans
  up on every path.  The operating system and XRT are a parameter, a record of functions on a
  world, one per system call or library call the probe makes; what a call returns to the probe
  is its result.  Constants of the kernel headers that are arguments of a call belong to the
  call; \<open>invalid_addr\<close> is the one the probe compares with.  What it prints, and \<open>errno\<close>,
  which it only prints, are left out.
\<close>

record ('w, 'x) probe_sys =
  p_open :: "string \<Rightarrow> 'w \<Rightarrow> int \<times> 'w"
  p_close :: "int \<Rightarrow> 'w \<Rightarrow> int \<times> 'w"
  create_dev_heap :: "int \<Rightarrow> u64 \<Rightarrow> 'w \<Rightarrow> (int \<times> u32) \<times> 'w"
  get_bo_info :: "int \<Rightarrow> u32 \<Rightarrow> 'w \<Rightarrow> (int \<times> u64) \<times> 'w"
  gem_close :: "int \<Rightarrow> u32 \<Rightarrow> 'w \<Rightarrow> int \<times> 'w"
  p_mmap :: "u64 \<Rightarrow> int \<Rightarrow> u64 \<Rightarrow> 'w \<Rightarrow> u64 option \<times> 'w"
  p_munmap :: "u64 \<Rightarrow> u64 \<Rightarrow> 'w \<Rightarrow> int \<times> 'w"
  create_hwctx :: "int \<Rightarrow> u32 \<Rightarrow> u32 \<Rightarrow> u32 \<Rightarrow> 'w \<Rightarrow> (int \<times> u32) \<times> 'w"
  destroy_hwctx :: "int \<Rightarrow> u32 \<Rightarrow> 'w \<Rightarrow> int \<times> 'w"
  xrt_open :: "u32 \<Rightarrow> 'w \<Rightarrow> 'x option \<times> 'w"
  xrt_close :: "'x \<Rightarrow> 'w \<Rightarrow> int \<times> 'w"
  invalid_addr :: u64

definition DEFAULT_DEVICE :: string where
  "DEFAULT_DEVICE = ''/dev/accel/accel0''"

definition DEFAULT_REPEATS :: u32 where
  "DEFAULT_REPEATS = 3"

definition DEV_HEAP_SIZE :: u64 where
  "DEV_HEAP_SIZE = 64 * 1024 * 1024"

subsection \<open>One context\<close>

definition close_gem :: "('w, 'x) probe_sys \<Rightarrow> int \<Rightarrow> u32 \<Rightarrow> 'w \<Rightarrow> int \<times> 'w" where
  "close_gem p fd handle w =
     (let (rc, w) = gem_close p fd handle w in (if rc < 0 then -1 else 0, w))"

text \<open>The labels \<open>out_close\<close> and \<open>out_bo\<close>; a mapping that failed is None.\<close>

definition out_close :: "('w, 'x) probe_sys \<Rightarrow> int \<Rightarrow> int \<Rightarrow> 'w \<Rightarrow> int \<times> 'w" where
  "out_close p fd ret w =
     (let (rc, w) = p_close p fd w in (if rc < 0 \<and> ret = 0 then -1 else ret, w))"

definition out_bo ::
  "('w, 'x) probe_sys \<Rightarrow> int \<Rightarrow> bool \<Rightarrow> u32 \<Rightarrow> u64 option \<Rightarrow> int \<Rightarrow> 'w \<Rightarrow> int \<times> 'w" where
  "out_bo p fd bo_created handle heap_map ret w =
     (let (ret, w) =
            (case heap_map of None \<Rightarrow> (ret, w)
             | Some a \<Rightarrow>
                 let (rc, w) = p_munmap p a DEV_HEAP_SIZE w
                 in (if rc < 0 \<and> ret = 0 then -1 else ret, w));
          (ret, w) =
            (if bo_created
             then let (rc, w) = close_gem p fd handle w in (if rc < 0 \<and> ret = 0 then -1 else ret, w)
             else (ret, w))
      in out_close p fd ret w)"

definition create_context_once :: "('w, 'x) probe_sys \<Rightarrow> string \<Rightarrow> 'w \<Rightarrow> int \<times> 'w" where
  "create_context_once p device_path w =
     (let (fd, w) = p_open p device_path w in
      if fd < 0 then (-1, w)
      else let ((rc, handle), w) = create_dev_heap p fd DEV_HEAP_SIZE w in
      if rc < 0 then out_close p fd (-1) w
      else let ((rc, map_offset), w) = get_bo_info p fd handle w in
      if rc < 0 then out_bo p fd True handle None (-1) w
      else if map_offset = invalid_addr p then out_bo p fd True handle None (-1) w
      else let (heap_map, w) = p_mmap p DEV_HEAP_SIZE fd map_offset w in
      if heap_map = None then out_bo p fd True handle None (-1) w
      else let ((rc, context), w) = create_hwctx p fd 2048 4 0 w in
      if rc < 0 then out_bo p fd True handle heap_map (-1) w
      else let (rc, w) = destroy_hwctx p fd context w in
      if rc < 0 then out_bo p fd True handle heap_map (-1) w
      else out_bo p fd True handle heap_map 0 w)"

subsection \<open>Opening and closing through XRT\<close>

text \<open>The first argument is the number of iterations left; the index itself is only printed.\<close>

fun xrt_loop :: "nat \<Rightarrow> ('w, 'x) probe_sys \<Rightarrow> bool \<Rightarrow> 'w \<Rightarrow> bool \<times> 'w" where
  "xrt_loop 0 p failed w = (failed, w)"
| "xrt_loop (Suc n) p failed w =
     (case xrt_open p 0 w of
        (None, w) \<Rightarrow> xrt_loop n p True w
      | (Some handle, w) \<Rightarrow>
          let (rc, w) = xrt_close p handle w
          in xrt_loop n p (if rc \<noteq> 0 then True else failed) w)"

definition xrt_open_close_repeated :: "('w, 'x) probe_sys \<Rightarrow> u32 \<Rightarrow> 'w \<Rightarrow> int \<times> 'w" where
  "xrt_open_close_repeated p repeats w =
     (let (failed, w) = xrt_loop (unat repeats) p False w in (if failed then -1 else 0, w))"

subsection \<open>The command line\<close>

text \<open>
  \<open>strtoul\<close> with base 10 in the C locale, on a target whose \<open>unsigned long\<close> has 64 bits: the
  value and the rest of the string (the whole string when it has no number).  An overflow gives
  the largest value, a minus sign the negated one.
\<close>

definition c_isspace :: "char \<Rightarrow> bool" where
  "c_isspace c \<longleftrightarrow> c = CHR '' '' \<or> of_char c \<in> {9 :: nat .. 13}"

definition c_isdigit :: "char \<Rightarrow> bool" where
  "c_isdigit c \<longleftrightarrow> of_char c \<in> {48 :: nat .. 57}"

definition digit_val :: "char \<Rightarrow> nat" where
  "digit_val c = of_char c - 48"

definition decimal_val :: "string \<Rightarrow> nat" where
  "decimal_val ds = foldl (\<lambda>n c. 10 * n + digit_val c) 0 ds"

definition strtoul10 :: "string \<Rightarrow> u64 \<times> string" where
  "strtoul10 s =
     (let body = dropWhile c_isspace s;
          neg = (body \<noteq> [] \<and> hd body = CHR ''-'');
          body = (if body \<noteq> [] \<and> hd body \<in> {CHR ''-'', CHR ''+''} then tl body else body);
          ds = takeWhile c_isdigit body;
          n = decimal_val ds
      in if ds = [] then (0, s)
         else (if n \<ge> 2 ^ 64 then -1 else if neg then - word_of_nat n else word_of_nat n,
               dropWhile c_isdigit body))"

text \<open>The number of repetitions an argument stands for, None when it is refused.\<close>

definition repeat_arg :: "string \<Rightarrow> u32 option" where
  "repeat_arg s =
     (let (v, rest) = strtoul10 s
      in if s = [] \<or> rest \<noteq> [] \<or> v = 0 \<or> v > 0xFFFFFFFF then None else Some (ucast v))"

text \<open>\<open>argv\<close> without the program's name: the device and the number of repetitions.\<close>

definition probe_args :: "string list \<Rightarrow> (string \<times> u32) option" where
  "probe_args args =
     (let device_path = (if length args > 0 then args ! 0 else DEFAULT_DEVICE);
          repeats = (if length args > 1 then repeat_arg (args ! 1) else Some DEFAULT_REPEATS)
      in case repeats of None \<Rightarrow> None
         | Some n \<Rightarrow>
             if length args > 2 then None
             else if device_path \<noteq> DEFAULT_DEVICE then None
             else Some (device_path, n))"

subsection \<open>The program\<close>

fun contexts_loop :: "nat \<Rightarrow> ('w, 'x) probe_sys \<Rightarrow> string \<Rightarrow> 'w \<Rightarrow> int \<times> 'w" where
  "contexts_loop 0 p device_path w = (0, w)"
| "contexts_loop (Suc n) p device_path w =
     (let (ret, w) = create_context_once p device_path w
      in if ret < 0 then (1, w) else contexts_loop n p device_path w)"

definition probe_main :: "('w, 'x) probe_sys \<Rightarrow> string list \<Rightarrow> 'w \<Rightarrow> int \<times> 'w" where
  "probe_main p args w =
     (case probe_args args of None \<Rightarrow> (2, w)
      | Some (device_path, repeats) \<Rightarrow>
          let (ret, w) = xrt_open_close_repeated p repeats w
          in if ret < 0 then (1, w) else contexts_loop (unat repeats) p device_path w)"

subsection \<open>What the probe does to the system\<close>

text \<open>
  The calls of a run, with their results, are recorded by a system that passes every call on
  to another one.
\<close>

datatype 'x event =
    Opened string int
  | Closed int int
  | Heap_created int u64 int u32
  | Heap_info int u32 int u64
  | Heap_closed int u32 int
  | Mapped u64 int u64 "u64 option"
  | Unmapped u64 u64 int
  | Context_created int int u32
  | Context_destroyed int u32 int
  | Xrt_opened u32 "'x option"
  | Xrt_closed 'x int

definition noted :: "('r \<Rightarrow> 'e) \<Rightarrow> ('w \<Rightarrow> 'r \<times> 'w) \<Rightarrow> 'w \<times> 'e list \<Rightarrow> 'r \<times> 'w \<times> 'e list" where
  "noted ev call = (\<lambda>(w, tr). let (r, w) = call w in (r, w, tr @ [ev r]))"

definition traced :: "('w, 'x) probe_sys \<Rightarrow> ('w \<times> 'x event list, 'x) probe_sys" where
  "traced p =
     \<lparr>p_open = (\<lambda>path. noted (Opened path) (p_open p path)),
      p_close = (\<lambda>fd. noted (Closed fd) (p_close p fd)),
      create_dev_heap = (\<lambda>fd n. noted (\<lambda>(rc, h). Heap_created fd n rc h) (create_dev_heap p fd n)),
      get_bo_info = (\<lambda>fd h. noted (\<lambda>(rc, off). Heap_info fd h rc off) (get_bo_info p fd h)),
      gem_close = (\<lambda>fd h. noted (Heap_closed fd h) (gem_close p fd h)),
      p_mmap = (\<lambda>n fd off. noted (Mapped n fd off) (p_mmap p n fd off)),
      p_munmap = (\<lambda>a n. noted (Unmapped a n) (p_munmap p a n)),
      create_hwctx = (\<lambda>fd ops tiles mem. noted (\<lambda>(rc, c). Context_created fd rc c)
        (create_hwctx p fd ops tiles mem)),
      destroy_hwctx = (\<lambda>fd c. noted (Context_destroyed fd c) (destroy_hwctx p fd c)),
      xrt_open = (\<lambda>i. noted (Xrt_opened i) (xrt_open p i)),
      xrt_close = (\<lambda>x. noted (Xrt_closed x) (xrt_close p x)),
      invalid_addr = invalid_addr p\<rparr>"

text \<open>
  What a process holds, the mapping with its address and size.  A monitor of its calls: each may
  only use what is held, take what is not, and release in the reverse order, the context before
  the mapping, the mapping before the heap, the heap before the client.  A release counts as one
  whatever it reports: a context whose destruction failed is left to the end of its client.
\<close>

record 'x held =
  held_fd :: "int option"
  held_heap :: "u32 option"
  held_map :: "(u64 \<times> u64) option"
  held_ctx :: "u32 option"
  held_xrt :: "'x option"

definition nothing :: "'x held" where
  "nothing = \<lparr>held_fd = None, held_heap = None, held_map = None, held_ctx = None, held_xrt = None\<rparr>"

fun monitor :: "'x held \<Rightarrow> 'x event \<Rightarrow> 'x held option" where
  "monitor s (Opened path fd) =
     (if fd < 0 then Some s else if s = nothing then Some (s\<lparr>held_fd := Some fd\<rparr>) else None)"
| "monitor s (Closed fd rc) =
     (if held_fd s = Some fd \<and> held_heap s = None \<and> held_map s = None \<and> held_ctx s = None
      then Some (s\<lparr>held_fd := None\<rparr>) else None)"
| "monitor s (Heap_created fd n rc h) =
     (if held_fd s \<noteq> Some fd \<or> held_heap s \<noteq> None then None
      else if rc < 0 then Some s else Some (s\<lparr>held_heap := Some h\<rparr>))"
| "monitor s (Heap_info fd h rc off) =
     (if held_fd s = Some fd \<and> held_heap s = Some h then Some s else None)"
| "monitor s (Heap_closed fd h rc) =
     (if held_fd s = Some fd \<and> held_heap s = Some h \<and> held_map s = None \<and> held_ctx s = None
      then Some (s\<lparr>held_heap := None\<rparr>) else None)"
| "monitor s (Mapped n fd off r) =
     (if held_fd s \<noteq> Some fd \<or> held_heap s = None \<or> held_map s \<noteq> None then None
      else Some (s\<lparr>held_map := map_option (\<lambda>a. (a, n)) r\<rparr>))"
| "monitor s (Unmapped a n rc) =
     (if held_map s = Some (a, n) \<and> held_ctx s = None then Some (s\<lparr>held_map := None\<rparr>) else None)"
| "monitor s (Context_created fd rc c) =
     (if held_fd s \<noteq> Some fd \<or> held_map s = None \<or> held_ctx s \<noteq> None then None
      else if rc < 0 then Some s else Some (s\<lparr>held_ctx := Some c\<rparr>))"
| "monitor s (Context_destroyed fd c rc) =
     (if held_fd s = Some fd \<and> held_ctx s = Some c
      then Some (s\<lparr>held_ctx := None\<rparr>) else None)"
| "monitor s (Xrt_opened i r) = (if s = nothing then Some (s\<lparr>held_xrt := r\<rparr>) else None)"
| "monitor s (Xrt_closed x rc) =
     (if held_xrt s = Some x then Some (s\<lparr>held_xrt := None\<rparr>) else None)"

text \<open>The calls that count as a success of the probe.\<close>

fun event_ok :: "u64 \<Rightarrow> 'x event \<Rightarrow> bool" where
  "event_ok bad (Opened path fd) = (fd \<ge> 0)"
| "event_ok bad (Closed fd rc) = (rc \<ge> 0)"
| "event_ok bad (Heap_created fd n rc h) = (rc \<ge> 0)"
| "event_ok bad (Heap_info fd h rc off) = (rc \<ge> 0 \<and> off \<noteq> bad)"
| "event_ok bad (Heap_closed fd h rc) = (rc \<ge> 0)"
| "event_ok bad (Mapped n fd off r) = (r \<noteq> None)"
| "event_ok bad (Unmapped a n rc) = (rc \<ge> 0)"
| "event_ok bad (Context_created fd rc c) = (rc \<ge> 0)"
| "event_ok bad (Context_destroyed fd c rc) = (rc \<ge> 0)"
| "event_ok bad (Xrt_opened i r) = (r \<noteq> None)"
| "event_ok bad (Xrt_closed x rc) = (rc = 0)"

definition watch :: "'x event list \<Rightarrow> 'x held option" where
  "watch tr = foldl (\<lambda>s e. Option.bind s (\<lambda>s. monitor s e)) (Some nothing) tr"

lemma watch_snoc [simp]: "watch (tr @ [e]) = Option.bind (watch tr) (\<lambda>s. monitor s e)"
  by (simp add: watch_def)

lemma watch_Nil [simp]: "watch [] = Some nothing"
  by (simp add: watch_def)

text \<open>How many contexts, and how many XRT handles, a run has opened and closed again.\<close>

definition contexts_done :: "'x event list \<Rightarrow> nat" where
  "contexts_done tr = length (filter (\<lambda>e. case e of Context_destroyed fd c rc \<Rightarrow> rc \<ge> 0 | _ \<Rightarrow> False) tr)"

definition handles_done :: "'x event list \<Rightarrow> nat" where
  "handles_done tr = length (filter (\<lambda>e. case e of Xrt_closed x rc \<Rightarrow> rc = 0 | _ \<Rightarrow> False) tr)"

text \<open>A state of the recorded run: what is held, and whether all went well so far.\<close>

definition tracks :: "u64 \<Rightarrow> 'w \<times> 'x event list \<Rightarrow> 'x held \<Rightarrow> bool \<Rightarrow> nat \<Rightarrow> nat \<Rightarrow> bool" where
  "tracks bad wt s good k l \<longleftrightarrow> watch (snd wt) = Some s \<and> list_all (event_ok bad) (snd wt) = good \<and>
     contexts_done (snd wt) = k \<and> handles_done (snd wt) = l"

subsection \<open>Every path cleans up\<close>

text \<open>A run that has ended: nothing is held, and the result says whether all went well.\<close>

definition ended :: "u64 \<Rightarrow> int \<times> 'w \<times> 'x event list \<Rightarrow> nat \<Rightarrow> nat \<Rightarrow> bool" where
  "ended bad r k l \<longleftrightarrow> tracks bad (snd r) nothing (fst r = 0) k l \<and> (fst r = 0 \<or> fst r = -1)"

lemmas trace_eval = traced_def noted_def tracks_def contexts_done_def handles_done_def nothing_def
  split_beta Let_def

lemma out_close_ended:
  assumes "tracks bad wt s (ret = 0) k l" and "ret = 0 \<or> ret = -1"
    and "s = nothing\<lparr>held_fd := Some fd\<rparr>"
  shows "ended bad (out_close (traced p) fd ret wt) k l"
  using assms by (cases wt) (auto simp: ended_def out_close_def trace_eval)

text \<open>The client, its heap, the mapping and the context: what is held between the calls.\<close>

abbreviation at_fd :: "int \<Rightarrow> 'x held" where "at_fd fd \<equiv> nothing\<lparr>held_fd := Some fd\<rparr>"
abbreviation at_heap :: "int \<Rightarrow> u32 \<Rightarrow> 'x held" where
  "at_heap fd h \<equiv> nothing\<lparr>held_fd := Some fd, held_heap := Some h\<rparr>"
abbreviation at_map :: "int \<Rightarrow> u32 \<Rightarrow> u64 option \<Rightarrow> 'x held" where
  "at_map fd h m \<equiv> nothing\<lparr>held_fd := Some fd, held_heap := Some h, held_map := map_option (\<lambda>a. (a, DEV_HEAP_SIZE)) m\<rparr>"
abbreviation at_ctx :: "int \<Rightarrow> u32 \<Rightarrow> u64 option \<Rightarrow> u32 \<Rightarrow> 'x held" where
  "at_ctx fd h m c \<equiv> nothing\<lparr>held_fd := Some fd, held_heap := Some h, held_map := map_option (\<lambda>a. (a, DEV_HEAP_SIZE)) m, held_ctx := Some c\<rparr>"

lemma out_bo_ended:
  assumes "tracks bad wt s (ret = 0) k l" and "ret = 0 \<or> ret = -1"
    and "s = at_map fd h m"
  shows "ended bad (out_bo (traced p) fd True h m ret wt) k l"
proof -
  let ?unmap = "case m of None \<Rightarrow> (ret, wt)
    | Some a \<Rightarrow> let (rc, wt) = p_munmap (traced p) a DEV_HEAP_SIZE wt in (if rc < 0 \<and> ret = 0 then -1 else ret, wt)"
  obtain ret1 wt1 where one: "?unmap = (ret1, wt1)" "ret1 = 0 \<or> ret1 = -1"
    "tracks bad wt1 (s\<lparr>held_map := None\<rparr>) (ret1 = 0) k l"
    using assms by (cases wt; cases m) (auto simp: trace_eval)
  let ?free = "let (rc, wt) = close_gem (traced p) fd h wt1 in (if rc < 0 \<and> ret1 = 0 then -1 else ret1, wt)"
  obtain ret2 wt2 where two: "?free = (ret2, wt2)" "ret2 = 0 \<or> ret2 = -1"
    "tracks bad wt2 (s\<lparr>held_map := None, held_heap := None\<rparr>) (ret2 = 0) k l"
    using one(2,3) assms(3) by (cases wt1) (auto simp: close_gem_def trace_eval)
  have "ended bad (out_close (traced p) fd ret2 wt2) k l"
    by (rule out_close_ended [OF two(3,2)]) (simp add: assms(3) nothing_def)
  then show ?thesis
    using two(1) by (simp add: out_bo_def one(1))
qed

lemma call_open:
  assumes "tracks bad wt nothing True k l" and "p_open (traced p) path wt = (fd, wt')"
  shows "if fd < 0 then tracks bad wt' nothing False k l else tracks bad wt' (at_fd fd) True k l"
  using assms by (cases wt) (auto simp: trace_eval)

lemma call_heap:
  assumes "tracks bad wt (at_fd fd) True k l" and "create_dev_heap (traced p) fd n wt = ((rc, h), wt')"
  shows "if rc < 0 then tracks bad wt' (at_fd fd) False k l else tracks bad wt' (at_heap fd h) True k l"
  using assms by (cases wt) (auto simp: trace_eval)

lemma call_info:
  assumes "tracks bad wt (at_heap fd h) True k l" and "get_bo_info (traced p) fd h wt = ((rc, off), wt')"
  shows "tracks bad wt' (at_heap fd h) (rc \<ge> 0 \<and> off \<noteq> bad) k l"
  using assms by (cases wt) (auto simp: trace_eval)

lemma call_map:
  assumes "tracks bad wt (at_heap fd h) True k l" and "p_mmap (traced p) DEV_HEAP_SIZE fd off wt = (m, wt')"
  shows "tracks bad wt' (at_map fd h m) (m \<noteq> None) k l"
  using assms by (cases wt) (auto simp: trace_eval)

lemma call_context:
  assumes "tracks bad wt (at_map fd h (Some a)) True k l"
    and "create_hwctx (traced p) fd ops tiles mem wt = ((rc, c), wt')"
  shows "if rc < 0 then tracks bad wt' (at_map fd h (Some a)) False k l
    else tracks bad wt' (at_ctx fd h (Some a) c) True k l"
  using assms by (cases wt) (auto simp: trace_eval)

lemma call_destroy:
  assumes "tracks bad wt (at_ctx fd h (Some a) c) True k l" and "destroy_hwctx (traced p) fd c wt = (rc, wt')"
  shows "tracks bad wt' (at_map fd h (Some a)) (rc \<ge> 0) (if rc < 0 then k else Suc k) l"
  using assms by (cases wt) (auto simp: trace_eval)

text \<open>The clean-up from each of the three.\<close>

lemma clean_up:
  "tracks bad wt (at_fd fd) False k l \<Longrightarrow> ended bad (out_close (traced p) fd (-1) wt) k l"
  "tracks bad wt (at_map fd h m) (ret = 0) k l \<Longrightarrow> ret = 0 \<or> ret = -1 \<Longrightarrow>
    ended bad (out_bo (traced p) fd True h m ret wt) k l"
  "tracks bad wt (at_heap fd h) False k l \<Longrightarrow> ended bad (out_bo (traced p) fd True h None (-1) wt) k l"
  by (rule out_close_ended; simp) (rule out_bo_ended; simp add: nothing_def)+

definition context_end :: "u64 \<Rightarrow> int \<times> 'w \<times> 'x event list \<Rightarrow> nat \<Rightarrow> nat \<Rightarrow> bool" where
  "context_end bad r k l \<longleftrightarrow> (\<exists>k'. ended bad r k' l \<and> (fst r = 0 \<longrightarrow> k' = Suc k))"

lemma failed_end:
  "ended bad (out_close p fd (-1) wt) k l \<Longrightarrow> context_end bad (out_close p fd (-1) wt) k l"
  "ended bad (out_bo p fd b h m (-1) wt) k l \<Longrightarrow> context_end bad (out_bo p fd b h m (-1) wt) k l"
proof -
  have close: "fst (out_close p fd (-1) wt) \<noteq> 0" for wt
    by (simp add: out_close_def split_beta Let_def)
  then have "fst (out_bo p fd b h m (-1) wt) \<noteq> 0"
    by (simp add: out_bo_def split_beta Let_def split: option.split)
  with close show
    "ended bad (out_close p fd (-1) wt) k l \<Longrightarrow> context_end bad (out_close p fd (-1) wt) k l"
    "ended bad (out_bo p fd b h m (-1) wt) k l \<Longrightarrow> context_end bad (out_bo p fd b h m (-1) wt) k l"
    by (auto simp: context_end_def)
qed

lemma context_ended:
  assumes "tracks (invalid_addr p) wt nothing True k l"
  shows "context_end (invalid_addr p) (create_context_once (traced p) path wt) k l"
proof -
  have bad: "invalid_addr (traced p) = invalid_addr p"
    by (simp add: traced_def)
  obtain fd w1 where w1: "p_open (traced p) path wt = (fd, w1)"
    by (rule prod.exhaust)
  obtain rc2 h w2 where w2: "create_dev_heap (traced p) fd DEV_HEAP_SIZE w1 = ((rc2, h), w2)"
    by (metis prod.exhaust_sel)
  obtain rc3 off w3 where w3: "get_bo_info (traced p) fd h w2 = ((rc3, off), w3)"
    by (metis prod.exhaust_sel)
  obtain m w4 where w4: "p_mmap (traced p) DEV_HEAP_SIZE fd off w3 = (m, w4)"
    by (rule prod.exhaust)
  obtain rc5 c w5 where w5: "create_hwctx (traced p) fd 2048 4 0 w4 = ((rc5, c), w5)"
    by (metis prod.exhaust_sel)
  obtain rc6 w6 where w6: "destroy_hwctx (traced p) fd c w5 = (rc6, w6)"
    by (rule prod.exhaust)
  note run = create_context_once_def w1 w2 w3 w4 w5 w6 bad Let_def
  note t1 = call_open [OF assms w1]
  show ?thesis
  proof (cases "fd < 0 \<or> rc2 < 0")
    case True
    then show ?thesis
      using t1 call_heap [OF _ w2] by (auto simp: run failed_end clean_up)
        (auto simp: context_end_def ended_def)
  next
    case False
    then have "tracks (invalid_addr p) w2 (at_heap fd h) True k l"
      using t1 call_heap [OF _ w2, of "invalid_addr p" k l] by simp
    note t3 = call_info [OF this w3]
    show ?thesis
    proof (cases "rc3 < 0 \<or> off = invalid_addr p \<or> m = None")
      case True
      then show ?thesis
        using False t3 call_map [OF _ w4, where bad = "invalid_addr p" and h = h and k = k and l = l] clean_up(2) [where wt = w4 and fd = fd and h = h and m = None]
        by (auto simp: run failed_end clean_up not_less)
    next
      case ok: False
      then obtain a where a: "m = Some a"
        by auto
      then have "tracks (invalid_addr p) w4 (at_map fd h (Some a)) True k l"
        using ok t3 call_map [OF _ w4, where bad = "invalid_addr p" and h = h and k = k and l = l] by (simp add: not_less)
      note t5 = call_context [OF this w5]
      show ?thesis
      proof (cases "rc5 < 0 \<or> rc6 < 0")
        case True
        then show ?thesis
          using False ok a t5 call_destroy [OF _ w6, where bad = "invalid_addr p" and h = h and a = a and k = k and l = l]
          by (auto simp: run failed_end clean_up)
      next
        case all: False
        then have "tracks (invalid_addr p) w6 (at_map fd h (Some a)) (0 = (0 :: int)) (Suc k) l"
          using t5 call_destroy [OF _ w6, where bad = "invalid_addr p" and h = h and a = a and k = k and l = l] by simp
        from clean_up(2) [OF this] have "ended (invalid_addr p) (out_bo (traced p) fd True h m 0 w6) (Suc k) l"
          using a by simp
        then show ?thesis
          using False ok all a by (auto simp: run context_end_def)
      qed
    qed
  qed
qed

lemma xrt_loop_ended:
  assumes "tracks bad wt nothing (\<not> failed) k l"
  shows "\<exists>l'. let (failed', wt') = xrt_loop n (traced p) failed wt
    in tracks bad wt' nothing (\<not> failed') k l' \<and> (\<not> failed' \<longrightarrow> \<not> failed \<and> l' = l + n)"
  using assms
proof (induction n arbitrary: failed wt l)
  case (Suc n)
  obtain r w1 where w1: "xrt_open (traced p) 0 wt = (r, w1)"
    by (rule prod.exhaust)
  show ?case
  proof (cases r)
    case None
    then have "tracks bad w1 nothing (\<not> True) k l"
      using Suc.prems w1 by (cases wt) (auto simp: trace_eval)
    from Suc.IH [OF this] obtain l' where "let (failed', wt') = xrt_loop n (traced p) True w1
        in tracks bad wt' nothing (\<not> failed') k l' \<and> failed'"
      by auto
    then show ?thesis
      by (intro exI [of _ l']) (auto simp: w1 None split_beta Let_def)
  next
    case (Some x)
    then have t1: "tracks bad w1 (nothing\<lparr>held_xrt := Some x\<rparr>) (\<not> failed) k l"
      using Suc.prems w1 by (cases wt) (auto simp: trace_eval)
    obtain rc w2 where w2: "xrt_close (traced p) x w1 = (rc, w2)"
      by (rule prod.exhaust)
    let ?f = "if rc \<noteq> 0 then True else failed"
    have "tracks bad w2 nothing (\<not> ?f) k (if rc = 0 then Suc l else l)"
      using t1 w2 by (cases w1) (auto simp: trace_eval)
    from Suc.IH [OF this] show ?thesis
      by (auto simp: w1 w2 Some split_beta Let_def split: if_splits)
  qed
qed auto

lemma contexts_loop_ended:
  assumes "tracks (invalid_addr p) wt nothing True k l"
  shows "\<exists>k'. let (code, wt') = contexts_loop n (traced p) path wt
    in tracks (invalid_addr p) wt' nothing (code = 0) k' l \<and> (code = 0 \<or> code = 1) \<and> (code = 0 \<longrightarrow> k' = k + n)"
  using assms
proof (induction n arbitrary: wt k)
  case (Suc n)
  obtain ret w1 where w1: "create_context_once (traced p) path wt = (ret, w1)"
    by (rule prod.exhaust)
  obtain k1 where k1: "tracks (invalid_addr p) w1 nothing (ret = 0) k1 l" "ret = 0 \<or> ret = -1"
    "ret = 0 \<longrightarrow> k1 = Suc k"
    using context_ended [OF Suc.prems, of path] w1 by (auto simp: context_end_def ended_def)
  then show ?case
    using Suc.IH [of w1 k1] by (cases "ret = 0") (auto simp: w1 intro: exI [of _ k1])
qed simp

text \<open>The recorded run is the run.\<close>

definition unrecorded :: "'r \<times> 'w \<times> 'x event list \<Rightarrow> 'r \<times> 'w" where
  "unrecorded r = (fst r, fst (snd r))"

lemma traced_out [simp]:
  "unrecorded (out_close (traced p) fd ret (w, tr)) = out_close p fd ret w"
  "unrecorded (out_bo (traced p) fd b h m ret (w, tr)) = out_bo p fd b h m ret w"
proof -
  show close: "unrecorded (out_close (traced p) fd ret (w, tr)) = out_close p fd ret w" for ret w tr
    by (simp add: out_close_def traced_def noted_def unrecorded_def split_beta Let_def)
  have calls: "p_munmap (traced p) a n = noted (Unmapped a n) (p_munmap p a n)"
    "gem_close (traced p) fd h = noted (Heap_closed fd h) (gem_close p fd h)" for a n
    by (simp_all add: traced_def)
  show "unrecorded (out_bo (traced p) fd b h m ret (w, tr)) = out_bo p fd b h m ret w"
    by (cases m; cases b) (simp_all add: out_bo_def close_gem_def calls noted_def split_beta Let_def close)
qed

lemma traced_once [simp]:
  "unrecorded (create_context_once (traced p) path (w, tr)) = create_context_once p path w"
proof -
  obtain fd w1 where w1: "p_open p path w = (fd, w1)"
    by (rule prod.exhaust)
  obtain rc2 h w2 where w2: "create_dev_heap p fd DEV_HEAP_SIZE w1 = ((rc2, h), w2)"
    by (metis prod.exhaust_sel)
  obtain rc3 off w3 where w3: "get_bo_info p fd h w2 = ((rc3, off), w3)"
    by (metis prod.exhaust_sel)
  obtain m w4 where w4: "p_mmap p DEV_HEAP_SIZE fd off w3 = (m, w4)"
    by (rule prod.exhaust)
  obtain rc5 c w5 where w5: "create_hwctx p fd 2048 4 0 w4 = ((rc5, c), w5)"
    by (metis prod.exhaust_sel)
  obtain rc6 w6 where w6: "destroy_hwctx p fd c w5 = (rc6, w6)"
    by (rule prod.exhaust)
  note run = w1 w2 w3 w4 w5 w6
  have "p_open (traced p) path (w, tr) = (fd, w1, tr @ [Opened path fd])"
    "create_dev_heap (traced p) fd DEV_HEAP_SIZE (w1, tr) = ((rc2, h), w2, tr @ [Heap_created fd DEV_HEAP_SIZE rc2 h])"
    "get_bo_info (traced p) fd h (w2, tr) = ((rc3, off), w3, tr @ [Heap_info fd h rc3 off])"
    "p_mmap (traced p) DEV_HEAP_SIZE fd off (w3, tr) = (m, w4, tr @ [Mapped DEV_HEAP_SIZE fd off m])"
    "create_hwctx (traced p) fd 2048 4 0 (w4, tr) = ((rc5, c), w5, tr @ [Context_created fd rc5 c])"
    "destroy_hwctx (traced p) fd c (w5, tr) = (rc6, w6, tr @ [Context_destroyed fd c rc6])"
    "invalid_addr (traced p) = invalid_addr p" for tr
    by (simp_all add: traced_def noted_def run)
  then show ?thesis
    by (simp add: create_context_once_def run) (simp add: unrecorded_def)
qed

lemma traced_xrt [simp]: "unrecorded (xrt_loop n (traced p) failed (w, tr)) = xrt_loop n p failed w"
proof (induction n arbitrary: failed w tr)
  case (Suc n)
  have calls: "xrt_open (traced p) i = noted (Xrt_opened i) (xrt_open p i)"
    "xrt_close (traced p) x = noted (Xrt_closed x) (xrt_close p x)" for i x
    by (simp_all add: traced_def)
  show ?case
    by (simp add: calls noted_def split_beta Let_def Suc.IH split: option.split)
qed (simp add: unrecorded_def)

lemma traced_contexts [simp]: "unrecorded (contexts_loop n (traced p) path (w, tr)) = contexts_loop n p path w"
proof (induction n arbitrary: w tr)
  case (Suc n)
  obtain ret w1 tr1 where r: "create_context_once (traced p) path (w, tr) = (ret, w1, tr1)"
    by (metis prod.exhaust_sel)
  then have "create_context_once p path w = (ret, w1)"
    using traced_once [of p path w tr] by (simp add: unrecorded_def)
  with r show ?case
    by (simp add: Suc.IH) (simp add: unrecorded_def)
qed (simp add: unrecorded_def)

lemma traced_main: "unrecorded (probe_main (traced p) args (w, [])) = probe_main p args w"
proof (cases "probe_args args")
  case (Some a)
  obtain path n where a: "a = (path, n)"
    by (rule prod.exhaust)
  obtain failed w1 tr1 where r: "xrt_loop (unat n) (traced p) False (w, []) = (failed, w1, tr1)"
    by (metis prod.exhaust_sel)
  then have "xrt_loop (unat n) p False w = (failed, w1)"
    using traced_xrt [of "unat n" p False w "[]"] by (simp add: unrecorded_def)
  with r show ?thesis
    by (simp add: probe_main_def Some a xrt_open_close_repeated_def) (simp add: unrecorded_def)
qed (simp add: probe_main_def unrecorded_def)

subsection \<open>The number of repetitions\<close>

lemma strtoul_parts:
  assumes "ds \<noteq> []" and "list_all c_isdigit ds" and "list_all c_isspace ws" and "sg \<in> {[], ''+'', ''-''}"
  shows "strtoul10 (ws @ sg @ ds) =
    (if decimal_val ds \<ge> 2 ^ 64 then -1
     else if sg = ''-'' then - word_of_nat (decimal_val ds) else word_of_nat (decimal_val ds), [])"
proof -
  have sign: "\<not> c_isspace (CHR ''+'')" "\<not> c_isspace (CHR ''-'')"
    by (simp_all add: c_isspace_def)
  have "\<not> c_isspace (hd ds)" "hd ds \<notin> {CHR ''-'', CHR ''+''}"
    using assms(1,2) by (cases ds; auto simp: c_isspace_def c_isdigit_def)+
  then have skip: "dropWhile c_isspace (ws @ sg @ ds) = sg @ ds"
    using assms sign by (cases ds) (auto simp: dropWhile_append list_all_iff)
  have "takeWhile c_isdigit ds = ds" "dropWhile c_isdigit ds = []"
    using assms(2) by (simp_all add: list_all_iff)
  note digits = this
  consider "sg = []" | "sg = ''+''" | "sg = ''-''"
    using assms(4) by blast
  then show ?thesis
    using \<open>hd ds \<notin> {CHR ''-'', CHR ''+''}\<close> assms(1) skip
    by cases (simp_all add: strtoul10_def Let_def digits)
qed

lemma strtoul_Nil:
  assumes "strtoul10 s = (v, [])" and "s \<noteq> []"
  obtains ws sg ds where "s = ws @ sg @ ds" "ds \<noteq> []" "list_all c_isdigit ds" "list_all c_isspace ws"
    "sg \<in> {[], ''+'', ''-''}"
proof -
  define body where "body = dropWhile c_isspace s"
  define sg where "sg = (if body \<noteq> [] \<and> hd body \<in> {CHR ''-'', CHR ''+''} then [hd body] else [])"
  define ds where "ds = (if body \<noteq> [] \<and> hd body \<in> {CHR ''-'', CHR ''+''} then tl body else body)"
  have "takeWhile c_isdigit ds \<noteq> [] \<and> dropWhile c_isdigit ds = []"
    using assms unfolding strtoul10_def Let_def body_def [symmetric] ds_def [symmetric]
    by (simp split: if_split_asm)
  then have "ds \<noteq> []" "list_all c_isdigit ds"
    by (auto simp: list_all_iff)
  moreover have "s = takeWhile c_isspace s @ sg @ ds"
    using takeWhile_dropWhile_id [of c_isspace s] unfolding sg_def ds_def body_def
    by (cases "dropWhile c_isspace s") simp_all
  moreover have "list_all c_isspace (takeWhile c_isspace s)"
    by (auto simp: list_all_iff dest: set_takeWhileD)
  moreover have "sg \<in> {[], ''+'', ''-''}"
    by (auto simp: sg_def)
  ultimately show thesis
    by (intro that [of "takeWhile c_isspace s" sg ds])
qed

text \<open>The value as a 32-bit number, none when it does not fit.\<close>

definition signed_value :: "bool \<Rightarrow> nat \<Rightarrow> u64" where
  "signed_value neg d = (if d \<ge> 2 ^ 64 then -1 else if neg then - word_of_nat d else word_of_nat d)"

lemma signed_value_nat:
  "d < 2 ^ 64 \<Longrightarrow> unat (signed_value neg d) = (if neg then (2 ^ 64 - d) mod 2 ^ 64 else d)"
proof -
  assume d: "d < 2 ^ 64"
  then have "- word_of_nat d = (word_of_nat (2 ^ 64 - d) :: u64)"
    by simp
  with d show ?thesis
    by (cases neg) (simp_all only: signed_value_def if_True if_False not_le [symmetric],
      simp_all add: unsigned_of_nat take_bit_eq_mod del: of_nat_diff)
qed

lemma repeat_value:
  fixes n :: u32
  shows "signed_value neg d \<noteq> 0 \<and> signed_value neg d \<le> 0xFFFFFFFF \<and> n = ucast (signed_value neg d) \<longleftrightarrow>
    n \<noteq> 0 \<and> (if neg then d + unat n = 2 ^ 64 else d = unat n)"
proof -
  let ?v = "signed_value neg d"
  have n: "unat n < 2 ^ 32"
    by (rule order_less_le_trans [OF unsigned_less]) simp
  have v: "?v \<noteq> 0 \<longleftrightarrow> unat ?v \<noteq> 0" "?v \<le> 0xFFFFFFFF \<longleftrightarrow> unat ?v < 2 ^ 32" "n \<noteq> 0 \<longleftrightarrow> unat n \<noteq> 0"
    by (simp_all add: unat_eq_0 word_le_nat_alt less_Suc_eq_le [symmetric])
  have cast: "n = ucast ?v \<longleftrightarrow> unat n = unat ?v" if "unat ?v < 2 ^ 32"
    using that by (simp add: word_unat_eq_iff unsigned_ucast_eq take_bit_nat_eq_self)
  show ?thesis
  proof (cases "d < 2 ^ 64")
    case True
    show ?thesis
      using cast signed_value_nat [OF True, of neg] n True unfolding v by (cases neg; cases "d = 0") auto
  next
    case False
    then have "unat ?v = 2 ^ 64 - 1"
      by (simp add: signed_value_def unsigned_minus_1_eq_mask mask_eq_exp_minus_1)
    with False n show ?thesis
      unfolding v by auto
  qed
qed

text \<open>
  Which arguments are a number of repetitions: blanks, a sign and digits, for a number of 32
  bits that is not zero.  With a minus sign it is the number the negation wraps to.
\<close>

lemma repeat_arg_accepts:
  "repeat_arg s = Some n \<longleftrightarrow> n \<noteq> 0 \<and> (\<exists>ws sg ds. s = ws @ sg @ ds \<and> ds \<noteq> [] \<and>
     list_all c_isdigit ds \<and> list_all c_isspace ws \<and> sg \<in> {[], ''+'', ''-''} \<and>
     (if sg = ''-'' then decimal_val ds + unat n = 2 ^ 64 else decimal_val ds = unat n))"
    (is "_ \<longleftrightarrow> ?number")
proof
  have parts: "repeat_arg (ws @ sg @ ds) = Some n \<longleftrightarrow>
      n \<noteq> 0 \<and> (if sg = ''-'' then decimal_val ds + unat n = 2 ^ 64 else decimal_val ds = unat n)"
    if "ds \<noteq> []" "list_all c_isdigit ds" "list_all c_isspace ws" "sg \<in> {[], ''+'', ''-''}" for ws sg ds
  proof -
    have "repeat_arg (ws @ sg @ ds) = Some n \<longleftrightarrow>
        (let v = signed_value (sg = ''-'') (decimal_val ds) in v \<noteq> 0 \<and> v \<le> 0xFFFFFFFF \<and> n = ucast v)"
      unfolding repeat_arg_def strtoul_parts [OF that] signed_value_def [symmetric]
      using that(1) by (auto simp: Let_def not_less)
    then show ?thesis
      unfolding Let_def repeat_value .
  qed
  show "repeat_arg s = Some n" if "?number"
    using that parts by blast
  assume accepted: "repeat_arg s = Some n"
  then obtain v where "strtoul10 s = (v, [])" "s \<noteq> []"
    by (auto simp: repeat_arg_def split_beta Let_def prod_eq_iff split: if_splits)
  then obtain ws sg ds where "s = ws @ sg @ ds" "ds \<noteq> []" "list_all c_isdigit ds" "list_all c_isspace ws"
    "sg \<in> {[], ''+'', ''-''}"
    by (rule strtoul_Nil)
  with accepted parts show "?number"
    by blast
qed

text \<open>C20: The context probe cleans up and tells the truth.  Whatever the operating system and
  XRT answer to its calls, the probe never uses what it does not hold, takes nothing twice,
  releases everything it has taken in the reverse order (the context before the mapping of the
  heap, the mapping before the heap, the heap before the client), and releases nothing twice, on
  every one of its error paths; a release is the call for it, whether or not it succeeds.  Its exit status is 2 for arguments it refuses, and then it makes no
  call at all; otherwise it is 0 exactly when every call succeeded, and then it has opened and
  closed the device through XRT, and created and destroyed a context, once for each repetition.\<close>

theorem probe_cleans_up:
  "let (code, w', tr) = probe_main (traced p) args (w, [])
   in probe_main p args w = (code, w') \<and>
      (case probe_args args of
         None \<Rightarrow> code = 2 \<and> tr = []
       | Some (path, n) \<Rightarrow>
           watch tr = Some nothing \<and>
           (if list_all (event_ok (invalid_addr p)) tr
            then code = 0 \<and> handles_done tr = unat n \<and> contexts_done tr = unat n
            else code = 1))"
proof (cases "probe_args args")
  case None
  then show ?thesis
    by (simp add: probe_main_def)
next
  case (Some a)
  obtain path n where a: "a = (path, n)"
    by (rule prod.exhaust)
  let ?bad = "invalid_addr p"
  have "tracks ?bad (w, []) nothing (\<not> False) 0 0"
    by (simp add: tracks_def contexts_done_def handles_done_def)
  obtain failed w1 tr1 where r1: "xrt_loop (unat n) (traced p) False (w, []) = (failed, w1, tr1)"
    by (metis prod.exhaust_sel)
  then obtain l where l: "tracks ?bad (w1, tr1) nothing (\<not> failed) 0 l" "\<not> failed \<longrightarrow> l = unat n"
    using xrt_loop_ended [OF \<open>tracks ?bad (w, []) nothing (\<not> False) 0 0\<close>, of "unat n" p] by auto
  obtain code w2 tr2 where r2: "contexts_loop (unat n) (traced p) path (w1, tr1) = (code, w2, tr2)"
    by (metis prod.exhaust_sel)
  have main: "probe_main (traced p) args (w, []) = (if failed then (1, w1, tr1) else (code, w2, tr2))"
    by (simp add: probe_main_def Some a xrt_open_close_repeated_def r1 r2)
  show ?thesis
  proof (cases failed)
    case True
    with l main show ?thesis
      using traced_main [of p args w] by (simp add: unrecorded_def Some a tracks_def)
  next
    case False
    then obtain k where "tracks ?bad (w2, tr2) nothing (code = 0) k l" "code = 0 \<or> code = 1"
      "code = 0 \<longrightarrow> k = unat n"
      using contexts_loop_ended [of p "(w1, tr1)" 0 l "unat n" path] l(1) r2 by auto
    with False l(2) main show ?thesis
      using traced_main [of p args w] by (auto simp: unrecorded_def Some a tracks_def)
  qed
qed

end
