(* ===== verification/Xdna_Ids.thy ===== *)
theory Xdna_Ids
  imports Xdna_Backlog Xdna_Overflow
begin

text \<open>
  The context table in every run.  The ids of the contexts come from a 32-bit counter that only
  a reset sets back, so they are distinct until the counter has wrapped.  A step of the driver
  makes at most 256 contexts, those of one doorbell; \<open>fresh_reach\<close> is a run each of whose
  steps starts with that many ids left.
\<close>

inductive fresh_reach :: "'h xdna_npu \<Rightarrow> bool" where
  new: "xdna_npu_new hops h True True = Some s \<Longrightarrow> fresh_reach s"
| step: "fresh_reach s \<Longrightarrow> unat (next_ctx_id s) + 256 < 2 ^ 32 \<Longrightarrow> dev_step any_guest s t \<Longrightarrow> fresh_reach t"

lemma fresh_reach_run: "fresh_reach s \<Longrightarrow> dev_reach any_guest s"
  by (induction rule: fresh_reach.induct) (auto intro: dev_reach.intros)

lemma ids_fields [simp]:
  "ids_ok (s\<lparr>chan := c\<rparr>) = ids_ok s"
  "ids_ok (s\<lparr>scratch := f\<rparr>) = ids_ok s"
  "ids_ok (s\<lparr>pwaitmode := v\<rparr>) = ids_ok s"
  "ids_ok (s\<lparr>sec_intr := v\<rparr>) = ids_ok s"
  "ids_ok (s\<lparr>pwrmgmt_intr := v\<rparr>) = ids_ok s"
  "ids_ok (sram_store s a bs) = ids_ok s"
  "ids_ok (sram_load_mark s a n) = ids_ok s"
  "ids_ok (snd (xdna_sram_read32 s off)) = ids_ok s"
  "ids_ok (set_x2i_head s k v) = ids_ok s"
  "ids_ok (count_msg_in s) = ids_ok s"
  by (simp_all add: ids_ok_def set_x2i_head_def count_msg_in_def)

lemma ids_smu [simp]: "ids_ok (xdna_smu_kick s) = ids_ok s"
  by (rule ids_ok_cong) simp_all

subsection \<open>One message, one doorbell\<close>

lemma ids_left: "unat (next_ctx_id s) + n < 2 ^ 32 \<Longrightarrow> 0 < n \<Longrightarrow> next_ctx_id s \<noteq> -1"
  by (auto simp: unsigned_minus_1_eq_mask mask_eq_exp_minus_1)

lemma handle_ids:
  assumes "layout_inv s" and "ids_ok s" and "next_ctx_id s \<noteq> -1"
  shows "ids_ok (xdna_mert_handle s k h p)"
    and "unat (next_ctx_id (xdna_mert_handle s k h p)) \<le> Suc (unat (next_ctx_id s))"
proof -
  have "ids_ok (xdna_mert_handle s k h p) \<and> (next_ctx_id (xdna_mert_handle s k h p) = next_ctx_id s \<or>
      next_ctx_id (xdna_mert_handle s k h p) = next_ctx_id s + 1)"
  proof (cases "fw_alive s")
    case True
    note answers_abs [OF handle_answers [OF True assms], of k h p]
    then show ?thesis
      using spec_next [of "mert_abs s" "dump_result s p" "mert_request_of h p"]
      by (auto simp flip: abs_next)
  next
    case False
    with assms(2) show ?thesis
      by (simp add: xdna_mert_handle_def)
  qed
  then show "ids_ok (xdna_mert_handle s k h p)"
    and "unat (next_ctx_id (xdna_mert_handle s k h p)) \<le> Suc (unat (next_ctx_id s))"
    using next_id [OF assms(3)] by auto
qed

lemma rx_one_ids:
  assumes "layout_inv s" and "ids_ok s" and "next_ctx_id s \<noteq> -1" and k: "k < XDNA_MAX_CHANNELS"
  shows "case mbox_rx_one s k of
      Rx_again t \<Rightarrow> layout_inv t \<and> ids_ok t \<and> unat (next_ctx_id t) \<le> Suc (unat (next_ctx_id s))
    | Rx_stop t \<Rightarrow> ids_ok t"
proof (cases rule: rx_one_cases [of s k])
  case past_end
  then show ?thesis
    using layout.I_rx_one [OF assms(1) _ k] assms(2) by (simp add: set_x2i_head_def)
next
  case (tombstone s1)
  then show ?thesis
    using layout.I_rx_one [OF assms(1) _ k] assms(2) by (simp add: set_x2i_head_def)
next
  case (malformed s1 m)
  then show ?thesis
    using assms(2) by simp
next
  case (message s1 peek a)
  let ?r = "count_msg_in (set_x2i_head (sram_load_mark (sram_load_mark s1 a 16) (a + 16) (unat peek))
    k (x2i_head (chan s k) + (16 + peek)))"
  have r: "ids_ok ?r" "next_ctx_id ?r = next_ctx_id s"
    using assms(2) by (simp_all add: message(3)) (simp add: count_msg_in_def set_x2i_head_def)
  have s1: "layout_inv s1"
    unfolding message(3) by (rule layout.I_peek [OF assms(1) _ k message(1)]) simp
  have "layout_inv (count_msg_in (set_x2i_head (sram_load_mark (sram_load_mark s1 a 16) (a + 16) (unat peek))
      k (x2i_head (chan s1 k) + (16 + peek))))"
    using message by (intro layout.I_consume [OF s1 TrueI k]) (simp_all only:)
  then have "layout_inv ?r"
    by (simp only: message(4))
  note t = handle_ids [OF this r(1), unfolded r(2), OF assms(3)]
  have "case mbox_rx_one s k of Rx_again t \<Rightarrow> layout_inv t | Rx_stop t \<Rightarrow> layout_inv t"
    by (rule layout.I_rx_one [OF assms(1) _ k]) simp
  then show ?thesis
    unfolding message(11) rx_outcome.case by (intro conjI t)
qed

lemma rx_loop_ids:
  "layout_inv s \<Longrightarrow> ids_ok s \<Longrightarrow> unat (next_ctx_id s) + n < 2 ^ 32 \<Longrightarrow> k < XDNA_MAX_CHANNELS \<Longrightarrow>
    ids_ok (mbox_rx_loop n s k)"
proof (induction n arbitrary: s)
  case (Suc n)
  then show ?case
    using rx_one_ids [OF Suc.prems(1,2) ids_left [OF Suc.prems(3)] Suc.prems(4)]
    by (auto split: rx_outcome.splits)
qed simp

lemma process_ids:
  "layout_inv s \<Longrightarrow> ids_ok s \<Longrightarrow> unat (next_ctx_id s) + 256 < 2 ^ 32 \<Longrightarrow> ids_ok (xdna_mbox_process s k)"
  using rx_loop_ids [of s 256 k] by (simp add: xdna_mbox_process_def MBOX_MAX_MSG_PER_KICK_def not_le)

subsection \<open>One step\<close>

lemma psp_kick_ids: "ids_ok s \<Longrightarrow> ids_ok (xdna_psp_kick s)"
proof (cases "scratch s 2 = PSP_CMD_RELEASE_TMR")
  case True
  then show "ids_ok s \<Longrightarrow> ids_ok (xdna_psp_kick s)"
    using psp_release(2) [OF True]
    by (simp add: ids_ok_def psp_kick_contexts(1) fw_shutdown_state XDNA_NPU1_HWCTX_LIMIT_def)
next
  case False
  then show "ids_ok s \<Longrightarrow> ids_ok (xdna_psp_kick s)"
    using ids_ok_cong [OF psp_kick_contexts(2) psp_kick_contexts(1), of s] by simp
qed

lemma reg_write_ids: "ids_ok s \<Longrightarrow> ids_ok (reg_bar_write s off v)"
  by (simp add: reg_bar_write_def set_scratch_def Let_def psp_kick_ids)

lemma mbox_write_ids:
  assumes "layout_inv s" and "ids_ok s" and "unat (next_ctx_id s) + 256 < 2 ^ 32"
  shows "ids_ok (xdna_mbox_reg_write s off v)"
proof (cases "chan_from_off off")
  case (Some kr)
  obtain k r where kr: "kr = (k, r)"
    by (rule prod.exhaust)
  have "layout_inv (s\<lparr>chan := (chan s)(k := (chan s k)\<lparr>x2i_tail := v\<rparr>)\<rparr>)"
    using Some kr by (intro layout.I_x2i_tail assms chan_from_off_bound) simp
  then have "ids_ok (xdna_mbox_process (s\<lparr>chan := (chan s)(k := (chan s k)\<lparr>x2i_tail := v\<rparr>)\<rparr>) j)" for j
    using assms(3) by (intro process_ids) (simp_all add: assms(2))
  then show ?thesis
    using Some kr assms(2) by (simp add: xdna_mbox_reg_write_def Let_def)
qed (simp add: xdna_mbox_reg_write_def assms)

lemma reset_ids: "ids_ok (xdna_npu_reset s)"
  by (simp add: ids_ok_def reset_fields zero_context_def)

lemma step_ids:
  assumes "dev_step any_guest s t" and s: "layout_inv s" "ids_ok s" and left: "unat (next_ctx_id s) + 256 < 2 ^ 32"
  shows "ids_ok t"
  using assms(1)
proof cases
  case (word_read bar off)
  then show ?thesis
    using s(2) by (simp add: bar_word_read_def reg_bar_read_def)
next
  case (word_write bar off v)
  then show ?thesis
    using reg_write_ids [OF s(2)] mbox_write_ids [OF s left] s(2) by (simp add: bar_word_write_def)
qed (use s(2) in \<open>simp_all add: reset_ids\<close>)

lemma fresh_ids: "fresh_reach s \<Longrightarrow> ids_ok s"
proof (induction rule: fresh_reach.induct)
  case (new hops h s)
  then show ?case
    by (auto simp: xdna_npu_new_def reset_ids)
next
  case (step s t)
  then show ?case
    using layout.I_reach [OF fresh_reach_run [OF step.hyps(1)]] by (blast intro: step_ids)
qed

lemma ids_distinct:
  assumes "ids_ok s"
  shows "distinct (map (\<lambda>i. ctx_id (ctx s i)) (filter (\<lambda>i. ctx_valid (ctx s i)) [0..<XDNA_NPU1_HWCTX_LIMIT]))"
    and "list_all (\<lambda>i. ctx_valid (ctx s i) \<longrightarrow> ctx_id (ctx s i) \<in> {0 <..< next_ctx_id s}) [0..<XDNA_NPU1_HWCTX_LIMIT]"
  using assms by (auto simp: distinct_map inj_on_def ids_ok_def list_all_iff XDNA_NPU1_HWCTX_LIMIT_def)

text \<open>C15: The context table in every run.  After any sequence of library calls the context count of
  the statistics is the number of valid contexts, at most six; every valid context has between
  one and five columns, is served by the active channel after its slot number, and exists only
  while the firmware is up; a slot without a context has no active channel.  In a run whose id
  counter has not come within 256 of wrapping the valid contexts have pairwise different ids,
  each between 1 and the next id to be given.\<close>

lemma context_table_invariant:
  assumes "api_reach s"
  shows "unat (active_contexts (stats s)) =
      length (filter (\<lambda>i. ctx_valid (ctx s i)) [0..<XDNA_NPU1_HWCTX_LIMIT]) \<and>
    list_all (\<lambda>i. if ctx_valid (ctx s i)
        then ctx_num_col (ctx s i) \<in> {1..5} \<and> ctx_chan (ctx s i) = i + 1 \<and>
             ch_active (chan s (i + 1)) \<and> fw_alive s
        else \<not> ch_active (chan s (i + 1)))
      [0..<XDNA_NPU1_HWCTX_LIMIT] \<and>
    (fresh_reach s \<longrightarrow>
      distinct (map (\<lambda>i. ctx_id (ctx s i)) (filter (\<lambda>i. ctx_valid (ctx s i)) [0..<XDNA_NPU1_HWCTX_LIMIT])) \<and>
      list_all (\<lambda>i. ctx_valid (ctx s i) \<longrightarrow> ctx_id (ctx s i) \<in> {0 <..< next_ctx_id s})
        [0..<XDNA_NPU1_HWCTX_LIMIT])"
proof -
  have count: "count_inv s" and layout: "layout_inv s"
    using count.I_reach layout.I_reach api_reach_run [OF assms] by auto
  have "c \<in> {1..5}" if "c \<noteq> 0" "ucast c \<le> XDNA_AIE_COLS" for c :: u8
  proof -
    have "unat (ucast c :: u32) = unat c"
      using unat_bound [of c] by (simp add: unsigned_ucast_eq take_bit_nat_eq_self)
    with that show ?thesis
      by (simp add: xdna_consts word_le_nat_alt unat_gt_0 Suc_le_eq)
  qed
  moreover note ids_distinct [OF fresh_ids [of s]]
  ultimately show ?thesis
    using count layout count_length [OF count]
    by (simp add: XDNA_NPU1_HWCTX_LIMIT_def list_all_iff count_inv_def layout_inv_def)
qed

text \<open>The device of one tenant is in such a run.\<close>

lemma reg_write_next: "next_ctx_id (reg_bar_write s off v) = next_ctx_id s"
  by (simp add: reg_bar_write_def set_scratch_def Let_def psp_kick_contexts(1))

lemma reg_writes_fresh:
  "fresh_reach s \<Longrightarrow> next_ctx_id s = 1 \<Longrightarrow> fresh_reach (fold (\<lambda>(off, v) s. reg_bar_write s off v) ws s)"
proof (induction ws arbitrary: s)
  case (Cons w ws)
  obtain off v where w: "w = (off, v)" by (cases w)
  have "dev_step any_guest s (bar_word_write s XDNA_BAR_REG off v)"
    by (rule dev_step.word_write) (simp add: head_guard_def xdna_consts)
  with Cons.prems have "fresh_reach (reg_bar_write s off v)"
    by (auto simp: bar_word_write_def intro: fresh_reach.step)
  with Cons.prems show ?case
    by (simp add: w Cons.IH reg_write_next)
qed simp

lemma tenant_fresh: "fresh_reach tenant_npu" "api_reach tenant_npu"
proof -
  have len: "length (snd create_msg) = 28"
    by (simp add: create_msg_def)
  have "next_ctx_id test_npu = 1"
    by (simp add: test_npu_def reset_fields)
  then have "fresh_reach booted_npu"
    unfolding booted_npu_def by (intro reg_writes_fresh fresh_reach.new [OF test_npu_new])
  then have "fresh_reach (sram_store booted_npu 0x21000 (hdr_bytes (fst create_msg)))"
    by (rule fresh_reach.step) (simp_all add: dev_step.sram_write)
  then have fresh: "fresh_reach (request_npu create_msg)"
    unfolding request_npu_def by (rule fresh_reach.step) (simp_all add: dev_step.sram_write len)
  have "dev_step any_guest (request_npu create_msg)
      (bar_word_write (request_npu create_msg) XDNA_BAR_MBOX (x2i_tail_reg 0) 44)"
    by (intro dev_step.word_write) (simp add: head_guard_def any_guest_def split: option.split)
  moreover have "bar_word_write (request_npu create_msg) XDNA_BAR_MBOX (x2i_tail_reg 0) 44 = tenant_npu"
    by (simp add: bar_word_write_def tenant_npu_def XDNA_BAR_MBOX_def XDNA_BAR_REG_def)
  moreover have "unat (next_ctx_id (request_npu create_msg)) + 256 < 2 ^ 32"
    by (simp add: request_npu_def)
  ultimately show "fresh_reach tenant_npu"
    using fresh_reach.step [OF fresh] by simp
  have "api_reach (request_npu create_msg)"
    unfolding request_npu_def by (intro sram_write_reach booted_reach) (simp_all add: len)
  then show "api_reach tenant_npu"
    unfolding tenant_npu_def by (rule mbox_write_reach)
qed

lemma context_table_invariant_witness:
  "fw_alive tenant_npu \<and> ctx_valid (ctx tenant_npu 0) \<and> active_contexts (stats tenant_npu) \<noteq> 0 \<and>
    ctx_id (ctx tenant_npu 0) \<in> {0 <..< next_ctx_id tenant_npu}"
proof -
  have zero: "0 \<in> set [0..<XDNA_NPU1_HWCTX_LIMIT]"
    by (simp add: XDNA_NPU1_HWCTX_LIMIT_def)
  note inv = context_table_invariant [OF tenant_fresh(2)]
  note slot = bspec [OF inv [THEN conjunct2, THEN conjunct1, unfolded list_all_iff] zero]
  have valid: "ctx_valid (ctx tenant_npu 0)" and alive: "fw_alive tenant_npu"
    using slot tenant_npu(2) by (simp_all split: if_splits)
  have "list_all (\<lambda>i. ctx_valid (ctx tenant_npu i) \<longrightarrow> ctx_id (ctx tenant_npu i) \<in> {0 <..< next_ctx_id tenant_npu})
      [0..<XDNA_NPU1_HWCTX_LIMIT]"
    using inv tenant_fresh(1) by blast
  then have "ctx_id (ctx tenant_npu 0) \<in> {0 <..< next_ctx_id tenant_npu}"
    using zero valid unfolding list_all_iff by blast
  moreover have "filter (\<lambda>i. ctx_valid (ctx tenant_npu i)) [0..<XDNA_NPU1_HWCTX_LIMIT] \<noteq> []"
    using zero valid unfolding filter_empty_conv by blast
  then have "active_contexts (stats tenant_npu) \<noteq> 0"
    using inv by auto
  ultimately show ?thesis
    using valid alive by blast
qed

end
