(* ===== verification/Spec2Isabelle.thy ===== *)
theory Spec2Isabelle
  imports Xdna_Boot_Test Xdna_Announce Xdna_Overflow Xdna_Backlog Xdna_Bystander Xdna_Machine Xdna_Words
    Xdna_Replies Xdna_Probe Xdna_Ids
begin

text \<open>
  A model of libxdna, an emulator of the AMD XDNA1 neural processing unit: the registers and
  memory the guest's driver sees, the PSP and SMU command units that load the firmware and
  switch the power, the mailbox that carries messages between driver and firmware, and the
  management firmware (MERT) that answers them; with the QEMU device around the library and
  the driver of the repository's boot test on the other side.

  The program's parts.  The guest reaches the device through three PCI BARs, by the MMIO calls
  of \<open>src/xdna_device.c\<close>.  The REG BAR holds the registers; a write of 1 to one of two
  doorbells runs a PSP command (\<open>src/xdna_psp.c\<close>) or an SMU command (\<open>src/xdna_smu.c\<close>).
  A PSP START boots the firmware (\<open>src/xdna_fw.c\<close>), which writes the description of the
  management channel into the SRAM BAR and announces it in a handshake word.  The MBOX BAR
  holds the queue registers of seven channels; a write of a queue's tail makes the device take
  the messages of its x2i ring in the SRAM and hand them to the firmware's handlers
  (\<open>src/xdna_mailbox.c\<close>, \<open>src/xdna_mert.c\<close>), which answer into the i2x ring and raise an
  interrupt through the host's callbacks.  Messages create and destroy contexts, each of
  which owns a slot of the context table and the channel of that slot.
  \<open>qemu/hw/misc/xdna_npu.c\<close> puts one such device behind QEMU's PCI, MSI-X and DMA.

  The model.  Definitions have the names of the C functions, and a definition for part of a
  function names it in the comment or in its own name.  A struct is a record, an enum a
  datatype, a fixed-width integer a word of its width; arrays are functions on indices, the
  SRAM a function on byte addresses.  A C function that changes the device is a function from
  device to device; a loop whose 32-bit index may never reach its end is a
  \<open>partial_function (option)\<close>, where None is not returning.
    \<open>Xdna_Prelude\<close>: bytes and words in little endian, byte memory, codecs as locales.
    \<open>Xdna_Regs\<close>, \<open>Xdna_State\<close>, \<open>Xdna_Wire\<close>: \<open>xdna_regs.h\<close>, \<open>xdna_emu.h\<close> and \<open>xdna_internal.h\<close>,
      the packed message structures of \<open>xdna_mert.c\<close>; logging and SRAM access.
    \<open>Xdna_Mailbox\<close>, \<open>Xdna_Mert\<close>, \<open>Xdna_Rx\<close>: channel registers and the sending of replies, the
      message handlers, the receive loop.
    \<open>Xdna_Power\<close>, \<open>Xdna_Device\<close>: firmware boot and shutdown, PSP, SMU; reset, register
      file, MMIO.
    \<open>Xdna_Host\<close>, \<open>Xdna_Driver\<close>, \<open>Xdna_Scenario\<close>: the host, the driver and the test scenarios of
      \<open>tests/test_boot.c\<close>, one definition for each step of the test.
    \<open>Xdna_Qemu\<close>: the QEMU device.
    \<open>Xdna_Probe\<close>: \<open>tests/xrt_context_probe.c\<close>, over the system calls as a parameter.

  The lemmas.
    \<open>Xdna_Closure\<close> states as locales which updates each layer makes to the device; a
      predicate closed under them is kept by every operation.  \<open>Xdna_Access\<close> shows that every
      use of the public functions is a run of such updates and which calls return,
      \<open>Xdna_Words\<close> that buffer accesses are sequences of word accesses.
    \<open>Xdna_Layout\<close> (rings and channels), \<open>Xdna_Units\<close> (power), \<open>Xdna_Contexts\<close> (context table)
      and \<open>Xdna_Bounds\<close> (memory safety for a polite driver) are invariants, all interpretations
      of the locales; \<open>Xdna_Confined\<close> interprets them for the host: the device touches it by
      callbacks only.  \<open>Xdna_Units\<close> also has the register file, what each PSP and SMU command
      does, and which steps can start the firmware; \<open>Xdna_Ids\<close> when the ids of the contexts
      are distinct.
    \<open>Xdna_Contract\<close> specifies every message over an abstract firmware state and proves that
      the handlers refine it and that a refused message leaves the device alone;
      \<open>Xdna_Replies\<close> that error replies are the structures the driver expects.
    \<open>Xdna_Ring\<close> shows sending to be an enqueue on an abstract queue, \<open>Xdna_Recv\<close> that the
      doorbell of a channel executes a queue of messages, \<open>Xdna_Backlog\<close> where it stops,
      \<open>Xdna_Isolation\<close> that the management channel is out of reach of the context channels,
      \<open>Xdna_Bystander\<close> that messages on one channel can map the host buffer of a context of
      another or destroy it, by its id, and nothing else,
      \<open>Xdna_Overflow\<close> what a hostile driver can do.
    \<open>Xdna_Call\<close> joins them: one message call of the driver is a remote call of the firmware's
      specification.  \<open>Xdna_Session\<close> repeats calls, \<open>Xdna_Limit\<close> runs into the context
      limit, \<open>Xdna_Settings\<close> reads back what it has set, \<open>Xdna_Announce\<close> follows the
      addresses a creation announces to the channel it has opened.  \<open>Xdna_Boot_Test\<close> runs the
      whole test on top of them: no check of it fails.
    \<open>Xdna_Machine\<close>: the QEMU device through its life, its accesses and its interrupts.
    \<open>Xdna_Probe\<close> records the calls of the context probe and monitors what it holds.

  Bounds.  A doorbell takes at most 256 iterations of the receive loop
  (\<open>MBOX_MAX_MSG_PER_KICK\<close>); the refinement of \<open>Xdna_Recv\<close> asks for queues whose messages fit in
  them.  A message takes at least 20 bytes, so every queue of the 4 KB management ring does;
  what happens to a longer queue in the 8 KB ring of a context is in \<open>Xdna_Backlog\<close>.  The test
  driver looks for a reply 64 times; at most two are needed.  A call of \<open>Xdna_Call\<close> has a
  request of at most 1024 bytes, so that a wrapped request always fits in front of the read
  position, and context ids must not have wrapped at 2^32.  The distinctness of the ids in
  \<open>Xdna_Ids\<close> is for runs each of whose steps starts with 256 ids left, the most one doorbell can
  use.

  Not modelled: the allocator (a ghost count of the blocks \<open>xdna_npu_new\<close> takes and
  \<open>xdna_npu_free\<close> gives back stands for it; the allocations of the test's \<open>main\<close> are truth
  values); the text of log messages and all printing; QEMU's own functions, which are a
  parameter of \<open>Xdna_Qemu\<close>, and its type registration; the operating system and the XRT library
  behind the context probe, a parameter of \<open>Xdna_Probe\<close>; scripts, images, documents and CI.

  What modelling showed.  A guest that writes a read position beyond the ring makes the device
  write replies outside its SRAM allocation (\<open>Xdna_Overflow\<close>); a reply that wraps while the
  read position is 0 overwrites an unread reply (\<open>Xdna_Ring\<close>); a buffer access of more than
  2^32 - 4 bytes to a register BAR never returns (\<open>Xdna_Access\<close>); the column bitmap the comments
  describe is never written (\<open>Xdna_Units\<close>); the QEMU device never lowers its INTx line when the
  driver acknowledges an interrupt (\<open>Xdna_Machine\<close>); more than 256 correct requests in a ring
  are reported as a stuck channel and partly left waiting (\<open>Xdna_Backlog\<close>).
\<close>

section \<open>Properties that span the components\<close>

lemma ring_end_active:
  assumes "layout_inv s" and "k < 7" and "ch_active (chan s k)"
  shows "unat (x2i_buf (chan s k)) = ring_base k" "unat (x2i_size (chan s k)) = ring_len k"
    "unat (i2x_buf (chan s k)) = ring_base k + ring_len k" "unat (i2x_size (chan s k)) = ring_len k"
    "unat (x2i_head (chan s k)) \<le> ring_len k"
  using layout_chan [OF assms(1,2)] assms(3) by (auto simp: chan_ok_def)

text \<open>C10: In every state a caller of the library can bring the device to, whatever the guest
  writes: the management channel is open exactly when the firmware is up and the channel of
  context slot \<open>i\<close> exactly when the slot is used; no read ever left the SRAM; every open
  channel has its x2i ring directly followed by its i2x ring, both between the management
  rings' base (0x21000) and the end of the last context ring (0x3c000, below the firmware
  handshake word), reads inside its x2i ring, and shares no byte with any other open channel.\<close>
lemma channel_layout:
  assumes "api_reach s"
  shows "\<not> oob_read s \<and> (ch_active (chan s 0) \<longleftrightarrow> fw_alive s) \<and>
    (\<forall>i < XDNA_NPU1_HWCTX_LIMIT. ctx_valid (ctx s i) \<longleftrightarrow> ch_active (chan s (i + 1))) \<and>
    (\<forall>k < XDNA_MAX_CHANNELS. ch_active (chan s k) \<longrightarrow>
      0x21000 \<le> unat (x2i_buf (chan s k)) \<and>
      unat (i2x_buf (chan s k)) = unat (x2i_buf (chan s k)) + unat (x2i_size (chan s k)) \<and>
      unat (i2x_buf (chan s k)) + unat (i2x_size (chan s k)) \<le> 0x3C000 \<and>
      x2i_head (chan s k) \<le> x2i_size (chan s k) \<and>
      (\<forall>j < XDNA_MAX_CHANNELS. ch_active (chan s j) \<longrightarrow> j \<noteq> k \<longrightarrow>
        {unat (x2i_buf (chan s j)) ..< unat (i2x_buf (chan s j)) + unat (i2x_size (chan s j))} \<inter>
        {unat (x2i_buf (chan s k)) ..< unat (i2x_buf (chan s k)) + unat (i2x_size (chan s k))} = {}))"
proof -
  have inv: "layout_inv s"
    by (rule layout.I_reach [OF api_reach_run [OF assms]])
  note at = ring_end_active [OF inv]
  have base: "0x21000 \<le> ring_base k" for k
    by (simp add: ring_base_def)
  have apart: "{ring_base j ..< ring_base j + ring_len j + ring_len j} \<inter>
      {ring_base k ..< ring_base k + ring_len k + ring_len k} = {}" if "j \<noteq> k" for j k
    using rings_disjoint [OF that] by auto
  show ?thesis
    using inv base ring_end apart
    by (auto simp: layout_inv_def at word_le_nat_alt XDNA_MAX_CHANNELS_def
        XDNA_NPU1_HWCTX_LIMIT_def mult_2 add.assoc)
qed

lemma channel_layout_witness:
  "\<not> oob_read booted_npu \<and> ch_active (chan booted_npu 0) \<and>
    unat (i2x_buf (chan booted_npu 0)) =
      unat (x2i_buf (chan booted_npu 0)) + unat (x2i_size (chan booted_npu 0))"
  using channel_layout [OF booted_reach]
  by (simp add: mgmt_channel_def zero_channel_def xdna_consts)

end
